(* ===== verification/Prelude.thy ===== *)
theory Prelude
  imports Main "HOL-Library.Finite_Map" "HOL-Library.Multiset" "HOL-Library.Word"
    "HOL-Library.List_Lexorder" "HOL-Library.Char_ord"
begin

text \<open>
  Shared vocabulary of the development.
  Go maps are finite maps (\<open>fmap\<close>), Go sets of the form \<open>map[string]struct{}\<close>
  are finite sets (\<open>fset\<close>), Go strings are byte strings (\<open>string\<close>, a list of
  8-bit characters, compared bytewise by the lexicographic order of
  \<open>HOL-Library.List_Lexorder\<close>, as Go compares them). A Go \<open>error\<close> is a value of
  \<open>gerror\<close>; a function with results \<open>(T, error)\<close> returns \<open>gerror + T\<close>, a
  function that only returns an \<open>error\<close> returns \<open>gerror option\<close> with \<open>None\<close>
  for nil. The range over a Go map visits every key once in an unspecified order; the
  locale \<open>range_order\<close> states exactly this.
\<close>

named_theorems inv_intros \<open>operations preserve the invariants of their component\<close>
named_theorems frame_simps \<open>fields an operation does not write\<close>

section \<open>Errors\<close>

text \<open>
  \<open>NewError m\<close> is the value of \<open>errors.New(m)\<close> or of a \<open>fmt.Errorf\<close> that wraps
  nothing; \<open>Wrapped m e\<close> is a \<open>fmt.Errorf\<close> with \<open>%w\<close>: \<open>m\<close> is its whole
  message, \<open>e\<close> what it unwraps to.
\<close>

datatype gerror = NewError string | Wrapped string gerror

fun Error_msg :: "gerror \<Rightarrow> string" where
  "Error_msg (NewError m) = m"
| "Error_msg (Wrapped m e) = m"

fun errors_Is :: "gerror \<Rightarrow> gerror \<Rightarrow> bool" where
  "errors_Is (NewError m) t = (NewError m = t)"
| "errors_Is (Wrapped m e) t = (Wrapped m e = t \<or> errors_Is e t)"

lemma errors_Is_refl [simp]: "errors_Is e e"
  by (cases e) auto

definition Errorf_w :: "string \<Rightarrow> gerror \<Rightarrow> gerror" where
  "Errorf_w pre e = Wrapped (pre @ '': '' @ Error_msg e) e"

lemma errors_Is_Errorf_w [simp]: "errors_Is e t \<Longrightarrow> errors_Is (Errorf_w pre e) t"
  by (simp add: Errorf_w_def)

lemma Error_msg_Errorf_w [simp]: "Error_msg (Errorf_w pre e) = pre @ '': '' @ Error_msg e"
  by (simp add: Errorf_w_def)

abbreviation isOk :: "gerror + 'a \<Rightarrow> bool" where
  "isOk r \<equiv> (\<exists>v. r = Inr v)"

text \<open>A call followed by \<open>if err != nil { return err }\<close>.\<close>

definition on_ok :: "gerror + 'a \<Rightarrow> ('a \<Rightarrow> gerror + 'b) \<Rightarrow> gerror + 'b" where
  "on_ok r f = (case r of Inl err \<Rightarrow> Inl err | Inr v \<Rightarrow> f v)"

lemma on_ok_simps [simp]: "on_ok (Inr v) f = f v" "on_ok (Inl err) f = Inl err"
  by (simp_all add: on_ok_def)

lemma on_ok_Inr: "on_ok r f = Inr v \<longleftrightarrow> (\<exists>u. r = Inr u \<and> f u = Inr v)"
  by (cases r) simp_all

section \<open>Ranges over maps and sets\<close>

locale range_order =
  fixes ord :: "'a::linorder fset \<Rightarrow> 'a list"
  assumes set_ord: "set (ord A) = fset A"
    and distinct_ord: "distinct (ord A)"
begin

lemma sort_ord: "sort (ord A) = sorted_list_of_fset A"
proof -
  have "sort (ord A) = sorted_list_of_set (set (ord A))"
    using distinct_ord [of A] by (simp add: sorted_list_of_set_sort_remdups distinct_remdups_id)
  also have "\<dots> = sorted_list_of_fset A"
    by (simp add: set_ord sorted_list_of_fset.rep_eq)
  finally show ?thesis .
qed

lemma mset_ord: "mset (ord A) = mset (sorted_list_of_fset A)"
  by (metis sort_ord mset_sort)

end

text \<open>The order the executable model ranges in; \<open>sort_ord\<close> says when it does not matter.\<close>

definition range_keys :: "'a::linorder fset \<Rightarrow> 'a list" where
  "range_keys A = sorted_list_of_fset A"

interpretation range_keys: range_order range_keys
  by unfold_locales (auto simp: range_keys_def sorted_list_of_fset.rep_eq)

declare range_keys.set_ord [simp] range_keys.distinct_ord [simp]

lemma sort_range_keys: "distinct ks \<Longrightarrow> set ks = fset A \<Longrightarrow> sort ks = sort (range_keys A)"
  by (metis range_keys.sort_ord sorted_list_of_fset.rep_eq sorted_list_of_set_sort_remdups
      distinct_remdups_id)

lemma range_keys_finsert [simp]:
  "range_keys (finsert x A) = insort x (range_keys (A - {|x|}))"
  by (simp add: range_keys_def sorted_list_of_fset.rep_eq sorted_list_of_set.sorted_key_list_of_set_insert_remove)

lemma range_keys_fempty [simp]: "range_keys {||} = []"
  by (simp add: range_keys_def sorted_list_of_fset.rep_eq)

lemma sort_range_keys_id: "sort (range_keys A) = range_keys A"
  by (simp add: range_keys_def sorted_list_of_fset.rep_eq sorted_sort_id)

text \<open>Two sorts by a key that is unique in the list agree on permutations.\<close>

lemma sort_key_mset_unique:
  fixes f :: "'a \<Rightarrow> 'k::linorder"
  assumes "mset xs = mset ys" and "inj_on f (set xs)"
  shows "sort_key f xs = sort_key f ys"
proof (rule properties_for_sort_key)
  show ms: "mset (sort_key f ys) = mset xs"
    using assms(1) by simp
  have eq: "filter (\<lambda>x. f k = f x) zs = replicate (count (mset zs) k) k"
    if "set zs = set xs" "k \<in> set xs" for zs k
  proof -
    have "filter (\<lambda>x. f k = f x) zs = filter (\<lambda>x. k = x) zs"
      using that assms(2) by (intro filter_cong) (auto simp: inj_on_def)
    also have "\<dots> = replicate (count (mset zs) k) k"
      by (induction zs) auto
    finally show ?thesis .
  qed
  show "filter (\<lambda>x. f k = f x) (sort_key f ys) = filter (\<lambda>x. f k = f x) xs"
    if "k \<in> set (sort_key f ys)" for k
    using eq [of "sort_key f ys" k] eq [of xs k] that ms
    by (metis set_mset_mset)
  show "sorted (map f (sort_key f ys))"
    by simp
qed

section \<open>Finite maps\<close>

lemma fmap_eqI: "(\<And>k. fmlookup m k = fmlookup n k) \<Longrightarrow> m = n"
  by (rule fmap_ext)

lemma fmlookup_fmap_of_list: "fmlookup (fmap_of_list xs) k = map_of xs k"
  by (simp add: fmlookup_of_list)

lemma fmmap_id_strong: "(\<And>v. v \<in> fmran' m \<Longrightarrow> f v = v) \<Longrightarrow> fmmap f m = m"
  by (rule fmap_ext, case_tac "fmlookup m x") (auto simp: fmlookup_ran'_iff)

lemma fmupd_triv: "fmlookup m k = Some v \<Longrightarrow> fmupd k v m = m"
  by (rule fmap_ext) auto

section \<open>Lists\<close>

lemma filter_eq_NilI: "(\<And>x. x \<in> set xs \<Longrightarrow> \<not> P x) \<Longrightarrow> filter P xs = []"
  by (induction xs) auto

lemma fold_inv: "(\<And>x s. P s \<Longrightarrow> P (f x s)) \<Longrightarrow> P s \<Longrightarrow> P (fold f xs s)"
  by (induction xs arbitrary: s) auto

lemma list_find_None: "find P xs = None \<longleftrightarrow> (\<forall>x\<in>set xs. \<not> P x)"
  by (induction xs) auto

end
