(* ===== verification/GoStrings.thy ===== *)
theory GoStrings
  imports Prelude "HOL-Library.Sublist"
begin

text \<open>
  What the program uses of Go's \<open>strings\<close> and \<open>strconv\<close> packages, on byte strings.
  White space is Unicode white space in its UTF-8 encoding. \<open>ToLower\<close> and
  \<open>EqualFold\<close> map the ASCII letters and the few other runes whose mapping is an ASCII
  letter; the remaining non-ASCII letters are left as they are, which no decision of the
  program can observe, since it compares the results with ASCII words only. \<open>Quote\<close> is
  the \<open>%q\<close> verb, with bytes from 128 on copied.
\<close>

abbreviation byte :: "char \<Rightarrow> nat" where
  "byte c \<equiv> of_char c"

abbreviation bytes :: "nat list \<Rightarrow> string" where
  "bytes ns \<equiv> map char_of ns"

definition LF :: string where "LF = [CHR 0x0A]"

section \<open>White space: TrimSpace and Fields\<close>

text \<open>The white-space runes of Go's \<open>unicode.IsSpace\<close>, UTF-8 encoded.\<close>

definition space_runes :: "string list" where
  "space_runes =
     [[CHR 0x20], [CHR 0x09], [CHR 0x0A], [CHR 0x0B], [CHR 0x0C], [CHR 0x0D],
      [CHR 0xC2, CHR 0x85], [CHR 0xC2, CHR 0xA0], [CHR 0xE1, CHR 0x9A, CHR 0x80],
      [CHR 0xE2, CHR 0x80, CHR 0x80], [CHR 0xE2, CHR 0x80, CHR 0x81],
      [CHR 0xE2, CHR 0x80, CHR 0x82], [CHR 0xE2, CHR 0x80, CHR 0x83],
      [CHR 0xE2, CHR 0x80, CHR 0x84], [CHR 0xE2, CHR 0x80, CHR 0x85],
      [CHR 0xE2, CHR 0x80, CHR 0x86], [CHR 0xE2, CHR 0x80, CHR 0x87],
      [CHR 0xE2, CHR 0x80, CHR 0x88], [CHR 0xE2, CHR 0x80, CHR 0x89],
      [CHR 0xE2, CHR 0x80, CHR 0x8A], [CHR 0xE2, CHR 0x80, CHR 0xA8],
      [CHR 0xE2, CHR 0x80, CHR 0xA9], [CHR 0xE2, CHR 0x80, CHR 0xAF],
      [CHR 0xE2, CHR 0x81, CHR 0x9F], [CHR 0xE3, CHR 0x80, CHR 0x80]]"

text \<open>The length of the first of the sequences that \<open>s\<close> starts with, 0 if there is none.\<close>

definition rune_at :: "string list \<Rightarrow> string \<Rightarrow> nat" where
  "rune_at rs s = (case find (\<lambda>r. prefix r s) rs of None \<Rightarrow> 0 | Some r \<Rightarrow> length r)"

lemma rune_at_le: "rune_at rs s \<le> length s"
  by (auto simp: rune_at_def find_Some_iff prefix_length_le split: option.split)

lemma rune_at_Nil [simp]: "rune_at rs [] = 0"
  using rune_at_le [of rs "[]"] by simp

function strip :: "string list \<Rightarrow> string \<Rightarrow> string" where
  "strip rs s = (if rune_at rs s = 0 then s else strip rs (drop (rune_at rs s) s))"
  by pat_completeness auto
termination
proof (relation "measure (\<lambda>(rs, s). length s)")
  fix rs s assume "rune_at rs s \<noteq> 0"
  then show "((rs, drop (rune_at rs s) s), (rs, s)) \<in> measure (\<lambda>(rs, s). length s)"
    using rune_at_le [of rs s] by auto
qed auto

declare strip.simps [simp del]

definition TrimSpace :: "string \<Rightarrow> string" where
  "TrimSpace s = rev (strip (map rev space_runes) (rev (strip space_runes s)))"

lemma rune_at_strip: "rune_at rs (strip rs s) = 0"
proof (induction rs s rule: strip.induct)
  case (1 rs s)
  then show ?case by (cases "rune_at rs s = 0") (simp_all add: strip.simps [of rs s])
qed

lemma strip_id: "rune_at rs s = 0 \<Longrightarrow> strip rs s = s"
  by (simp add: strip.simps)

lemma suffix_strip: "suffix (strip rs s) s"
proof (induction rs s rule: strip.induct)
  case (1 rs s)
  show ?case
  proof (cases "rune_at rs s = 0")
    case False
    then have "strip rs s = strip rs (drop (rune_at rs s) s)"
      by (simp add: strip.simps [of rs s])
    with 1 False show ?thesis
      by (metis suffix_drop suffix_order.trans)
  qed (simp add: strip.simps)
qed

lemma rune_at_0_iff: "[] \<notin> set rs \<Longrightarrow> rune_at rs s = 0 \<longleftrightarrow> (\<forall>r\<in>set rs. \<not> prefix r s)"
proof (cases "find (\<lambda>r. prefix r s) rs")
  case None
  then have "\<forall>r\<in>set rs. \<not> prefix r s" by (simp add: list_find_None)
  with None show ?thesis by (simp add: rune_at_def)
next
  case (Some r)
  then have "r \<in> set rs" "prefix r s" by (auto simp: find_Some_iff)
  moreover assume "[] \<notin> set rs"
  ultimately show ?thesis using Some by (auto simp: rune_at_def)
qed

lemma rune_at_prefix:
  "[] \<notin> set rs \<Longrightarrow> rune_at rs s = 0 \<Longrightarrow> prefix t s \<Longrightarrow> rune_at rs t = 0"
  by (metis rune_at_0_iff prefix_order.trans)

lemma space_runes_nonempty [simp]:
  "[] \<notin> set space_runes" "[] \<notin> set (map rev space_runes)"
  by (simp_all add: space_runes_def)

text \<open>A string is trimmed when it neither starts nor ends with white space.\<close>

definition trimmed :: "string \<Rightarrow> bool" where
  "trimmed s \<longleftrightarrow> rune_at space_runes s = 0 \<and> rune_at (map rev space_runes) (rev s) = 0"

lemma trimmed_TrimSpace [simp]: "trimmed (TrimSpace s)"
proof -
  let ?l = "strip space_runes s" and ?R = "map rev space_runes"
  have "prefix (rev (strip ?R (rev ?l))) ?l"
    using suffix_strip [of ?R "rev ?l"] by (simp add: suffix_to_prefix)
  then have "rune_at space_runes (TrimSpace s) = 0"
    unfolding TrimSpace_def
    by (rule rune_at_prefix [OF space_runes_nonempty(1) rune_at_strip])
  then show ?thesis
    by (simp add: trimmed_def TrimSpace_def rune_at_strip)
qed

lemma TrimSpace_trimmed: "trimmed s \<Longrightarrow> TrimSpace s = s"
  by (simp add: trimmed_def TrimSpace_def strip_id)

lemma TrimSpace_idem [simp]: "TrimSpace (TrimSpace s) = TrimSpace s"
  by (simp add: TrimSpace_trimmed)

lemma TrimSpace_Nil [simp]: "TrimSpace [] = []"
  by (rule TrimSpace_trimmed) (simp add: trimmed_def)

lemma set_TrimSpace: "set (TrimSpace s) \<subseteq> set s"
proof -
  have "set (TrimSpace s) \<subseteq> set (strip space_runes s)"
    unfolding TrimSpace_def using suffix_strip set_mono_suffix by fastforce
  then show ?thesis using suffix_strip set_mono_suffix by fastforce
qed

text \<open>The bytes of white space.\<close>

definition space_bytes :: "char set" where
  "space_bytes = \<Union> (set ` set space_runes)"

lemma LF_space: "CHR 0x0A \<in> space_bytes"
  by (simp add: space_bytes_def space_runes_def)

text \<open>No white-space rune is a prefix of another.\<close>

lemma space_runes_prefix_free:
  assumes "r \<in> set space_runes" "q \<in> set space_runes" "prefix q r" shows "q = r"
proof -
  have "list_all (\<lambda>r. list_all (\<lambda>q. prefix q r \<longrightarrow> q = r) space_runes) space_runes"
    by code_simp
  then show ?thesis using assms by (auto simp: list_all_iff)
qed

lemma rune_at_space: 
  assumes "r \<in> set space_runes" shows "rune_at space_runes (r @ s) = length r"
proof -
  obtain q where q: "find (\<lambda>q. prefix q (r @ s)) space_runes = Some q"
    using assms list_find_None [of "\<lambda>q. prefix q (r @ s)" space_runes]
    by (cases "find (\<lambda>q. prefix q (r @ s)) space_runes") auto
  then have "q \<in> set space_runes" "prefix q (r @ s)" by (auto simp: find_Some_iff)
  then have "prefix q r \<or> prefix r q" using prefix_same_cases [of q "r @ s" r] by simp
  then have "q = r" using space_runes_prefix_free assms \<open>q \<in> set space_runes\<close> by blast
  with q show ?thesis by (simp add: rune_at_def)
qed

lemma rune_at_cases:
  obtains "rune_at space_runes s = 0"
  | r t where "r \<in> set space_runes" "s = r @ t" "rune_at space_runes s = length r"
proof (cases "find (\<lambda>q. prefix q s) space_runes")
  case None
  then show ?thesis using that(1) by (simp add: rune_at_def)
next
  case (Some r)
  then have "r \<in> set space_runes" "prefix r s" by (auto simp: find_Some_iff)
  then show ?thesis using that(2) rune_at_space by (auto simp: prefix_def)
qed

lemma strip_space: "r \<in> set space_runes \<Longrightarrow> strip space_runes (r @ s) = strip space_runes s"
  using space_runes_nonempty(1) 
  by (subst strip.simps) (auto simp: rune_at_space)

lemma strip_induct [case_names stop step]:
  assumes "\<And>s. rune_at space_runes s = 0 \<Longrightarrow> P s"
    and "\<And>r s. r \<in> set space_runes \<Longrightarrow> P s \<Longrightarrow> P (r @ s)"
  shows "P s"
proof (induction "length s" arbitrary: s rule: less_induct)
  case less
  show ?case
  proof (cases rule: rune_at_cases [of s])
    case (2 r t)
    then have "r \<noteq> []" using space_runes_nonempty(1) by metis
    then show ?thesis using 2 less assms(2) by simp
  qed (rule assms(1))
qed

lemma strip_append: "strip space_runes (s @ t) = strip space_runes (strip space_runes s @ t)"
proof (induction s rule: strip_induct)
  case (stop s)
  then show ?case by (simp add: strip_id)
qed (simp add: strip_space)

lemma set_strip: "set s \<subseteq> space_bytes \<union> set (strip space_runes s)"
proof (induction s rule: strip_induct)
  case (stop s)
  then show ?case by (simp add: strip_id)
qed (auto simp: strip_space space_bytes_def)

lemma set_strip_sub: "set (strip rs s) \<subseteq> set s"
  using suffix_strip set_mono_suffix by blast

lemma TrimSpace_parts: "\<exists>suf. strip space_runes s = TrimSpace s @ suf \<and> set suf \<subseteq> space_bytes"
proof -
  have gen: "\<exists>pre. u = pre @ strip (map rev space_runes) u \<and> set pre \<subseteq> space_bytes" for u
  proof (induction "length u" arbitrary: u rule: less_induct)
    case less
    show ?case
    proof (cases "find (\<lambda>q. prefix q u) (map rev space_runes)")
      case None
      then have "rune_at (map rev space_runes) u = 0" by (simp add: rune_at_def)
      then show ?thesis by (simp add: strip_id)
    next
      case (Some r)
      then have r: "r \<in> set (map rev space_runes)" "prefix r u" by (auto simp: find_Some_iff)
      then obtain t where t: "u = r @ t" by (auto simp: prefix_def)
      have ne: "r \<noteq> []" using r(1) space_runes_nonempty(2) by metis
      have "rune_at (map rev space_runes) u = length r" using Some by (simp add: rune_at_def)
      then have strip: "strip (map rev space_runes) u = strip (map rev space_runes) t"
        using t ne by (subst strip.simps) simp
      obtain pre where "t = pre @ strip (map rev space_runes) t" "set pre \<subseteq> space_bytes"
        using less [of t] t ne by auto
      moreover have "set r \<subseteq> space_bytes" using r(1) by (auto simp: space_bytes_def)
      ultimately show ?thesis using t strip by (intro exI [of _ "r @ pre"]) auto
    qed
  qed
  obtain pre where pre: "rev (strip space_runes s) = pre @ strip (map rev space_runes) (rev (strip space_runes s))"
      "set pre \<subseteq> space_bytes" using gen by blast
  then have "strip space_runes s = TrimSpace s @ rev pre"
    unfolding TrimSpace_def by (metis rev_append rev_rev_ident)
  then show ?thesis using pre(2) by (intro exI [of _ "rev pre"]) simp
qed

function Fields_aux :: "string \<Rightarrow> string \<Rightarrow> string list" where
  "Fields_aux acc [] = (if acc = [] then [] else [rev acc])"
| "Fields_aux acc (c # s) =
     (let n = rune_at space_runes (c # s)
      in if n > 0
         then (if acc = [] then [] else [rev acc]) @ Fields_aux [] (drop n (c # s))
         else Fields_aux (c # acc) s)"
  by pat_completeness auto
termination
proof (relation "measure (\<lambda>(acc, s). length s)")
  fix acc s :: string and c :: char and n
  assume "n = rune_at space_runes (c # s)" "n > 0"
  then show "(([], drop n (c # s)), (acc, c # s)) \<in> measure (\<lambda>(acc, s). length s)"
    using rune_at_le [of space_runes "c # s"] by auto
qed auto

definition Fields :: "string \<Rightarrow> string list" where
  "Fields s = Fields_aux [] s"

lemma Fields_aux_nonempty: "f \<in> set (Fields_aux acc s) \<Longrightarrow> f \<noteq> []"
  by (induction acc s rule: Fields_aux.induct) (auto simp: Let_def split: if_splits)

lemma Fields_nonempty: "f \<in> set (Fields s) \<Longrightarrow> f \<noteq> []"
  by (simp add: Fields_def Fields_aux_nonempty)

section \<open>Split, Join, ReplaceAll, Cut\<close>

text \<open>All of them are used with a non-empty separator.\<close>

function Split_aux :: "string \<Rightarrow> string \<Rightarrow> string \<Rightarrow> string list" where
  "Split_aux sep acc s =
     (if s = [] then [rev acc]
      else if sep \<noteq> [] \<and> prefix sep s then rev acc # Split_aux sep [] (drop (length sep) s)
      else Split_aux sep (hd s # acc) (tl s))"
  by pat_completeness auto
termination
  by (relation "measure (\<lambda>(sep, acc, s). length s)") (auto simp: prefix_def)

declare Split_aux.simps [simp del]

definition Split :: "string \<Rightarrow> string \<Rightarrow> string list" where
  "Split s sep = Split_aux sep [] s"

fun Join :: "string list \<Rightarrow> string \<Rightarrow> string" where
  "Join [] sep = []"
| "Join [x] sep = x"
| "Join (x # y # xs) sep = x @ sep @ Join (y # xs) sep"

definition ReplaceAll :: "string \<Rightarrow> string \<Rightarrow> string \<Rightarrow> string" where
  "ReplaceAll s old new = Join (Split s old) new"

lemma Split_aux_nonempty [simp]: "Split_aux sep acc s \<noteq> []"
proof (induction sep acc s rule: Split_aux.induct)
  case (1 sep acc s)
  then show ?case by (subst Split_aux.simps) simp
qed

lemma Split_nonempty [simp]: "Split s sep \<noteq> []"
  by (simp add: Split_def)

lemma Join_Cons: "xs \<noteq> [] \<Longrightarrow> Join (x # xs) sep = x @ sep @ Join xs sep"
  by (cases xs) auto

lemma Join_Split_aux: "Join (Split_aux sep acc s) sep = rev acc @ s"
proof (induction sep acc s rule: Split_aux.induct)
  case (1 sep acc s)
  show ?case
  proof (cases "s = []")
    case True
    then show ?thesis by (simp add: Split_aux.simps)
  next
    case s: False
    show ?thesis
    proof (cases "sep \<noteq> [] \<and> prefix sep s")
      case True
      then have "Join (Split_aux sep acc s) sep = rev acc @ sep @ drop (length sep) s"
        using 1 s by (simp add: Split_aux.simps [of sep acc s] Join_Cons)
      then show ?thesis using True by (auto simp: prefix_def)
    next
      case False
      then have "Split_aux sep acc s = Split_aux sep (hd s # acc) (tl s)"
        using s by (subst Split_aux.simps) (simp only: if_False)
      then show ?thesis using 1 s False by simp
    qed
  qed
qed

text \<open>Splitting and joining at the same separator gives the string back.\<close>

lemma Join_Split: "Join (Split s sep) sep = s"
  by (simp add: Split_def Join_Split_aux)

text \<open>No field of a split at a one-character separator contains it.\<close>

lemma Split_aux_char:
  "c \<notin> set acc \<Longrightarrow> f \<in> set (Split_aux [c] acc s) \<Longrightarrow> c \<notin> set f"
proof (induction "[c]" acc s rule: Split_aux.induct)
  case (1 acc s)
  show ?case
  proof (cases s)
    case Nil
    then show ?thesis using 1 by (simp add: Split_aux.simps [of "[c]" acc "[]"])
  next
    case (Cons d t)
    then have "Split_aux [c] acc s =
        (if d = c then rev acc # Split_aux [c] [] t else Split_aux [c] (d # acc) t)"
      by (subst Split_aux.simps) simp
    then show ?thesis
      using 1 Cons by (cases "d = c") auto
  qed
qed

lemma Split_char: "f \<in> set (Split s [c]) \<Longrightarrow> c \<notin> set f"
  by (rule Split_aux_char [where acc = "[]"]) (simp_all add: Split_def)

lemma Split_aux_no_sep: "c \<notin> set s \<Longrightarrow> Split_aux [c] acc s = [rev acc @ s]"
proof (induction s arbitrary: acc)
  case Nil
  then show ?case by (simp add: Split_aux.simps)
next
  case (Cons d s)
  then show ?case by (subst Split_aux.simps) simp
qed

lemma Split_aux_append:
  "c \<notin> set x \<Longrightarrow> Split_aux [c] acc (x @ c # s) = (rev acc @ x) # Split_aux [c] [] s"
proof (induction x arbitrary: acc)
  case Nil
  show ?case by (subst Split_aux.simps) simp
next
  case (Cons d x)
  then have "Split_aux [c] acc ((d # x) @ c # s) = Split_aux [c] (d # acc) (x @ c # s)"
    by (subst Split_aux.simps) simp
  with Cons show ?case by simp
qed

lemma Split_Join_char:
  "xs \<noteq> [] \<Longrightarrow> (\<And>x. x \<in> set xs \<Longrightarrow> c \<notin> set x) \<Longrightarrow> Split (Join xs [c]) [c] = xs"
  unfolding Split_def
proof (induction xs rule: induct_list012)
  case (2 x)
  then show ?case by (simp add: Split_aux_no_sep)
next
  case (3 x y xs)
  then show ?case by (simp add: Split_aux_append)
qed simp

lemma Split_aux_cons: "Split_aux [c] acc s = (rev acc @ hd (Split s [c])) # tl (Split s [c])"
  unfolding Split_def
proof (induction s arbitrary: acc)
  case Nil
  then show ?case by (simp add: Split_aux.simps)
next
  case (Cons d s)
  have step: "Split_aux [c] acc' (d # s) =
      (if d = c then rev acc' # Split_aux [c] [] s else Split_aux [c] (d # acc') s)" for acc'
    by (subst Split_aux.simps) simp
  show ?case unfolding step by (simp add: Cons [of "d # acc"] Cons [of "[d]"])
qed

lemma Split_Cons:
  "Split (d # s) [c] = (if d = c then [] # Split s [c] else (d # hd (Split s [c])) # tl (Split s [c]))"
proof -
  have "Split (d # s) [c] = (if d = c then [] # Split s [c] else Split_aux [c] [d] s)"
    unfolding Split_def by (subst Split_aux.simps) simp
  then show ?thesis by (simp add: Split_aux_cons)
qed

lemma Split_empty [simp]: "Split [] [c] = [[]]"
  by (simp add: Split_def Split_aux.simps)

lemma Split_append_sep: "Split (a @ c # b) [c] = Split a [c] @ Split b [c]"
proof (induction a)
  case (Cons d a)
  then show ?case by (cases "Split a [c]") (auto simp: Split_Cons)
qed (simp add: Split_Cons)

lemma Split_no_sep: "c \<notin> set s \<Longrightarrow> Split s [c] = [s]"
  by (simp add: Split_def Split_aux_no_sep)

lemma Split_append_left: "c \<notin> set a \<Longrightarrow> Split (a @ s) [c] = (a @ hd (Split s [c])) # tl (Split s [c])"
  by (induction a) (auto simp: Split_Cons)

lemma Split_snoc_sep: "Split (s @ [c]) [c] = Split s [c] @ [[]]"
  using Split_append_sep [of s c "[]"] by simp

lemma Split_snoc_char:
  "d \<noteq> c \<Longrightarrow> Split (s @ [d]) [c] = butlast (Split s [c]) @ [last (Split s [c]) @ [d]]"
proof (induction s)
  case (Cons e s)
  obtain l ls where L: "Split s [c] = l # ls" using Split_nonempty by (metis list.exhaust)
  then have "Split (s @ [d]) [c] = (if ls = [] then [l @ [d]] else l # butlast ls @ [last ls @ [d]])"
    using Cons by simp
  then show ?case using L by (cases "ls = []") (simp_all add: Split_Cons [of e])
qed (simp add: Split_Cons)

text \<open>A text without the first byte of the separator is one field.\<close>

lemma Split_no_char: "c \<notin> set s \<Longrightarrow> Split s (c # sep) = [s]"
proof -
  assume "c \<notin> set s"
  then have "Split_aux (c # sep) acc s = [rev acc @ s]" for acc
  proof (induction s arbitrary: acc)
    case Nil
    then show ?case by (simp add: Split_aux.simps)
  next
    case (Cons d s)
    then show ?case by (subst Split_aux.simps) simp
  qed
  then show ?thesis by (simp add: Split_def)
qed

text \<open>\<open>strings.Cut\<close> at the first occurrence of a one-byte separator.\<close>

definition Cut :: "string \<Rightarrow> char \<Rightarrow> string \<times> string \<times> bool" where
  "Cut s c = (case dropWhile (\<lambda>d. d \<noteq> c) s of
                [] \<Rightarrow> (s, [], False)
              | _ # t \<Rightarrow> (takeWhile (\<lambda>d. d \<noteq> c) s, t, True))"

definition TrimPrefix :: "string \<Rightarrow> string \<Rightarrow> string" where
  "TrimPrefix s p = (if prefix p s then drop (length p) s else s)"

definition Repeat :: "string \<Rightarrow> nat \<Rightarrow> string" where
  "Repeat s n = concat (replicate n s)"

lemma length_Repeat_char [simp]: "length (Repeat [c] n) = n"
  by (induction n) (auto simp: Repeat_def)

fun Contains :: "string \<Rightarrow> string \<Rightarrow> bool" where
  "Contains [] sub = (sub = [])"
| "Contains (c # s) sub = (prefix sub (c # s) \<or> Contains s sub)"

lemma Contains_iff: "Contains s sub \<longleftrightarrow> sublist sub s"
  by (induction s) (auto simp: sublist_Cons_right)

section \<open>Case\<close>

definition lower_char :: "char \<Rightarrow> char" where
  "lower_char c = (if 65 \<le> byte c \<and> byte c \<le> 90 then char_of (byte c + 32) else c)"

text \<open>
  \<open>strings.ToLower\<close>: the capital dotted I (C4 B0) becomes i, the Kelvin sign (E2 84 AA)
  becomes k, ASCII letters become lower case. Any other rune is copied: none of them maps
  to an ASCII letter, and the program only compares the results with ASCII words.
\<close>

fun ToLower :: "string \<Rightarrow> string" where
  "ToLower [] = []"
| "ToLower (c # s) =
     (if c = CHR 0xC4 \<and> prefix [CHR 0xB0] s then CHR ''i'' # ToLower (drop 1 s)
      else if c = CHR 0xE2 \<and> prefix [CHR 0x84, CHR 0xAA] s then CHR ''k'' # ToLower (drop 2 s)
      else lower_char c # ToLower s)"

text \<open>
  The simple case folding of \<open>strings.EqualFold\<close>: the long s (C5 BF) folds with s, the
  Kelvin sign with k.
\<close>

fun fold_case :: "string \<Rightarrow> string" where
  "fold_case [] = []"
| "fold_case (c # s) =
     (if c = CHR 0xC5 \<and> prefix [CHR 0xBF] s then CHR ''s'' # fold_case (drop 1 s)
      else if c = CHR 0xE2 \<and> prefix [CHR 0x84, CHR 0xAA] s then CHR ''k'' # fold_case (drop 2 s)
      else lower_char c # fold_case s)"

definition EqualFold :: "string \<Rightarrow> string \<Rightarrow> bool" where
  "EqualFold s t \<longleftrightarrow> fold_case s = fold_case t"

lemma EqualFold_refl [simp]: "EqualFold s s"
  by (simp add: EqualFold_def)

section \<open>Numbers\<close>

definition digit_char :: "nat \<Rightarrow> char" where
  "digit_char n = (if n < 10 then char_of (48 + n) else char_of (87 + n))"

fun nat_digits :: "nat \<Rightarrow> string" where
  "nat_digits n = (if n < 10 then [digit_char n] else nat_digits (n div 10) @ [digit_char (n mod 10)])"

declare nat_digits.simps [simp del]

definition Itoa :: "int \<Rightarrow> string" where
  "Itoa i = (if i < 0 then CHR ''-'' # nat_digits (nat (- i)) else nat_digits (nat i))"

text \<open>The value of a digit in a base, as \<open>strconv.ParseUint\<close> reads it.\<close>

definition digit_val :: "char \<Rightarrow> nat option" where
  "digit_val c =
     (if 48 \<le> byte c \<and> byte c \<le> 57 then Some (byte c - 48)
      else if 97 \<le> byte c \<and> byte c \<le> 122 then Some (byte c - 97 + 10)
      else if 65 \<le> byte c \<and> byte c \<le> 90 then Some (byte c - 65 + 10)
      else None)"

definition ErrSyntax :: gerror where "ErrSyntax = NewError ''invalid syntax''"
definition ErrRange :: gerror where "ErrRange = NewError ''value out of range''"

text \<open>The digit loop of \<open>ParseUint\<close>: the first bad digit or the first overflow ends it.\<close>

fun digits_value :: "nat \<Rightarrow> nat \<Rightarrow> string \<Rightarrow> gerror + nat" where
  "digits_value base acc [] = Inr acc"
| "digits_value base acc (c # s) =
     (case digit_val c of
        None \<Rightarrow> Inl ErrSyntax
      | Some d \<Rightarrow>
          if base \<le> d then Inl ErrSyntax
          else if 2 ^ 64 \<le> acc * base + d then Inl ErrRange
          else digits_value base (acc * base + d) s)"

definition Quote_char :: "char \<Rightarrow> string" where
  "Quote_char c =
     (let n = byte c in
      if n = 34 then [CHR 0x5C, CHR 0x22]
      else if n = 92 then [CHR 0x5C, CHR 0x5C]
      else if n = 7 then [CHR 0x5C, CHR ''a'']
      else if n = 8 then [CHR 0x5C, CHR ''b'']
      else if n = 12 then [CHR 0x5C, CHR ''f'']
      else if n = 10 then [CHR 0x5C, CHR ''n'']
      else if n = 13 then [CHR 0x5C, CHR ''r'']
      else if n = 9 then [CHR 0x5C, CHR ''t'']
      else if n = 11 then [CHR 0x5C, CHR ''v'']
      else if n < 32 \<or> n = 127
        then [CHR 0x5C, CHR ''x'', digit_char (n div 16), digit_char (n mod 16)]
      else [c])"

definition Quote :: "string \<Rightarrow> string" where
  "Quote s = CHR 0x22 # concat (map Quote_char s) @ [CHR 0x22]"

definition NumError :: "string \<Rightarrow> string \<Rightarrow> gerror \<Rightarrow> gerror" where
  "NumError fn s e = Wrapped (''strconv.'' @ fn @ '': parsing '' @ Quote s @ '': '' @ Error_msg e) e"

text \<open>\<open>strconv.ParseUint(s, base, 64)\<close> with an explicit base: no sign, no underscores.\<close>

definition ParseUint :: "string \<Rightarrow> nat \<Rightarrow> gerror + nat" where
  "ParseUint s base =
     (if s = [] then Inl (NumError ''ParseUint'' s ErrSyntax)
      else case digits_value base 0 s of
        Inl e \<Rightarrow> Inl (NumError ''ParseUint'' s e)
      | Inr n \<Rightarrow> Inr n)"

text \<open>
  \<open>strconv.ParseInt(s, 10, 64)\<close> and \<open>strconv.Atoi(s)\<close> (ints have 64 bits): an optional
  sign and at least one decimal digit; they differ in the function their error names.
\<close>

definition ParseInt10 :: "string \<Rightarrow> string \<Rightarrow> gerror + int" where
  "ParseInt10 fn s =
     (let neg = prefix ''-'' s; d = (if neg \<or> prefix ''+'' s then tl s else s)
      in if d = [] then Inl (NumError fn s ErrSyntax)
         else case digits_value 10 0 d of
           Inl e \<Rightarrow> Inl (NumError fn s e)
         | Inr n \<Rightarrow>
             if neg then (if n \<le> 2 ^ 63 then Inr (- int n) else Inl (NumError fn s ErrRange))
             else (if n < 2 ^ 63 then Inr (int n) else Inl (NumError fn s ErrRange)))"

definition Atoi :: "string \<Rightarrow> gerror + int" where
  "Atoi s = ParseInt10 ''Atoi'' s"

definition ParseInt :: "string \<Rightarrow> gerror + int" where
  "ParseInt s = ParseInt10 ''ParseInt'' s"

definition ParseBool :: "string \<Rightarrow> gerror + bool" where
  "ParseBool s =
     (if s \<in> {''1'', ''t'', ''T'', ''true'', ''TRUE'', ''True''} then Inr True
      else if s \<in> {''0'', ''f'', ''F'', ''false'', ''FALSE'', ''False''} then Inr False
      else Inl (NumError ''ParseBool'' s ErrSyntax))"

lemma ParseInt10_range: "ParseInt10 fn s = Inr i \<Longrightarrow> - (2 ^ 63) \<le> i \<and> i < 2 ^ 63"
  by (auto simp: ParseInt10_def Let_def split: if_splits sum.splits)

lemma digits_value_bound: "digits_value b acc s = Inr n \<Longrightarrow> acc < 2 ^ 64 \<Longrightarrow> n < 2 ^ 64"
  by (induction b acc s rule: digits_value.induct) (auto split: if_splits option.splits)

lemma ParseUint_range: "ParseUint s b = Inr n \<Longrightarrow> n < 2 ^ 64"
  by (auto simp: ParseUint_def split: if_splits sum.splits dest: digits_value_bound)

lemma digit_val_digit_char: "n < 10 \<Longrightarrow> digit_val (digit_char n) = Some n"
  by (simp add: digit_val_def digit_char_def)

lemma digits_value_append:
  "digits_value b acc (s @ t) =
     (case digits_value b acc s of Inl e \<Rightarrow> Inl e | Inr a \<Rightarrow> digits_value b a t)"
  by (induction b acc s rule: digits_value.induct) (auto split: option.split)

lemma digits_value_nat_digits_0: "n < 2 ^ 64 \<Longrightarrow> digits_value 10 0 (nat_digits n) = Inr n"
proof (induction n rule: nat_digits.induct)
  case (1 n)
  show ?case
  proof (cases "n < 10")
    case True
    then show ?thesis by (simp add: nat_digits.simps [of n] digit_val_digit_char)
  next
    case False
    then have "digits_value 10 0 (nat_digits (n div 10)) = Inr (n div 10)"
      using 1 by simp
    with False 1(2) show ?thesis
      by (simp add: nat_digits.simps [of n] digits_value_append digit_val_digit_char)
  qed
qed

lemma nat_digits_nonempty [simp]: "nat_digits n \<noteq> []"
  by (subst nat_digits.simps) simp

lemma hd_nat_digits: "48 \<le> byte (hd (nat_digits n)) \<and> byte (hd (nat_digits n)) \<le> 57"
proof (induction n rule: nat_digits.induct)
  case (1 n)
  then show ?case
    by (cases "n < 10") (simp_all add: nat_digits.simps [of n] digit_char_def)
qed

text \<open>Reading back a printed 64-bit integer.\<close>

lemma ParseInt10_Itoa:
  assumes "- (2 ^ 63) \<le> i" "i < 2 ^ 63"
  shows "ParseInt10 fn (Itoa i) = Inr i"
proof (cases "i < 0")
  case True
  then have "nat (- i) \<le> 2 ^ 63" using assms by simp
  moreover from this have "digits_value 10 0 (nat_digits (nat (- i))) = Inr (nat (- i))"
    by (intro digits_value_nat_digits_0) (rule le_less_trans, assumption, simp)
  ultimately show ?thesis
    using True by (simp add: ParseInt10_def Itoa_def)
next
  case False
  let ?d = "nat_digits (nat i)"
  obtain c t where ct: "?d = c # t" by (metis nat_digits_nonempty list.exhaust)
  then have "48 \<le> byte c" using hd_nat_digits [of "nat i"] by simp
  then have "c \<noteq> CHR ''-''" "c \<noteq> CHR ''+''" by auto
  moreover have "nat i < 2 ^ 63" using assms False by simp
  moreover from this have "digits_value 10 0 ?d = Inr (nat i)"
    by (intro digits_value_nat_digits_0) (rule less_trans, assumption, simp)
  ultimately show ?thesis
    using False ct by (simp add: ParseInt10_def Itoa_def)
qed

end
