(* ===== verification/XrayStats.thy ===== *)
theory XrayStats
  imports GoStrings
begin

text \<open>
  Reading the traffic counters and the online maps of the embedded Xray
  (\<open>internal/xray/stats.go\<close> and the stats client of \<open>internal/xray/core.go\<close>). The
  counters of a stats manager are a list of names and values in the order in which
  \<open>VisitCounters\<close> visits them, which is unspecified. Counter values are 64-bit words,
  whose sums wrap. Resetting a counter writes 0 to it.
\<close>

section \<open>Data (stats.go)\<close>

record SysStats =
  sys_NumGoroutine :: "32 word"
  sys_NumGC :: "32 word"
  sys_Alloc :: "64 word"
  sys_TotalAlloc :: "64 word"
  sys_Sys :: "64 word"
  sys_Mallocs :: "64 word"
  sys_Frees :: "64 word"
  sys_LiveObjects :: "64 word"
  sys_PauseTotalNs :: "64 word"
  sys_Uptime :: "32 word"

record UserTrafficStats =
  ut_Username :: string
  ut_Downlink :: "64 word"
  ut_Uplink :: "64 word"

record IPLastSeen =
  ils_IP :: string
  ils_LastSeen :: int

record UserIPList =
  uil_Username :: string
  uil_IPs :: "IPLastSeen list"

record InboundTrafficStats =
  it_Inbound :: string
  it_Downlink :: "64 word"
  it_Uplink :: "64 word"

record OutboundTrafficStats =
  ot_Outbound :: string
  ot_Downlink :: "64 word"
  ot_Uplink :: "64 word"

type_synonym counters = "(string \<times> 64 word) list"
type_synonym ip_time_map = "(string, int) fmap"

section \<open>Counter names\<close>

definition sep3 :: string where "sep3 = ''>>>''"

definition StatsUserUplinkFormat :: "string \<Rightarrow> string" where
  "StatsUserUplinkFormat tag = ''user>>>'' @ tag @ ''>>>traffic>>>uplink''"
definition StatsUserDownlinkFormat :: "string \<Rightarrow> string" where
  "StatsUserDownlinkFormat tag = ''user>>>'' @ tag @ ''>>>traffic>>>downlink''"
definition StatsUserOnlineFormat :: "string \<Rightarrow> string" where
  "StatsUserOnlineFormat tag = ''user>>>'' @ tag @ ''>>>online''"
definition StatsInboundUplinkFormat :: "string \<Rightarrow> string" where
  "StatsInboundUplinkFormat tag = ''inbound>>>'' @ tag @ ''>>>traffic>>>uplink''"
definition StatsInboundDownlinkFormat :: "string \<Rightarrow> string" where
  "StatsInboundDownlinkFormat tag = ''inbound>>>'' @ tag @ ''>>>traffic>>>downlink''"
definition StatsOutboundUplinkFormat :: "string \<Rightarrow> string" where
  "StatsOutboundUplinkFormat tag = ''outbound>>>'' @ tag @ ''>>>traffic>>>uplink''"
definition StatsOutboundDownlinkFormat :: "string \<Rightarrow> string" where
  "StatsOutboundDownlinkFormat tag = ''outbound>>>'' @ tag @ ''>>>traffic>>>downlink''"

lemmas stats_formats =
  StatsUserUplinkFormat_def StatsUserDownlinkFormat_def StatsUserOnlineFormat_def
  StatsInboundUplinkFormat_def StatsInboundDownlinkFormat_def
  StatsOutboundUplinkFormat_def StatsOutboundDownlinkFormat_def

definition parseTrafficStatName :: "string \<Rightarrow> string \<Rightarrow> (string \<times> string) option" where
  "parseTrafficStatName name pfx =
     (let parts = Split name sep3 in
      if length parts \<noteq> 4 \<or> parts ! 0 \<noteq> pfx \<or> parts ! 2 \<noteq> ''traffic'' then None
      else if parts ! 1 = [] \<or> (parts ! 3 \<noteq> ''uplink'' \<and> parts ! 3 \<noteq> ''downlink'') then None
      else Some (parts ! 1, parts ! 3))"

definition parseOnlineStatName :: "string \<Rightarrow> string option" where
  "parseOnlineStatName name =
     (let parts = Split name sep3 in
      if length parts \<noteq> 3 \<or> parts ! 0 \<noteq> ''user'' \<or> parts ! 1 = [] \<or> parts ! 2 \<noteq> ''online''
      then None else Some (parts ! 1))"

section \<open>Aggregation\<close>

text \<open>The uplink and the downlink of one item of \<open>byUser\<close> or \<open>byTag\<close>.\<close>

record traffic =
  tr_Uplink :: "64 word"
  tr_Downlink :: "64 word"

definition no_traffic :: traffic where
  "no_traffic = \<lparr>tr_Uplink = 0, tr_Downlink = 0\<rparr>"

definition applyDirection :: "string \<Rightarrow> 64 word \<Rightarrow> traffic \<Rightarrow> traffic" where
  "applyDirection direction value item =
     (if direction = ''uplink'' then item\<lparr>tr_Uplink := tr_Uplink item + value\<rparr>
      else if direction = ''downlink'' then item\<lparr>tr_Downlink := tr_Downlink item + value\<rparr>
      else item)"

text \<open>The visit that \<open>UsersStats\<close>, \<open>AllInboundStats\<close> and \<open>AllOutboundStats\<close> make.\<close>

fun visit_counters :: "string \<Rightarrow> bool \<Rightarrow> counters \<Rightarrow> (string, traffic) fmap \<Rightarrow>
    (string, traffic) fmap \<times> counters" where
  "visit_counters pfx reset [] byTag = (byTag, [])"
| "visit_counters pfx reset ((name, value) # rest) byTag =
     (case parseTrafficStatName name pfx of
        None \<Rightarrow>
          (case visit_counters pfx reset rest byTag of
             (byTag, rest) \<Rightarrow> (byTag, (name, value) # rest))
      | Some (tag, direction) \<Rightarrow>
          let item = (case fmlookup byTag tag of None \<Rightarrow> no_traffic | Some item \<Rightarrow> item);
              byTag = fmupd tag (applyDirection direction value item) byTag
          in case visit_counters pfx reset rest byTag of
               (byTag, rest) \<Rightarrow> (byTag, (name, if reset then 0 else value) # rest))"

definition items_of :: "(string, traffic) fmap \<Rightarrow> (string \<times> traffic) list" where
  "items_of byTag = map (\<lambda>tag. (tag, the (fmlookup byTag tag))) (range_keys (fmdom byTag))"

definition UsersStats :: "bool \<Rightarrow> counters \<Rightarrow> UserTrafficStats list \<times> counters" where
  "UsersStats reset cs =
     (case visit_counters ''user'' reset cs fmempty of
        (byUser, cs') \<Rightarrow>
          (sort_key ut_Username
             (map (\<lambda>(u, t). \<lparr>ut_Username = u, ut_Downlink = tr_Downlink t, ut_Uplink = tr_Uplink t\<rparr>)
               (filter (\<lambda>(u, t). \<not> (tr_Uplink t = 0 \<and> tr_Downlink t = 0)) (items_of byUser))),
           cs'))"

definition AllInboundStats :: "bool \<Rightarrow> counters \<Rightarrow> InboundTrafficStats list \<times> counters" where
  "AllInboundStats reset cs =
     (case visit_counters ''inbound'' reset cs fmempty of
        (byTag, cs') \<Rightarrow>
          (sort_key it_Inbound
             (map (\<lambda>(g, t). \<lparr>it_Inbound = g, it_Downlink = tr_Downlink t, it_Uplink = tr_Uplink t\<rparr>)
               (items_of byTag)),
           cs'))"

definition AllOutboundStats :: "bool \<Rightarrow> counters \<Rightarrow> OutboundTrafficStats list \<times> counters" where
  "AllOutboundStats reset cs =
     (case visit_counters ''outbound'' reset cs fmempty of
        (byTag, cs') \<Rightarrow>
          (sort_key ot_Outbound
             (map (\<lambda>(g, t). \<lparr>ot_Outbound = g, ot_Downlink = tr_Downlink t, ot_Uplink = tr_Uplink t\<rparr>)
               (items_of byTag)),
           cs'))"

section \<open>Single counters\<close>

definition set_counter :: "string \<Rightarrow> 64 word \<Rightarrow> counters \<Rightarrow> counters" where
  "set_counter name v cs = map (\<lambda>(n, x). (n, if n = name then v else x)) cs"

definition embeddedCounterValue :: "counters \<Rightarrow> string \<Rightarrow> bool \<Rightarrow> 64 word \<times> counters" where
  "embeddedCounterValue cs name reset =
     (case map_of cs name of
        None \<Rightarrow> (0, cs)
      | Some value \<Rightarrow> (value, if reset then set_counter name 0 cs else cs))"

definition InboundStats :: "string \<Rightarrow> bool \<Rightarrow> counters \<Rightarrow> InboundTrafficStats \<times> counters" where
  "InboundStats tag reset cs =
     (case embeddedCounterValue cs (StatsInboundUplinkFormat tag) reset of
        (uplink, cs) \<Rightarrow>
          (case embeddedCounterValue cs (StatsInboundDownlinkFormat tag) reset of
             (downlink, cs) \<Rightarrow>
               (\<lparr>it_Inbound = tag, it_Downlink = downlink, it_Uplink = uplink\<rparr>, cs)))"

definition OutboundStats :: "string \<Rightarrow> bool \<Rightarrow> counters \<Rightarrow> OutboundTrafficStats \<times> counters" where
  "OutboundStats tag reset cs =
     (case embeddedCounterValue cs (StatsOutboundUplinkFormat tag) reset of
        (uplink, cs) \<Rightarrow>
          (case embeddedCounterValue cs (StatsOutboundDownlinkFormat tag) reset of
             (downlink, cs) \<Rightarrow>
               (\<lparr>ot_Outbound = tag, ot_Downlink = downlink, ot_Uplink = uplink\<rparr>, cs)))"

section \<open>Online maps\<close>

text \<open>
  \<open>onlineMap.Count()\<close> and \<open>IPTimeMap()\<close>: an online map is read as its map from IPs to the
  Unix second of their last activity. \<open>get\<close> is \<open>GetOnlineMap\<close>, \<open>None\<close> for nil.
\<close>

definition onlineStatus :: "(string \<Rightarrow> ip_time_map option) \<Rightarrow> string \<Rightarrow> bool" where
  "onlineStatus get username =
     (case get (StatsUserOnlineFormat username) of
        None \<Rightarrow> False
      | Some m \<Rightarrow> 0 < size (fmdom m))"

definition onlineIPLastSeen :: "ip_time_map option \<Rightarrow> IPLastSeen list" where
  "onlineIPLastSeen onlineMap =
     (case onlineMap of
        None \<Rightarrow> []
      | Some m \<Rightarrow>
          sort_key ils_IP
            (map (\<lambda>ip. \<lparr>ils_IP = ip, ils_LastSeen = the (fmlookup m ip)\<rparr>) (range_keys (fmdom m))))"

definition onlineIPList :: "(string \<Rightarrow> ip_time_map option) \<Rightarrow> string \<Rightarrow> IPLastSeen list" where
  "onlineIPList get username = onlineIPLastSeen (get (StatsUserOnlineFormat username))"

fun online_users_loop :: "(string \<Rightarrow> ip_time_map option) \<Rightarrow> string fset \<Rightarrow> string list \<Rightarrow> UserIPList list" where
  "online_users_loop get seen [] = []"
| "online_users_loop get seen (raw # rest) =
     (case parseOnlineStatName raw of
        None \<Rightarrow> online_users_loop get seen rest
      | Some username \<Rightarrow>
          if username |\<in>| seen then online_users_loop get seen rest
          else
            let ips = onlineIPLastSeen (get raw)
            in (if length ips = 0 then [] else [\<lparr>uil_Username = username, uil_IPs = ips\<rparr>])
               @ online_users_loop get (finsert username seen) rest)"

definition onlineUsersIPList :: "(string \<Rightarrow> ip_time_map option) \<Rightarrow> string list \<Rightarrow> UserIPList list" where
  "onlineUsersIPList get rawUsers = sort_key uil_Username (online_users_loop get {||} rawUsers)"

section \<open>Lemmas: names\<close>

lemma Split_aux_sep3:
  "CHR ''>'' \<notin> set x \<Longrightarrow> Split_aux sep3 acc (x @ sep3 @ s) = (rev acc @ x) # Split_aux sep3 [] s"
proof (induction x arbitrary: acc)
  case Nil
  show ?case by (subst Split_aux.simps) (simp add: sep3_def)
next
  case (Cons c x)
  then have "Split_aux sep3 acc ((c # x) @ sep3 @ s) = Split_aux sep3 (c # acc) (x @ sep3 @ s)"
    by (subst Split_aux.simps) (simp add: sep3_def)
  with Cons show ?case by simp
qed

lemma Split_aux_sep3_last:
  "CHR ''>'' \<notin> set x \<Longrightarrow> Split_aux sep3 acc x = [rev acc @ x]"
proof (induction x arbitrary: acc)
  case Nil
  show ?case by (subst Split_aux.simps) simp
next
  case (Cons c x)
  then have "Split_aux sep3 acc (c # x) = Split_aux sep3 (c # acc) x"
    by (subst Split_aux.simps) (simp add: sep3_def)
  with Cons show ?case by simp
qed

lemma Split_stat_name:
  assumes "CHR ''>'' \<notin> set p" "CHR ''>'' \<notin> set tag" "CHR ''>'' \<notin> set d"
  shows "Split (p @ sep3 @ tag @ sep3 @ ''traffic'' @ sep3 @ d) sep3 = [p, tag, ''traffic'', d]"
proof -
  have t: "CHR ''>'' \<notin> set ''traffic''" by simp
  show ?thesis
    unfolding Split_def
    using Split_aux_sep3 [OF assms(1), of "[]" "tag @ sep3 @ ''traffic'' @ sep3 @ d"]
      Split_aux_sep3 [OF assms(2), of "[]" "''traffic'' @ sep3 @ d"]
      Split_aux_sep3 [OF t, of "[]" d] Split_aux_sep3_last [OF assms(3), of "[]"]
    by (simp only: rev.simps append_Nil)
qed

text \<open>A parsed name is the name that the format strings print.\<close>

lemma parseTrafficStatName_Some:
  assumes "parseTrafficStatName name p = Some (tag, d)"
  shows "name = p @ sep3 @ tag @ sep3 @ ''traffic'' @ sep3 @ d" "tag \<noteq> []"
    "d = ''uplink'' \<or> d = ''downlink''"
proof -
  let ?parts = "Split name sep3"
  have 4: "length ?parts = 4" and rest: "?parts ! 0 = p" "?parts ! 2 = ''traffic''"
    "?parts ! 1 = tag" "?parts ! 3 = d" "tag \<noteq> []" "d = ''uplink'' \<or> d = ''downlink''"
    using assms by (auto simp: parseTrafficStatName_def Let_def split: if_splits)
  then have "?parts = [p, tag, ''traffic'', d]"
    by (intro nth_equalityI) (auto simp: less_Suc_eq numeral_eq_Suc)
  then have "Join ?parts sep3 = p @ sep3 @ tag @ sep3 @ ''traffic'' @ sep3 @ d"
    by simp
  then show "name = p @ sep3 @ tag @ sep3 @ ''traffic'' @ sep3 @ d"
    by (simp add: Join_Split)
  show "tag \<noteq> []" "d = ''uplink'' \<or> d = ''downlink''"
    using rest by auto
qed

lemma parseTrafficStatName_format:
  assumes "CHR ''>'' \<notin> set p" "CHR ''>'' \<notin> set tag" "tag \<noteq> []"
    "d = ''uplink'' \<or> d = ''downlink''"
  shows "parseTrafficStatName (p @ sep3 @ tag @ sep3 @ ''traffic'' @ sep3 @ d) p = Some (tag, d)"
proof -
  have "CHR ''>'' \<notin> set d" using assms(4) by auto
  then show ?thesis
    using Split_stat_name [OF assms(1,2)] assms(3,4)
    by (auto simp: parseTrafficStatName_def Let_def)
qed

section \<open>Lemmas: totals\<close>

text \<open>
  The reference for the aggregation: the sum of the counters whose name parses to the
  tag and the direction.
\<close>

definition counter_total :: "string \<Rightarrow> string \<Rightarrow> string \<Rightarrow> counters \<Rightarrow> 64 word" where
  "counter_total pfx tag d cs =
     sum_list (map snd (filter (\<lambda>c. parseTrafficStatName (fst c) pfx = Some (tag, d)) cs))"

definition has_tag :: "string \<Rightarrow> string \<Rightarrow> counters \<Rightarrow> bool" where
  "has_tag pfx tag cs \<longleftrightarrow>
     list_ex (\<lambda>c. map_option fst (parseTrafficStatName (fst c) pfx) = Some tag) cs"

definition total_traffic :: "string \<Rightarrow> string \<Rightarrow> counters \<Rightarrow> traffic" where
  "total_traffic pfx tag cs =
     \<lparr>tr_Uplink = counter_total pfx tag ''uplink'' cs,
      tr_Downlink = counter_total pfx tag ''downlink'' cs\<rparr>"

definition plus_traffic :: "traffic \<Rightarrow> traffic \<Rightarrow> traffic" where
  "plus_traffic s t = \<lparr>tr_Uplink = tr_Uplink s + tr_Uplink t, tr_Downlink = tr_Downlink s + tr_Downlink t\<rparr>"

lemma counter_total_Nil [simp]: "counter_total pfx tag d [] = 0"
  by (simp add: counter_total_def)

lemma counter_total_Cons [simp]:
  "counter_total pfx tag d (c # cs) =
     (if parseTrafficStatName (fst c) pfx = Some (tag, d) then snd c else 0) + counter_total pfx tag d cs"
  by (simp add: counter_total_def)

lemma has_tag_simps [simp]:
  "has_tag pfx tag [] = False"
  "has_tag pfx tag (c # cs) \<longleftrightarrow>
     map_option fst (parseTrafficStatName (fst c) pfx) = Some tag \<or> has_tag pfx tag cs"
  by (auto simp: has_tag_def)

definition upd_item :: "string \<Rightarrow> string \<Rightarrow> 64 word \<Rightarrow> (string, traffic) fmap \<Rightarrow> (string, traffic) fmap" where
  "upd_item g d v m =
     fmupd g (applyDirection d v (case fmlookup m g of None \<Rightarrow> no_traffic | Some t \<Rightarrow> t)) m"

lemma visit_counters_Cons:
  "fst (visit_counters pfx reset ((n, v) # cs) m) =
     (case parseTrafficStatName n pfx of
        None \<Rightarrow> fst (visit_counters pfx reset cs m)
      | Some (g, d) \<Rightarrow> fst (visit_counters pfx reset cs (upd_item g d v m)))"
  "snd (visit_counters pfx reset ((n, v) # cs) m) =
     (case parseTrafficStatName n pfx of
        None \<Rightarrow> (n, v) # snd (visit_counters pfx reset cs m)
      | Some (g, d) \<Rightarrow>
          (n, if reset then 0 else v) # snd (visit_counters pfx reset cs (upd_item g d v m)))"
  by (auto simp: Let_def upd_item_def split: option.splits prod.splits)

lemma visit_counters_lookup:
  "fmlookup (fst (visit_counters pfx reset cs m)) tag =
     (if has_tag pfx tag cs \<or> fmlookup m tag \<noteq> None
      then Some (plus_traffic (case fmlookup m tag of None \<Rightarrow> no_traffic | Some t \<Rightarrow> t)
                              (total_traffic pfx tag cs))
      else None)"
proof (induction cs arbitrary: m)
  case Nil
  then show ?case
    by (cases "fmlookup m tag") (auto simp: plus_traffic_def total_traffic_def)
next
  case (Cons c cs)
  obtain n v where c: "c = (n, v)" by (cases c)
  show ?case
  proof (cases "parseTrafficStatName n pfx")
    case None
    then show ?thesis
      using Cons.IH [of m] c by (simp add: total_traffic_def visit_counters_Cons del: visit_counters.simps)
  next
    case (Some r)
    obtain g d where r: "r = (g, d)" by (cases r)
    with parseTrafficStatName_Some(3) Some have d: "d = ''uplink'' \<or> d = ''downlink''" by blast
    show ?thesis
      unfolding c visit_counters_Cons Some r option.case prod.case Cons.IH
      using Some r d
      by (auto simp: upd_item_def plus_traffic_def total_traffic_def applyDirection_def add.assoc)
  qed
qed

lemma visit_counters_reset:
  "snd (visit_counters pfx reset cs m) =
     map (\<lambda>(n, v). (n, if reset \<and> parseTrafficStatName n pfx \<noteq> None then 0 else v)) cs"
proof (induction cs arbitrary: m)
  case (Cons c cs)
  obtain n v where c: "c = (n, v)" by (cases c)
  show ?case
    unfolding c visit_counters_Cons using Cons.IH
    by (auto split: option.splits)
qed simp

lemma counter_total_perm:
  "mset cs = mset cs' \<Longrightarrow> counter_total pfx tag d cs = counter_total pfx tag d cs'"
  unfolding counter_total_def sum_mset_sum_list [symmetric] mset_map mset_filter by simp

lemma has_tag_perm: "mset cs = mset cs' \<Longrightarrow> has_tag pfx tag cs = has_tag pfx tag cs'"
  unfolding has_tag_def list_ex_iff by (metis set_mset_mset)

lemma visit_counters_perm:
  assumes "mset cs = mset cs'"
  shows "fst (visit_counters pfx r cs fmempty) = fst (visit_counters pfx r' cs' fmempty)"
  by (intro fmap_eqI)
    (simp add: visit_counters_lookup total_traffic_def counter_total_perm [OF assms] has_tag_perm [OF assms])

lemma total_traffic_reset:
  "total_traffic pfx tag (snd (visit_counters pfx True cs m)) = no_traffic"
proof -
  have "counter_total pfx tag d (snd (visit_counters pfx True cs m)) = 0" for d
    unfolding visit_counters_reset by (induction cs) auto
  then show ?thesis by (simp add: total_traffic_def no_traffic_def)
qed

lemma items_of_distinct [simp]: "distinct (map fst (items_of m))"
  by (simp add: items_of_def o_def)

lemma set_items_of: "(tag, t) \<in> set (items_of m) \<longleftrightarrow> fmlookup m tag = Some t"
  by (auto simp: items_of_def fmlookup_dom_iff)

lemma items_visit:
  "(tag, t) \<in> set (items_of (fst (visit_counters pfx r cs fmempty))) \<longleftrightarrow>
     has_tag pfx tag cs \<and> t = total_traffic pfx tag cs"
  by (auto simp: set_items_of visit_counters_lookup plus_traffic_def no_traffic_def)

lemma strict_sorted_sort_key:
  fixes f :: "'a \<Rightarrow> 'k::linorder"
  assumes "distinct (map f xs)"
  shows "sorted_wrt (<) (map f (sort_key f xs))"
proof -
  have "distinct (map f (sort_key f xs))"
    using assms by (metis distinct_map distinct_sort set_sort)
  then show ?thesis
    by (simp add: strict_sorted_iff)
qed

lemma counter_total_has_tag:
  "counter_total pfx tag d cs \<noteq> 0 \<Longrightarrow> has_tag pfx tag cs"
  by (induction cs) (auto split: if_splits)

lemma parse_format_iff:
  assumes "CHR ''>'' \<notin> set p" "CHR ''>'' \<notin> set tag" "tag \<noteq> []"
    "d = ''uplink'' \<or> d = ''downlink''"
  shows "parseTrafficStatName name p = Some (tag, d) \<longleftrightarrow>
     name = p @ sep3 @ tag @ sep3 @ ''traffic'' @ sep3 @ d"
  using parseTrafficStatName_Some(1) parseTrafficStatName_format [OF assms] by blast

lemma counter_total_named:
  assumes "\<And>name. parseTrafficStatName name p = Some (tag, d) \<longleftrightarrow> name = key" "distinct (map fst cs)"
  shows "counter_total p tag d cs = (case map_of cs key of None \<Rightarrow> 0 | Some v \<Rightarrow> v)"
  using assms(2)
proof (induction cs)
  case (Cons c cs)
  have "map_of cs (fst c) = None"
    using Cons.prems by (simp add: map_of_eq_None_iff)
  then show ?case
    using Cons by (auto simp: assms(1) split: if_splits)
qed simp

lemma map_of_set_counter [simp]:
  "n \<noteq> name \<Longrightarrow> map_of (set_counter name v cs) n = map_of cs n"
  by (induction cs) (auto simp: set_counter_def)

lemma embeddedCounterValue_fst:
  "fst (embeddedCounterValue cs name r) = (case map_of cs name of None \<Rightarrow> 0 | Some v \<Rightarrow> v)"
  by (simp add: embeddedCounterValue_def split: option.splits)

lemma embeddedCounterValue_other [simp]:
  "n \<noteq> name \<Longrightarrow> map_of (snd (embeddedCounterValue cs name r)) n = map_of cs n"
  by (simp add: embeddedCounterValue_def split: option.splits)

lemma InboundStats_fst:
  "fst (InboundStats tag r cs) =
     \<lparr>it_Inbound = tag,
      it_Downlink = fst (embeddedCounterValue cs (StatsInboundDownlinkFormat tag) r),
      it_Uplink = fst (embeddedCounterValue cs (StatsInboundUplinkFormat tag) r)\<rparr>"
proof -
  have ne: "StatsInboundDownlinkFormat tag \<noteq> StatsInboundUplinkFormat tag"
    by (simp add: stats_formats)
  show ?thesis
    by (simp add: InboundStats_def embeddedCounterValue_fst
        embeddedCounterValue_other [OF ne] split: prod.split)
      (metis embeddedCounterValue_fst embeddedCounterValue_other [OF ne] fst_conv snd_conv)
qed

lemma UsersStats_eq:
  "fst (UsersStats reset cs) =
     sort_key ut_Username
       (map (\<lambda>(u, t). \<lparr>ut_Username = u, ut_Downlink = tr_Downlink t, ut_Uplink = tr_Uplink t\<rparr>)
         (filter (\<lambda>(u, t). \<not> (tr_Uplink t = 0 \<and> tr_Downlink t = 0))
           (items_of (fst (visit_counters ''user'' reset cs fmempty)))))"
  by (simp add: UsersStats_def split: prod.split)

lemma UsersStats_set:
  "x \<in> set (fst (UsersStats reset cs)) \<longleftrightarrow>
      x = \<lparr>ut_Username = ut_Username x,
           ut_Downlink = counter_total ''user'' (ut_Username x) ''downlink'' cs,
           ut_Uplink = counter_total ''user'' (ut_Username x) ''uplink'' cs\<rparr> \<and>
      \<not> (ut_Uplink x = 0 \<and> ut_Downlink x = 0)"
  unfolding UsersStats_eq set_sort set_map set_filter
  using counter_total_has_tag [of "''user''" "ut_Username x" _ cs]
  by (cases x) (auto simp: items_visit total_traffic_def image_iff)

lemma UsersStats_sorted: "sorted_wrt (<) (map ut_Username (fst (UsersStats reset cs)))"
proof -
  let ?F = "filter (\<lambda>(u, t). \<not> (tr_Uplink t = 0 \<and> tr_Downlink t = 0))
     (items_of (fst (visit_counters ''user'' reset cs fmempty)))"
  have "distinct (map fst ?F)"
    by (rule distinct_map_filter) simp
  then show ?thesis
    unfolding UsersStats_eq by (intro strict_sorted_sort_key) (simp add: case_prod_beta o_def)
qed

section \<open>Properties\<close>

lemma UsersStats_snd: "snd (UsersStats b cs) = snd (visit_counters ''user'' b cs fmempty)"
  by (simp add: UsersStats_def split: prod.split)

text \<open>After a resetting read, no user has traffic.\<close>

lemma UsersStats_after_reset: "fst (UsersStats r (snd (UsersStats True cs))) = []"
proof -
  have zero: "counter_total ''user'' u d (snd (UsersStats True cs)) = 0"
    if "d = ''uplink'' \<or> d = ''downlink''" for u d
    using total_traffic_reset [of "''user''" u cs fmempty] that
    by (auto simp: UsersStats_snd total_traffic_def no_traffic_def)
  have "x \<notin> set (fst (UsersStats r (snd (UsersStats True cs))))" for x
    unfolding UsersStats_set by (cases x) (auto simp: zero)
  then have "set (fst (UsersStats r (snd (UsersStats True cs)))) = {}" by (simp only: set_eq_iff empty_iff) simp
  then show ?thesis by simp
qed

text \<open>
  C13. \<open>UsersStats\<close> reports exactly the users whose uplink or downlink counters do not add
  up to zero, once each, in increasing order of their names, with the sums (modulo
  2 to the 64) of all their counters.
\<close>

theorem UsersStats_reports_totals:
  "sorted_wrt (<) (map ut_Username (fst (UsersStats reset cs))) \<and>
   set (fst (UsersStats reset cs)) =
     {x. x = \<lparr>ut_Username = ut_Username x,
              ut_Downlink = counter_total ''user'' (ut_Username x) ''downlink'' cs,
              ut_Uplink = counter_total ''user'' (ut_Username x) ''uplink'' cs\<rparr> \<and>
         \<not> (ut_Uplink x = 0 \<and> ut_Downlink x = 0)}"
  using UsersStats_sorted [of reset cs] UsersStats_set [of _ reset cs] by blast

text \<open>
  C28. A resetting read takes what it reports: it zeroes every counter of a user and leaves
  every other counter alone, so that the next read reports no user at all.
\<close>

theorem UsersStats_reset:
  "snd (UsersStats True cs) =
     map (\<lambda>(n, v). (n, if parseTrafficStatName n ''user'' \<noteq> None then 0 else v)) cs \<and>
   snd (UsersStats False cs) = cs \<and>
   fst (UsersStats r (snd (UsersStats True cs))) = []"
  unfolding UsersStats_after_reset by (simp add: UsersStats_snd visit_counters_reset case_prod_beta)

text \<open>
  The two ways of reading one inbound agree: for a non-empty tag without \<open>>\<close> that has
  a counter, \<open>InboundStats\<close> reports the entry of \<open>AllInboundStats\<close>, whatever the order in which the
  counters are visited.
\<close>

theorem InboundStats_in_AllInboundStats:
  assumes "distinct (map fst cs)" "mset cs' = mset cs"
    "tag \<noteq> []" "CHR ''>'' \<notin> set tag" "has_tag ''inbound'' tag cs"
  shows "fst (InboundStats tag r cs) \<in> set (fst (AllInboundStats r' cs'))"
proof -
  have p: "CHR ''>'' \<notin> set ''inbound''" by simp
  have up: "fst (embeddedCounterValue cs (StatsInboundUplinkFormat tag) r) = counter_total ''inbound'' tag ''uplink'' cs"
    using counter_total_named [OF parse_format_iff [OF p assms(4,3), of "''uplink''"] assms(1)]
    by (simp add: embeddedCounterValue_fst stats_formats sep3_def)
  have dn: "fst (embeddedCounterValue cs (StatsInboundDownlinkFormat tag) r) = counter_total ''inbound'' tag ''downlink'' cs"
    using counter_total_named [OF parse_format_iff [OF p assms(4,3), of "''downlink''"] assms(1)]
    by (simp add: embeddedCounterValue_fst stats_formats sep3_def)
  have "(tag, total_traffic ''inbound'' tag cs') \<in> set (items_of (fst (visit_counters ''inbound'' r' cs' fmempty)))"
    using assms(5) has_tag_perm [OF assms(2)] by (simp add: items_visit)
  then have "(\<lambda>(g, t). \<lparr>it_Inbound = g, it_Downlink = tr_Downlink t, it_Uplink = tr_Uplink t\<rparr>)
      (tag, total_traffic ''inbound'' tag cs') \<in> set (fst (AllInboundStats r' cs'))"
    unfolding AllInboundStats_def by (auto simp: split_beta intro!: rev_image_eqI)
  then show ?thesis
    by (simp add: InboundStats_fst up dn total_traffic_def counter_total_perm [OF assms(2)])
qed

definition example_counters :: counters where
  "example_counters =
     [(''inbound>>>a>>>traffic>>>uplink'', 5), (''user>>>bob>>>traffic>>>downlink'', 7),
      (''inbound>>>a>>>traffic>>>downlink'', 9)]"

theorem InboundStats_in_AllInboundStats_witness:
  "fst (InboundStats ''a'' True example_counters) \<in> set (fst (AllInboundStats False example_counters))"
  by (rule InboundStats_in_AllInboundStats) (code_simp, simp, simp, simp, code_simp)



end
