(* ===== verification/Contracts.thy ===== *)
theory Contracts
  imports Prelude
begin

text \<open>
  The request and response types of the Panel-facing API (\<open>internal/contracts\<close>), and the
  JSON values (\<open>any\<close> and \<open>map[string]any\<close>) that encoding/json produces. Struct fields
  keep their names behind a prefix for their struct. \<open>int\<close>, \<open>int64\<close> and \<open>uint64\<close>
  are 64-bit words, \<open>uint32\<close> is a 32-bit word, a \<open>float64\<close> is its 64-bit pattern, a
  pointer is an option.
\<close>

type_synonym goint = "64 word"
type_synonym float64 = "64 word"

section \<open>JSON values\<close>

text \<open>
  \<open>JFloat\<close> is a number decoded by encoding/json, \<open>JInt\<close> a Go \<open>int\<close> stored by the
  program. A Go map that may be nil is an option of a finite map.
\<close>

datatype json =
    JNull
  | JBool bool
  | JFloat float64
  | JInt int
  | JStr string
  | JArr "json list"
  | JObj "(string, json) fmap"

type_synonym json_obj = "(string, json) fmap"
type_synonym json_map = "(string, json) fmap option"

text \<open>The checked type assertions \<open>v.(map[string]any)\<close>, \<open>v.([]any)\<close>, \<open>v.(string)\<close>, \<open>v.(bool)\<close> on a map entry.\<close>

definition as_map :: "json option \<Rightarrow> json_obj option" where
  "as_map v = (case v of Some (JObj m) \<Rightarrow> Some m | _ \<Rightarrow> None)"

definition as_array :: "json option \<Rightarrow> json list option" where
  "as_array v = (case v of Some (JArr xs) \<Rightarrow> Some xs | _ \<Rightarrow> None)"

definition as_string :: "json option \<Rightarrow> string option" where
  "as_string v = (case v of Some (JStr s) \<Rightarrow> Some s | _ \<Rightarrow> None)"

definition as_bool :: "json option \<Rightarrow> bool option" where
  "as_bool v = (case v of Some (JBool b) \<Rightarrow> Some b | _ \<Rightarrow> None)"

lemma as_map_simps [simp]:
  "as_map None = None" "as_map (Some (JObj m)) = Some m"
  "as_map (Some (JStr s)) = None" "as_map (Some (JArr xs)) = None"
  "as_map (Some JNull) = None" "as_map (Some (JBool b)) = None"
  "as_map (Some (JInt i)) = None" "as_map (Some (JFloat d)) = None"
  by (simp_all add: as_map_def)

lemma as_array_simps [simp]:
  "as_array None = None" "as_array (Some (JArr xs)) = Some xs"
  "as_array (Some (JObj m)) = None" "as_array (Some (JStr s)) = None"
  "as_array (Some JNull) = None" "as_array (Some (JBool b)) = None"
  "as_array (Some (JInt i)) = None" "as_array (Some (JFloat d)) = None"
  by (simp_all add: as_array_def)

lemma as_string_simps [simp]:
  "as_string None = None" "as_string (Some (JStr s)) = Some s"
  "as_string (Some (JObj m)) = None" "as_string (Some (JArr xs)) = None"
  "as_string (Some JNull) = None" "as_string (Some (JBool b)) = None"
  "as_string (Some (JInt i)) = None" "as_string (Some (JFloat d)) = None"
  by (simp_all add: as_string_def)

lemma as_bool_simps [simp]:
  "as_bool None = None" "as_bool (Some (JBool b)) = Some b"
  by (simp_all add: as_bool_def)

lemma as_map_Some: "as_map v = Some m \<longleftrightarrow> v = Some (JObj m)"
  by (auto simp: as_map_def split: option.splits json.splits)

lemma as_array_Some: "as_array v = Some xs \<longleftrightarrow> v = Some (JArr xs)"
  by (auto simp: as_array_def split: option.splits json.splits)

section \<open>Error codes and generic responses (errors.go)\<close>

definition ErrFailedToGetSystemStats :: string where "ErrFailedToGetSystemStats = ''A010''"
definition ErrFailedToGetUsersStats :: string where "ErrFailedToGetUsersStats = ''A011''"
definition ErrFailedToGetInboundStats :: string where "ErrFailedToGetInboundStats = ''A012''"
definition ErrFailedToGetOutboundStats :: string where "ErrFailedToGetOutboundStats = ''A013''"
definition ErrFailedToGetInboundUsers :: string where "ErrFailedToGetInboundUsers = ''A014''"
definition ErrFailedToGetInboundsStats :: string where "ErrFailedToGetInboundsStats = ''A015''"
definition ErrFailedToGetOutboundsStats :: string where "ErrFailedToGetOutboundsStats = ''A016''"
definition ErrFailedToGetCombinedStats :: string where "ErrFailedToGetCombinedStats = ''A017''"
definition ErrFailedToGetGeocheck :: string where "ErrFailedToGetGeocheck = ''A018''"

record GenericResponse =
  gr_Success :: bool
  gr_Error :: "string option"

record SimpleSuccessResponse =
  ssr_Success :: bool

definition SuccessResponse :: GenericResponse where
  "SuccessResponse = \<lparr>gr_Success = True, gr_Error = None\<rparr>"

definition SimpleSuccess :: SimpleSuccessResponse where
  "SimpleSuccess = \<lparr>ssr_Success = True\<rparr>"

definition ErrorResponse :: "string \<Rightarrow> GenericResponse" where
  "ErrorResponse message = \<lparr>gr_Success = False, gr_Error = Some message\<rparr>"

section \<open>User management requests (handler.go)\<close>

record UserInboundData =
  uid_Type :: string
  uid_Tag :: string
  uid_Username :: string
  uid_Password :: string
  uid_UUID :: string
  uid_Flow :: string
  uid_CipherType :: goint
  uid_IVCheck :: bool

record UserHashData =
  uhd_VlessUUID :: string
  uhd_PrevVlessUUID :: "string option"

record AddUserRequest =
  aur_Data :: "UserInboundData list"
  aur_HashData :: UserHashData

record BulkUserInboundData =
  bid_Type :: string
  bid_Tag :: string
  bid_Flow :: string

record BulkUserData =
  bud_UserID :: string
  bud_HashUUID :: string
  bud_VlessUUID :: string
  bud_TrojanPassword :: string
  bud_SSPassword :: string

record BulkUserRequest =
  bur_InboundData :: "BulkUserInboundData list"
  bur_UserData :: BulkUserData

record AddUsersRequest =
  ausr_AffectedInboundTags :: "string list"
  ausr_Users :: "BulkUserRequest list"

record RemoveUserRequest =
  rur_Username :: string
  rur_HashData :: UserHashData

record RemoveUsersItem =
  rui_UserID :: string
  rui_HashUUID :: string

record RemoveUsersRequest =
  rusr_Users :: "RemoveUsersItem list"

record DropUsersConnectionsRequest =
  ducr_UserIDs :: "string list"

record DropIPsRequest =
  dir_IPs :: "string list"

section \<open>Plugin requests (plugin.go)\<close>

record PluginDescriptor =
  pd_Config :: json_map
  pd_UUID :: string
  pd_Name :: string

record PluginSyncRequest =
  psr_Plugin :: "PluginDescriptor option"

record AcceptedResponse =
  ar_Accepted :: bool

record TorrentBlockerActionReport =
  tba_Blocked :: bool
  tba_IP :: string
  tba_BlockDuration :: goint
  tba_WillUnblockAt :: string
  tba_UserID :: string
  tba_ProcessedAt :: string

record XrayWebhookReport =
  xwr_Email :: "string option"
  xwr_Level :: "goint option"
  xwr_Protocol :: "string option"
  xwr_Network :: string
  xwr_Source :: "string option"
  xwr_Destination :: string
  xwr_RouteTarget :: "string option"
  xwr_OriginalTarget :: "string option"
  xwr_InboundTag :: "string option"
  xwr_InboundName :: "string option"
  xwr_InboundLocal :: "string option"
  xwr_OutboundTag :: "string option"
  xwr_Timestamp :: "64 word"

record TorrentBlockerReport =
  tbr_ActionReport :: TorrentBlockerActionReport
  tbr_XrayReport :: XrayWebhookReport

record TorrentBlockerReportsResponse =
  tbrr_Reports :: "TorrentBlockerReport list"

section \<open>Stats (stats.go)\<close>

record NodeSystemInfo =
  nsi_Arch :: string
  nsi_CPUs :: goint
  nsi_CPUModel :: string
  nsi_MemoryTotal :: "64 word"
  nsi_Hostname :: string
  nsi_Platform :: string
  nsi_Release :: string
  nsi_Type :: string
  nsi_Version :: string
  nsi_NetworkInterfaces :: "string list"

record NetworkInterface =
  ni_Interface :: string
  ni_RxBytesPerSec :: "64 word"
  ni_TxBytesPerSec :: "64 word"
  ni_RxTotal :: "64 word"
  ni_TxTotal :: "64 word"

record NodeSystemStats =
  nss_MemoryFree :: "64 word"
  nss_MemoryUsed :: "64 word"
  nss_Uptime :: "64 word"
  nss_LoadAvg :: "float64 list"
  nss_Interface :: "NetworkInterface option"

record SystemStatsPayload =
  sp_Info :: NodeSystemInfo
  sp_Stats :: NodeSystemStats

record XraySysStats =
  xss_NumGoroutine :: "32 word"
  xss_NumGC :: "32 word"
  xss_Alloc :: "64 word"
  xss_TotalAlloc :: "64 word"
  xss_Sys :: "64 word"
  xss_Mallocs :: "64 word"
  xss_Frees :: "64 word"
  xss_LiveObjects :: "64 word"
  xss_PauseTotalNs :: "64 word"
  xss_Uptime :: "32 word"

record TorrentBlockerPluginStats =
  tbp_ReportsCount :: goint

record PluginStats =
  ps_TorrentBlocker :: TorrentBlockerPluginStats

record SystemStats =
  ss_Stats :: NodeSystemStats

record SystemStatsResponse =
  ssr_XrayInfo :: "XraySysStats option"
  ssr_Plugins :: PluginStats
  ssr_System :: SystemStats

record ResetRequest =
  rr_Reset :: bool

record TaggedStatsRequest =
  tsr_Tag :: string
  tsr_Reset :: bool

record UserOnlineStatusRequest =
  uosr_Username :: string

record UserIPListRequest =
  uilr_UserID :: string

record GetGeocheckRequest =
  ggr_IP :: string
  ggr_Interface :: string

record CUserTrafficStats =
  cut_Username :: string
  cut_Downlink :: "64 word"
  cut_Uplink :: "64 word"

record UsersStatsResponse =
  usr_Users :: "CUserTrafficStats list"

record UserOnlineStatusResponse =
  uosr_IsOnline :: bool

record CIPLastSeen =
  cil_IP :: string
  cil_LastSeen :: string

record UserIPListResponse =
  uilr_IPs :: "CIPLastSeen list"

record CUserIPList =
  cui_UserID :: string
  cui_IPs :: "CIPLastSeen list"

record UsersIPListResponse =
  usil_Users :: "CUserIPList list"

record InboundTrafficStatsResponse =
  its_Inbound :: string
  its_Downlink :: "64 word"
  its_Uplink :: "64 word"

record OutboundTrafficStatsResponse =
  ots_Outbound :: string
  ots_Downlink :: "64 word"
  ots_Uplink :: "64 word"

record AllInboundsStatsResponse =
  ais_Inbounds :: "InboundTrafficStatsResponse list"

record AllOutboundsStatsResponse =
  aos_Outbounds :: "OutboundTrafficStatsResponse list"

record CombinedStatsResponse =
  cs_Inbounds :: "InboundTrafficStatsResponse list"
  cs_Outbounds :: "OutboundTrafficStatsResponse list"

section \<open>Xray lifecycle (xray.go)\<close>

record NodeMetadata =
  nm_Name :: string
  nm_UUID :: string
  nm_ID :: goint
  nm_Tags :: "string list"
  nm_CountryCode :: string

record CInboundHash =
  cih_UsersCount :: goint
  cih_Hash :: string
  cih_Tag :: string

record CHashes =
  ch_EmptyConfig :: string
  ch_Inbounds :: "CInboundHash list"

record StartInternals =
  si_Metadata :: "NodeMetadata option"
  si_Integrations :: json_map
  si_ForceRestart :: bool
  si_Hashes :: CHashes

record StartXrayRequest =
  sxr_Internals :: StartInternals
  sxr_XrayConfig :: json_map

record NodeInformation =
  nin_Version :: "string option"

record StartXrayResponse =
  sres_IsStarted :: bool
  sres_Version :: "string option"
  sres_Error :: "string option"
  sres_NodeInformation :: NodeInformation
  sres_System :: SystemStatsPayload

record StopXrayResponse =
  stop_IsStopped :: bool

record HealthcheckResponse =
  hr_IsAlive :: bool
  hr_XrayInternalStatusCached :: bool
  hr_XrayVersion :: "string option"
  hr_NodeVersion :: string

end
