(* ===== verification/XrayUsers.thy ===== *)
theory XrayUsers
  imports GoStrings Contracts
begin

text \<open>
  User accounts for the embedded Xray (\<open>internal/xray/handler.go\<close>, \<open>users.go\<close>) and
  the specification the bulk handler builds (\<open>bulkUserSpec\<close> in
  \<open>internal/controller/handler_controller.go\<close>), with the base64 encoding it applies to
  Shadowsocks 2022 keys.
\<close>

section \<open>Base64 (encoding/base64, StdEncoding)\<close>

definition b64_char :: "nat \<Rightarrow> char" where
  "b64_char n =
     (if n < 26 then char_of (65 + n)
      else if n < 52 then char_of (71 + n)
      else if n < 62 then char_of (n - 4)
      else if n = 62 then CHR ''+'' else CHR ''/'')"

fun EncodeToString :: "string \<Rightarrow> string" where
  "EncodeToString [] = []"
| "EncodeToString [a] =
     (let x = byte a in [b64_char (x div 4), b64_char ((x mod 4) * 16), CHR ''='', CHR ''='']) "
| "EncodeToString [a, b] =
     (let x = byte a; y = byte b
      in [b64_char (x div 4), b64_char ((x mod 4) * 16 + y div 16), b64_char ((y mod 16) * 4), CHR ''=''])"
| "EncodeToString (a # b # c # rest) =
     (let x = byte a; y = byte b; z = byte c
      in [b64_char (x div 4), b64_char ((x mod 4) * 16 + y div 16),
          b64_char ((y mod 16) * 4 + z div 64), b64_char (z mod 64)] @ EncodeToString rest)"

definition b64_val :: "char \<Rightarrow> nat option" where
  "b64_val c =
     (let n = byte c in
      if 65 \<le> n \<and> n \<le> 90 then Some (n - 65)
      else if 97 \<le> n \<and> n \<le> 122 then Some (n - 71)
      else if 48 \<le> n \<and> n \<le> 57 then Some (n + 4)
      else if n = 43 then Some 62
      else if n = 47 then Some 63
      else None)"

text \<open>
  \<open>DecodeString\<close> skips carriage returns and line feeds, wants complete groups with
  padding, and ignores the unused low bits of the last symbol (it is not strict).
\<close>

fun decode_groups :: "string \<Rightarrow> string option" where
  "decode_groups [] = Some []"
| "decode_groups (a # b # c # d # rest) =
     (case (b64_val a, b64_val b) of
        (Some w, Some x) \<Rightarrow>
          if c = CHR ''='' then
            (if d = CHR ''='' \<and> rest = [] then Some [char_of (w * 4 + x div 16)] else None)
          else (case b64_val c of
             None \<Rightarrow> None
           | Some y \<Rightarrow>
               if d = CHR ''='' then
                 (if rest = [] then Some [char_of (w * 4 + x div 16), char_of ((x mod 16) * 16 + y div 4)]
                  else None)
               else (case b64_val d of
                  None \<Rightarrow> None
                | Some z \<Rightarrow>
                    map_option (\<lambda>s. char_of (w * 4 + x div 16) # char_of ((x mod 16) * 16 + y div 4)
                                  # char_of ((y mod 4) * 64 + z) # s) (decode_groups rest)))
      | _ \<Rightarrow> None)"
| "decode_groups _ = None"

definition DecodeString :: "string \<Rightarrow> string option" where
  "DecodeString s = decode_groups (filter (\<lambda>c. c \<noteq> CHR 0x0A \<and> c \<noteq> CHR 0x0D) s)"

section \<open>Accounts (users.go)\<close>

definition ProtocolVLESS :: string where "ProtocolVLESS = ''vless''"
definition ProtocolTrojan :: string where "ProtocolTrojan = ''trojan''"
definition ProtocolShadowsocks :: string where "ProtocolShadowsocks = ''shadowsocks''"
definition ProtocolShadowsocks22 :: string where "ProtocolShadowsocks22 = ''shadowsocks22''"
definition ProtocolHysteria :: string where "ProtocolHysteria = ''hysteria''"

lemmas protocol_defs =
  ProtocolVLESS_def ProtocolTrojan_def ProtocolShadowsocks_def ProtocolShadowsocks22_def
  ProtocolHysteria_def

record UserSpec =
  us_Protocol :: string
  us_Tag :: string
  us_Username :: string
  us_Password :: string
  us_UUID :: string
  us_Flow :: string
  us_CipherType :: goint
  us_Key :: string

text \<open>The account messages of xray-core that the program fills in.\<close>

datatype Account =
    VlessAccount string string \<comment> \<open>Id, Flow\<close>
  | TrojanAccount string
  | ShadowsocksAccount string "32 word" bool \<comment> \<open>Password, CipherType, IvCheck\<close>
  | Shadowsocks2022Account string
  | HysteriaAccount string

record ProtocolUser =
  pu_Level :: "32 word"
  pu_Email :: string
  pu_Account :: Account

fun firstNonEmpty :: "string list \<Rightarrow> string" where
  "firstNonEmpty [] = []"
| "firstNonEmpty (v # vs) = (if v \<noteq> [] then v else firstNonEmpty vs)"

definition account_of :: "UserSpec \<Rightarrow> Account option" where
  "account_of spec =
     (if us_Protocol spec = ProtocolVLESS then Some (VlessAccount (us_UUID spec) (us_Flow spec))
      else if us_Protocol spec = ProtocolTrojan then Some (TrojanAccount (us_Password spec))
      else if us_Protocol spec = ProtocolShadowsocks then
        Some (ShadowsocksAccount (us_Password spec) (ucast (us_CipherType spec)) False)
      else if us_Protocol spec = ProtocolShadowsocks22 then
        Some (Shadowsocks2022Account (firstNonEmpty [us_Key spec, us_Password spec]))
      else if us_Protocol spec = ProtocolHysteria then
        Some (HysteriaAccount (firstNonEmpty [us_Password spec, us_UUID spec]))
      else None)"

text \<open>
  Every account is a protobuf message, so the second type assertion of the code always
  succeeds.
\<close>

definition BuildProtocolUser :: "UserSpec \<Rightarrow> gerror + ProtocolUser" where
  "BuildProtocolUser spec =
     (if us_Username spec = [] then Inl (NewError ''xray user username is empty'')
      else case account_of spec of
        None \<Rightarrow> Inl (NewError (''unsupported xray user protocol '' @ Quote (us_Protocol spec)))
      | Some account \<Rightarrow>
          Inr \<lparr>pu_Level = 0, pu_Email = us_Username spec, pu_Account = account\<rparr>)"

section \<open>Specifications of the handlers (handler_controller.go)\<close>

definition add_user_spec :: "UserInboundData \<Rightarrow> UserSpec" where
  "add_user_spec item =
     \<lparr>us_Protocol = uid_Type item, us_Tag = uid_Tag item, us_Username = uid_Username item,
      us_Password = uid_Password item, us_UUID = uid_UUID item, us_Flow = uid_Flow item,
      us_CipherType = uid_CipherType item, us_Key = []\<rparr>"

definition bulkUserSpec :: "BulkUserInboundData \<Rightarrow> BulkUserData \<Rightarrow> UserSpec" where
  "bulkUserSpec item user =
     (let spec = \<lparr>us_Protocol = bid_Type item, us_Tag = bid_Tag item,
                  us_Username = bud_UserID user, us_Password = [], us_UUID = [],
                  us_Flow = bid_Flow item, us_CipherType = 0, us_Key = []\<rparr>
      in if bid_Type item = ProtocolTrojan then spec\<lparr>us_Password := bud_TrojanPassword user\<rparr>
         else if bid_Type item = ProtocolVLESS then spec\<lparr>us_UUID := bud_VlessUUID user\<rparr>
         else if bid_Type item = ProtocolShadowsocks then
           spec\<lparr>us_Password := bud_SSPassword user, us_CipherType := 0\<rparr>
         else if bid_Type item = ProtocolShadowsocks22 then
           spec\<lparr>us_Key := EncodeToString (bud_SSPassword user)\<rparr>
         else if bid_Type item = ProtocolHysteria then spec\<lparr>us_Password := bud_VlessUUID user\<rparr>
         else spec)"

section \<open>Lemmas\<close>

lemma char_less_256 [simp]: "byte c < 256"
  by simp

lemma b64_val_char: "n < 64 \<Longrightarrow> b64_val (b64_char n) = Some n"
  by (auto simp: b64_val_def b64_char_def Let_def)

lemma b64_char_neq: "n < 64 \<Longrightarrow>
  b64_char n \<noteq> CHR ''='' \<and> b64_char n \<noteq> CHR 0x0A \<and> b64_char n \<noteq> CHR 0x0D"
  using b64_val_char [of n] by (auto simp: b64_val_def)

lemma b64_group_bounds:
  assumes "x < (256::nat)" "y < (256::nat)" "z < (256::nat)"
  shows "x div 4 < 64" "(x mod 4) * 16 + y div 16 < 64" "(y mod 16) * 4 + z div 64 < 64"
    "z mod 64 < 64" "(x mod 4) * 16 < 64" "(y mod 16) * 4 < 64"
  using assms by simp_all

lemma b64_regroup:
  assumes "x < (256::nat)" "y < (256::nat)" "z < (256::nat)"
  shows "(x div 4) * 4 + ((x mod 4) * 16 + y div 16) div 16 = x"
    "(((x mod 4) * 16 + y div 16) mod 16) * 16 + ((y mod 16) * 4 + z div 64) div 4 = y"
    "(((y mod 16) * 4 + z div 64) mod 4) * 64 + z mod 64 = z"
proof -
  have y: "y div 16 < 16" and z: "z div 64 < 4" using assms by simp_all
  show "(x div 4) * 4 + ((x mod 4) * 16 + y div 16) div 16 = x"
    using y by simp
  have "((x mod 4) * 16 + y div 16) mod 16 = y div 16" using y by simp
  moreover have "((y mod 16) * 4 + z div 64) div 4 = y mod 16" using z by simp
  ultimately show "(((x mod 4) * 16 + y div 16) mod 16) * 16 + ((y mod 16) * 4 + z div 64) div 4 = y"
    by simp
  have "((y mod 16) * 4 + z div 64) mod 4 = z div 64" using z by simp
  then show "(((y mod 16) * 4 + z div 64) mod 4) * 64 + z mod 64 = z"
    by simp
qed

lemma decode_groups_Encode: "decode_groups (EncodeToString s) = Some s"
proof (induction s rule: EncodeToString.induct)
  case (2 a)
  then show ?case
    using b64_group_bounds [of "byte a" 0 0] b64_regroup(1) [of "byte a" 0 0]
    by (simp add: Let_def b64_val_char)
next
  case (3 a b)
  then show ?case
    using b64_group_bounds [of "byte a" "byte b" 0] b64_regroup [of "byte a" "byte b" 0]
      b64_char_neq [of "(byte b mod 16) * 4"]
    by (simp add: Let_def b64_val_char)
next
  case (4 a b c rest)
  let ?x = "byte a" and ?y = "byte b" and ?z = "byte c"
  note bounds = b64_group_bounds [of ?x ?y ?z, OF char_less_256 char_less_256 char_less_256]
  note regroup = b64_regroup [of ?x ?y ?z, OF char_less_256 char_less_256 char_less_256]
  show ?case
    using 4 bounds b64_char_neq [OF bounds(3)] b64_char_neq [OF bounds(4)]
    by (simp only: EncodeToString.simps Let_def append.simps decode_groups.simps
        b64_val_char prod.case option.case if_False simp_thms option.map regroup char_of_char)
qed simp

lemma b64_char_clean: "b64_char n \<noteq> CHR 0x0A \<and> b64_char n \<noteq> CHR 0x0D"
proof (cases "n < 64")
  case False
  then show ?thesis by (simp add: b64_char_def)
qed (simp add: b64_char_neq)

lemma EncodeToString_clean:
  "c \<in> set (EncodeToString s) \<Longrightarrow> c \<noteq> CHR 0x0A \<and> c \<noteq> CHR 0x0D"
  using b64_char_clean
  by (induction s rule: EncodeToString.induct) (fastforce simp: Let_def)+

text \<open>Decoding undoes encoding.\<close>

lemma DecodeString_Encode: "DecodeString (EncodeToString s) = Some s"
proof -
  have "filter (\<lambda>c. c \<noteq> CHR 0x0A \<and> c \<noteq> CHR 0x0D) (EncodeToString s) = EncodeToString s"
    by (rule filter_True) (use EncodeToString_clean in blast)
  then show ?thesis
    by (simp add: DecodeString_def decode_groups_Encode)
qed

lemma bulkUserSpec_simps [simp]:
  "us_Protocol (bulkUserSpec item user) = bid_Type item"
  "us_Tag (bulkUserSpec item user) = bid_Tag item"
  "us_Username (bulkUserSpec item user) = bud_UserID user"
  "us_Flow (bulkUserSpec item user) = bid_Flow item"
  by (simp_all add: bulkUserSpec_def Let_def)

lemma add_user_spec_simps [simp]:
  "us_Protocol (add_user_spec item) = uid_Type item"
  "us_Tag (add_user_spec item) = uid_Tag item"
  "us_Username (add_user_spec item) = uid_Username item"
  by (simp_all add: add_user_spec_def)

text \<open>
  A bulk-added shadowsocks user always gets the cipher 0 (\<open>UNKNOWN\<close> in xray-core), while a
  singly added one gets the request's.
\<close>

lemma bulk_shadowsocks_cipher:
  "bid_Type item = ProtocolShadowsocks \<Longrightarrow> bud_UserID user \<noteq> [] \<Longrightarrow>
   map_sum id pu_Account (BuildProtocolUser (bulkUserSpec item user)) =
     Inr (ShadowsocksAccount (bud_SSPassword user) 0 False)"
  by (simp add: BuildProtocolUser_def account_of_def bulkUserSpec_def Let_def protocol_defs)

section \<open>Properties\<close>

text \<open>
  What a bulk-added user is known to Xray as: an unnamed user and an unknown protocol are
  errors; otherwise the user has level 0, the user id as email, and the credential of its
  protocol, the shadowsocks-2022 key being an encoding from which the panel's password
  decodes.
\<close>

theorem bulk_user_account:
  "(isOk (BuildProtocolUser (bulkUserSpec item user)) \<longleftrightarrow>
      bud_UserID user \<noteq> [] \<and>
      bid_Type item \<in> {ProtocolVLESS, ProtocolTrojan, ProtocolShadowsocks, ProtocolShadowsocks22, ProtocolHysteria}) \<and>
   (case BuildProtocolUser (bulkUserSpec item user) of
     Inl err \<Rightarrow> True
   | Inr u \<Rightarrow>
       pu_Level u = 0 \<and> pu_Email u = bud_UserID user \<and>
       (case pu_Account u of
          VlessAccount uuid flow \<Rightarrow>
            bid_Type item = ProtocolVLESS \<and> uuid = bud_VlessUUID user \<and> flow = bid_Flow item
        | TrojanAccount password \<Rightarrow> bid_Type item = ProtocolTrojan \<and> password = bud_TrojanPassword user
        | ShadowsocksAccount password c iv \<Rightarrow>
            bid_Type item = ProtocolShadowsocks \<and> password = bud_SSPassword user
        | Shadowsocks2022Account key \<Rightarrow>
            bid_Type item = ProtocolShadowsocks22 \<and> DecodeString key = Some (bud_SSPassword user)
        | HysteriaAccount auth \<Rightarrow> bid_Type item = ProtocolHysteria \<and> auth = bud_VlessUUID user))"
proof -
  have empty: "DecodeString [] = Some []" by (simp add: DecodeString_def)
  have nonempty: "EncodeToString s = [] \<longleftrightarrow> s = []" for s
    using DecodeString_Encode [of s] empty by (cases "s = []") auto
  show ?thesis
    by (auto simp: BuildProtocolUser_def account_of_def bulkUserSpec_def Let_def protocol_defs
        DecodeString_Encode nonempty empty split: option.split)
qed


end
