(* ===== verification/CoreInterface.thy ===== *)
theory CoreInterface
  imports XrayStats XrayUsers
begin

text \<open>
  The interfaces \<open>xray.Core\<close>, \<open>xray.HandlerClient\<close> and \<open>xray.StatsClient\<close> of
  \<open>internal/xray/core.go\<close>, through which every controller uses the embedded Xray. An
  interface value is a record of its methods over a world \<open>'w\<close>; \<open>None\<close> is a nil client.
  A context is not an argument: what a deadline does is part of the provider.
\<close>

record 'w HandlerClient =
  hc_AddUser :: "UserSpec \<Rightarrow> 'w \<Rightarrow> gerror option \<times> 'w"
  hc_RemoveUser :: "string \<Rightarrow> string \<Rightarrow> 'w \<Rightarrow> gerror option \<times> 'w"

record 'w StatsClient =
  sc_Ping :: "'w \<Rightarrow> gerror option"
  sc_SysStats :: "'w \<Rightarrow> gerror + SysStats"
  sc_UsersStats :: "bool \<Rightarrow> 'w \<Rightarrow> (gerror + UserTrafficStats list) \<times> 'w"
  sc_UserOnlineStatus :: "string \<Rightarrow> 'w \<Rightarrow> gerror + bool"
  sc_UserIPList :: "string \<Rightarrow> bool \<Rightarrow> 'w \<Rightarrow> (gerror + IPLastSeen list) \<times> 'w"
  sc_UsersIPList :: "bool \<Rightarrow> 'w \<Rightarrow> (gerror + UserIPList list) \<times> 'w"
  sc_InboundStats :: "string \<Rightarrow> bool \<Rightarrow> 'w \<Rightarrow> (gerror + InboundTrafficStats) \<times> 'w"
  sc_OutboundStats :: "string \<Rightarrow> bool \<Rightarrow> 'w \<Rightarrow> (gerror + OutboundTrafficStats) \<times> 'w"
  sc_AllInboundStats :: "bool \<Rightarrow> 'w \<Rightarrow> (gerror + InboundTrafficStats list) \<times> 'w"
  sc_AllOutboundStats :: "bool \<Rightarrow> 'w \<Rightarrow> (gerror + OutboundTrafficStats list) \<times> 'w"

record 'w Core =
  core_Start :: "string \<Rightarrow> 'w \<Rightarrow> gerror option \<times> 'w"
  core_Stop :: "'w \<Rightarrow> gerror option \<times> 'w"
  core_IsRunning :: "'w \<Rightarrow> bool"
  core_Health :: "'w \<Rightarrow> gerror option"
  core_Version :: "'w \<Rightarrow> gerror + string"
  core_Handler :: "'w HandlerClient option"
  core_Stats :: "'w StatsClient option"

text \<open>
  What the controllers rely on. A start that returns nil leaves the core running, and
  nothing else promises it; after a stop the core is down even if closing failed; the
  health check is the running flag; the clients' operations never change it.
\<close>

locale core_contract =
  fixes core :: "'w Core"
  assumes Start_running: "core_Start core config w = (None, w') \<Longrightarrow> core_IsRunning core w'"
    and Stop_stopped: "\<not> core_IsRunning core (snd (core_Stop core w))"
    and Health_running: "core_Health core w = None \<longleftrightarrow> core_IsRunning core w"
    and AddUser_running:
      "core_Handler core = Some h \<Longrightarrow>
       core_IsRunning core (snd (hc_AddUser h spec w)) = core_IsRunning core w"
    and RemoveUser_running:
      "core_Handler core = Some h \<Longrightarrow>
       core_IsRunning core (snd (hc_RemoveUser h tag u w)) = core_IsRunning core w"
    and UserIPList_running:
      "core_Stats core = Some s \<Longrightarrow>
       core_IsRunning core (snd (sc_UserIPList s u reset w)) = core_IsRunning core w"
begin

text \<open>Removing a user from a list of inbounds, as every handler does it, keeps the core up.\<close>

lemma remove_many_running:
  assumes "core_Handler core = Some h"
  shows "core_IsRunning core (fold (\<lambda>t w. snd (hc_RemoveUser h t u w)) ts w) = core_IsRunning core w"
  by (induction ts arbitrary: w) (simp_all add: RemoveUser_running [OF assms])

lemma Stop_unhealthy: "core_Health core (snd (core_Stop core w)) \<noteq> None"
  using Stop_stopped Health_running by blast

lemma Start_healthy: "core_Start core config w = (None, w') \<Longrightarrow> core_Health core w' = None"
  using Start_running Health_running by blast

end

end
