(* ===== verification/GoJson.thy ===== *)
theory GoJson
  imports GoStrings
begin

text \<open>
  \<open>json.Valid\<close> of Go's standard library, the scanner that decides whether bytes are one
  JSON value: a pushdown automaton over the bytes, with the scanner's limit of 10000 nested
  arrays and objects.
\<close>

datatype parse_state = ParseObjectKey | ParseObjectValue | ParseArrayValue

datatype scan_step =
    BeginValueOrEmpty | BeginValue | BeginStringOrEmpty | BeginString | EndValue | EndTop
  | InString | InStringEsc | InStringU nat | Neg | Num1 | Num0 | Dot | Dot0 | ExpE | ESign | E0
  | InLiteral string

type_synonym scanner = "scan_step \<times> parse_state list"

definition json_space :: "char \<Rightarrow> bool" where
  "json_space c \<longleftrightarrow> c \<in> {CHR '' '', CHR 0x09, CHR 0x0A, CHR 0x0D}"

definition digit :: "char \<Rightarrow> bool" where
  "digit c \<longleftrightarrow> 48 \<le> byte c \<and> byte c \<le> 57"

definition hex_digit :: "char \<Rightarrow> bool" where
  "hex_digit c \<longleftrightarrow> digit c \<or> (97 \<le> byte c \<and> byte c \<le> 102) \<or> (65 \<le> byte c \<and> byte c \<le> 70)"

definition maxNestingDepth :: nat where "maxNestingDepth = 10000"

definition push_state :: "parse_state \<Rightarrow> scan_step \<Rightarrow> parse_state list \<Rightarrow> scanner option" where
  "push_state p step stack =
     (if length stack < maxNestingDepth then Some (step, p # stack) else None)"

definition pop_state :: "parse_state list \<Rightarrow> scanner" where
  "pop_state stack = (if stack = [] then (EndTop, []) else (EndValue, stack))"

definition scan_end_value :: "char \<Rightarrow> parse_state list \<Rightarrow> scanner option" where
  "scan_end_value c stack =
     (case stack of
        [] \<Rightarrow> if json_space c then Some (EndTop, []) else None
      | p # rest \<Rightarrow>
          if json_space c then Some (EndValue, stack)
          else case p of
            ParseObjectKey \<Rightarrow>
              if c = CHR '':'' then Some (BeginValue, ParseObjectValue # rest) else None
          | ParseObjectValue \<Rightarrow>
              if c = CHR '','' then Some (BeginString, ParseObjectKey # rest)
              else if c = CHR ''}'' then Some (pop_state rest) else None
          | ParseArrayValue \<Rightarrow>
              if c = CHR '','' then Some (BeginValue, stack)
              else if c = CHR '']'' then Some (pop_state rest) else None)"

definition scan_begin_string :: "char \<Rightarrow> parse_state list \<Rightarrow> scanner option" where
  "scan_begin_string c stack =
     (if json_space c then Some (BeginString, stack)
      else if c = CHR 0x22 then Some (InString, stack) else None)"

definition scan_begin_value :: "char \<Rightarrow> parse_state list \<Rightarrow> scanner option" where
  "scan_begin_value c stack =
     (if json_space c then Some (BeginValue, stack)
      else if c = CHR ''{'' then push_state ParseObjectKey BeginStringOrEmpty stack
      else if c = CHR ''['' then push_state ParseArrayValue BeginValueOrEmpty stack
      else if c = CHR 0x22 then Some (InString, stack)
      else if c = CHR ''-'' then Some (Neg, stack)
      else if c = CHR ''0'' then Some (Num0, stack)
      else if c = CHR ''t'' then Some (InLiteral ''rue'', stack)
      else if c = CHR ''f'' then Some (InLiteral ''alse'', stack)
      else if c = CHR ''n'' then Some (InLiteral ''ull'', stack)
      else if digit c then Some (Num1, stack) else None)"

definition scan_exp :: "char \<Rightarrow> parse_state list \<Rightarrow> scanner option" where
  "scan_exp c stack =
     (if c \<in> {CHR ''e'', CHR ''E''} then Some (ExpE, stack) else scan_end_value c stack)"

fun scan :: "scanner \<Rightarrow> char \<Rightarrow> scanner option" where
  "scan (BeginValue, st) c = scan_begin_value c st"
| "scan (BeginValueOrEmpty, st) c =
     (if json_space c then Some (BeginValueOrEmpty, st)
      else if c = CHR '']'' then scan_end_value c st else scan_begin_value c st)"
| "scan (BeginString, st) c = scan_begin_string c st"
| "scan (BeginStringOrEmpty, st) c =
     (if json_space c then Some (BeginStringOrEmpty, st)
      else if c = CHR ''}'' then scan_end_value c (ParseObjectValue # tl st)
      else scan_begin_string c st)"
| "scan (EndValue, st) c = scan_end_value c st"
| "scan (EndTop, st) c = (if json_space c then Some (EndTop, st) else None)"
| "scan (InString, st) c =
     (if c = CHR 0x22 then Some (EndValue, st)
      else if c = CHR 0x5C then Some (InStringEsc, st)
      else if byte c < 32 then None else Some (InString, st))"
| "scan (InStringEsc, st) c =
     (if c \<in> {CHR ''b'', CHR ''f'', CHR ''n'', CHR ''r'', CHR ''t'', CHR 0x5C, CHR 0x2F, CHR 0x22}
      then Some (InString, st)
      else if c = CHR ''u'' then Some (InStringU 3, st) else None)"
| "scan (InStringU k, st) c =
     (if hex_digit c then Some (case k of 0 \<Rightarrow> InString | Suc j \<Rightarrow> InStringU j, st) else None)"
| "scan (Neg, st) c =
     (if c = CHR ''0'' then Some (Num0, st) else if digit c then Some (Num1, st) else None)"
| "scan (Num1, st) c =
     (if digit c then Some (Num1, st)
      else if c = CHR ''.'' then Some (Dot, st) else scan_exp c st)"
| "scan (Num0, st) c = (if c = CHR ''.'' then Some (Dot, st) else scan_exp c st)"
| "scan (Dot, st) c = (if digit c then Some (Dot0, st) else None)"
| "scan (Dot0, st) c = (if digit c then Some (Dot0, st) else scan_exp c st)"
| "scan (ExpE, st) c =
     (if c \<in> {CHR ''+'', CHR ''-''} then Some (ESign, st)
      else if digit c then Some (E0, st) else None)"
| "scan (ESign, st) c = (if digit c then Some (E0, st) else None)"
| "scan (E0, st) c = (if digit c then Some (E0, st) else scan_end_value c st)"
| "scan (InLiteral rest, st) c =
     (if rest \<noteq> [] \<and> c = hd rest
      then Some (if tl rest = [] then EndValue else InLiteral (tl rest), st) else None)"

fun scan_all :: "scanner \<Rightarrow> string \<Rightarrow> scanner option" where
  "scan_all sc [] = Some sc"
| "scan_all sc (c # s) = (case scan sc c of None \<Rightarrow> None | Some sc \<Rightarrow> scan_all sc s)"

text \<open>At the end of the input the scanner is fed a space.\<close>

definition json_Valid :: "string \<Rightarrow> bool" where
  "json_Valid data =
     (case scan_all (BeginValue, []) (data @ '' '') of
        Some (EndTop, _) \<Rightarrow> True
      | _ \<Rightarrow> False)"

end
