(* ===== verification/System.thy ===== *)
theory System
  imports GoStrings Contracts
begin

text \<open>
  System capabilities (\<open>internal/system\<close>): the effective-capability check, conntrack
  deletion with its sentinel error, the default interface from the routing table, the
  network sampler and the stats snapshot. The operating system is a world of type
  \<open>'w\<close>; what the code asks of it is a field of a record of functions.
\<close>

section \<open>Effective capabilities (netadmin.go)\<close>

definition capNetAdmin :: nat where "capNetAdmin = 12"

fun netadmin_lines :: "string list \<Rightarrow> bool" where
  "netadmin_lines [] = False"
| "netadmin_lines (line # rest) =
     (if \<not> prefix ''CapEff:'' line then netadmin_lines rest
      else case Fields line of
        [_, value] \<Rightarrow>
          (case ParseUint value 16 of
             Inl _ \<Rightarrow> False
           | Inr v \<Rightarrow> and (word_of_nat v :: 64 word) (push_bit capNetAdmin 1) \<noteq> 0)
      | _ \<Rightarrow> False)"

text \<open>\<open>status\<close> is the result of reading \<open>/proc/self/status\<close>.\<close>

definition HasNetAdmin :: "string \<Rightarrow> gerror + string \<Rightarrow> bool" where
  "HasNetAdmin goos status =
     (if goos \<noteq> ''linux'' then False
      else case status of Inl _ \<Rightarrow> False | Inr text \<Rightarrow> netadmin_lines (Split text LF))"

section \<open>Conntrack (conntrack.go, conntrack_linux.go, conntrack_unsupported.go)\<close>

definition ErrConntrackUnavailable :: gerror where
  "ErrConntrackUnavailable = NewError ''conntrack unavailable''"

definition IsConntrackUnavailable :: "gerror \<Rightarrow> bool" where
  "IsConntrackUnavailable err = errors_Is err ErrConntrackUnavailable"

text \<open>
  \<open>netip\<close> and \<open>net\<close> addresses have the types \<open>'a\<close> and \<open>'i\<close>; \<open>ct_delete\<close> is
  \<open>netlink.ConntrackDeleteFilters\<close> on the conntrack table.
\<close>

datatype ConntrackFilterType =
    ConntrackOrigSrcIP | ConntrackOrigDstIP | ConntrackReplySrcIP | ConntrackReplyDstIP

datatype InetFamily = AF_INET | AF_INET6

record ('a, 'i, 'w) conntrack_os =
  ct_goos :: string
  ct_ParseAddr :: "string \<Rightarrow> 'a option"
  ct_Unmap :: "'a \<Rightarrow> 'a"
  ct_Is6 :: "'a \<Rightarrow> bool"
  ct_AddrString :: "'a \<Rightarrow> string"
  ct_ParseIP :: "string \<Rightarrow> 'i option"
  ct_AddIP :: "ConntrackFilterType \<Rightarrow> 'i \<Rightarrow> gerror option"
  ct_status :: "'w \<Rightarrow> gerror + string"
  ct_ctxErr :: "'w \<Rightarrow> gerror option"
  ct_delete :: "InetFamily \<Rightarrow> (ConntrackFilterType \<times> 'i) list \<Rightarrow> 'w \<Rightarrow> gerror option \<times> 'w"

definition invalid_ip :: "string \<Rightarrow> gerror" where
  "invalid_ip value = NewError (''invalid ip '' @ Quote value)"

definition parseConntrackIP :: "('a, 'i, 'w) conntrack_os \<Rightarrow> string \<Rightarrow> gerror + 'a" where
  "parseConntrackIP os value =
     (case ct_ParseAddr os value of
        None \<Rightarrow> Inl (invalid_ip value)
      | Some addr \<Rightarrow> Inr (ct_Unmap os addr))"

fun add_filters :: "('a, 'i, 'w) conntrack_os \<Rightarrow> 'i \<Rightarrow> ConntrackFilterType list \<Rightarrow>
    gerror + (ConntrackFilterType \<times> 'i) list" where
  "add_filters os ip [] = Inr []"
| "add_filters os ip (t # ts) =
     (case ct_AddIP os t ip of
        Some e \<Rightarrow> Inl e
      | None \<Rightarrow> (case add_filters os ip ts of Inl e \<Rightarrow> Inl e | Inr fs \<Rightarrow> Inr ((t, ip) # fs)))"

definition conntrackIPFilters ::
    "('a, 'i, 'w) conntrack_os \<Rightarrow> 'i \<Rightarrow> gerror + (ConntrackFilterType \<times> 'i) list" where
  "conntrackIPFilters os ip =
     add_filters os ip
       [ConntrackOrigSrcIP, ConntrackOrigDstIP, ConntrackReplySrcIP, ConntrackReplyDstIP]"

definition dropIP_linux ::
    "('a, 'i, 'w) conntrack_os \<Rightarrow> string \<Rightarrow> 'w \<Rightarrow> gerror option \<times> 'w" where
  "dropIP_linux os value w =
     (case parseConntrackIP os value of
        Inl e \<Rightarrow> (Some e, w)
      | Inr addr \<Rightarrow>
     if \<not> HasNetAdmin (ct_goos os) (ct_status os w) then
       (Some (Wrapped (Error_msg ErrConntrackUnavailable @ '': CAP_NET_ADMIN is unavailable'')
          ErrConntrackUnavailable), w)
     else case ct_ctxErr os w of
        Some e \<Rightarrow> (Some e, w)
      | None \<Rightarrow>
     (case ct_ParseIP os (ct_AddrString os addr) of
        None \<Rightarrow> (Some (invalid_ip value), w)
      | Some ip \<Rightarrow>
     (case conntrackIPFilters os ip of
        Inl e \<Rightarrow> (Some e, w)
      | Inr filters \<Rightarrow>
     (case ct_delete os (if ct_Is6 os addr then AF_INET6 else AF_INET) filters w of
        (Some e, w') \<Rightarrow>
          (Some (Wrapped (Error_msg ErrConntrackUnavailable @ '': '' @ Error_msg e)
             ErrConntrackUnavailable), w')
      | (None, w') \<Rightarrow> (None, w')))))"

definition dropIP_unsupported ::
    "('a, 'i, 'w) conntrack_os \<Rightarrow> string \<Rightarrow> 'w \<Rightarrow> gerror option \<times> 'w" where
  "dropIP_unsupported os value w =
     (case parseConntrackIP os value of
        Inl e \<Rightarrow> (Some e, w)
      | Inr _ \<Rightarrow>
     (case ct_ctxErr os w of
        Some e \<Rightarrow> (Some e, w)
      | None \<Rightarrow>
       (Some (Wrapped (Error_msg ErrConntrackUnavailable @
                '': platform does not support conntrack deletion'') ErrConntrackUnavailable), w)))"

text \<open>The build tag selects the implementation.\<close>

definition DropIP :: "('a, 'i, 'w) conntrack_os \<Rightarrow> string \<Rightarrow> 'w \<Rightarrow> gerror option \<times> 'w" where
  "DropIP os ip w =
     (if ct_goos os = ''linux'' then dropIP_linux os ip w else dropIP_unsupported os ip w)"

section \<open>The default interface (stats.go)\<close>

definition routeDefaultDestination :: string where "routeDefaultDestination = ''00000000''"
definition routeFieldCount :: nat where "routeFieldCount = 11"
definition routeMetricField :: nat where "routeMetricField = 6"

text \<open>One line of \<open>/proc/net/route\<close>: the default route's interface and metric, if it is one.\<close>

definition default_route :: "string \<Rightarrow> (string \<times> int) option" where
  "default_route line =
     (let fields = Fields line in
      if length fields < routeFieldCount then None
      else if fields ! 1 \<noteq> routeDefaultDestination then None
      else Some (fields ! 0,
                 case Atoi (fields ! routeMetricField) of Inl _ \<Rightarrow> 0 | Inr m \<Rightarrow> m))"

fun best_route :: "string list \<Rightarrow> string \<times> int \<Rightarrow> string \<times> int" where
  "best_route [] best = best"
| "best_route (line # rest) best =
     (case default_route line of
        None \<Rightarrow> best_route rest best
      | Some (iface, metric) \<Rightarrow>
          best_route rest
            (if fst best = [] \<or> metric < snd best then (iface, metric) else best))"

definition defaultInterfaceFromRoute :: "gerror + string \<Rightarrow> gerror + string" where
  "defaultInterfaceFromRoute data =
     (case data of
        Inl e \<Rightarrow> Inl e
      | Inr text \<Rightarrow>
          let best = best_route (tl (Split text LF)) ([], 0)
          in if fst best = [] then Inl (NewError ''default route not found'') else Inr (fst best))"

text \<open>The resolver of the sampler: the routes file, opened or not, on Linux only.\<close>

definition DefaultInterface :: "string \<Rightarrow> gerror + string \<Rightarrow> gerror + string" where
  "DefaultInterface goos file =
     (if goos \<noteq> ''linux'' then Inl (NewError ''default interface resolution is only supported on linux'')
      else defaultInterfaceFromRoute file)"

section \<open>The network sampler (stats.go)\<close>

text \<open>
  Times are nanoseconds. A finite \<open>float64\<close> is a rational; \<open>rnd\<close> rounds a rational to
  the nearest float64 and is an argument.
\<close>

record networkCounterSample =
  ncs_iface :: string
  ncs_rx :: "64 word"
  ncs_tx :: "64 word"
  ncs_at :: int

record NetworkSampler =
  ns_previous :: "networkCounterSample option"
  ns_current :: "NetworkInterface option"

definition elapsed_seconds :: "(rat \<Rightarrow> rat) \<Rightarrow> int \<Rightarrow> rat" where
  "elapsed_seconds rnd ns =
     (let sec = (if ns < 0 then - ((- ns) div 1000000000) else ns div 1000000000);
          nsec = ns - sec * 1000000000
      in rnd (of_int sec + rnd (of_int nsec / 1000000000)))"

definition perSecond :: "(rat \<Rightarrow> rat) \<Rightarrow> 64 word \<Rightarrow> 64 word \<Rightarrow> rat \<Rightarrow> 64 word" where
  "perSecond rnd current previous elapsed =
     (if current < previous then 0
      else
        let rate = rnd (rnd (of_nat (unat (current - previous))) / elapsed)
        in if rate \<le> 0 then 0
           else if rate \<ge> 2 ^ 64 then - 1
           else word_of_int \<lfloor>rate\<rfloor>)"

record IOCountersStat =
  ioc_Name :: string
  ioc_BytesSent :: "64 word"
  ioc_BytesRecv :: "64 word"

definition findCounter :: "IOCountersStat list \<Rightarrow> string \<Rightarrow> IOCountersStat option" where
  "findCounter counters iface = find (\<lambda>c. ioc_Name c = iface) counters"

definition sampler_clear :: "NetworkSampler \<Rightarrow> NetworkSampler" where
  "sampler_clear s = s\<lparr>ns_previous := None, ns_current := None\<rparr>"

definition sampler_sample ::
    "(rat \<Rightarrow> rat) \<Rightarrow> gerror + string \<Rightarrow> gerror + IOCountersStat list \<Rightarrow> int \<Rightarrow>
     NetworkSampler \<Rightarrow> NetworkSampler" where
  "sampler_sample rnd resolved counters now s =
     (case resolved of
        Inl _ \<Rightarrow> sampler_clear s
      | Inr iface \<Rightarrow>
     if iface = [] then sampler_clear s
     else case counters of
        Inl _ \<Rightarrow> sampler_clear s
      | Inr cs \<Rightarrow>
     (case findCounter cs iface of
        None \<Rightarrow> sampler_clear s
      | Some counter \<Rightarrow>
          let current = \<lparr>ncs_iface = iface, ncs_rx = ioc_BytesRecv counter,
                         ncs_tx = ioc_BytesSent counter, ncs_at = now\<rparr>;
              s = (case ns_previous s of
                     None \<Rightarrow> s
                   | Some prev \<Rightarrow>
                       if ncs_iface prev = iface then
                         let elapsed = elapsed_seconds rnd (ncs_at current - ncs_at prev)
                         in if elapsed > 0 then
                              s\<lparr>ns_current := Some
                                 \<lparr>ni_Interface = iface,
                                  ni_RxBytesPerSec = perSecond rnd (ncs_rx current) (ncs_rx prev) elapsed,
                                  ni_TxBytesPerSec = perSecond rnd (ncs_tx current) (ncs_tx prev) elapsed,
                                  ni_RxTotal = ncs_rx current,
                                  ni_TxTotal = ncs_tx current\<rparr>\<rparr>
                            else s
                       else s)
          in s\<lparr>ns_previous := Some current\<rparr>))"

definition sampler_Snapshot :: "NetworkSampler \<Rightarrow> NetworkInterface option" where
  "sampler_Snapshot s = (case ns_current s of None \<Rightarrow> None | Some c \<Rightarrow> Some c)"

text \<open>
  \<open>NewNetworkSampler\<close> takes one sample before it starts its goroutine, whose loop
  samples at every tick until \<open>Close\<close>: a sampler is the fold of \<open>sampler_sample\<close> over
  its readings.
\<close>

definition NewNetworkSampler ::
    "(rat \<Rightarrow> rat) \<Rightarrow> (gerror + string) \<times> (gerror + IOCountersStat list) \<times> int \<Rightarrow> NetworkSampler" where
  "NewNetworkSampler rnd reading =
     (case reading of (r, cs, now) \<Rightarrow>
        sampler_sample rnd r cs now \<lparr>ns_previous = None, ns_current = None\<rparr>)"

definition sampler_run ::
    "(rat \<Rightarrow> rat) \<Rightarrow> ((gerror + string) \<times> (gerror + IOCountersStat list) \<times> int) list \<Rightarrow>
     NetworkSampler \<Rightarrow> NetworkSampler" where
  "sampler_run rnd readings s =
     fold (\<lambda>(r, cs, now). sampler_sample rnd r cs now) readings s"

section \<open>The stats snapshot (stats.go)\<close>

text \<open>
  \<open>gopsutil\<close> is a library outside this repository: the provider's answers are fields over
  the world, \<open>None\<close> inside a result is a nil pointer. \<open>go_env\<close> is what Go's runtime and
  \<open>os.Hostname\<close> report.
\<close>

record HostInfo =
  hi_Hostname :: string
  hi_Platform :: string
  hi_KernelVersion :: string
  hi_OS :: string
  hi_KernelArch :: string
  hi_PlatformVersion :: string

record VirtualMemory =
  vm_Total :: "64 word"
  vm_Available :: "64 word"
  vm_Free :: "64 word"
  vm_Used :: "64 word"

record 'w systemProvider =
  prov_HostInfo :: "'w \<Rightarrow> gerror + HostInfo option"
  prov_Uptime :: "'w \<Rightarrow> gerror + 64 word"
  prov_VirtualMemory :: "'w \<Rightarrow> gerror + VirtualMemory option"
  prov_CPUCounts :: "'w \<Rightarrow> gerror + goint"
  prov_CPUInfo :: "'w \<Rightarrow> gerror + string list"
  prov_LoadAvg :: "'w \<Rightarrow> gerror + (float64 \<times> float64 \<times> float64) option"
  prov_NetInterfaces :: "'w \<Rightarrow> gerror + string list"

record go_env =
  go_GOARCH :: string
  go_GOOS :: string
  go_NumCPU :: goint
  go_Version :: string
  go_Hostname :: "gerror + string"

text \<open>The model names of the CPUs, in the provider's order.\<close>

definition firstCPUModel :: "string list \<Rightarrow> string" where
  "firstCPUModel items = (case find (\<lambda>m. m \<noteq> []) items of None \<Rightarrow> [] | Some m \<Rightarrow> m)"

definition interfaceNames :: "string list \<Rightarrow> string list" where
  "interfaceNames interfaces = map id interfaces"

definition override :: "string \<Rightarrow> string \<Rightarrow> string" where
  "override new old = (if new \<noteq> [] then new else old)"

definition snapshot_info :: "go_env \<Rightarrow> 'w systemProvider \<Rightarrow> 'w \<Rightarrow> NodeSystemInfo" where
  "snapshot_info go p w =
     (let info = \<lparr>nsi_Arch = go_GOARCH go, nsi_CPUs = go_NumCPU go, nsi_CPUModel = [],
                  nsi_MemoryTotal = 0,
                  nsi_Hostname = (case go_Hostname go of Inr h \<Rightarrow> h | Inl _ \<Rightarrow> []),
                  nsi_Platform = go_GOOS go, nsi_Release = [], nsi_Type = go_GOOS go,
                  nsi_Version = go_Version go, nsi_NetworkInterfaces = []\<rparr>;
          info = (case prov_HostInfo p w of
                    Inr (Some h) \<Rightarrow>
                      info\<lparr>nsi_Hostname := override (hi_Hostname h) (nsi_Hostname info),
                           nsi_Platform := override (hi_Platform h) (nsi_Platform info),
                           nsi_Release := override (hi_KernelVersion h) (nsi_Release info),
                           nsi_Type := override (hi_OS h) (nsi_Type info),
                           nsi_Arch := override (hi_KernelArch h) (nsi_Arch info),
                           nsi_Version := override (hi_PlatformVersion h) (nsi_Version info)\<rparr>
                  | _ \<Rightarrow> info);
          info = (case prov_CPUCounts p w of
                    Inr n \<Rightarrow> if 0 <s n then info\<lparr>nsi_CPUs := n\<rparr> else info
                  | _ \<Rightarrow> info);
          info = (case prov_CPUInfo p w of
                    Inr cpus \<Rightarrow> if length cpus > 0 then info\<lparr>nsi_CPUModel := firstCPUModel cpus\<rparr> else info
                  | _ \<Rightarrow> info);
          info = (case prov_VirtualMemory p w of
                    Inr (Some memory) \<Rightarrow> info\<lparr>nsi_MemoryTotal := vm_Total memory\<rparr>
                  | _ \<Rightarrow> info)
      in (case prov_NetInterfaces p w of
            Inr interfaces \<Rightarrow> info\<lparr>nsi_NetworkInterfaces := interfaceNames interfaces\<rparr>
          | _ \<Rightarrow> info))"

definition snapshot_stats :: "'w systemProvider \<Rightarrow> NetworkSampler option \<Rightarrow> 'w \<Rightarrow> NodeSystemStats" where
  "snapshot_stats p sampler w =
     (let stats = \<lparr>nss_MemoryFree = 0, nss_MemoryUsed = 0, nss_Uptime = 0,
                   nss_LoadAvg = [0, 0, 0], nss_Interface = None\<rparr>;
          stats = (case prov_VirtualMemory p w of
                     Inr (Some memory) \<Rightarrow>
                       stats\<lparr>nss_MemoryFree :=
                               (if vm_Available memory = 0 then vm_Free memory else vm_Available memory),
                             nss_MemoryUsed := vm_Used memory\<rparr>
                   | _ \<Rightarrow> stats);
          stats = (case prov_Uptime p w of Inr u \<Rightarrow> stats\<lparr>nss_Uptime := u\<rparr> | _ \<Rightarrow> stats);
          stats = (case prov_LoadAvg p w of
                     Inr (Some (l1, l5, l15)) \<Rightarrow> stats\<lparr>nss_LoadAvg := [l1, l5, l15]\<rparr>
                   | _ \<Rightarrow> stats)
      in (case sampler of
            Some s \<Rightarrow> stats\<lparr>nss_Interface := sampler_Snapshot s\<rparr>
          | None \<Rightarrow> stats))"

text \<open>\<open>DefaultSnapshotter.SnapshotStats\<close>; \<open>SnapshotStats()\<close> is it with a nil sampler.\<close>

definition SnapshotStats :: "go_env \<Rightarrow> 'w systemProvider \<Rightarrow> NetworkSampler option \<Rightarrow> 'w \<Rightarrow>
    SystemStatsPayload" where
  "SnapshotStats go p sampler w =
     \<lparr>sp_Info = snapshot_info go p w, sp_Stats = snapshot_stats p sampler w\<rparr>"

section \<open>Lemmas\<close>

text \<open>The routes of a table in the order of their lines, and the best of them.\<close>

definition routes :: "string list \<Rightarrow> (string \<times> int) list" where
  "routes lines = List.map_filter default_route lines"

lemma routes_simps [simp]:
  "routes [] = []"
  "routes (l # ls) = (case default_route l of None \<Rightarrow> routes ls | Some r \<Rightarrow> r # routes ls)"
  by (simp_all add: routes_def List.map_filter_simps split: option.split)

lemma default_route_nonempty: "default_route line = Some r \<Longrightarrow> fst r \<noteq> []"
proof -
  assume "default_route line = Some r"
  then have "11 \<le> length (Fields line)" "fst r = Fields line ! 0"
    by (auto simp: default_route_def routeFieldCount_def Let_def split: if_splits)
  then show ?thesis using Fields_nonempty [of "fst r" line] nth_mem [of 0 "Fields line"]
    by fastforce
qed

text \<open>A route is the choice of a list of routes: the first of those with the least metric.\<close>

definition first_minimal :: "(string \<times> int) \<Rightarrow> (string \<times> int) list \<Rightarrow> bool" where
  "first_minimal r rs \<longleftrightarrow>
     (\<exists>pre post. rs = pre @ r # post \<and> (\<forall>q\<in>set pre. snd r < snd q) \<and> (\<forall>q\<in>set post. snd r \<le> snd q))"

lemma first_minimal_single [simp]: "first_minimal r [r]"
  unfolding first_minimal_def by (rule exI [of _ "[]"]) simp

lemma first_minimal_snoc:
  assumes "first_minimal r rs"
  shows "first_minimal (if snd q < snd r then q else r) (rs @ [q])"
proof -
  from assms obtain pre post where rs: "rs = pre @ r # post"
    and pre: "\<forall>p\<in>set pre. snd r < snd p" and post: "\<forall>p\<in>set post. snd r \<le> snd p"
    by (auto simp: first_minimal_def)
  show ?thesis
  proof (cases "snd q < snd r")
    case True
    then have "\<forall>p\<in>set rs. snd q < snd p" using rs pre post by fastforce
    then show ?thesis using True unfolding first_minimal_def
      by (intro exI [of _ rs] exI [of _ "[]"]) simp
  next
    case False
    then show ?thesis using rs pre post unfolding first_minimal_def
      by (intro exI [of _ pre] exI [of _ "post @ [q]"]) auto
  qed
qed

lemma best_route_minimal:
  assumes "rs = [] \<and> fst best = [] \<or> first_minimal best rs \<and> fst best \<noteq> []"
  shows "if rs @ routes lines = [] then best_route lines best = best
         else first_minimal (best_route lines best) (rs @ routes lines)
           \<and> fst (best_route lines best) \<noteq> []"
  using assms
proof (induction lines arbitrary: rs best)
  case (Cons l lines)
  show ?case
  proof (cases "default_route l")
    case (Some r)
    obtain g m where r: "r = (g, m)" by (cases r)
    let ?b = "if fst best = [] \<or> m < snd best then (g, m) else best"
    have "first_minimal ?b (rs @ [(g, m)]) \<and> fst ?b \<noteq> []"
      using Cons.prems first_minimal_snoc [of best rs r] default_route_nonempty [OF Some]
      by (auto simp: r split: if_splits)
    from Cons.IH [OF disjI2, OF this] show ?thesis
      using Some by (simp add: r split del: if_split)
  qed (use Cons in simp)
qed auto

lemma find_first: "find P xs = Some x \<Longrightarrow> P x \<and> x \<in> set xs"
  by (induction xs) (auto split: if_splits)

lemma netadmin_lines_find:
  "netadmin_lines lines =
     (case find (prefix ''CapEff:'') lines of
        None \<Rightarrow> False
      | Some line \<Rightarrow>
          (\<exists>key value v. Fields line = [key, value] \<and> ParseUint value 16 = Inr v \<and> bit v 12))"
proof (induction lines)
  case (Cons l ls)
  have bit12: "and (word_of_nat v :: 64 word) (push_bit capNetAdmin 1) \<noteq> 0 \<longleftrightarrow> bit v 12" for v
    unfolding capNetAdmin_def push_bit_of_1 and_exp_eq_0_iff_not_bit bit_of_nat_iff by simp
  show ?case
    by (simp add: Cons.IH bit12 [unfolded push_bit_of_1] push_bit_of_1 split: list.split sum.split)
qed simp

section \<open>Properties\<close>

text \<open>
  The default interface is the one of the first default route with the least metric among
  all default routes of the table (an unparsable metric counting as 0), and there is an error if and only if
  the table has none.
\<close>

theorem defaultInterface_least_metric:
  "case defaultInterfaceFromRoute (Inr text) of
     Inl err \<Rightarrow> routes (tl (Split text LF)) = []
   | Inr iface \<Rightarrow> \<exists>metric. first_minimal (iface, metric) (routes (tl (Split text LF)))"
  using best_route_minimal [of "[]" "([], 0)" "tl (Split text LF)"]
  by (cases "best_route (tl (Split text LF)) ([], 0)")
    (auto simp: defaultInterfaceFromRoute_def Let_def split: if_splits)

text \<open>
  \<open>HasNetAdmin\<close> reads bit 12 of the hexadecimal mask on the first \<open>CapEff:\<close> line; a
  missing line, a line of another shape or an unparsable mask means no capability.
\<close>

theorem HasNetAdmin_reads_bit_12:
  "HasNetAdmin goos (Inr text) =
     (goos = ''linux'' \<and>
      (case find (prefix ''CapEff:'') (Split text LF) of
         None \<Rightarrow> False
       | Some line \<Rightarrow>
           (\<exists>key value v. Fields line = [key, value] \<and> ParseUint value 16 = Inr v \<and> bit v 12)))"
  by (simp add: HasNetAdmin_def netadmin_lines_find)

text \<open>
  A dropped connection was deleted by its address in all four directions, with the
  capability. An invalid address is an error of its own and the world is untouched. A valid one
  without the capability gives the sentinel error that callers ignore; every other
  error either is that sentinel or came before anything was deleted.
\<close>

theorem DropIP_outcomes:
  "case DropIP os ip w of
     (None, w') \<Rightarrow>
       HasNetAdmin (ct_goos os) (ct_status os w) \<and>
       (\<exists>a i. ct_ParseAddr os ip = Some a \<and>
          ct_delete os (if ct_Is6 os (ct_Unmap os a) then AF_INET6 else AF_INET)
            [(ConntrackOrigSrcIP, i), (ConntrackOrigDstIP, i), (ConntrackReplySrcIP, i),
             (ConntrackReplyDstIP, i)] w = (None, w'))
   | (Some err, w') \<Rightarrow>
       if ct_ParseAddr os ip = None
       then w' = w \<and> err = invalid_ip ip \<and> \<not> IsConntrackUnavailable err
       else if \<not> HasNetAdmin (ct_goos os) (ct_status os w) \<and> ct_ctxErr os w = None
       then w' = w \<and> IsConntrackUnavailable err
       else w' = w \<or> IsConntrackUnavailable err"
proof -
  have filters: "conntrackIPFilters os i = Inr fs \<Longrightarrow>
      fs = [(ConntrackOrigSrcIP, i), (ConntrackOrigDstIP, i), (ConntrackReplySrcIP, i), (ConntrackReplyDstIP, i)]"
    for i fs by (auto simp: conntrackIPFilters_def split: sum.splits option.splits)
  have invalid: "\<not> IsConntrackUnavailable (invalid_ip ip)"
    by (simp add: invalid_ip_def IsConntrackUnavailable_def ErrConntrackUnavailable_def)
  have linux: "HasNetAdmin g st \<Longrightarrow> g = ''linux''" for g st
    by (simp add: HasNetAdmin_def split: if_splits)
  show ?thesis
    using invalid
    by (auto simp: DropIP_def dropIP_linux_def dropIP_unsupported_def parseConntrackIP_def
        IsConntrackUnavailable_def split: option.splits prod.splits sum.splits
        dest!: filters linux)
qed

end
