(* ===== verification/EmbeddedCore.thy ===== *)
theory EmbeddedCore
  imports CoreInterface GoJson System
begin

text \<open>
  The embedded Xray core (\<open>internal/xray/core.go\<close>): the life of the current
  instance, and the handler and stats clients on top of it. xray-core is a library outside
  this repository: the record \<open>xray_lib\<close> holds the calls that the code makes of it, over a
  world \<open>'w\<close>. Instances, features, handlers and accounts are handles (natural numbers); a new
  instance is a new pointer, so the model numbers the instances itself.
\<close>

section \<open>The library\<close>

type_synonym handle = nat

text \<open>
  What a bounded start reports: the start returned in time, or the context was done first.
\<close>

datatype start_outcome = StartReturned "gerror option" | ContextDone gerror

text \<open>A feature lookup: nil, a value of another type, or the expected one.\<close>

datatype feature = FeatureNil | FeatureOther | Feature handle

record 'w xray_lib =
  lib_LoadConfig :: "string \<Rightarrow> 'w \<Rightarrow> gerror + handle"
  lib_New :: "handle \<Rightarrow> handle \<Rightarrow> 'w \<Rightarrow> gerror option \<times> 'w"
  lib_Start :: "handle \<Rightarrow> 'w \<Rightarrow> start_outcome \<times> 'w"
  lib_Close :: "handle \<Rightarrow> 'w \<Rightarrow> gerror option \<times> 'w"
  lib_Version :: string
  lib_Now :: "'w \<Rightarrow> int"
  lib_rnd :: "rat \<Rightarrow> rat"
  lib_InboundManager :: "handle \<Rightarrow> 'w \<Rightarrow> feature"
  lib_GetHandler :: "handle \<Rightarrow> string \<Rightarrow> 'w \<Rightarrow> gerror + handle"
  lib_GetInbound :: "handle \<Rightarrow> 'w \<Rightarrow> handle option"
  lib_UserManager :: "handle \<Rightarrow> 'w \<Rightarrow> handle option"
  lib_ToMemoryUser :: "ProtocolUser \<Rightarrow> gerror + handle"
  lib_AddUser :: "handle \<Rightarrow> handle \<Rightarrow> 'w \<Rightarrow> gerror option \<times> 'w"
  lib_RemoveUser :: "handle \<Rightarrow> string \<Rightarrow> 'w \<Rightarrow> gerror option \<times> 'w"
  lib_StatsManager :: "handle \<Rightarrow> 'w \<Rightarrow> feature"
  lib_Counters :: "handle \<Rightarrow> 'w \<Rightarrow> counters"
  lib_SetCounters :: "handle \<Rightarrow> counters \<Rightarrow> 'w \<Rightarrow> 'w"
  lib_GetOnlineMap :: "handle \<Rightarrow> 'w \<Rightarrow> string \<Rightarrow> ip_time_map option"
  lib_GetAllOnlineUsers :: "handle \<Rightarrow> 'w \<Rightarrow> string list"
  lib_NumGoroutine :: "'w \<Rightarrow> 64 word"
  lib_MemStats :: "'w \<Rightarrow> SysStats"

section \<open>The core\<close>

text \<open>
  \<open>ec_startedAt\<close> is \<open>None\<close> for the zero time. \<open>ec_pending\<close> are the instances whose start
  was abandoned at the deadline and whose goroutine still waits for it to return. \<open>ec_calls\<close>
  records the calls made on instances, and \<open>ec_next\<close> is the next pointer.
\<close>

datatype lib_call = CallNew handle | CallStart handle | CallClose handle

record 'w EmbeddedCore =
  ec_instance :: "handle option"
  ec_version :: string
  ec_startedAt :: "int option"
  ec_pending :: "handle list"
  ec_next :: handle
  ec_calls :: "lib_call list"
  ec_world :: 'w

definition NewEmbeddedCore :: "'w xray_lib \<Rightarrow> 'w \<Rightarrow> 'w EmbeddedCore" where
  "NewEmbeddedCore lib w =
     \<lparr>ec_instance = None, ec_version = lib_Version lib, ec_startedAt = None, ec_pending = [],
      ec_next = 0, ec_calls = [], ec_world = w\<rparr>"

definition newXrayInstance :: "'w xray_lib \<Rightarrow> handle \<Rightarrow> 'w EmbeddedCore \<Rightarrow>
    (gerror + handle) \<times> 'w EmbeddedCore" where
  "newXrayInstance lib config c =
     (case lib_New lib config (ec_next c) (ec_world c) of
        (Some err, w) \<Rightarrow> (Inl err, c\<lparr>ec_world := w\<rparr>)
      | (None, w) \<Rightarrow>
          (Inr (ec_next c),
           c\<lparr>ec_next := Suc (ec_next c), ec_calls := ec_calls c @ [CallNew (ec_next c)], ec_world := w\<rparr>))"

definition closeXrayInstance :: "'w xray_lib \<Rightarrow> handle \<Rightarrow> 'w EmbeddedCore \<Rightarrow>
    gerror option \<times> 'w EmbeddedCore" where
  "closeXrayInstance lib instance c =
     (case lib_Close lib instance (ec_world c) of
        (err, w) \<Rightarrow> (err, c\<lparr>ec_calls := ec_calls c @ [CallClose instance], ec_world := w\<rparr>))"

definition startInstanceWithContext :: "'w xray_lib \<Rightarrow> handle \<Rightarrow> 'w EmbeddedCore \<Rightarrow>
    gerror option \<times> 'w EmbeddedCore" where
  "startInstanceWithContext lib instance c =
     (case lib_Start lib instance (ec_world c) of
        (outcome, w) \<Rightarrow>
          let c = c\<lparr>ec_calls := ec_calls c @ [CallStart instance], ec_world := w\<rparr>
          in case outcome of
            StartReturned None \<Rightarrow> (None, c)
          | StartReturned (Some err) \<Rightarrow>
              (case closeXrayInstance lib instance c of
                 (_, c) \<Rightarrow> (Some (Errorf_w ''start embedded xray instance'' err), c))
          | ContextDone err \<Rightarrow>
              (Some (Errorf_w ''xray core did not become ready in time'' err),
               c\<lparr>ec_pending := instance # ec_pending c\<rparr>))"

text \<open>The goroutine left behind at the deadline: when the start returns, it closes the instance.\<close>

definition abandonedStartReturns :: "'w xray_lib \<Rightarrow> handle \<Rightarrow> 'w EmbeddedCore \<Rightarrow> 'w EmbeddedCore" where
  "abandonedStartReturns lib instance c =
     (if instance \<in> set (ec_pending c)
      then snd (closeXrayInstance lib instance (c\<lparr>ec_pending := remove1 instance (ec_pending c)\<rparr>))
      else c)"

text \<open>The critical section that \<open>Start\<close> and \<open>Stop\<close> share: take the instance away.\<close>

definition takeInstance :: "'w EmbeddedCore \<Rightarrow> handle option \<times> 'w EmbeddedCore" where
  "takeInstance c = (ec_instance c, c\<lparr>ec_instance := None, ec_startedAt := None\<rparr>)"

definition closeOld :: "'w xray_lib \<Rightarrow> handle option \<Rightarrow> 'w EmbeddedCore \<Rightarrow> 'w EmbeddedCore" where
  "closeOld lib old c =
     (case old of None \<Rightarrow> c | Some h \<Rightarrow> snd (closeXrayInstance lib h c))"

definition setInstance :: "'w xray_lib \<Rightarrow> handle \<Rightarrow> 'w EmbeddedCore \<Rightarrow> 'w EmbeddedCore" where
  "setInstance lib instance c =
     c\<lparr>ec_instance := Some instance, ec_version := lib_Version lib,
       ec_startedAt := Some (lib_Now lib (ec_world c))\<rparr>"

definition Start :: "'w xray_lib \<Rightarrow> string \<Rightarrow> 'w EmbeddedCore \<Rightarrow> gerror option \<times> 'w EmbeddedCore" where
  "Start lib configJSON c =
     (if \<not> json_Valid configJSON then (Some (NewError ''xray config is not valid JSON''), c)
      else case lib_LoadConfig lib configJSON (ec_world c) of
        Inl err \<Rightarrow> (Some (Errorf_w ''load embedded xray config'' err), c)
      | Inr config \<Rightarrow>
     (case newXrayInstance lib config c of
        (Inl err, c) \<Rightarrow> (Some (Errorf_w ''create embedded xray instance'' err), c)
      | (Inr instance, c) \<Rightarrow>
     (case takeInstance c of
        (old, c) \<Rightarrow>
          let c = closeOld lib old c
          in case startInstanceWithContext lib instance c of
               (Some err, c) \<Rightarrow> (Some err, c)
             | (None, c) \<Rightarrow> (None, setInstance lib instance c))))"

definition Stop :: "'w xray_lib \<Rightarrow> 'w EmbeddedCore \<Rightarrow> gerror option \<times> 'w EmbeddedCore" where
  "Stop lib c =
     (case takeInstance c of
        (None, c) \<Rightarrow> (None, c)
      | (Some instance, c) \<Rightarrow>
          (case closeXrayInstance lib instance c of
             (Some err, c) \<Rightarrow> (Some (Errorf_w ''stop embedded xray instance'' err), c)
           | (None, c) \<Rightarrow> (None, c)))"

definition IsRunning :: "'w EmbeddedCore \<Rightarrow> bool" where
  "IsRunning c = (ec_instance c \<noteq> None)"

definition Instance :: "'w EmbeddedCore \<Rightarrow> handle option" where
  "Instance c = ec_instance c"

text \<open>
  The duration's seconds as a float64, truncated. \<open>Sub\<close> saturates at 292 years, which is
  over the bound already.
\<close>

definition uptime :: "'w xray_lib \<Rightarrow> int \<Rightarrow> 'w EmbeddedCore \<Rightarrow> 32 word" where
  "uptime lib now c =
     (case ec_startedAt c of
        None \<Rightarrow> 0
      | Some started \<Rightarrow>
          if ec_instance c = None \<or> now < started then 0
          else
            let seconds = elapsed_seconds (lib_rnd lib) (now - started)
            in if seconds > 4294967295 then - 1 else word_of_int \<lfloor>seconds\<rfloor>)"

definition Health :: "'w EmbeddedCore \<Rightarrow> gerror option" where
  "Health c = (if \<not> IsRunning c then Some (NewError ''xray is not running'') else None)"

definition Version :: "'w xray_lib \<Rightarrow> 'w EmbeddedCore \<Rightarrow> gerror + string" where
  "Version lib c = (if ec_version c \<noteq> [] then Inr (ec_version c) else Inr (lib_Version lib))"

section \<open>The handler client\<close>

definition handler_manager :: "'w xray_lib \<Rightarrow> string \<Rightarrow> 'w EmbeddedCore \<Rightarrow> gerror + handle" where
  "handler_manager lib tag c =
     (case Instance c of
        None \<Rightarrow> Inl (NewError ''xray is not running'')
      | Some instance \<Rightarrow>
     (case lib_InboundManager lib instance (ec_world c) of
        FeatureNil \<Rightarrow> Inl (NewError ''xray inbound manager is unavailable'')
      | FeatureOther \<Rightarrow> Inl (NewError ''xray inbound manager has unexpected type'')
      | Feature inboundManager \<Rightarrow>
     (case lib_GetHandler lib inboundManager tag (ec_world c) of
        Inl err \<Rightarrow> Inl (Errorf_w (''xray inbound '' @ Quote tag @ '' is unavailable'') err)
      | Inr handler \<Rightarrow>
     (case lib_GetInbound lib handler (ec_world c) of
        None \<Rightarrow> Inl (NewError (''xray inbound '' @ Quote tag @ '' does not expose users''))
      | Some inbound \<Rightarrow>
     (case lib_UserManager lib inbound (ec_world c) of
        None \<Rightarrow> Inl (NewError (''xray inbound '' @ Quote tag @ '' does not support dynamic users''))
      | Some userManager \<Rightarrow> Inr userManager)))))"

definition client_AddUser :: "'w xray_lib \<Rightarrow> UserSpec \<Rightarrow> 'w EmbeddedCore \<Rightarrow>
    gerror option \<times> 'w EmbeddedCore" where
  "client_AddUser lib spec c =
     (case handler_manager lib (us_Tag spec) c of
        Inl err \<Rightarrow> (Some err, c)
      | Inr manager \<Rightarrow>
     (case BuildProtocolUser spec of
        Inl err \<Rightarrow> (Some err, c)
      | Inr user \<Rightarrow>
     (case lib_ToMemoryUser lib user of
        Inl err \<Rightarrow> (Some (Errorf_w (''convert xray user '' @ Quote (us_Username spec)) err), c)
      | Inr memoryUser \<Rightarrow>
     (case lib_AddUser lib manager memoryUser (ec_world c) of
        (Some err, w) \<Rightarrow>
          (Some (Errorf_w (''xray handler add user to inbound '' @ Quote (us_Tag spec)) err),
           c\<lparr>ec_world := w\<rparr>)
      | (None, w) \<Rightarrow> (None, c\<lparr>ec_world := w\<rparr>)))))"

definition client_RemoveUser :: "'w xray_lib \<Rightarrow> string \<Rightarrow> string \<Rightarrow> 'w EmbeddedCore \<Rightarrow>
    gerror option \<times> 'w EmbeddedCore" where
  "client_RemoveUser lib tag username c =
     (case handler_manager lib tag c of
        Inl err \<Rightarrow> (Some err, c)
      | Inr manager \<Rightarrow>
     (case lib_RemoveUser lib manager username (ec_world c) of
        (Some err, w) \<Rightarrow>
          (Some (Errorf_w (''xray handler remove user from inbound '' @ Quote tag) err),
           c\<lparr>ec_world := w\<rparr>)
      | (None, w) \<Rightarrow> (None, c\<lparr>ec_world := w\<rparr>)))"

section \<open>The stats client\<close>

definition client_Ping :: "'w EmbeddedCore \<Rightarrow> gerror option" where
  "client_Ping c = (if \<not> IsRunning c then Some (NewError ''xray is not running'') else None)"

text \<open>
  \<open>lib_MemStats\<close> holds the fields of \<open>runtime.MemStats\<close> that the code copies.
\<close>

definition client_SysStats :: "'w xray_lib \<Rightarrow> 'w EmbeddedCore \<Rightarrow> gerror + SysStats" where
  "client_SysStats lib c =
     (let stats = lib_MemStats lib (ec_world c)
      in Inr \<lparr>sys_NumGoroutine = ucast (lib_NumGoroutine lib (ec_world c)),
              sys_NumGC = sys_NumGC stats,
              sys_Alloc = sys_Alloc stats,
              sys_TotalAlloc = sys_TotalAlloc stats,
              sys_Sys = sys_Sys stats,
              sys_Mallocs = sys_Mallocs stats,
              sys_Frees = sys_Frees stats,
              sys_LiveObjects = sys_Mallocs stats - sys_Frees stats,
              sys_PauseTotalNs = sys_PauseTotalNs stats,
              sys_Uptime = uptime lib (lib_Now lib (ec_world c)) c\<rparr>)"

definition stats_manager :: "'w xray_lib \<Rightarrow> 'w EmbeddedCore \<Rightarrow> gerror + handle" where
  "stats_manager lib c =
     (case Instance c of
        None \<Rightarrow> Inl (NewError ''xray is not running'')
      | Some instance \<Rightarrow>
     (case lib_StatsManager lib instance (ec_world c) of
        FeatureNil \<Rightarrow> Inl (NewError ''xray stats manager is unavailable'')
      | FeatureOther \<Rightarrow> Inl (NewError ''xray stats manager has unexpected type'')
      | Feature manager \<Rightarrow> Inr manager))"

text \<open>An operation on the counters of the stats manager, which it may reset.\<close>

definition with_counters :: "'w xray_lib \<Rightarrow> (counters \<Rightarrow> 'a \<times> counters) \<Rightarrow> 'w EmbeddedCore \<Rightarrow>
    (gerror + 'a) \<times> 'w EmbeddedCore" where
  "with_counters lib f c =
     (case stats_manager lib c of
        Inl err \<Rightarrow> (Inl err, c)
      | Inr manager \<Rightarrow>
          (case f (lib_Counters lib manager (ec_world c)) of
             (a, cs) \<Rightarrow> (Inr a, c\<lparr>ec_world := lib_SetCounters lib manager cs (ec_world c)\<rparr>)))"

definition client_UserOnlineStatus :: "'w xray_lib \<Rightarrow> string \<Rightarrow> 'w EmbeddedCore \<Rightarrow> gerror + bool" where
  "client_UserOnlineStatus lib username c =
     (case stats_manager lib c of
        Inl err \<Rightarrow> Inl err
      | Inr manager \<Rightarrow> Inr (onlineStatus (lib_GetOnlineMap lib manager (ec_world c)) username))"

definition client_UserIPList :: "'w xray_lib \<Rightarrow> string \<Rightarrow> bool \<Rightarrow> 'w EmbeddedCore \<Rightarrow>
    (gerror + IPLastSeen list) \<times> 'w EmbeddedCore" where
  "client_UserIPList lib username reset c =
     (case stats_manager lib c of
        Inl err \<Rightarrow> (Inl err, c)
      | Inr manager \<Rightarrow>
          (Inr (onlineIPList (lib_GetOnlineMap lib manager (ec_world c)) username), c))"

definition client_UsersIPList :: "'w xray_lib \<Rightarrow> bool \<Rightarrow> 'w EmbeddedCore \<Rightarrow>
    (gerror + UserIPList list) \<times> 'w EmbeddedCore" where
  "client_UsersIPList lib reset c =
     (case stats_manager lib c of
        Inl err \<Rightarrow> (Inl err, c)
      | Inr manager \<Rightarrow>
          (Inr (onlineUsersIPList (lib_GetOnlineMap lib manager (ec_world c))
                  (lib_GetAllOnlineUsers lib manager (ec_world c))), c))"

definition embeddedHandlerClient :: "'w xray_lib \<Rightarrow> 'w EmbeddedCore HandlerClient" where
  "embeddedHandlerClient lib =
     \<lparr>hc_AddUser = client_AddUser lib, hc_RemoveUser = client_RemoveUser lib\<rparr>"

definition embeddedStatsClient :: "'w xray_lib \<Rightarrow> 'w EmbeddedCore StatsClient" where
  "embeddedStatsClient lib =
     \<lparr>sc_Ping = client_Ping,
      sc_SysStats = client_SysStats lib,
      sc_UsersStats = (\<lambda>reset. with_counters lib (UsersStats reset)),
      sc_UserOnlineStatus = client_UserOnlineStatus lib,
      sc_UserIPList = client_UserIPList lib,
      sc_UsersIPList = client_UsersIPList lib,
      sc_InboundStats = (\<lambda>tag reset. with_counters lib (InboundStats tag reset)),
      sc_OutboundStats = (\<lambda>tag reset. with_counters lib (OutboundStats tag reset)),
      sc_AllInboundStats = (\<lambda>reset. with_counters lib (AllInboundStats reset)),
      sc_AllOutboundStats = (\<lambda>reset. with_counters lib (AllOutboundStats reset))\<rparr>"

definition embedded_core :: "'w xray_lib \<Rightarrow> 'w EmbeddedCore Core" where
  "embedded_core lib =
     \<lparr>core_Start = Start lib, core_Stop = Stop lib, core_IsRunning = IsRunning,
      core_Health = Health, core_Version = Version lib,
      core_Handler = Some (embeddedHandlerClient lib),
      core_Stats = Some (embeddedStatsClient lib)\<rparr>"

section \<open>The core keeps the contract\<close>

lemmas core_defs = Start_def Stop_def newXrayInstance_def takeInstance_def closeOld_def
  closeXrayInstance_def startInstanceWithContext_def setInstance_def Let_def

lemma IsRunning_simps [simp]:
  "IsRunning (c\<lparr>ec_world := w\<rparr>) = IsRunning c"
  "IsRunning (setInstance lib h c)"
  by (simp_all add: IsRunning_def setInstance_def)

lemma Start_IsRunning: "Start lib config c = (None, c') \<Longrightarrow> IsRunning c'"
  by (auto simp: Start_def Let_def split: if_splits sum.splits prod.splits option.splits)

lemma Stop_instance: "ec_instance (snd (Stop lib c)) = None"
  by (auto simp: Stop_def takeInstance_def closeXrayInstance_def split: option.splits prod.splits)

lemma client_AddUser_instance: "ec_instance (snd (client_AddUser lib spec c)) = ec_instance c"
  by (simp add: client_AddUser_def split: sum.splits prod.splits option.splits)

lemma client_RemoveUser_instance: "ec_instance (snd (client_RemoveUser lib tag u c)) = ec_instance c"
  by (simp add: client_RemoveUser_def split: sum.splits prod.splits option.splits)

lemma client_UserIPList_core: "snd (client_UserIPList lib u r c) = c"
  by (simp add: client_UserIPList_def split: sum.splits)

interpretation embedded: core_contract "embedded_core lib" for lib
  by unfold_locales
    (auto simp: embedded_core_def Start_IsRunning Stop_instance IsRunning_def Health_def
      embeddedHandlerClient_def embeddedStatsClient_def client_AddUser_instance
      client_RemoveUser_instance client_UserIPList_core
      intro: Start_IsRunning [unfolded IsRunning_def, simplified])

section \<open>Ownership of instances\<close>

text \<open>
  Every instance ever created is in exactly one place: it is the current instance, it is
  waited for by the goroutine of an abandoned start, it is held by a call in progress
  (\<open>held\<close>), or it has been closed, exactly once.
\<close>

fun closes :: "lib_call list \<Rightarrow> handle list" where
  "closes [] = []"
| "closes (CallClose h # calls) = h # closes calls"
| "closes (_ # calls) = closes calls"

definition accounted :: "handle list \<Rightarrow> 'w EmbeddedCore \<Rightarrow> bool" where
  "accounted held c \<longleftrightarrow>
     mset (case ec_instance c of None \<Rightarrow> [] | Some h \<Rightarrow> [h]) + mset (ec_pending c) + mset held
       + mset (closes (ec_calls c)) = mset [0..<ec_next c]"

lemma closes_append [simp]: "closes (xs @ ys) = closes xs @ closes ys"
  by (induction xs rule: closes.induct) simp_all

lemma accounted_world [simp]: "accounted held (c\<lparr>ec_world := w\<rparr>) = accounted held c"
  by (simp add: accounted_def)

lemma accounted_new:
  "accounted held c \<Longrightarrow> newXrayInstance lib config c = (Inr h, c') \<Longrightarrow> accounted (h # held) c'"
  by (auto simp: accounted_def newXrayInstance_def simp del: mset_upt split: prod.splits option.splits)

lemma accounted_new_error:
  "accounted held c \<Longrightarrow> newXrayInstance lib config c = (Inl e, c') \<Longrightarrow> accounted held c'"
  by (auto simp: accounted_def newXrayInstance_def split: prod.splits option.splits)

lemma accounted_take:
  "accounted held c \<Longrightarrow> takeInstance c = (old, c') \<Longrightarrow>
   accounted ((case old of None \<Rightarrow> [] | Some h \<Rightarrow> [h]) @ held) c'"
  by (auto simp: accounted_def takeInstance_def split: option.splits)

lemma accounted_close:
  "accounted (h # held) c \<Longrightarrow> closeXrayInstance lib h c = (e, c') \<Longrightarrow> accounted held c'"
  by (auto simp: accounted_def closeXrayInstance_def split: prod.splits)

lemma accounted_closeOld:
  "accounted ((case old of None \<Rightarrow> [] | Some h \<Rightarrow> [h]) @ held) c \<Longrightarrow> accounted held (closeOld lib old c)"
  by (cases old) (auto simp: closeOld_def intro: accounted_close [OF _ prod.collapse [symmetric]])

lemma accounted_start:
  assumes "accounted (h # held) c" and "startInstanceWithContext lib h c = (e, c')"
  shows "accounted (if e = None then h # held else held) c'"
  using assms
  by (auto simp: accounted_def startInstanceWithContext_def closeXrayInstance_def Let_def
      add_mset_commute split: prod.splits start_outcome.splits option.splits)

lemma accounted_set:
  "accounted (h # held) c \<Longrightarrow> ec_instance c = None \<Longrightarrow> accounted held (setInstance lib h c)"
  by (simp add: accounted_def setInstance_def)

lemma startInstance_instance:
  "ec_instance (snd (startInstanceWithContext lib h c)) = ec_instance c"
  by (auto simp: startInstanceWithContext_def closeXrayInstance_def Let_def
      split: prod.splits start_outcome.splits option.splits)

lemma closeOld_instance [simp]: "ec_instance (closeOld lib old c) = ec_instance c"
  by (simp add: closeOld_def closeXrayInstance_def split: option.splits prod.splits)

lemma accounted_Start: "accounted [] c \<Longrightarrow> accounted [] (snd (Start lib config c))"
proof (cases "json_Valid config")
  case True
  assume c: "accounted [] c"
  show ?thesis
  proof (cases "lib_LoadConfig lib config (ec_world c)")
    case (Inr cfg)
    obtain r c1 where new: "newXrayInstance lib cfg c = (r, c1)" by fastforce
    show ?thesis
    proof (cases r)
      case (Inl e)
      then show ?thesis
        using True Inr new accounted_new_error [OF c] by (simp add: Start_def)
    next
      case r: (Inr h)
      obtain old c2 where take: "takeInstance c1 = (old, c2)" by fastforce
      let ?c3 = "closeOld lib old c2"
      obtain e c4 where start: "startInstanceWithContext lib h ?c3 = (e, c4)" by fastforce
      have "accounted [h] c1" using accounted_new [OF c] new r by blast
      then have "accounted [h] ?c3"
        using accounted_closeOld accounted_take take by blast
      then have *: "accounted (if e = None then [h] else []) c4"
        using accounted_start start by blast
      have "ec_instance c4 = None"
        using startInstance_instance [of lib h ?c3] start take by (auto simp: takeInstance_def)
      then show ?thesis
        using * True Inr new r take start accounted_set
        by (auto simp: Start_def Let_def split: option.splits)
    qed
  qed (use c in \<open>simp add: Start_def\<close>)
qed (simp add: Start_def)

lemma accounted_Stop: "accounted [] c \<Longrightarrow> accounted [] (snd (Stop lib c))"
  by (auto simp: Stop_def accounted_def takeInstance_def closeXrayInstance_def
      split: option.splits prod.splits)

lemma accounted_abandoned:
  "accounted [] c \<Longrightarrow> accounted [] (abandonedStartReturns lib h c)"
proof -
  assume c: "accounted [] c"
  show ?thesis
  proof (cases "h \<in> set (ec_pending c)")
    case True
    then have "accounted [h] (c\<lparr>ec_pending := remove1 h (ec_pending c)\<rparr>)"
      using c by (simp add: accounted_def)
    then show ?thesis
      using True accounted_close [OF _ prod.collapse [symmetric]]
      by (simp add: abandonedStartReturns_def)
  qed (simp add: abandonedStartReturns_def c)
qed

text \<open>
  What can happen to a core: complete \<open>Start\<close> and \<open>Stop\<close> calls, the return of an
  abandoned start, and changes of the library's world by the clients or by xray-core itself.
\<close>

inductive core_step :: "'w xray_lib \<Rightarrow> 'w EmbeddedCore \<Rightarrow> 'w EmbeddedCore \<Rightarrow> bool"
  for lib :: "'w xray_lib" where
  step_Start: "core_step lib c (snd (Start lib config c))"
| step_Stop: "core_step lib c (snd (Stop lib c))"
| step_abandoned: "core_step lib c (abandonedStartReturns lib h c)"
| step_world: "core_step lib c (c\<lparr>ec_world := w\<rparr>)"

lemma core_step_accounted: "core_step lib c c' \<Longrightarrow> accounted [] c \<Longrightarrow> accounted [] c'"
  by (induction rule: core_step.induct)
    (simp_all add: accounted_Start accounted_Stop accounted_abandoned)

lemma accounted_initial: "accounted [] (NewEmbeddedCore lib w)"
  by (simp add: accounted_def NewEmbeddedCore_def)

lemma reachable_accounted:
  "(core_step lib)\<^sup>*\<^sup>* (NewEmbeddedCore lib w) c \<Longrightarrow> accounted [] c"
  by (induction rule: rtranclp_induct) (auto intro: core_step_accounted accounted_initial)

lemma Start_calls:
  assumes "Start lib config c = (None, c')"
  shows "ec_calls c' = ec_calls c @ [CallNew (ec_next c)]
      @ (case ec_instance c of None \<Rightarrow> [] | Some h \<Rightarrow> [CallClose h]) @ [CallStart (ec_next c)]"
    and "ec_instance c' = Some (ec_next c)"
    and "ec_startedAt c' = Some (lib_Now lib (ec_world c'))"
    and "ec_version c' = lib_Version lib"
  using assms
  by (auto simp: core_defs split: if_splits sum.splits prod.splits option.splits start_outcome.splits)

text \<open>The errors that \<open>Start\<close> finds before it touches the current instance.\<close>

definition rejected :: "'w xray_lib \<Rightarrow> string \<Rightarrow> 'w EmbeddedCore \<Rightarrow> bool" where
  "rejected lib config c \<longleftrightarrow>
     \<not> json_Valid config \<or>
     (case lib_LoadConfig lib config (ec_world c) of
        Inl _ \<Rightarrow> True
      | Inr cfg \<Rightarrow> fst (lib_New lib cfg (ec_next c) (ec_world c)) \<noteq> None)"

lemma Start_rejected:
  "rejected lib config c \<Longrightarrow>
   fst (Start lib config c) \<noteq> None \<and>
   snd (Start lib config c) = c\<lparr>ec_world := ec_world (snd (Start lib config c))\<rparr>"
  by (cases "json_Valid config"; cases "lib_LoadConfig lib config (ec_world c)")
    (auto simp: rejected_def Start_def newXrayInstance_def split: prod.splits option.splits)

lemma Start_accepted:
  assumes "\<not> rejected lib config c" and "Start lib config c = (Some err, c')"
  shows "ec_instance c' = None"
    and "\<exists>tail. ec_calls c' = ec_calls c @ [CallNew (ec_next c)]
      @ (case ec_instance c of None \<Rightarrow> [] | Some h \<Rightarrow> [CallClose h]) @ [CallStart (ec_next c)] @ tail
      \<and> (tail = [CallClose (ec_next c)] \<and> ec_pending c' = ec_pending c \<or>
         tail = [] \<and> ec_pending c' = ec_next c # ec_pending c)"
  using assms
  by (auto simp: rejected_def core_defs
      split: if_splits sum.splits prod.splits option.splits start_outcome.splits)

section \<open>Properties\<close>

definition example_lib :: "bool xray_lib" where
  "example_lib =
     \<lparr>lib_LoadConfig = (\<lambda>_ _. Inr 0), lib_New = (\<lambda>_ _ w. (None, w)),
      lib_Start = (\<lambda>h w. (if w then StartReturned None
                          else ContextDone (NewError ''context deadline exceeded''), w)),
      lib_Close = (\<lambda>_ w. (None, w)), lib_Version = ''26.3.27'', lib_Now = (\<lambda>_. 7),
      lib_rnd = id, lib_InboundManager = (\<lambda>_ _. Feature 0), lib_GetHandler = (\<lambda>_ _ _. Inr 0),
      lib_GetInbound = (\<lambda>_ _. Some 0), lib_UserManager = (\<lambda>_ _. Some 0),
      lib_ToMemoryUser = (\<lambda>_. Inr 0), lib_AddUser = (\<lambda>_ _ w. (None, w)),
      lib_RemoveUser = (\<lambda>_ _ w. (None, w)), lib_StatsManager = (\<lambda>_ _. Feature 0),
      lib_Counters = (\<lambda>_ _. []), lib_SetCounters = (\<lambda>_ _ w. w),
      lib_GetOnlineMap = (\<lambda>_ _ _. None), lib_GetAllOnlineUsers = (\<lambda>_ _. []),
      lib_NumGoroutine = (\<lambda>_. 1),
      lib_MemStats = (\<lambda>_. \<lparr>sys_NumGoroutine = 0, sys_NumGC = 0, sys_Alloc = 0, sys_TotalAlloc = 0,
        sys_Sys = 0, sys_Mallocs = 0, sys_Frees = 0, sys_LiveObjects = 0, sys_PauseTotalNs = 0,
        sys_Uptime = 0\<rparr>)\<rparr>"

definition example_core :: "bool EmbeddedCore" where
  "example_core = snd (Start example_lib ''{}'' (NewEmbeddedCore example_lib True))"

text \<open>
  C2. No Xray instance is leaked and none is closed twice: after any sequence of starts,
  stops, returns of abandoned starts and other activity, an instance that was created has been
  closed exactly once unless it is the current one or its abandoned start has not returned
  yet, and those have not been closed.
\<close>

theorem instances_closed_once:
  assumes "(core_step lib)\<^sup>*\<^sup>* (NewEmbeddedCore lib w) c"
  shows "count_list (closes (ec_calls c)) h =
      (if h < ec_next c \<and> ec_instance c \<noteq> Some h \<and> h \<notin> set (ec_pending c) then 1 else 0)"
proof -
  have eq: "mset (case ec_instance c of None \<Rightarrow> [] | Some h \<Rightarrow> [h]) + mset (ec_pending c)
      + mset (closes (ec_calls c)) = mset [0..<ec_next c]"
    using reachable_accounted [OF assms] by (simp add: accounted_def)
  have "count (mset [0..<ec_next c]) h = (if h < ec_next c then 1 else 0)"
    by (simp add: count_mset_set')
  with arg_cong [where f = "\<lambda>m. count m h", OF eq] count_list_0_iff [of "ec_pending c" h]
  show ?thesis
    by (auto simp: count_mset split: option.splits if_splits)
qed

theorem instances_closed_once_witness:
  "count_list (closes (ec_calls (snd (Start example_lib ''{}'' example_core)))) 0 =
     (if 0 < ec_next (snd (Start example_lib ''{}'' example_core)) \<and>
         ec_instance (snd (Start example_lib ''{}'' example_core)) \<noteq> Some 0 \<and>
         0 \<notin> set (ec_pending (snd (Start example_lib ''{}'' example_core))) then 1 else 0)"
  by (rule instances_closed_once [where lib = example_lib and w = True])
    (unfold example_core_def, rule rtranclp.rtrancl_into_rtrancl [OF r_into_rtranclp]; rule step_Start)

text \<open>
  C16. A start that returns nil has run the new instance in this order: create it, close the
  previous one if there was one, start it; it is then the current instance, with the
  library's version and the time of the clock.
\<close>

theorem Start_replaces_instance:
  assumes "Start lib config c = (None, c')"
  shows "ec_calls c' = ec_calls c @ [CallNew (ec_next c)]
      @ (case ec_instance c of None \<Rightarrow> [] | Some h \<Rightarrow> [CallClose h]) @ [CallStart (ec_next c)]
    \<and> ec_instance c' = Some (ec_next c) \<and> ec_startedAt c' = Some (lib_Now lib (ec_world c'))
    \<and> ec_version c' = lib_Version lib"
  using Start_calls [OF assms] by blast

theorem Start_replaces_instance_witness:
  "ec_calls example_core = [] @ [CallNew 0] @ [] @ [CallStart 0] \<and> ec_instance example_core = Some 0"
proof -
  have ok: "Start example_lib ''{}'' (NewEmbeddedCore example_lib True) = (None, example_core)"
    by code_simp
  have new: "ec_calls (NewEmbeddedCore example_lib True) = []"
      "ec_next (NewEmbeddedCore example_lib True) = 0"
      "ec_instance (NewEmbeddedCore example_lib True) = None"
    by (simp_all add: NewEmbeddedCore_def)
  show ?thesis
    using Start_replaces_instance [OF ok] by (simp add: new)
qed

text \<open>
  C15. What a failed start leaves behind. If the bytes are not JSON, do not load, or no
  instance can be created, the running instance is untouched. Otherwise the previous
  instance is gone: it was closed before the new one was started, nothing runs, and the new
  one has been closed or, when the deadline passed, is left to the waiting goroutine.
\<close>

theorem Start_failure_outcomes:
  "if rejected lib config c
   then fst (Start lib config c) \<noteq> None \<and>
        snd (Start lib config c) = c\<lparr>ec_world := ec_world (snd (Start lib config c))\<rparr>
   else case Start lib config c of
          (None, c') \<Rightarrow> ec_instance c' = Some (ec_next c)
        | (Some err, c') \<Rightarrow>
            ec_instance c' = None \<and>
            (\<exists>tail. ec_calls c' = ec_calls c @ [CallNew (ec_next c)]
                @ (case ec_instance c of None \<Rightarrow> [] | Some h \<Rightarrow> [CallClose h])
                @ [CallStart (ec_next c)] @ tail \<and>
              (tail = [CallClose (ec_next c)] \<and> ec_pending c' = ec_pending c \<or>
               tail = [] \<and> ec_pending c' = ec_next c # ec_pending c))"
proof (cases "rejected lib config c")
  case True
  show ?thesis unfolding if_P [OF True] by (rule Start_rejected [OF True])
next
  case False
  obtain e c' where start: "Start lib config c = (e, c')" by fastforce
  show ?thesis
  proof (cases e)
    case None
    then show ?thesis
      using False Start_calls(2) start by (simp only: if_False prod.case option.case)
  next
    case (Some err)
    then show ?thesis
      using False Start_accepted [OF False start [unfolded Some]] start
      by (simp only: if_False prod.case option.case simp_thms)
  qed
qed

end
