(* ===== verification/ConfigBuilder.thy ===== *)
theory ConfigBuilder
  imports GoStrings Contracts
begin

text \<open>
  The Xray config builder (\<open>internal/xray/config.go\<close>): it deep-copies the Panel's
  config, refuses the reserved tags, overrides the port of hysteria inbounds and completes
  the stats and policy sections. \<open>cloneMap\<close> makes every later in-place write a write
  to the copy, so the writes are functional updates here; the in-place write to the
  inbounds becomes an update of the \<open>inbounds\<close> entry. Values of type \<open>any\<close> that are
  missing from a map read as nil (\<open>None\<close>).
\<close>

definition APITag :: string where "APITag = ''REMNAWAVE_API''"
definition APIInboundTag :: string where "APIInboundTag = ''REMNAWAVE_API_INBOUND''"

record ConfigBuilder =
  StatsUserOnline :: bool
  HysteriaListenPort :: int

section \<open>Copying and type assertions\<close>

primrec cloneValue :: "json \<Rightarrow> json" where
  "cloneValue JNull = JNull"
| "cloneValue (JBool b) = JBool b"
| "cloneValue (JFloat d) = JFloat d"
| "cloneValue (JInt i) = JInt i"
| "cloneValue (JStr s) = JStr s"
| "cloneValue (JArr xs) = JArr (map cloneValue xs)"
| "cloneValue (JObj m) = JObj (fmmap cloneValue m)"

definition cloneMap :: "json_map \<Rightarrow> json_obj" where
  "cloneMap input = (case input of None \<Rightarrow> fmempty | Some m \<Rightarrow> fmmap cloneValue m)"

definition ensureMap :: "json option \<Rightarrow> json_obj" where
  "ensureMap value = (case as_map value of Some m \<Rightarrow> cloneMap (Some m) | None \<Rightarrow> fmempty)"

definition ensureArray :: "json option \<Rightarrow> json list" where
  "ensureArray value = (case as_array value of Some xs \<Rightarrow> xs | None \<Rightarrow> [])"

section \<open>Reserved tags\<close>

definition item_has_tag :: "string \<Rightarrow> json \<Rightarrow> bool" where
  "item_has_tag tag item =
     (case as_map (Some item) of None \<Rightarrow> False | Some m \<Rightarrow> fmlookup m ''tag'' = Some (JStr tag))"

definition hasTag :: "json_obj \<Rightarrow> string \<Rightarrow> bool" where
  "hasTag config tag =
     list_ex (\<lambda>sect. list_ex (item_has_tag tag) (ensureArray (fmlookup config sect)))
       [''inbounds'', ''outbounds'']"

section \<open>The hysteria port\<close>

definition set_hysteria_port :: "int \<Rightarrow> json \<Rightarrow> json" where
  "set_hysteria_port port item =
     (case as_map (Some item) of
        None \<Rightarrow> item
      | Some inbound \<Rightarrow>
          if fmlookup inbound ''protocol'' = Some (JStr ''hysteria'')
          then JObj (fmupd ''port'' (JInt port) inbound) else item)"

definition applyHysteriaListenPort :: "json_obj \<Rightarrow> int \<Rightarrow> json_obj" where
  "applyHysteriaListenPort config port =
     (if port \<le> 0 then config
      else case as_array (fmlookup config ''inbounds'') of
        None \<Rightarrow> config
      | Some items \<Rightarrow> fmupd ''inbounds'' (JArr (map (set_hysteria_port port) items)) config)"

section \<open>Build\<close>

definition level0_stats :: "ConfigBuilder \<Rightarrow> json_obj \<Rightarrow> json_obj" where
  "level0_stats b level0 =
     fmupd ''statsUserOnline'' (JBool (StatsUserOnline b))
       (fmupd ''statsUserDownlink'' (JBool True) (fmupd ''statsUserUplink'' (JBool True) level0))"

definition system_stats :: "json_obj \<Rightarrow> json_obj" where
  "system_stats system =
     fmupd ''statsOutboundUplink'' (JBool True)
       (fmupd ''statsOutboundDownlink'' (JBool True)
         (fmupd ''statsInboundUplink'' (JBool True)
           (fmupd ''statsInboundDownlink'' (JBool True) system)))"

definition complete_policy :: "ConfigBuilder \<Rightarrow> json option \<Rightarrow> json_obj" where
  "complete_policy b value =
     (let policy = ensureMap value;
          levels = ensureMap (fmlookup policy ''levels'');
          level0 = level0_stats b (ensureMap (fmlookup levels ''0''));
          levels' = fmupd ''0'' (JObj level0) levels;
          policy' = fmupd ''levels'' (JObj levels') policy;
          system = system_stats (ensureMap (fmlookup policy' ''system''))
      in fmupd ''system'' (JObj system) policy')"

definition tag_conflict :: "string \<Rightarrow> string \<Rightarrow> gerror" where
  "tag_conflict tag kind =
     NewError (''xray config tag '' @ Quote tag @ '' conflicts with Remnawave API '' @ kind)"

definition Build :: "ConfigBuilder \<Rightarrow> json_map \<Rightarrow> gerror + json_obj" where
  "Build b panelConfig =
     (let config = cloneMap panelConfig in
      if hasTag config APITag then Inl (tag_conflict APITag ''tag'')
      else if hasTag config APIInboundTag then Inl (tag_conflict APIInboundTag ''inbound tag'')
      else
        let config = applyHysteriaListenPort config (HysteriaListenPort b);
            config = fmupd ''stats'' (JObj (ensureMap (fmlookup config ''stats''))) config
        in Inr (fmupd ''policy'' (JObj (complete_policy b (fmlookup config ''policy''))) config))"

section \<open>What the controller logs of a config (\<open>internal/controller/xray_controller.go\<close>)\<close>

definition arrayLen :: "json option \<Rightarrow> nat" where
  "arrayLen value = (case as_array value of None \<Rightarrow> 0 | Some items \<Rightarrow> length items)"

definition hasMap :: "json option \<Rightarrow> bool" where
  "hasMap value = (as_map value \<noteq> None)"

definition routingRulesLen :: "json_obj \<Rightarrow> nat" where
  "routingRulesLen config =
     (case as_map (fmlookup config ''routing'') of
        None \<Rightarrow> 0
      | Some routing \<Rightarrow> arrayLen (fmlookup routing ''rules''))"

definition statsUserOnlineEnabled :: "json_obj \<Rightarrow> bool" where
  "statsUserOnlineEnabled config =
     (case as_map (fmlookup config ''policy'') of
        None \<Rightarrow> False
      | Some policy \<Rightarrow>
     (case as_map (fmlookup policy ''levels'') of
        None \<Rightarrow> False
      | Some levels \<Rightarrow>
     (case as_map (fmlookup levels ''0'') of
        None \<Rightarrow> False
      | Some level0 \<Rightarrow> as_bool (fmlookup level0 ''statsUserOnline'') = Some True)))"

section \<open>Lemmas\<close>

text \<open>The copy has the value of the original.\<close>

lemma cloneValue_id [simp]: "cloneValue v = v"
proof (induction v)
  case (JArr xs)
  then show ?case by (simp add: map_idI)
next
  case (JObj m)
  then show ?case by (simp add: fmmap_id_strong)
qed simp_all

lemma fmmap_cloneValue [simp]: "fmmap cloneValue m = m"
  by (rule fmmap_id_strong) simp

lemma cloneMap_Some [simp]: "cloneMap (Some m) = m"
  by (simp add: cloneMap_def)

lemma cloneMap_None [simp]: "cloneMap None = fmempty"
  by (simp add: cloneMap_def)

lemma ensureMap_JObj [simp]: "ensureMap (Some (JObj m)) = m"
  by (simp add: ensureMap_def)

lemma ensureMap_as_map: "ensureMap v = (case as_map v of Some m \<Rightarrow> m | None \<Rightarrow> fmempty)"
  by (simp add: ensureMap_def split: option.split)

lemma as_map_set_hysteria_port:
  "as_map (Some (set_hysteria_port p item)) =
     map_option (\<lambda>m. if fmlookup m ''protocol'' = Some (JStr ''hysteria'')
                     then fmupd ''port'' (JInt p) m else m) (as_map (Some item))"
  by (auto simp: set_hysteria_port_def as_map_Some split: option.split)

lemma set_hysteria_port_idem [simp]:
  "set_hysteria_port p (set_hysteria_port p item) = set_hysteria_port p item"
  by (auto simp: set_hysteria_port_def split: option.split)

lemma item_has_tag_set_port [simp]:
  "item_has_tag tag (set_hysteria_port p item) = item_has_tag tag item"
  by (auto simp: item_has_tag_def as_map_set_hysteria_port split: option.split)

lemma applyHysteriaListenPort_lookup:
  "fmlookup (applyHysteriaListenPort config p) k =
     (if k = ''inbounds'' \<and> p > 0
      then map_option (\<lambda>v. case v of JArr items \<Rightarrow> JArr (map (set_hysteria_port p) items) | _ \<Rightarrow> v)
             (fmlookup config k)
      else fmlookup config k)"
  by (auto simp: applyHysteriaListenPort_def as_array_def split: option.split json.split)

lemma hasTag_apply [simp]: "hasTag (applyHysteriaListenPort config p) tag = hasTag config tag"
proof -
  have "list_ex (item_has_tag tag) (ensureArray (fmlookup (applyHysteriaListenPort config p) k)) =
        list_ex (item_has_tag tag) (ensureArray (fmlookup config k))" for k
    by (auto simp: applyHysteriaListenPort_lookup ensureArray_def as_array_def list_ex_iff
        split: option.split json.split)
  then show ?thesis by (simp add: hasTag_def)
qed

lemma hasTag_cong:
  "fmlookup c ''inbounds'' = fmlookup d ''inbounds'' \<Longrightarrow>
   fmlookup c ''outbounds'' = fmlookup d ''outbounds'' \<Longrightarrow> hasTag c tag = hasTag d tag"
  by (simp add: hasTag_def)

lemma item_has_tag_iff:
  "item_has_tag tag item \<longleftrightarrow> (\<exists>m. item = JObj m \<and> fmlookup m ''tag'' = Some (JStr tag))"
  by (cases item) (auto simp: item_has_tag_def)

lemma set_ensureArray:
  "x \<in> set (ensureArray v) \<longleftrightarrow> (\<exists>items. v = Some (JArr items) \<and> x \<in> set items)"
  by (auto simp: ensureArray_def as_array_def split: option.split json.split)

lemma hasTag_iff:
  "hasTag config tag \<longleftrightarrow>
     (\<exists>sect\<in>{''inbounds'', ''outbounds''}. \<exists>items m.
        fmlookup config sect = Some (JArr items) \<and> JObj m \<in> set items \<and>
        fmlookup m ''tag'' = Some (JStr tag))"
  unfolding hasTag_def list_ex_iff Bex_def set_ensureArray item_has_tag_iff by auto

lemma level0_stats_idem [simp]: "level0_stats b (level0_stats b m) = level0_stats b m"
  by (rule fmap_ext) (simp add: level0_stats_def)

lemma system_stats_idem [simp]: "system_stats (system_stats m) = system_stats m"
  by (rule fmap_ext) (simp add: system_stats_def)

lemma complete_policy_idem [simp]:
  "complete_policy b (Some (JObj (complete_policy b v))) = complete_policy b v"
  by (rule fmap_ext) (simp add: complete_policy_def Let_def)

lemma Build_Inr:
  "Build b pc = Inr c \<longleftrightarrow>
     \<not> hasTag (cloneMap pc) APITag \<and> \<not> hasTag (cloneMap pc) APIInboundTag \<and>
     c = (let config = applyHysteriaListenPort (cloneMap pc) (HysteriaListenPort b)
          in fmupd ''policy'' (JObj (complete_policy b (fmlookup config ''policy'')))
               (fmupd ''stats'' (JObj (ensureMap (fmlookup config ''stats''))) config))"
  by (auto simp: Build_def Let_def)

lemma Build_Inr_hasTag: "Build b pc = Inr c \<Longrightarrow> hasTag c tag = hasTag (cloneMap pc) tag"
  by (subst hasTag_cong [of c "applyHysteriaListenPort (cloneMap pc) (HysteriaListenPort b)"])
     (auto simp: Build_Inr Let_def)

lemma Build_lookup_other:
  assumes "Build b pc = Inr c" and "k \<notin> {''inbounds'', ''stats'', ''policy''}"
  shows "fmlookup c k = fmlookup (cloneMap pc) k"
  using assms by (auto simp: Build_Inr Let_def applyHysteriaListenPort_lookup)

lemma Build_lookup_inbounds:
  assumes "Build b pc = Inr c"
  shows "fmlookup c ''inbounds'' =
     fmlookup (applyHysteriaListenPort (cloneMap pc) (HysteriaListenPort b)) ''inbounds''"
  using assms by (auto simp: Build_Inr Let_def)

lemma Build_lookup_policy:
  assumes "Build b pc = Inr c"
  shows "fmlookup c ''policy'' = Some (JObj (complete_policy b (fmlookup (cloneMap pc) ''policy'')))"
  using assms by (auto simp: Build_Inr Let_def applyHysteriaListenPort_lookup)

lemma Build_lookup_stats:
  assumes "Build b pc = Inr c"
  shows "fmlookup c ''stats'' = Some (JObj (ensureMap (fmlookup (cloneMap pc) ''stats'')))"
  using assms by (auto simp: Build_Inr Let_def applyHysteriaListenPort_lookup)

section \<open>Properties\<close>

text \<open>The value at a path of keys through nested objects.\<close>

fun json_at :: "json \<Rightarrow> string list \<Rightarrow> json option" where
  "json_at v [] = Some v"
| "json_at (JObj m) (k # path) = (case fmlookup m k of Some v \<Rightarrow> json_at v path | None \<Rightarrow> None)"
| "json_at v (k # path) = None"

text \<open>The switches that make Xray count, and the value each has to have.\<close>

definition switches :: "ConfigBuilder \<Rightarrow> (string list \<times> bool) set" where
  "switches b =
     {([''policy'', ''levels'', ''0'', ''statsUserUplink''], True),
      ([''policy'', ''levels'', ''0'', ''statsUserDownlink''], True),
      ([''policy'', ''levels'', ''0'', ''statsUserOnline''], StatsUserOnline b),
      ([''policy'', ''system'', ''statsInboundDownlink''], True),
      ([''policy'', ''system'', ''statsInboundUplink''], True),
      ([''policy'', ''system'', ''statsOutboundDownlink''], True),
      ([''policy'', ''system'', ''statsOutboundUplink''], True)}"

text \<open>An inbound before and after: a hysteria one gets the configured port, nothing else of it changes.\<close>

definition inbound_built :: "int \<Rightarrow> json \<Rightarrow> json \<Rightarrow> bool" where
  "inbound_built port v v' \<longleftrightarrow>
     (if 0 < port \<and> json_at v [''protocol''] = Some (JStr ''hysteria'')
      then json_at v' [''port''] = Some (JInt port) \<and>
        (\<forall>key path. key \<noteq> ''port'' \<longrightarrow> json_at v' (key # path) = json_at v (key # path))
      else v' = v)"

lemma json_at_upd [simp]:
  "json_at (JObj (fmupd k v m)) (k' # path) = (if k' = k then json_at v path else json_at (JObj m) (k' # path))"
  by simp

lemma json_at_lookup: "json_at (JObj m) [k] = fmlookup m k"
  by (simp split: option.split)

lemma json_at_ensureMap:
  "json_at (JObj (ensureMap v)) (k # path) = (case v of Some w \<Rightarrow> json_at w (k # path) | None \<Rightarrow> None)"
  by (cases v; cases "the v") (simp_all add: ensureMap_def)

lemma json_at_ensureMap_lookup:
  "json_at (JObj (ensureMap (fmlookup m k))) (k' # path) = json_at (JObj m) (k # k' # path)"
  by (simp only: json_at_ensureMap json_at.simps(2) [of m k])

declare json_at.simps(2) [simp del]

lemma inbound_built_set_port:
  "inbound_built port v (if 0 < port then set_hysteria_port port v else v)"
  by (cases v) (auto simp: inbound_built_def set_hysteria_port_def json_at_lookup)

lemma complete_policy_switches:
  "(''policy'' # path, on) \<in> switches b \<Longrightarrow> json_at (JObj (complete_policy b v)) path = Some (JBool on)"
  unfolding switches_def complete_policy_def Let_def level0_stats_def system_stats_def by auto

lemma level0_stats_other:
  "k \<notin> {''statsUserUplink'', ''statsUserDownlink'', ''statsUserOnline''} \<Longrightarrow>
     json_at (JObj (level0_stats b m)) (k # path) = json_at (JObj m) (k # path)"
  by (simp add: level0_stats_def)

lemma system_stats_other:
  "k \<notin> {''statsInboundDownlink'', ''statsInboundUplink'', ''statsOutboundDownlink'', ''statsOutboundUplink''} \<Longrightarrow>
     json_at (JObj (system_stats m)) (k # path) = json_at (JObj m) (k # path)"
  by (simp add: system_stats_def)

lemma complete_policy_at:
  "json_at (JObj (complete_policy b v)) (k # path) =
     (if k = ''system'' then json_at (JObj (system_stats (ensureMap (fmlookup (ensureMap v) ''system'')))) path
      else if k = ''levels'' then
        json_at (JObj (fmupd ''0'' (JObj (level0_stats b (ensureMap (fmlookup (ensureMap (fmlookup (ensureMap v) ''levels'')) ''0''))))
          (ensureMap (fmlookup (ensureMap v) ''levels'')))) path
      else json_at (JObj (ensureMap v)) (k # path))"
  by (simp add: complete_policy_def Let_def)

lemma complete_policy_other:
  assumes other: "\<forall>(q, on)\<in>switches b. \<not> prefix (''policy'' # k # path) q \<and> \<not> prefix q (''policy'' # k # path)"
  shows "json_at (JObj (complete_policy b v)) (k # path) = json_at (JObj (ensureMap v)) (k # path)"
proof -
  consider "k = ''system''" | "k = ''levels''" | "k \<notin> {''system'', ''levels''}" by blast
  then show ?thesis
  proof cases
    case 1
    then obtain k' r where path: "path = k' # r" using other by (cases path) (auto simp: switches_def)
    then have "k' \<notin> {''statsInboundDownlink'', ''statsInboundUplink'', ''statsOutboundDownlink'', ''statsOutboundUplink''}"
      using other 1 by (auto simp: switches_def)
    then show ?thesis
      unfolding complete_policy_at 1 path using system_stats_other json_at_ensureMap_lookup by simp
  next
    case 2
    then obtain k' r where path: "path = k' # r" using other by (cases path) (auto simp: switches_def)
    show ?thesis
    proof (cases "k' = ''0''")
      case True
      with path 2 obtain k2 r2 where r: "r = k2 # r2" using other by (cases r) (auto simp: switches_def)
      then have "k2 \<notin> {''statsUserUplink'', ''statsUserDownlink'', ''statsUserOnline''}"
        using other 2 True path by (auto simp: switches_def)
      then show ?thesis
        unfolding complete_policy_at 2 path r True using level0_stats_other json_at_ensureMap_lookup by simp
    next
      case False
      then show ?thesis unfolding complete_policy_at 2 path by (simp add: json_at_ensureMap_lookup)
    qed
  next
    case 3
    then show ?thesis by (simp add: complete_policy_at)
  qed
qed

text \<open>The Panel's config as a value; no config at all counts as an empty one.\<close>

definition panel_value :: "json_map \<Rightarrow> json" where
  "panel_value panelConfig = JObj (case panelConfig of Some m \<Rightarrow> m | None \<Rightarrow> fmempty)"

lemma panel_value_clone: "panel_value panelConfig = JObj (cloneMap panelConfig)"
  by (simp add: panel_value_def cloneMap_def split: option.split)

lemma Build_inbounds_list:
  assumes "Build b panelConfig = Inr c" "json_at (panel_value panelConfig) [''inbounds''] = Some (JArr items)"
  shows "\<exists>items'. json_at (JObj c) [''inbounds''] = Some (JArr items') \<and>
    list_all2 (inbound_built (HysteriaListenPort b)) items items'"
proof (intro exI conjI)
  let ?items = "map (\<lambda>v. if 0 < HysteriaListenPort b then set_hysteria_port (HysteriaListenPort b) v else v) items"
  show "json_at (JObj c) [''inbounds''] = Some (JArr ?items)"
    using assms(2)
    by (simp add: json_at_lookup panel_value_clone Build_lookup_inbounds [OF assms(1)] applyHysteriaListenPort_lookup
        map_idI)
  show "list_all2 (inbound_built (HysteriaListenPort b)) items ?items"
    unfolding list.rel_map by (rule list.rel_refl) (rule inbound_built_set_port)
qed

lemma Build_other_paths:
  assumes "Build b panelConfig = Inr c" "path \<noteq> [''stats'']" "take 1 path \<noteq> [''inbounds'']"
    "\<forall>(q, on)\<in>switches b. \<not> prefix path q \<and> \<not> prefix q path"
  shows "json_at (JObj c) path = json_at (panel_value panelConfig) path"
proof -
  obtain k rest where path: "path = k # rest" using assms(4) by (cases path) (auto simp: switches_def)
  consider "k \<notin> {''inbounds'', ''stats'', ''policy''}" | "k = ''stats''" "rest \<noteq> []" | "k = ''policy''"
    using assms(2,3) path by auto
  then show ?thesis
  proof cases
    case 1
    then show ?thesis using Build_lookup_other [OF assms(1) 1] path by (simp add: panel_value_clone json_at.simps(2))
  next
    case 2
    then obtain k' r where "rest = k' # r" by (cases rest) auto
    then show ?thesis using 2 path json_at_ensureMap_lookup [of "cloneMap panelConfig" "''stats''" k' r]
      by (simp only: panel_value_clone json_at.simps(2) [of c] Build_lookup_stats [OF assms(1)] option.case)
  next
    case 3
    then obtain k' r where rest: "rest = k' # r" using assms(4) path by (cases rest) (auto simp: switches_def)
    have "json_at (JObj (complete_policy b (fmlookup (cloneMap panelConfig) ''policy''))) (k' # r) =
        json_at (JObj (ensureMap (fmlookup (cloneMap panelConfig) ''policy''))) (k' # r)"
      by (rule complete_policy_other) (use assms(4) 3 path rest in simp)
    then show ?thesis
      unfolding 3 path rest panel_value_clone json_at_ensureMap_lookup
      by (simp add: json_at.simps(2) [of c] Build_lookup_policy [OF assms(1)])
  qed
qed

text \<open>
  C12. What \<open>Build\<close> returns, read by the paths of the config. It fails exactly when an inbound or an outbound of the
  Panel's config already carries one of the two reserved tags. Otherwise the seven switches that make Xray count have
  their values, there is a stats section, the Panel's own one or an empty one, the inbounds are the
  Panel's, in order and without a change but for the port of the hysteria ones when a port is configured, and at every
  other path the config reads as the Panel's.
\<close>

theorem Build_specification:
  "((\<exists>err. Build b panelConfig = Inl err) \<longleftrightarrow>
      (\<exists>sect\<in>{''inbounds'', ''outbounds''}. \<exists>items item. json_at (panel_value panelConfig) [sect] = Some (JArr items) \<and>
         item \<in> set items \<and>
         json_at item [''tag''] \<in> {Some (JStr ''REMNAWAVE_API''), Some (JStr ''REMNAWAVE_API_INBOUND'')})) \<and>
   (\<forall>c. Build b panelConfig = Inr c \<longrightarrow>
      (\<forall>(path, on)\<in>switches b. json_at (JObj c) path = Some (JBool on)) \<and>
      json_at (JObj c) [''stats''] =
        (case json_at (panel_value panelConfig) [''stats''] of
           Some (JObj m) \<Rightarrow> Some (JObj m) | _ \<Rightarrow> Some (JObj fmempty)) \<and>
      (case json_at (panel_value panelConfig) [''inbounds''] of
         Some (JArr items) \<Rightarrow> (\<exists>items'. json_at (JObj c) [''inbounds''] = Some (JArr items') \<and>
           list_all2 (inbound_built (HysteriaListenPort b)) items items')
       | v \<Rightarrow> json_at (JObj c) [''inbounds''] = v) \<and>
      (\<forall>path. path \<noteq> [''stats''] \<longrightarrow> take 1 path \<noteq> [''inbounds''] \<longrightarrow>
         (\<forall>(q, on)\<in>switches b. \<not> prefix path q \<and> \<not> prefix q path) \<longrightarrow>
         json_at (JObj c) path = json_at (panel_value panelConfig) path))"
proof (intro conjI allI impI)
  have item_tag: "json_at item [''tag''] = Some (JStr t) \<longleftrightarrow> (\<exists>m. item = JObj m \<and> fmlookup m ''tag'' = Some (JStr t))"
    for item t by (cases item) (auto simp: json_at_lookup)
  have "(\<exists>err. Build b panelConfig = Inl err) \<longleftrightarrow>
      hasTag (cloneMap panelConfig) ''REMNAWAVE_API'' \<or> hasTag (cloneMap panelConfig) ''REMNAWAVE_API_INBOUND''"
    by (simp add: Build_def Let_def APITag_def APIInboundTag_def)
  also have "\<dots> \<longleftrightarrow> (\<exists>sect\<in>{''inbounds'', ''outbounds''}. \<exists>items item.
      json_at (panel_value panelConfig) [sect] = Some (JArr items) \<and> item \<in> set items \<and>
      json_at item [''tag''] \<in> {Some (JStr ''REMNAWAVE_API''), Some (JStr ''REMNAWAVE_API_INBOUND'')})"
    unfolding hasTag_iff panel_value_clone json_at_lookup insert_iff item_tag empty_iff by blast
  finally show "(\<exists>err. Build b panelConfig = Inl err) \<longleftrightarrow> \<dots>" .
next
  fix c assume c: "Build b panelConfig = Inr c"
  show "\<forall>(path, on)\<in>switches b. json_at (JObj c) path = Some (JBool on)"
  proof safe
    fix path on assume sw: "(path, on) \<in> switches b"
    then obtain rest where rest: "path = ''policy'' # rest" by (auto simp: switches_def)
    then show "json_at (JObj c) path = Some (JBool on)"
      using complete_policy_switches [OF sw [unfolded rest]] Build_lookup_policy [OF c]
      by (simp add: json_at.simps(2) [of c])
  qed
  show "json_at (JObj c) [''stats''] =
      (case json_at (panel_value panelConfig) [''stats''] of Some (JObj m) \<Rightarrow> Some (JObj m) | _ \<Rightarrow> Some (JObj fmempty))"
    unfolding json_at_lookup panel_value_clone Build_lookup_stats [OF c]
    by (auto simp: ensureMap_def split: option.split json.split)
  show "case json_at (panel_value panelConfig) [''inbounds''] of
      Some (JArr items) \<Rightarrow> (\<exists>items'. json_at (JObj c) [''inbounds''] = Some (JArr items') \<and>
        list_all2 (inbound_built (HysteriaListenPort b)) items items')
    | v \<Rightarrow> json_at (JObj c) [''inbounds''] = v"
    using Build_inbounds_list [OF c]
    unfolding json_at_lookup panel_value_clone Build_lookup_inbounds [OF c] applyHysteriaListenPort_lookup
    by (auto split: option.split json.split)
next
  fix c path
  assume "Build b panelConfig = Inr c" "path \<noteq> [''stats'']" "take 1 path \<noteq> [''inbounds'']"
    "\<forall>(q, on)\<in>switches b. \<not> prefix path q \<and> \<not> prefix q path"
  then show "json_at (JObj c) path = json_at (panel_value panelConfig) path" by (rule Build_other_paths)
qed

text \<open>
  \<open>Build\<close> is idempotent: a config that it returned is built to itself.
\<close>

theorem Build_idempotent:
  assumes "Build b panelConfig = Inr c"
  shows "Build b (Some c) = Inr c"
proof -
  have tags: "\<not> hasTag c APITag" "\<not> hasTag c APIInboundTag"
    using assms Build_Inr_hasTag [OF assms] by (simp_all add: Build_Inr)
  have hyst: "applyHysteriaListenPort c (HysteriaListenPort b) = c"
    by (rule fmap_ext, cases "fmlookup (cloneMap panelConfig) ''inbounds''")
      (auto simp: applyHysteriaListenPort_lookup Build_lookup_inbounds [OF assms] split: json.split)
  show ?thesis
    using tags
    by (auto simp: Build_Inr Let_def hyst Build_lookup_policy [OF assms] Build_lookup_stats [OF assms]
        intro!: fmap_ext)
qed

definition example_config :: json_obj where
  "example_config = fmupd ''inbounds'' (JArr [JObj (fmupd ''protocol'' (JStr ''hysteria'') fmempty)]) fmempty"

theorem Build_idempotent_witness:
  "\<exists>c. Build \<lparr>StatsUserOnline = True, HysteriaListenPort = 443\<rparr> (Some example_config) = Inr c \<and>
       Build \<lparr>StatsUserOnline = True, HysteriaListenPort = 443\<rparr> (Some c) = Inr c"
proof -
  have "\<not> hasTag example_config tag" for tag
    by (auto simp: hasTag_iff example_config_def)
  then obtain c where c: "Build \<lparr>StatsUserOnline = True, HysteriaListenPort = 443\<rparr> (Some example_config) = Inr c"
    by (simp add: Build_def Let_def)
  with Build_idempotent [OF c] show ?thesis by blast
qed

theorem Build_specification_witness:
  "\<exists>c item. Build \<lparr>StatsUserOnline = True, HysteriaListenPort = 443\<rparr> (Some example_config) = Inr c \<and>
     json_at (JObj c) [''policy'', ''levels'', ''0'', ''statsUserUplink''] = Some (JBool True) \<and>
     json_at (JObj c) [''inbounds''] = Some (JArr [item]) \<and> json_at item [''port''] = Some (JInt 443)"
proof -
  let ?b = "\<lparr>StatsUserOnline = True, HysteriaListenPort = 443\<rparr>"
  have inbounds: "json_at (panel_value (Some example_config)) [''inbounds''] =
      Some (JArr [JObj (fmupd ''protocol'' (JStr ''hysteria'') fmempty)])"
    by (simp add: panel_value_def example_config_def)
  have "\<not> hasTag example_config tag" for tag
    by (auto simp: hasTag_iff example_config_def)
  then obtain c where c: "Build ?b (Some example_config) = Inr c"
    by (simp add: Build_def Let_def)
  note spec = Build_specification [of ?b "Some example_config", THEN conjunct2, THEN spec, THEN mp, OF c]
  from spec have "json_at (JObj c) [''policy'', ''levels'', ''0'', ''statsUserUplink''] = Some (JBool True)"
    by (elim conjE) (drule bspec [of _ _ "([''policy'', ''levels'', ''0'', ''statsUserUplink''], True)"],
      simp add: switches_def, simp)
  moreover from spec inbounds obtain items' where
    items': "json_at (JObj c) [''inbounds''] = Some (JArr items')"
      "list_all2 (inbound_built 443) [JObj (fmupd ''protocol'' (JStr ''hysteria'') fmempty)] items'"
    by (elim conjE) (simp only: option.case json.case ConfigBuilder.simps, blast)
  then obtain item where "items' = [item]"
    "inbound_built 443 (JObj (fmupd ''protocol'' (JStr ''hysteria'') fmempty)) item"
    by (auto simp: list_all2_Cons1)
  then have "items' = [item] \<and> json_at item [''port''] = Some (JInt 443)"
    by (simp add: inbound_built_def json_at_lookup)
  ultimately show ?thesis using c items'(1) by blast
qed

end
