(* ===== verification/RuntimeState.thy ===== *)
theory RuntimeState
  imports ConfigBuilder
begin

text \<open>
  The in-memory runtime state (\<open>internal/state\<close>): Xray status flags, the current config,
  the hashes of the last start, the inbound tags, their protocols and their users. Every
  operation of the code holds the mutex for its whole body, so each is one atomic function
  here. The package's own \<open>cloneMap\<close> keeps a nil map nil.
\<close>

section \<open>Hashes (hashes.go)\<close>

record InboundHash =
  UsersCount :: goint
  Hash :: string
  Tag :: string

record Hashes =
  EmptyConfig :: string
  Inbounds :: "InboundHash list"

definition HashesFromContract :: "CHashes \<Rightarrow> Hashes" where
  "HashesFromContract hashes =
     \<lparr>EmptyConfig = ch_EmptyConfig hashes,
      Inbounds = map (\<lambda>i. \<lparr>UsersCount = cih_UsersCount i, Hash = cih_Hash i, Tag = cih_Tag i\<rparr>)
                   (ch_Inbounds hashes)\<rparr>"

section \<open>The state (runtime.go)\<close>

record RuntimeState =
  XrayRunning :: bool
  XrayInternalStatusCached :: bool
  XrayVersion :: "string option"
  NodeVersion :: string
  CurrentConfig :: json_map
  LastHashes :: Hashes
  HasLastHashes :: bool
  InboundUsers :: "(string, string fset) fmap"
  KnownInboundTag :: "string fset"
  InboundProtocols :: "(string, string) fmap"

datatype RestartReason =
    RestartReasonForce
  | RestartReasonCoreNotRunning
  | RestartReasonNoPreviousHashes
  | RestartReasonEmptyConfigHashChange
  | RestartReasonInboundCountChange
  | RestartReasonInboundRemoved
  | RestartReasonInboundHashChange
  | RestartReasonNoRestart

record RestartDecision =
  ShouldRestart :: bool
  Reason :: RestartReason
  InboundTag :: string
  PreviousHash :: string
  IncomingHash :: string

definition version_NodeVersion :: string where "version_NodeVersion = ''3.4.1''"

definition NewRuntimeState :: RuntimeState where
  "NewRuntimeState =
     \<lparr>XrayRunning = False, XrayInternalStatusCached = False, XrayVersion = None,
      NodeVersion = version_NodeVersion, CurrentConfig = Some fmempty,
      LastHashes = \<lparr>EmptyConfig = [], Inbounds = []\<rparr>, HasLastHashes = False,
      InboundUsers = fmempty, KnownInboundTag = {||}, InboundProtocols = fmempty\<rparr>"

definition IsXrayRunning :: "RuntimeState \<Rightarrow> bool" where
  "IsXrayRunning s = XrayRunning s"

definition SetXrayRunning :: "bool \<Rightarrow> RuntimeState \<Rightarrow> RuntimeState" where
  "SetXrayRunning running s =
     (let s = s\<lparr>XrayRunning := running\<rparr>
      in if \<not> running then s\<lparr>XrayInternalStatusCached := False\<rparr> else s)"

definition state_cloneMap :: "json_map \<Rightarrow> json_map" where
  "state_cloneMap input = map_option (fmmap cloneValue) input"

definition cloneHashes :: "Hashes \<Rightarrow> Hashes" where
  "cloneHashes input = \<lparr>EmptyConfig = EmptyConfig input, Inbounds = map id (Inbounds input)\<rparr>"

definition cloneStringPtr :: "string option \<Rightarrow> string option" where
  "cloneStringPtr input = (case input of None \<Rightarrow> None | Some value \<Rightarrow> Some value)"

definition SetXrayStarted :: "string option \<Rightarrow> json_map \<Rightarrow> Hashes \<Rightarrow> RuntimeState \<Rightarrow> RuntimeState" where
  "SetXrayStarted version currentConfig hashes s =
     s\<lparr>XrayRunning := True,
       XrayInternalStatusCached := True,
       XrayVersion := cloneStringPtr version,
       CurrentConfig := state_cloneMap currentConfig,
       LastHashes := cloneHashes hashes,
       HasLastHashes := True,
       InboundUsers := fmempty,
       KnownInboundTag :=
         fold (\<lambda>i tags. if Tag i \<noteq> [] then finsert (Tag i) tags else tags)
           (Inbounds (cloneHashes hashes)) {||},
       InboundProtocols := fmempty\<rparr>"

definition SetXrayInternalStatusCached :: "bool \<Rightarrow> RuntimeState \<Rightarrow> RuntimeState" where
  "SetXrayInternalStatusCached cached s =
     (let s = s\<lparr>XrayInternalStatusCached := cached\<rparr>
      in if \<not> cached then s\<lparr>XrayRunning := False\<rparr> else s)"

record Snapshot =
  snap_XrayRunning :: bool
  snap_XrayInternalStatusCached :: bool
  snap_XrayVersion :: "string option"
  snap_NodeVersion :: string
  snap_CurrentConfig :: json_map
  snap_LastHashes :: Hashes

definition Snapshot_of :: "RuntimeState \<Rightarrow> Snapshot" where
  "Snapshot_of s =
     \<lparr>snap_XrayRunning = XrayRunning s,
      snap_XrayInternalStatusCached = XrayInternalStatusCached s,
      snap_XrayVersion = cloneStringPtr (XrayVersion s),
      snap_NodeVersion = NodeVersion s,
      snap_CurrentConfig = state_cloneMap (CurrentConfig s),
      snap_LastHashes = cloneHashes (LastHashes s)\<rparr>"

section \<open>Restart decision\<close>

text \<open>The counting loops of \<open>sameHashes\<close>: missing keys of the Go map count 0.\<close>

fun count_up :: "InboundHash list \<Rightarrow> (InboundHash \<Rightarrow> int) \<Rightarrow> (InboundHash \<Rightarrow> int)" where
  "count_up [] counts = counts"
| "count_up (i # is) counts = count_up is (counts(i := counts i + 1))"

fun count_down :: "InboundHash list \<Rightarrow> (InboundHash \<Rightarrow> int) \<Rightarrow> bool" where
  "count_down [] counts = True"
| "count_down (i # is) counts =
     (let counts = counts(i := counts i - 1)
      in if counts i < 0 then False else count_down is counts)"

definition sameHashes :: "Hashes \<Rightarrow> Hashes \<Rightarrow> bool" where
  "sameHashes a b =
     (if EmptyConfig a \<noteq> EmptyConfig b \<or> length (Inbounds a) \<noteq> length (Inbounds b) then False
      else count_down (Inbounds b) (count_up (Inbounds a) (\<lambda>_. 0)))"

definition decision :: "bool \<Rightarrow> RestartReason \<Rightarrow> RestartDecision" where
  "decision b r =
     \<lparr>ShouldRestart = b, Reason = r, InboundTag = [], PreviousHash = [], IncomingHash = []\<rparr>"

definition incoming_by_tag :: "InboundHash list \<Rightarrow> (string, InboundHash) fmap" where
  "incoming_by_tag is = fold (\<lambda>i m. fmupd (Tag i) i m) is fmempty"

fun compare_inbounds :: "(string, InboundHash) fmap \<Rightarrow> InboundHash list \<Rightarrow> RestartDecision" where
  "compare_inbounds incomingByTag [] = decision True RestartReasonInboundHashChange"
| "compare_inbounds incomingByTag (previous # rest) =
     (case fmlookup incomingByTag (Tag previous) of
        None \<Rightarrow>
          (decision True RestartReasonInboundRemoved)
            \<lparr>InboundTag := Tag previous, PreviousHash := Hash previous\<rparr>
      | Some incoming \<Rightarrow>
          if Hash previous \<noteq> Hash incoming \<or> UsersCount previous \<noteq> UsersCount incoming
          then (decision True RestartReasonInboundHashChange)
                 \<lparr>InboundTag := Tag previous, PreviousHash := Hash previous,
                  IncomingHash := Hash incoming\<rparr>
          else compare_inbounds incomingByTag rest)"

definition RestartDecision :: "bool \<Rightarrow> Hashes \<Rightarrow> bool \<Rightarrow> RuntimeState \<Rightarrow> RestartDecision" where
  "RestartDecision force hashes coreRunning s =
     (if force \<or> \<not> coreRunning then
        (if force then decision True RestartReasonForce
         else decision True RestartReasonCoreNotRunning)
      else if \<not> HasLastHashes s then decision True RestartReasonNoPreviousHashes
      else if sameHashes (LastHashes s) hashes then decision False RestartReasonNoRestart
      else if EmptyConfig (LastHashes s) \<noteq> EmptyConfig hashes then
        (decision True RestartReasonEmptyConfigHashChange)
          \<lparr>PreviousHash := EmptyConfig (LastHashes s), IncomingHash := EmptyConfig hashes\<rparr>
      else if length (Inbounds (LastHashes s)) \<noteq> length (Inbounds hashes) then
        decision True RestartReasonInboundCountChange
      else compare_inbounds (incoming_by_tag (Inbounds hashes)) (Inbounds (LastHashes s)))"

section \<open>Inbounds (inbounds.go)\<close>

definition KnownInboundTags :: "RuntimeState \<Rightarrow> string list" where
  "KnownInboundTags s = sort (range_keys (KnownInboundTag s))"

definition AddKnownInboundTag :: "string \<Rightarrow> RuntimeState \<Rightarrow> RuntimeState" where
  "AddKnownInboundTag tag s =
     (if tag = [] then s else s\<lparr>KnownInboundTag := finsert tag (KnownInboundTag s)\<rparr>)"

definition AddKnownInboundTags :: "string list \<Rightarrow> RuntimeState \<Rightarrow> RuntimeState" where
  "AddKnownInboundTags tags s =
     fold (\<lambda>tag s. if tag \<noteq> [] then s\<lparr>KnownInboundTag := finsert tag (KnownInboundTag s)\<rparr> else s) tags s"

definition SetInboundProtocol :: "string \<Rightarrow> string \<Rightarrow> RuntimeState \<Rightarrow> RuntimeState" where
  "SetInboundProtocol tag protocol s =
     (if tag = [] \<or> protocol = [] then s
      else s\<lparr>KnownInboundTag := finsert tag (KnownInboundTag s),
             InboundProtocols := fmupd tag protocol (InboundProtocols s)\<rparr>)"

definition InboundProtocol :: "string \<Rightarrow> RuntimeState \<Rightarrow> string" where
  "InboundProtocol tag s = (case fmlookup (InboundProtocols s) tag of None \<Rightarrow> [] | Some p \<Rightarrow> p)"

definition string_or_empty :: "json option \<Rightarrow> string" where
  "string_or_empty v = (case as_string v of None \<Rightarrow> [] | Some s \<Rightarrow> s)"

definition add_inbound_protocol :: "json \<Rightarrow> (string, string) fmap \<Rightarrow> (string, string) fmap" where
  "add_inbound_protocol rawInbound protocols =
     (case as_map (Some rawInbound) of
        None \<Rightarrow> protocols
      | Some inbound \<Rightarrow>
          let tag = string_or_empty (fmlookup inbound ''tag'');
              protocol = string_or_empty (fmlookup inbound ''protocol'')
          in if tag = [] \<or> protocol = [] then protocols else fmupd tag protocol protocols)"

definition inboundProtocolsFromConfig :: "json_obj \<Rightarrow> (string, string) fmap" where
  "inboundProtocolsFromConfig config =
     (case as_array (fmlookup config ''inbounds'') of
        None \<Rightarrow> fmempty
      | Some rawInbounds \<Rightarrow> fold add_inbound_protocol rawInbounds fmempty)"

definition SetInboundProtocolsFromConfig :: "json_obj \<Rightarrow> RuntimeState \<Rightarrow> RuntimeState" where
  "SetInboundProtocolsFromConfig config s =
     (let protocols = inboundProtocolsFromConfig config
      in if fmdom protocols = {||} then s
         else fold (\<lambda>tag s. s\<lparr>KnownInboundTag := finsert tag (KnownInboundTag s),
                              InboundProtocols :=
                                fmupd tag (the (fmlookup protocols tag)) (InboundProtocols s)\<rparr>)
                (range_keys (fmdom protocols)) s)"

definition inbound_users :: "RuntimeState \<Rightarrow> string \<Rightarrow> string fset" where
  "inbound_users s tag = (case fmlookup (InboundUsers s) tag of None \<Rightarrow> {||} | Some us \<Rightarrow> us)"

definition AddUserToInbound :: "string \<Rightarrow> string \<Rightarrow> RuntimeState \<Rightarrow> RuntimeState" where
  "AddUserToInbound tag userHash s =
     (if tag = [] \<or> userHash = [] then s
      else s\<lparr>InboundUsers := fmupd tag (finsert userHash (inbound_users s tag)) (InboundUsers s),
             KnownInboundTag := finsert tag (KnownInboundTag s)\<rparr>)"

definition RemoveUserFromInbound :: "string \<Rightarrow> string \<Rightarrow> RuntimeState \<Rightarrow> RuntimeState" where
  "RemoveUserFromInbound tag userHash s =
     (if tag = [] \<or> userHash = [] then s
      else case fmlookup (InboundUsers s) tag of
        None \<Rightarrow> s
      | Some us \<Rightarrow> s\<lparr>InboundUsers := fmupd tag (us - {|userHash|}) (InboundUsers s)\<rparr>)"

definition InboundUserHashes :: "string \<Rightarrow> RuntimeState \<Rightarrow> string list" where
  "InboundUserHashes tag s = sort (range_keys (inbound_users s tag))"

text \<open>plugin.go\<close>

definition TorrentBlockerReportsCount :: "RuntimeState \<Rightarrow> goint" where
  "TorrentBlockerReportsCount s = 0"

section \<open>Lemmas: copies and the restart decision\<close>

lemma state_cloneMap_id [simp]: "state_cloneMap m = m"
  by (cases m) (simp_all add: state_cloneMap_def)

lemma cloneHashes_id [simp]: "cloneHashes h = h"
  by (simp add: cloneHashes_def)

lemma cloneStringPtr_id [simp]: "cloneStringPtr v = v"
  by (simp add: cloneStringPtr_def split: option.split)

lemma count_up_count: "count_up is c j = c j + int (count (mset is) j)"
  by (induction "is" arbitrary: c) auto

lemma count_down_iff: "count_down is c \<longleftrightarrow> (\<forall>j\<in>set is. int (count (mset is) j) \<le> c j)"
proof (induction "is" arbitrary: c)
  case (Cons i "is")
  let ?c = "c(i := c i - 1)"
  have "count_down (i # is) c \<longleftrightarrow> 1 \<le> c i \<and> count_down is ?c"
    by (simp add: Let_def not_less)
  also have "\<dots> \<longleftrightarrow> 1 \<le> c i \<and> (\<forall>j\<in>set is. int (count (mset is) j) \<le> ?c j)"
    unfolding Cons.IH ..
  also have "\<dots> \<longleftrightarrow> (\<forall>j\<in>set (i # is). int (count (mset (i # is)) j) \<le> c j)"
    by (cases "i \<in> set is") (auto simp: count_eq_zero_iff [THEN iffD2] split: if_splits)
  finally show ?case .
qed simp

lemma mset_le_size_eq: "A \<subseteq># B \<Longrightarrow> size A = size B \<Longrightarrow> A = B"
  by (metis mset_subset_size order_less_irrefl subset_mset.le_imp_less_or_eq)

lemma sameHashes_mset:
  "sameHashes a b \<longleftrightarrow> EmptyConfig a = EmptyConfig b \<and> mset (Inbounds a) = mset (Inbounds b)"
proof -
  have "(\<forall>j\<in>set (Inbounds b). int (count (mset (Inbounds b)) j) \<le> int (count (mset (Inbounds a)) j))
      \<longleftrightarrow> mset (Inbounds b) \<subseteq># mset (Inbounds a)"
    by (auto simp: subseteq_mset_def) (metis count_greater_zero_iff not_gr_zero le0 set_mset_mset)
  moreover have "length (Inbounds a) = length (Inbounds b) \<and>
        mset (Inbounds b) \<subseteq># mset (Inbounds a) \<longleftrightarrow> mset (Inbounds a) = mset (Inbounds b)"
    by (metis mset_le_size_eq size_mset subset_mset.order_refl)
  ultimately show ?thesis
    by (auto simp: sameHashes_def count_down_iff count_up_count)
qed

lemma ShouldRestart_decision [simp]: "ShouldRestart (decision b r) = b" "Reason (decision b r) = r"
  by (simp_all add: decision_def)

lemma ShouldRestart_compare_inbounds [simp]: "ShouldRestart (compare_inbounds m is)"
  by (induction m "is" rule: compare_inbounds.induct) (auto split: option.split)

lemma fmlookup_incoming_by_tag:
  "fmlookup (incoming_by_tag is) t = find (\<lambda>i. Tag i = t) (rev is)"
proof -
  have "fmlookup (fold (\<lambda>i m. fmupd (Tag i) i m) is m) t =
        (case find (\<lambda>i. Tag i = t) (rev is) of None \<Rightarrow> fmlookup m t | Some i \<Rightarrow> Some i)" for m
    by (induction "is" arbitrary: m rule: rev_induct) (auto split: option.split)
  then show ?thesis
    by (simp add: incoming_by_tag_def split: option.split)
qed

lemma incoming_by_tag_Some:
  "fmlookup (incoming_by_tag is) t = Some i \<Longrightarrow> i \<in> set is \<and> Tag i = t"
  by (auto simp: fmlookup_incoming_by_tag find_Some_iff) (metis nth_mem length_rev set_rev)

lemma incoming_by_tag_None:
  "fmlookup (incoming_by_tag is) t = None \<longleftrightarrow> t \<notin> Tag ` set is"
  by (auto simp: fmlookup_incoming_by_tag list_find_None)

text \<open>The comparison loop falls through only when every previous inbound has an equal incoming one.\<close>

lemma compare_inbounds_fallthrough:
  assumes "\<forall>p\<in>set ps. \<exists>i. fmlookup m (Tag p) = Some i \<and> Hash p = Hash i \<and> UsersCount p = UsersCount i"
  shows "compare_inbounds m ps = decision True RestartReasonInboundHashChange"
  using assms by (induction m ps rule: compare_inbounds.induct) (auto split: option.split)

lemma compare_inbounds_stops:
  assumes "p \<in> set ps"
    and "\<not> (\<exists>i. fmlookup m (Tag p) = Some i \<and> Hash p = Hash i \<and> UsersCount p = UsersCount i)"
  shows "\<exists>q\<in>set ps. InboundTag (compare_inbounds m ps) = Tag q \<and>
           PreviousHash (compare_inbounds m ps) = Hash q \<and>
           (case fmlookup m (Tag q) of
              None \<Rightarrow> Reason (compare_inbounds m ps) = RestartReasonInboundRemoved
            | Some i \<Rightarrow> Reason (compare_inbounds m ps) = RestartReasonInboundHashChange \<and>
                        IncomingHash (compare_inbounds m ps) = Hash i \<and>
                        (Hash q \<noteq> Hash i \<or> UsersCount q \<noteq> UsersCount i))"
  using assms
proof (induction ps)
  case (Cons r rest)
  show ?case
  proof (cases "\<exists>i. fmlookup m (Tag r) = Some i \<and> Hash r = Hash i \<and> UsersCount r = UsersCount i")
    case True
    then have eq: "compare_inbounds m (r # rest) = compare_inbounds m rest"
      by auto
    have "p \<in> set rest"
      using Cons.prems True by auto
    then show ?thesis
      unfolding eq using Cons.IH Cons.prems(2) by (meson list.set_intros(2))
  next
    case False
    then show ?thesis
      by (cases "fmlookup m (Tag r)") auto
  qed
qed simp

section \<open>Lemmas: the inbound index\<close>

text \<open>
  The well-formedness of the index: every tag with users or with a protocol is known, and
  neither tags nor user hashes are empty.
\<close>

definition index_wf :: "RuntimeState \<Rightarrow> bool" where
  "index_wf s \<longleftrightarrow>
     fmdom (InboundUsers s) |\<subseteq>| KnownInboundTag s \<and>
     fmdom (InboundProtocols s) |\<subseteq>| KnownInboundTag s \<and>
     [] |\<notin>| KnownInboundTag s \<and>
     (\<forall>tag. [] |\<notin>| inbound_users s tag)"

lemma index_wf_New [inv_intros]: "index_wf NewRuntimeState"
  by (simp add: index_wf_def NewRuntimeState_def inbound_users_def)

lemma inbound_users_cong:
  "InboundUsers s = InboundUsers t \<Longrightarrow> inbound_users s = inbound_users t"
  by (simp add: inbound_users_def fun_eq_iff)

lemma index_wf_cong:
  "InboundUsers s = InboundUsers t \<Longrightarrow> KnownInboundTag s = KnownInboundTag t \<Longrightarrow>
   InboundProtocols s = InboundProtocols t \<Longrightarrow> index_wf s = index_wf t"
  using inbound_users_cong [of s t] by (simp add: index_wf_def)

lemma started_tags:
  "fset (fold (\<lambda>i tags. if Tag i \<noteq> [] then finsert (Tag i) tags else tags) is T) =
     fset T \<union> (Tag ` set is - {[]})"
  by (induction "is" arbitrary: T) auto

lemma KnownInboundTag_SetXrayStarted:
  "fset (KnownInboundTag (SetXrayStarted v c h s)) = Tag ` set (Inbounds h) - {[]}"
  by (simp add: SetXrayStarted_def started_tags)

lemma inbound_users_SetXrayStarted [simp]:
  "inbound_users (SetXrayStarted v c h s) tag = {||}"
  by (simp add: inbound_users_def SetXrayStarted_def)

lemma index_wf_SetXrayStarted [inv_intros]: "index_wf (SetXrayStarted v c h s)"
  using KnownInboundTag_SetXrayStarted [of v c h s]
  by (auto simp: index_wf_def) (auto simp: SetXrayStarted_def)

lemma index_wf_SetXrayRunning [inv_intros]: "index_wf (SetXrayRunning b s) = index_wf s"
  by (rule index_wf_cong) (simp_all add: SetXrayRunning_def Let_def)

lemma index_wf_SetXrayInternalStatusCached [inv_intros]:
  "index_wf (SetXrayInternalStatusCached b s) = index_wf s"
  by (rule index_wf_cong) (simp_all add: SetXrayInternalStatusCached_def Let_def)

lemma index_wf_AddKnownInboundTag [inv_intros]: "index_wf s \<Longrightarrow> index_wf (AddKnownInboundTag tag s)"
  by (auto simp: index_wf_def AddKnownInboundTag_def inbound_users_def)

lemma AddKnownInboundTags_fold: "AddKnownInboundTags tags s = fold AddKnownInboundTag tags s"
proof -
  have "(\<lambda>tag s. if tag \<noteq> [] then s\<lparr>KnownInboundTag := finsert tag (KnownInboundTag s)\<rparr> else s)
      = AddKnownInboundTag"
    by (auto simp: fun_eq_iff AddKnownInboundTag_def)
  then show ?thesis by (simp add: AddKnownInboundTags_def)
qed

lemma index_wf_AddKnownInboundTags [inv_intros]: "index_wf s \<Longrightarrow> index_wf (AddKnownInboundTags tags s)"
  unfolding AddKnownInboundTags_fold by (rule fold_inv) (rule index_wf_AddKnownInboundTag)

lemma index_wf_SetInboundProtocol [inv_intros]: "index_wf s \<Longrightarrow> index_wf (SetInboundProtocol tag p s)"
  by (auto simp: index_wf_def SetInboundProtocol_def inbound_users_def)

lemma inbound_users_AddUserToInbound:
  "tag \<noteq> [] \<Longrightarrow> u \<noteq> [] \<Longrightarrow>
   inbound_users (AddUserToInbound tag u s) =
     (inbound_users s)(tag := finsert u (inbound_users s tag))"
  by (auto simp: AddUserToInbound_def inbound_users_def fun_eq_iff split: option.split)

lemma inbound_users_RemoveUserFromInbound:
  "tag \<noteq> [] \<Longrightarrow> u \<noteq> [] \<Longrightarrow>
   inbound_users (RemoveUserFromInbound tag u s) =
     (inbound_users s)(tag := inbound_users s tag - {|u|})"
  by (auto simp: RemoveUserFromInbound_def inbound_users_def fun_eq_iff split: option.split)

lemma index_wf_AddUserToInbound [inv_intros]:
  assumes "index_wf s" shows "index_wf (AddUserToInbound tag u s)"
proof (cases "tag = [] \<or> u = []")
  case False
  then show ?thesis
    using assms inbound_users_AddUserToInbound [of tag u s]
    by (auto simp: index_wf_def) (auto simp: AddUserToInbound_def)
qed (use assms in \<open>auto simp: AddUserToInbound_def\<close>)

lemma index_wf_RemoveUserFromInbound [inv_intros]:
  assumes "index_wf s" shows "index_wf (RemoveUserFromInbound tag u s)"
proof (cases "tag = [] \<or> u = []")
  case False
  then show ?thesis
    using assms inbound_users_RemoveUserFromInbound [of tag u s]
    by (auto simp: index_wf_def)
       (auto simp: RemoveUserFromInbound_def dest: fmdomI split: option.splits)
qed (use assms in \<open>auto simp: RemoveUserFromInbound_def\<close>)

lemma inboundProtocols_wf:
  "fmlookup (inboundProtocolsFromConfig config) tag = Some p \<Longrightarrow> tag \<noteq> [] \<and> p \<noteq> []"
proof -
  let ?W = "\<lambda>m. \<forall>t q. fmlookup m t = Some q \<longrightarrow> t \<noteq> ([] :: string) \<and> q \<noteq> ([] :: string)"
  have "?W (add_inbound_protocol i m)" if "?W m" for i m
    using that by (auto simp: add_inbound_protocol_def Let_def split: option.splits if_splits)
  moreover have "?W fmempty"
    by simp
  ultimately have "?W (fold add_inbound_protocol is fmempty)" for "is"
    by (rule fold_inv [where P = ?W])
  then have "?W (inboundProtocolsFromConfig config)"
    by (simp add: inboundProtocolsFromConfig_def split: option.split)
  then show "fmlookup (inboundProtocolsFromConfig config) tag = Some p \<Longrightarrow> tag \<noteq> [] \<and> p \<noteq> []"
    by blast
qed

section \<open>Properties\<close>

text \<open>
  C9. The node restarts Xray only when it has to: without force, for a running core with a
  recorded start, there is no restart if and only if the base config's hash is the recorded
  one and the inbounds are the recorded ones with the same hashes and user counts, in
  whatever order.
\<close>

theorem restart_iff_changed:
  "\<not> ShouldRestart (RestartDecision force hashes coreRunning s) \<longleftrightarrow>
     \<not> force \<and> coreRunning \<and> HasLastHashes s \<and>
     EmptyConfig (LastHashes s) = EmptyConfig hashes \<and>
     mset (Inbounds (LastHashes s)) = mset (Inbounds hashes)"
  by (auto simp: RestartDecision_def sameHashes_mset)

text \<open>
  The reason that is given for a restart is a true one: it names a condition that holds, and an
  inbound it names is a recorded one that is gone, or whose hash or user count is not the incoming one's,
  together with the two hashes. Only a change that the tags cannot tell apart (an inbound
  listed twice) is reported without a tag.
\<close>

theorem restart_reason_true:
  "case Reason (RestartDecision force hashes coreRunning s) of
     RestartReasonForce \<Rightarrow> force
   | RestartReasonCoreNotRunning \<Rightarrow> \<not> coreRunning
   | RestartReasonNoPreviousHashes \<Rightarrow> \<not> HasLastHashes s
   | RestartReasonEmptyConfigHashChange \<Rightarrow> EmptyConfig (LastHashes s) \<noteq> EmptyConfig hashes
   | RestartReasonInboundCountChange \<Rightarrow> length (Inbounds (LastHashes s)) \<noteq> length (Inbounds hashes)
   | RestartReasonInboundRemoved \<Rightarrow>
       InboundTag (RestartDecision force hashes coreRunning s) \<in> Tag ` set (Inbounds (LastHashes s))
         - Tag ` set (Inbounds hashes)
   | RestartReasonInboundHashChange \<Rightarrow>
       mset (Inbounds (LastHashes s)) \<noteq> mset (Inbounds hashes) \<and>
       (RestartDecision force hashes coreRunning s = decision True RestartReasonInboundHashChange \<or>
        (\<exists>q\<in>set (Inbounds (LastHashes s)). \<exists>i\<in>set (Inbounds hashes).
           Tag q = InboundTag (RestartDecision force hashes coreRunning s) \<and> Tag i = Tag q \<and>
           PreviousHash (RestartDecision force hashes coreRunning s) = Hash q \<and>
           IncomingHash (RestartDecision force hashes coreRunning s) = Hash i \<and>
           (Hash q, UsersCount q) \<noteq> (Hash i, UsersCount i)))
   | RestartReasonNoRestart \<Rightarrow> \<not> ShouldRestart (RestartDecision force hashes coreRunning s)"
proof -
  let ?d = "RestartDecision force hashes coreRunning s"
  let ?m = "incoming_by_tag (Inbounds hashes)" and ?ps = "Inbounds (LastHashes s)"
  let ?c = "compare_inbounds ?m ?ps"
  have compare: "?c = decision True RestartReasonInboundHashChange \<or>
     (\<exists>q\<in>set ?ps. InboundTag ?c = Tag q \<and> PreviousHash ?c = Hash q \<and>
       (case fmlookup ?m (Tag q) of
          None \<Rightarrow> Reason ?c = RestartReasonInboundRemoved
        | Some i \<Rightarrow> Reason ?c = RestartReasonInboundHashChange \<and> IncomingHash ?c = Hash i \<and>
            (Hash q \<noteq> Hash i \<or> UsersCount q \<noteq> UsersCount i)))"
    using compare_inbounds_fallthrough [of ?ps ?m] compare_inbounds_stops [of _ ?ps ?m] by blast
  show ?thesis
  proof (cases "force \<or> \<not> coreRunning \<or> \<not> HasLastHashes s \<or> sameHashes (LastHashes s) hashes \<or>
      EmptyConfig (LastHashes s) \<noteq> EmptyConfig hashes \<or> length ?ps \<noteq> length (Inbounds hashes)")
    case True
    then show ?thesis by (auto simp: RestartDecision_def decision_def)
  next
    case False
    then have d: "?d = ?c" and ne: "mset ?ps \<noteq> mset (Inbounds hashes)"
      by (auto simp: RestartDecision_def sameHashes_mset)
    from compare show ?thesis
    proof
      assume "?c = decision True RestartReasonInboundHashChange"
      then show ?thesis by (simp add: d ne)
    next
      assume "\<exists>q\<in>set ?ps. InboundTag ?c = Tag q \<and> PreviousHash ?c = Hash q \<and>
         (case fmlookup ?m (Tag q) of
            None \<Rightarrow> Reason ?c = RestartReasonInboundRemoved
          | Some i \<Rightarrow> Reason ?c = RestartReasonInboundHashChange \<and> IncomingHash ?c = Hash i \<and>
              (Hash q \<noteq> Hash i \<or> UsersCount q \<noteq> UsersCount i))"
      then obtain q where q: "q \<in> set ?ps" "InboundTag ?c = Tag q" "PreviousHash ?c = Hash q"
        and res: "case fmlookup ?m (Tag q) of
            None \<Rightarrow> Reason ?c = RestartReasonInboundRemoved
          | Some i \<Rightarrow> Reason ?c = RestartReasonInboundHashChange \<and> IncomingHash ?c = Hash i \<and>
              (Hash q \<noteq> Hash i \<or> UsersCount q \<noteq> UsersCount i)" by blast
      show ?thesis
      proof (cases "fmlookup ?m (Tag q)")
        case None
        then show ?thesis using q res incoming_by_tag_None [of "Inbounds hashes" "Tag q"] by (simp add: d)
      next
        case (Some i)
        then show ?thesis
          using q res ne incoming_by_tag_Some [OF Some] by (auto simp: d)
      qed
    qed
  qed
qed

end
