(* ===== verification/UserIndex.thy ===== *)
theory UserIndex
  imports RuntimeState
begin

text \<open>
  The contract the user handlers rely on: an index from inbound tags to sets of user
  hashes. The runtime state provides it (the interpretation \<open>state_index\<close> below). The
  lemmas of the locale are about removing a user from every known inbound, which every
  handler does in a loop over \<open>KnownInboundTags\<close>.
\<close>

locale user_index =
  fixes add_user :: "string \<Rightarrow> string \<Rightarrow> 's \<Rightarrow> 's"
    and remove_user :: "string \<Rightarrow> string \<Rightarrow> 's \<Rightarrow> 's"
    and users :: "'s \<Rightarrow> string \<Rightarrow> string fset"
    and known :: "'s \<Rightarrow> string list"
    and wf :: "'s \<Rightarrow> bool"
  assumes users_add:
      "tag \<noteq> [] \<Longrightarrow> u \<noteq> [] \<Longrightarrow> users (add_user tag u s) = (users s)(tag := finsert u (users s tag))"
    and users_remove:
      "tag \<noteq> [] \<Longrightarrow> u \<noteq> [] \<Longrightarrow> users (remove_user tag u s) = (users s)(tag := users s tag - {|u|})"
    and remove_empty: "tag = [] \<or> u = [] \<Longrightarrow> remove_user tag u s = s"
    and known_remove: "known (remove_user tag u s) = known s"
    and known_add:
      "tag \<noteq> [] \<Longrightarrow> u \<noteq> [] \<Longrightarrow> set (known (add_user tag u s)) = insert tag (set (known s))"
    and wf_add: "wf s \<Longrightarrow> wf (add_user tag u s)"
    and wf_remove: "wf s \<Longrightarrow> wf (remove_user tag u s)"
    and wf_known: "wf s \<Longrightarrow> [] \<notin> set (known s)"
    and wf_users: "wf s \<Longrightarrow> users s tag \<noteq> {||} \<Longrightarrow> tag \<in> set (known s)"
begin

lemma wf_remove_all: "wf s \<Longrightarrow> wf (fold (\<lambda>t. remove_user t u) ts s)"
  by (rule fold_inv [where P = wf]) (rule wf_remove)

lemma known_remove_all: "known (fold (\<lambda>t. remove_user t u) ts s) = known s"
  by (induction ts arbitrary: s) (simp_all add: known_remove)

lemma users_remove_tags:
  "u \<noteq> [] \<Longrightarrow> [] \<notin> set ts \<Longrightarrow>
   users (fold (\<lambda>t. remove_user t u) ts s) tag =
     (if tag \<in> set ts then users s tag - {|u|} else users s tag)"
  by (induction ts arbitrary: s) (auto simp: users_remove split: if_splits)

text \<open>After the loop over the known tags the user is in no inbound at all.\<close>

lemma users_remove_all:
  assumes "wf s" and "u \<noteq> []"
  shows "users (fold (\<lambda>t. remove_user t u) (known s) s) tag = users s tag - {|u|}"
proof (cases "tag \<in> set (known s)")
  case True
  then show ?thesis using assms wf_known by (simp add: users_remove_tags)
next
  case False
  then have "users s tag = {||}" using assms wf_users by blast
  then show ?thesis using assms wf_known False by (simp add: users_remove_tags)
qed

lemma remove_all_empty: "fold (\<lambda>t. remove_user t []) ts s = s"
  by (induction ts arbitrary: s) (simp_all add: remove_empty)

end

section \<open>The runtime state provides the index\<close>

lemma set_KnownInboundTags [simp]: "set (KnownInboundTags s) = fset (KnownInboundTag s)"
  by (simp add: KnownInboundTags_def)

lemma KnownInboundTags_cong:
  "KnownInboundTag s = KnownInboundTag t \<Longrightarrow> KnownInboundTags s = KnownInboundTags t"
  by (simp add: KnownInboundTags_def)

lemma sorted_KnownInboundTags: "sorted (KnownInboundTags s) \<and> distinct (KnownInboundTags s)"
  by (simp add: KnownInboundTags_def)

lemma KnownInboundTag_Remove [simp]:
  "KnownInboundTag (RemoveUserFromInbound tag u s) = KnownInboundTag s"
  by (simp add: RemoveUserFromInbound_def split: option.split)

lemma KnownInboundTag_AddUser:
  "tag \<noteq> [] \<Longrightarrow> u \<noteq> [] \<Longrightarrow>
   KnownInboundTag (AddUserToInbound tag u s) = finsert tag (KnownInboundTag s)"
  by (simp add: AddUserToInbound_def)

lemma inbound_users_nonempty: "inbound_users s tag \<noteq> {||} \<Longrightarrow> tag |\<in>| fmdom (InboundUsers s)"
  by (auto simp: inbound_users_def intro: fmdomI split: option.splits)

interpretation state_index:
  user_index AddUserToInbound RemoveUserFromInbound inbound_users KnownInboundTags index_wf
proof
  show "KnownInboundTags (RemoveUserFromInbound tag u s) = KnownInboundTags s" for tag u s
    by (rule KnownInboundTags_cong) simp
  show "tag \<in> set (KnownInboundTags s)" if "index_wf s" "inbound_users s tag \<noteq> {||}" for s tag
    using that inbound_users_nonempty [of s tag] by (auto simp: index_wf_def)
  show "inbound_users (AddUserToInbound tag u s) =
      (inbound_users s)(tag := finsert u (inbound_users s tag))"
    if "tag \<noteq> []" "u \<noteq> []" for tag u s
    using that by (rule inbound_users_AddUserToInbound)
  show "inbound_users (RemoveUserFromInbound tag u s) =
      (inbound_users s)(tag := inbound_users s tag - {|u|})"
    if "tag \<noteq> []" "u \<noteq> []" for tag u s
    using that by (rule inbound_users_RemoveUserFromInbound)
  show "RemoveUserFromInbound tag u s = s" if "tag = [] \<or> u = []" for tag u s
    using that by (simp add: RemoveUserFromInbound_def)
  show "set (KnownInboundTags (AddUserToInbound tag u s)) = insert tag (set (KnownInboundTags s))"
    if "tag \<noteq> []" "u \<noteq> []" for tag u s
    using that by (simp add: KnownInboundTag_AddUser)
  show "[] \<notin> set (KnownInboundTags s)" if "index_wf s" for s
    using that by (simp add: index_wf_def)
qed (rule index_wf_AddUserToInbound index_wf_RemoveUserFromInbound, assumption)+

section \<open>What the operations leave alone\<close>

lemma KnownInboundTag_AddKnown [simp]:
  "fset (KnownInboundTag (AddKnownInboundTag tag s)) = fset (KnownInboundTag s) \<union> ({tag} - {[]})"
  by (auto simp: AddKnownInboundTag_def)

lemma KnownInboundTag_AddKnowns [simp]:
  "fset (KnownInboundTag (AddKnownInboundTags tags s)) = fset (KnownInboundTag s) \<union> (set tags - {[]})"
  unfolding AddKnownInboundTags_fold by (induction tags arbitrary: s) auto

lemma KnownInboundTag_SetProtocol [simp]:
  "fset (KnownInboundTag (SetInboundProtocol tag p s)) =
     fset (KnownInboundTag s) \<union> (if p = [] then {} else {tag} - {[]})"
  by (auto simp: SetInboundProtocol_def)

lemma InboundUsers_frames [frame_simps]:
  "InboundUsers (AddKnownInboundTag tag s) = InboundUsers s"
  "InboundUsers (AddKnownInboundTags tags s) = InboundUsers s"
  "InboundUsers (SetInboundProtocol tag p s) = InboundUsers s"
  "InboundUsers (SetXrayRunning b s) = InboundUsers s"
  "InboundUsers (SetXrayInternalStatusCached b s) = InboundUsers s"
proof -
  show "InboundUsers (AddKnownInboundTags tags s) = InboundUsers s"
    unfolding AddKnownInboundTags_fold
    by (induction tags arbitrary: s) (simp_all add: AddKnownInboundTag_def)
qed (simp_all add: AddKnownInboundTag_def SetInboundProtocol_def SetXrayRunning_def
      SetXrayInternalStatusCached_def Let_def)

lemma inbound_users_frames [frame_simps]:
  "inbound_users (AddKnownInboundTag tag s) = inbound_users s"
  "inbound_users (AddKnownInboundTags tags s) = inbound_users s"
  "inbound_users (SetInboundProtocol tag p s) = inbound_users s"
  by (auto intro: inbound_users_cong simp: frame_simps)

text \<open>
  The lifecycle part of the state (all fields but the index): no operation of inbounds.go
  writes it.
\<close>

definition lifecycle :: "RuntimeState \<Rightarrow> RuntimeState" where
  "lifecycle s = s\<lparr>InboundUsers := fmempty, KnownInboundTag := {||}, InboundProtocols := fmempty\<rparr>"

lemma lifecycle_simps [frame_simps]:
  "lifecycle (AddKnownInboundTag tag s) = lifecycle s"
  "lifecycle (SetInboundProtocol tag p s) = lifecycle s"
  "lifecycle (AddUserToInbound tag u s) = lifecycle s"
  "lifecycle (RemoveUserFromInbound tag u s) = lifecycle s"
  by (simp_all add: lifecycle_def AddKnownInboundTag_def SetInboundProtocol_def
      AddUserToInbound_def RemoveUserFromInbound_def split: option.split)

lemma lifecycle_fold: "(\<And>x s. lifecycle (f x s) = lifecycle s) \<Longrightarrow> lifecycle (fold f xs s) = lifecycle s"
  by (induction xs arbitrary: s) auto

lemma lifecycle_AddKnownInboundTags [frame_simps]:
  "lifecycle (AddKnownInboundTags tags s) = lifecycle s"
  unfolding AddKnownInboundTags_fold by (rule lifecycle_fold) (simp add: frame_simps)

lemma lifecycle_SetInboundProtocolsFromConfig [frame_simps]:
  "lifecycle (SetInboundProtocolsFromConfig c s) = lifecycle s"
  unfolding SetInboundProtocolsFromConfig_def Let_def
  by (simp, rule impI, rule lifecycle_fold) (simp add: lifecycle_def)

lemma lifecycle_eqD:
  assumes "lifecycle s = lifecycle t"
  shows "XrayRunning s = XrayRunning t" "XrayInternalStatusCached s = XrayInternalStatusCached t"
    "XrayVersion s = XrayVersion t" "NodeVersion s = NodeVersion t"
    "CurrentConfig s = CurrentConfig t" "LastHashes s = LastHashes t"
    "HasLastHashes s = HasLastHashes t"
  using arg_cong [OF assms, of XrayRunning] arg_cong [OF assms, of XrayInternalStatusCached]
    arg_cong [OF assms, of XrayVersion] arg_cong [OF assms, of NodeVersion]
    arg_cong [OF assms, of CurrentConfig] arg_cong [OF assms, of LastHashes]
    arg_cong [OF assms, of HasLastHashes]
  by (simp_all add: lifecycle_def)

lemma index_wf_SetInboundProtocolsFromConfig [inv_intros]:
  assumes "index_wf s"
  shows "index_wf (SetInboundProtocolsFromConfig config s)"
proof -
  let ?ps = "inboundProtocolsFromConfig config"
  let ?set = "\<lambda>tag. SetInboundProtocol tag (the (fmlookup ?ps tag))"
  have "SetInboundProtocolsFromConfig config s = fold ?set (range_keys (fmdom ?ps)) s"
  proof (cases "fmdom ?ps = {||}")
    case False
    have ne: "tag \<noteq> [] \<and> the (fmlookup ?ps tag) \<noteq> []" if "tag |\<in>| fmdom ?ps" for tag
      using that by (auto elim!: fmdomE dest: inboundProtocols_wf)
    have "fold (\<lambda>tag s. s\<lparr>KnownInboundTag := finsert tag (KnownInboundTag s),
            InboundProtocols := fmupd tag (the (fmlookup ?ps tag)) (InboundProtocols s)\<rparr>)
            (range_keys (fmdom ?ps)) s = fold ?set (range_keys (fmdom ?ps)) s"
      by (rule fold_cong)
         (use ne in \<open>simp_all add: SetInboundProtocol_def fun_eq_iff\<close>)
    with False show ?thesis by (simp add: SetInboundProtocolsFromConfig_def Let_def)
  qed (simp add: SetInboundProtocolsFromConfig_def Let_def)
  also have "index_wf \<dots>"
    by (rule fold_inv) (rule index_wf_SetInboundProtocol, assumption, rule assms)
  finally show ?thesis .
qed

end
