(* ===== verification/Http.thy ===== *)
theory Http
  imports GoStrings Contracts
begin

text \<open>
  The response envelopes (\<open>internal/httpapi/response.go\<close>). A handler's answer is a
  status code and the value it encodes: an \<open>Envelope\<close>, a bare JSON value, the
  official error envelope, a plain-text error, a redirect that the router made, or no answer at
  all on a connection that the server closed.
\<close>

record ErrorEnvelope =
  ee_Timestamp :: string
  ee_Path :: string
  ee_Message :: string
  ee_ErrorCode :: string

datatype 'r response =
    Envelope nat 'r
  | PlainJSON nat 'r
  | OfficialError nat ErrorEnvelope
  | HttpError nat string
  | Redirected nat string
  | ConnectionClosed

text \<open>The request's clock reading and URI are arguments.\<close>

definition WriteOfficialError :: "string \<Rightarrow> string \<Rightarrow> nat \<Rightarrow> string \<Rightarrow> string \<Rightarrow> 'r response" where
  "WriteOfficialError now uri status message code =
     OfficialError status
       \<lparr>ee_Timestamp = now, ee_Path = uri, ee_Message = message, ee_ErrorCode = code\<rparr>"

definition StatusOK :: nat where "StatusOK = 200"
definition StatusBadRequest :: nat where "StatusBadRequest = 400"
definition StatusUnauthorized :: nat where "StatusUnauthorized = 401"
definition StatusNotFound :: nat where "StatusNotFound = 404"
definition StatusRequestEntityTooLarge :: nat where "StatusRequestEntityTooLarge = 413"
definition StatusInternalServerError :: nat where "StatusInternalServerError = 500"

end
