(* ===== verification/HandlerController.thy ===== *)
theory HandlerController
  imports UserIndex CoreInterface Http System
begin

text \<open>
  The user handlers (\<open>internal/controller/handler_controller.go\<close>). A handler is a function of
  the decoded request (\<open>ShouldBindJSON\<close>'s result), the runtime state and the world of the
  core and the connection dropper. Contexts and log lines are not modelled.
\<close>

text \<open>The fields of \<open>HandlerController\<close>; \<open>None\<close> is nil.\<close>

record 'w HandlerEnv =
  he_core :: "'w Core option"
  he_dropper :: "(string \<Rightarrow> 'w \<Rightarrow> gerror option \<times> 'w) option"

type_synonym 'w node = "RuntimeState \<times> 'w"

section \<open>Helpers\<close>

definition errIf :: "bool \<Rightarrow> gerror option \<Rightarrow> gerror option" where
  "errIf condition err =
     (if condition then
        (case err of Some e \<Rightarrow> Some e | None \<Rightarrow> Some (NewError ''xray handler operation failed''))
      else None)"

definition writeSuccess :: "bool \<Rightarrow> gerror option \<Rightarrow> GenericResponse response" where
  "writeSuccess success err =
     Envelope StatusOK \<lparr>gr_Success = success, gr_Error = map_option Error_msg err\<rparr>"

definition handlerClient :: "'w HandlerEnv \<Rightarrow> 'w \<Rightarrow> gerror + 'w HandlerClient" where
  "handlerClient env w =
     (case he_core env of
        None \<Rightarrow> Inl (NewError ''xray core not running'')
      | Some core \<Rightarrow>
          if \<not> core_IsRunning core w then Inl (NewError ''xray core not running'')
          else case core_Handler core of
            None \<Rightarrow> Inl (NewError ''xray handler client is unavailable'')
          | Some client \<Rightarrow> Inr client)"

definition statsClient :: "'w HandlerEnv \<Rightarrow> 'w \<Rightarrow> gerror + 'w StatsClient" where
  "statsClient env w =
     (case he_core env of
        None \<Rightarrow> Inl (NewError ''xray core not running'')
      | Some core \<Rightarrow>
          if \<not> core_IsRunning core w then Inl (NewError ''xray core not running'')
          else case core_Stats core of
            None \<Rightarrow> Inl (NewError ''xray stats client is unavailable'')
          | Some client \<Rightarrow> Inr client)"

definition dropConnectionIP :: "'w HandlerEnv \<Rightarrow> string \<Rightarrow> 'w \<Rightarrow> gerror option \<times> 'w" where
  "dropConnectionIP env ip w =
     (case he_dropper env of
        None \<Rightarrow> (None, w)
      | Some drop_ip \<Rightarrow>
          (case drop_ip ip w of
             (None, w) \<Rightarrow> (None, w)
           | (Some err, w) \<Rightarrow>
               if IsConntrackUnavailable err then (None, w) else (Some err, w)))"

text \<open>A loop over IPs: whether every drop succeeded.\<close>

fun drop_ips :: "'w HandlerEnv \<Rightarrow> string list \<Rightarrow> bool \<Rightarrow> 'w \<Rightarrow> bool \<times> 'w" where
  "drop_ips env [] success w = (success, w)"
| "drop_ips env (ip # ips) success w =
     (case dropConnectionIP env ip w of
        (None, w) \<Rightarrow> drop_ips env ips success w
      | (Some err, w) \<Rightarrow> drop_ips env ips False w)"

definition currentUserIPs :: "'w HandlerEnv \<Rightarrow> string \<Rightarrow> 'w \<Rightarrow> string list \<times> 'w" where
  "currentUserIPs env username w =
     (case statsClient env w of
        Inl err \<Rightarrow> ([], w)
      | Inr client \<Rightarrow>
          (case sc_UserIPList client username True w of
             (Inl err, w) \<Rightarrow> ([], w)
           | (Inr ips, w) \<Rightarrow> (map ils_IP ips, w)))"

text \<open>The loop that \<open>AddUser\<close> and \<open>AddUsers\<close> run before adding; errors are only logged.\<close>

fun remove_from_tags :: "'w HandlerClient \<Rightarrow> string \<Rightarrow> string \<Rightarrow> string list \<Rightarrow> 'w node \<Rightarrow> 'w node" where
  "remove_from_tags client username userHash [] (s, w) = (s, w)"
| "remove_from_tags client username userHash (tag # tags) (s, w) =
     (case hc_RemoveUser client tag username w of
        (_, w) \<Rightarrow> remove_from_tags client username userHash tags (RemoveUserFromInbound tag userHash s, w))"

fun remove_loop :: "'w HandlerClient \<Rightarrow> string \<Rightarrow> string \<Rightarrow> string list \<Rightarrow> bool \<Rightarrow> gerror option \<Rightarrow>
    'w node \<Rightarrow> (bool \<times> gerror option) \<times> 'w node" where
  "remove_loop client username userHash [] success firstErr (s, w) = ((success, firstErr), (s, w))"
| "remove_loop client username userHash (tag # tags) success firstErr (s, w) =
     (case hc_RemoveUser client tag username w of
        (err, w) \<Rightarrow>
          let s = RemoveUserFromInbound tag userHash s
          in case err of
            Some e \<Rightarrow>
              remove_loop client username userHash tags success
                (if firstErr = None then Some e else firstErr) (s, w)
          | None \<Rightarrow> remove_loop client username userHash tags True firstErr (s, w))"

definition removeFromAllKnownInbounds :: "'w HandlerClient \<Rightarrow> string \<Rightarrow> string \<Rightarrow> 'w node \<Rightarrow>
    (bool \<times> gerror option) \<times> 'w node" where
  "removeFromAllKnownInbounds client username userHash n =
     remove_loop client username userHash (KnownInboundTags (fst n)) False None n"

section \<open>AddUser\<close>

definition prev_uuid :: "UserHashData \<Rightarrow> string option" where
  "prev_uuid h = (case uhd_PrevVlessUUID h of Some p \<Rightarrow> if p \<noteq> [] then Some p else None | None \<Rightarrow> None)"

fun add_loop :: "'w HandlerClient \<Rightarrow> string \<Rightarrow> UserInboundData list \<Rightarrow> bool \<Rightarrow> gerror option \<Rightarrow>
    'w node \<Rightarrow> (bool \<times> gerror option) \<times> 'w node" where
  "add_loop client uuid [] success firstErr (s, w) = ((success, firstErr), (s, w))"
| "add_loop client uuid (item # items) success firstErr (s, w) =
     (case hc_AddUser client (add_user_spec item) w of
        (Some e, w) \<Rightarrow>
          add_loop client uuid items success (if firstErr = None then Some e else firstErr) (s, w)
      | (None, w) \<Rightarrow>
          add_loop client uuid items True firstErr (AddUserToInbound (uid_Tag item) uuid s, w))"

definition AddUser :: "'w HandlerEnv \<Rightarrow> gerror + AddUserRequest \<Rightarrow> 'w node \<Rightarrow>
    GenericResponse response \<times> 'w node" where
  "AddUser env bound n =
     (case n of (s, w) \<Rightarrow>
      case bound of
        Inl err \<Rightarrow> (writeSuccess False (Some err), (s, w))
      | Inr request \<Rightarrow>
     if length (aur_Data request) = 0 then (writeSuccess True None, (s, w))
     else
       let s = fold (\<lambda>item s. SetInboundProtocol (uid_Tag item) (uid_Type item)
                                (AddKnownInboundTag (uid_Tag item) s)) (aur_Data request) s
       in case handlerClient env w of
            Inl err \<Rightarrow> (writeSuccess False (Some err), (s, w))
          | Inr client \<Rightarrow>
         let username = uid_Username (aur_Data request ! 0);
             removeHash = (case prev_uuid (aur_HashData request) of
                             Some p \<Rightarrow> p | None \<Rightarrow> uhd_VlessUUID (aur_HashData request))
         in case (if prev_uuid (aur_HashData request) \<noteq> None
                  then currentUserIPs env username w else ([], w)) of
              (reconnectIPs, w) \<Rightarrow>
         (case remove_from_tags client username removeHash (KnownInboundTags s) (s, w) of
            (s, w) \<Rightarrow>
         (case drop_ips env reconnectIPs True w of
            (_, w) \<Rightarrow>
         (case add_loop client (uhd_VlessUUID (aur_HashData request)) (aur_Data request) False None (s, w) of
            ((success, firstErr), n) \<Rightarrow>
              (writeSuccess success (errIf (\<not> success) firstErr), n)))))"

section \<open>AddUsers\<close>

fun add_bulk_items :: "'w HandlerClient \<Rightarrow> BulkUserData \<Rightarrow> BulkUserInboundData list \<Rightarrow> bool \<Rightarrow>
    gerror option \<Rightarrow> 'w node \<Rightarrow> (bool \<times> gerror option) \<times> 'w node" where
  "add_bulk_items client user [] success firstErr (s, w) = ((success, firstErr), (s, w))"
| "add_bulk_items client user (item # items) success firstErr (s, w) =
     (let s = SetInboundProtocol (bid_Tag item) (bid_Type item) s
      in case hc_AddUser client (bulkUserSpec item user) w of
           (Some e, w) \<Rightarrow>
             add_bulk_items client user items success
               (if firstErr = None then Some e else firstErr) (s, w)
         | (None, w) \<Rightarrow>
             add_bulk_items client user items True firstErr
               (AddUserToInbound (bid_Tag item) (bud_VlessUUID user) s, w))"

fun add_users_loop :: "'w HandlerClient \<Rightarrow> BulkUserRequest list \<Rightarrow> bool \<Rightarrow> gerror option \<Rightarrow>
    'w node \<Rightarrow> (bool \<times> gerror option) \<times> 'w node" where
  "add_users_loop client [] success firstErr n = ((success, firstErr), n)"
| "add_users_loop client (user # users) success firstErr n =
     (let n = remove_from_tags client (bud_UserID (bur_UserData user))
                (bud_HashUUID (bur_UserData user)) (KnownInboundTags (fst n)) n
      in case add_bulk_items client (bur_UserData user) (bur_InboundData user) success firstErr n of
           ((success, firstErr), n) \<Rightarrow> add_users_loop client users success firstErr n)"

definition AddUsers :: "'w HandlerEnv \<Rightarrow> gerror + AddUsersRequest \<Rightarrow> 'w node \<Rightarrow>
    GenericResponse response \<times> 'w node" where
  "AddUsers env bound n =
     (case n of (s, w) \<Rightarrow>
      case bound of
        Inl err \<Rightarrow> (writeSuccess False (Some err), (s, w))
      | Inr request \<Rightarrow>
       let s = AddKnownInboundTags (ausr_AffectedInboundTags request) s;
           s = fold (\<lambda>user s. fold (\<lambda>item s. AddKnownInboundTag (bid_Tag item) s) (bur_InboundData user) s)
                 (ausr_Users request) s
       in case handlerClient env w of
            Inl err \<Rightarrow> (writeSuccess False (Some err), (s, w))
          | Inr client \<Rightarrow>
         (case add_users_loop client (ausr_Users request) False None (s, w) of
            ((success, firstErr), n) \<Rightarrow>
              (writeSuccess (success \<or> length (ausr_Users request) = 0)
                 (errIf (\<not> success \<and> length (ausr_Users request) > 0) firstErr), n)))"

section \<open>RemoveUser and RemoveUsers\<close>

definition RemoveUser :: "'w HandlerEnv \<Rightarrow> gerror + RemoveUserRequest \<Rightarrow> 'w node \<Rightarrow>
    GenericResponse response \<times> 'w node" where
  "RemoveUser env bound n =
     (case n of (s, w) \<Rightarrow>
      case bound of
        Inl err \<Rightarrow> (writeSuccess False (Some err), (s, w))
      | Inr request \<Rightarrow>
     if length (KnownInboundTags s) = 0 then (writeSuccess True None, (s, w))
     else case handlerClient env w of
            Inl err \<Rightarrow> (writeSuccess False (Some err), (s, w))
          | Inr client \<Rightarrow>
         (case removeFromAllKnownInbounds client (rur_Username request)
                 (uhd_VlessUUID (rur_HashData request)) (s, w) of
            ((success, firstErr), n) \<Rightarrow> (writeSuccess success firstErr, n)))"

fun remove_users_loop :: "'w HandlerClient \<Rightarrow> RemoveUsersItem list \<Rightarrow> bool \<Rightarrow> gerror option \<Rightarrow>
    'w node \<Rightarrow> (bool \<times> gerror option) \<times> 'w node" where
  "remove_users_loop client [] success firstErr n = ((success, firstErr), n)"
| "remove_users_loop client (user # users) success firstErr n =
     (case removeFromAllKnownInbounds client (rui_UserID user) (rui_HashUUID user) n of
        ((userSuccess, err), n) \<Rightarrow>
          if \<not> userSuccess then
            remove_users_loop client users False (if firstErr = None then err else firstErr) n
          else remove_users_loop client users success firstErr n)"

definition RemoveUsers :: "'w HandlerEnv \<Rightarrow> gerror + RemoveUsersRequest \<Rightarrow> 'w node \<Rightarrow>
    GenericResponse response \<times> 'w node" where
  "RemoveUsers env bound n =
     (case n of (s, w) \<Rightarrow>
      case bound of
        Inl err \<Rightarrow> (writeSuccess False (Some err), (s, w))
      | Inr request \<Rightarrow>
     if length (KnownInboundTags s) = 0 then (writeSuccess True None, (s, w))
     else case handlerClient env w of
            Inl err \<Rightarrow> (writeSuccess False (Some err), (s, w))
          | Inr client \<Rightarrow>
         (case remove_users_loop client (rusr_Users request) True None (s, w) of
            ((success, firstErr), n) \<Rightarrow> (writeSuccess success firstErr, n)))"

section \<open>DropUsersConnections and DropIPs\<close>

fun drop_users_loop :: "'w HandlerEnv \<Rightarrow> 'w StatsClient \<Rightarrow> string list \<Rightarrow> bool \<Rightarrow> 'w \<Rightarrow> bool \<times> 'w" where
  "drop_users_loop env client [] success w = (success, w)"
| "drop_users_loop env client (userID # userIDs) success w =
     (case sc_UserIPList client userID True w of
        (Inl err, w) \<Rightarrow> drop_users_loop env client userIDs success w
      | (Inr ips, w) \<Rightarrow>
          (case drop_ips env (map ils_IP ips) success w of
             (success, w) \<Rightarrow> drop_users_loop env client userIDs success w))"

definition DropUsersConnections :: "'w HandlerEnv \<Rightarrow> gerror + DropUsersConnectionsRequest \<Rightarrow> 'w \<Rightarrow>
    SimpleSuccessResponse response \<times> 'w" where
  "DropUsersConnections env bound w =
     (case bound of
        Inl err \<Rightarrow> (Envelope StatusOK \<lparr>ssr_Success = False\<rparr>, w)
      | Inr request \<Rightarrow>
     if length (ducr_UserIDs request) = 0 then (Envelope StatusOK \<lparr>ssr_Success = False\<rparr>, w)
     else case statsClient env w of
            Inl err \<Rightarrow> (Envelope StatusOK SimpleSuccess, w)
          | Inr client \<Rightarrow>
         (case drop_users_loop env client (ducr_UserIDs request) True w of
            (success, w) \<Rightarrow> (Envelope StatusOK \<lparr>ssr_Success = success\<rparr>, w)))"

definition DropIPs :: "'w HandlerEnv \<Rightarrow> gerror + DropIPsRequest \<Rightarrow> 'w \<Rightarrow>
    SimpleSuccessResponse response \<times> 'w" where
  "DropIPs env bound w =
     (case bound of
        Inl err \<Rightarrow> (Envelope StatusOK \<lparr>ssr_Success = False\<rparr>, w)
      | Inr request \<Rightarrow>
     if length (dir_IPs request) = 0 then (Envelope StatusOK \<lparr>ssr_Success = False\<rparr>, w)
     else case drop_ips env (dir_IPs request) True w of
            (success, w) \<Rightarrow> (Envelope StatusOK \<lparr>ssr_Success = success\<rparr>, w))"

section \<open>The loops as folds\<close>

text \<open>
  A loop over client calls is split into the calls' results, which only depend on the
  world, and the index operations, which only depend on the results.
\<close>

fun call_results :: "('x \<Rightarrow> 'w \<Rightarrow> gerror option \<times> 'w) \<Rightarrow> 'x list \<Rightarrow> 'w \<Rightarrow> gerror option list \<times> 'w" where
  "call_results f [] w = ([], w)"
| "call_results f (x # xs) w =
     (case f x w of (r, w) \<Rightarrow> (case call_results f xs w of (rs, w) \<Rightarrow> (r # rs, w)))"

definition first_error :: "gerror option list \<Rightarrow> gerror option" where
  "first_error rs = (case filter (\<lambda>r. r \<noteq> None) rs of [] \<Rightarrow> None | r # _ \<Rightarrow> r)"

definition or_first :: "gerror option \<Rightarrow> gerror option list \<Rightarrow> gerror option" where
  "or_first e rs = (if e = None then first_error rs else e)"

lemma first_error_simps [simp]:
  "first_error [] = None" "first_error (None # rs) = first_error rs"
  "first_error (Some e # rs) = Some e"
  by (simp_all add: first_error_def)

lemma or_first_simps [simp]:
  "or_first e [] = e" "or_first e (None # rs) = or_first e rs"
  "or_first None rs = first_error rs"
  "or_first (if e = None then Some x else e) rs = or_first e (Some x # rs)"
  by (auto simp: or_first_def)

lemma first_error_None: "first_error rs = None \<longleftrightarrow> (\<forall>r\<in>set rs. r = None)"
  by (induction rs) (auto simp: first_error_def split: list.splits)

lemma length_call_results [simp]: "length (fst (call_results f xs w)) = length xs"
  by (induction f xs w rule: call_results.induct) (auto split: prod.splits)

lemma remove_from_tags_split:
  "remove_from_tags client u h tags (s, w) =
     (fold (\<lambda>t. RemoveUserFromInbound t h) tags s, fold (\<lambda>t w. snd (hc_RemoveUser client t u w)) tags w)"
  by (induction tags arbitrary: s w) (simp_all split: prod.split)

lemma remove_loop_split:
  "remove_loop client u h tags ok e (s, w) =
     (case call_results (\<lambda>t. hc_RemoveUser client t u) tags w of
        (rs, w') \<Rightarrow> ((ok \<or> None \<in> set rs, or_first e rs), (fold (\<lambda>t. RemoveUserFromInbound t h) tags s, w')))"
  by (induction tags arbitrary: s w ok e) (auto simp: Let_def split: prod.splits option.splits)

definition add_succeeded :: "('x \<Rightarrow> string) \<Rightarrow> string \<Rightarrow> 'x list \<Rightarrow> gerror option list \<Rightarrow> RuntimeState \<Rightarrow> RuntimeState" where
  "add_succeeded tag uuid items rs =
     fold (\<lambda>(item, r) s. if r = None then AddUserToInbound (tag item) uuid s else s) (zip items rs)"

lemma add_loop_split:
  "add_loop client uuid items ok e (s, w) =
     (case call_results (hc_AddUser client \<circ> add_user_spec) items w of
        (rs, w') \<Rightarrow> ((ok \<or> None \<in> set rs, or_first e rs), (add_succeeded uid_Tag uuid items rs s, w')))"
  by (induction items arbitrary: s w ok e)
    (auto simp: add_succeeded_def split: prod.splits option.splits)

section \<open>The index after a loop\<close>

text \<open>\<open>index_wf\<close> is the contract's \<open>wf\<close>, so its lemmas come with the interpretation.\<close>

lemma index_wf_add_succeeded: "index_wf s \<Longrightarrow> index_wf (add_succeeded tag uuid items rs s)"
  unfolding add_succeeded_def
  by (rule fold_inv [where P = index_wf]) (auto intro: state_index.wf_add)

lemma users_add_succeeded:
  assumes "uuid \<noteq> []" and "\<forall>item\<in>set items. tag item \<noteq> []"
  shows "inbound_users (add_succeeded tag uuid items rs s) t =
    (if \<exists>(item, r)\<in>set (zip items rs). r = None \<and> tag item = t
     then finsert uuid (inbound_users s t) else inbound_users s t)"
  using assms(2)
proof (induction items arbitrary: rs s)
  case (Cons item items)
  then show ?case
  proof (cases rs)
    case (Cons r rs')
    then show ?thesis
      using Cons.IH Cons.prems assms(1)
      by (auto simp: add_succeeded_def state_index.users_add split: if_splits)
  qed (simp add: add_succeeded_def)
qed (simp add: add_succeeded_def)

lemma index_wf_register:
  "index_wf s \<Longrightarrow> index_wf (fold (\<lambda>item s. SetInboundProtocol (tag item) (type item)
      (AddKnownInboundTag (tag item) s)) items s)"
  by (rule fold_inv [where P = index_wf]) (auto intro: inv_intros)

lemma inbound_users_register [frame_simps]:
  "inbound_users (fold (\<lambda>item s. SetInboundProtocol (tag item) (type item)
      (AddKnownInboundTag (tag item) s)) items s) = inbound_users s"
  by (induction items arbitrary: s) (simp_all add: frame_simps)

lemma drop_ips_split:
  "drop_ips env ips ok w =
     (case call_results (dropConnectionIP env) ips w of (rs, w') \<Rightarrow> (ok \<and> (\<forall>r\<in>set rs. r = None), w'))"
  by (induction ips arbitrary: ok w) (auto split: prod.splits option.splits)

text \<open>What a loop of the handlers keeps: an invariant of the index and the lifecycle fields.\<close>

definition keeps :: "RuntimeState \<Rightarrow> RuntimeState \<Rightarrow> bool" where
  "keeps s s' \<longleftrightarrow> (index_wf s \<longrightarrow> index_wf s') \<and> lifecycle s' = lifecycle s"

lemma keeps_refl [simp]: "keeps s s"
  by (simp add: keeps_def)

lemma keeps_trans [trans]: "keeps s s' \<Longrightarrow> keeps s' s'' \<Longrightarrow> keeps s s''"
  by (simp add: keeps_def)

lemma keeps_index_ops [simp]:
  "keeps s (AddKnownInboundTag tag s)" "keeps s (AddKnownInboundTags tags s)"
  "keeps s (SetInboundProtocol tag p s)" "keeps s (AddUserToInbound tag u s)"
  "keeps s (RemoveUserFromInbound tag u s)"
  by (simp_all add: keeps_def inv_intros frame_simps)

lemma keeps_fold: "(\<And>x s. keeps s (f x s)) \<Longrightarrow> keeps s (fold f xs s)"
  by (induction xs arbitrary: s) (auto intro: keeps_trans)

lemma keeps_register: "keeps s (fold (\<lambda>item s. SetInboundProtocol (tag item) (type item)
      (AddKnownInboundTag (tag item) s)) items s)"
  by (rule keeps_fold) (metis keeps_index_ops(1,3) keeps_trans)

lemma keeps_remove_from_tags: "keeps (fst n) (fst (remove_from_tags client u h tags n))"
  by (cases n) (simp add: remove_from_tags_split keeps_fold)

lemma keeps_remove_loop: "keeps (fst n) (fst (snd (remove_loop client u h tags ok e n)))"
  by (cases n) (simp add: remove_loop_split keeps_fold split: prod.split)

lemma keeps_add_loop: "keeps (fst n) (fst (snd (add_loop client uuid items ok e n)))"
  by (cases n)
    (auto simp: add_loop_split add_succeeded_def split: prod.split intro!: keeps_fold)

lemma keeps_add_bulk_items: "keeps s (fst (snd (add_bulk_items client user items ok e (s, w))))"
proof (induction items arbitrary: s w ok e)
  case (Cons item items)
  obtain r w' where call: "hc_AddUser client (bulkUserSpec item user) w = (r, w')" by fastforce
  let ?s = "SetInboundProtocol (bid_Tag item) (bid_Type item) s"
  show ?case
  proof (cases r)
    case None
    have "keeps s (AddUserToInbound (bid_Tag item) (bud_VlessUUID user) ?s)"
      by (meson keeps_index_ops keeps_trans)
    then show ?thesis using call None Cons.IH by (auto simp: Let_def intro: keeps_trans)
  next
    case (Some err)
    have "keeps s ?s" by simp
    from keeps_trans [OF this Cons.IH] show ?thesis
      using call Some by (simp add: Let_def)
  qed
qed simp

lemma keeps_add_users_loop: "keeps (fst n) (fst (snd (add_users_loop client users ok e n)))"
proof (induction users arbitrary: n ok e)
  case (Cons user users)
  let ?n = "remove_from_tags client (bud_UserID (bur_UserData user))
      (bud_HashUUID (bur_UserData user)) (KnownInboundTags (fst n)) n"
  have "keeps (fst n) (fst ?n)" by (rule keeps_remove_from_tags)
  also have "keeps (fst ?n) (fst (snd (add_bulk_items client (bur_UserData user) (bur_InboundData user) ok e ?n)))"
    by (metis keeps_add_bulk_items prod.collapse)
  finally show ?case
    using Cons.IH by (auto simp: Let_def split: prod.split intro: keeps_trans)
qed simp

lemma keeps_remove_users_loop: "keeps (fst n) (fst (snd (remove_users_loop client users ok e n)))"
proof (induction users arbitrary: n ok e)
  case (Cons user users)
  have "keeps (fst n) (fst (snd (removeFromAllKnownInbounds client (rui_UserID user) (rui_HashUUID user) n)))"
    unfolding removeFromAllKnownInbounds_def by (rule keeps_remove_loop)
  then show ?case using Cons.IH by (auto split: prod.split intro: keeps_trans)
qed simp

section \<open>The handlers keep the index\<close>

text \<open>The parts of \<open>AddUser\<close>: the tags it registers, the hash it removes and the world it adds in.\<close>

definition register :: "UserInboundData list \<Rightarrow> RuntimeState \<Rightarrow> RuntimeState" where
  "register items s = fold (\<lambda>item s. SetInboundProtocol (uid_Tag item) (uid_Type item)
                               (AddKnownInboundTag (uid_Tag item) s)) items s"

definition remove_hash :: "UserHashData \<Rightarrow> string" where
  "remove_hash h = (case prev_uuid h of Some p \<Rightarrow> p | None \<Rightarrow> uhd_VlessUUID h)"

definition world_before_adding :: "'w HandlerEnv \<Rightarrow> 'w HandlerClient \<Rightarrow> AddUserRequest \<Rightarrow>
    RuntimeState \<Rightarrow> 'w \<Rightarrow> 'w" where
  "world_before_adding env client request s w =
     (let username = uid_Username (aur_Data request ! 0);
          (ips, w) = (if prev_uuid (aur_HashData request) \<noteq> None
                      then currentUserIPs env username w else ([], w));
          w = fold (\<lambda>t w. snd (hc_RemoveUser client t username w))
                (KnownInboundTags (register (aur_Data request) s)) w
      in snd (drop_ips env ips True w))"

lemma AddUser_available:
  assumes "handlerClient env w = Inr client" "aur_Data request \<noteq> []"
    and "call_results (hc_AddUser client \<circ> add_user_spec) (aur_Data request)
           (world_before_adding env client request s w) = (rs, w')"
  shows "AddUser env (Inr request) (s, w) =
    (writeSuccess (None \<in> set rs) (errIf (None \<notin> set rs) (first_error rs)),
     (add_succeeded uid_Tag (uhd_VlessUUID (aur_HashData request)) (aur_Data request) rs
        (fold (\<lambda>t. RemoveUserFromInbound t (remove_hash (aur_HashData request)))
           (KnownInboundTags (register (aur_Data request) s)) (register (aur_Data request) s)), w'))"
  using assms
  unfolding AddUser_def world_before_adding_def register_def [symmetric] remove_hash_def [symmetric]
  by (auto simp: Let_def remove_from_tags_split add_loop_split split: prod.splits)

lemma AddUser_unavailable:
  "handlerClient env w = Inl err \<Longrightarrow> aur_Data request \<noteq> [] \<Longrightarrow>
   AddUser env (Inr request) (s, w) = (writeSuccess False (Some err), (register (aur_Data request) s, w))"
  by (simp add: AddUser_def register_def)

lemma keeps_register_items: "keeps s (register items s)"
  unfolding register_def by (rule keeps_register)

lemma keeps_add_succeeded: "keeps s (add_succeeded tag uuid items rs s)"
  unfolding add_succeeded_def by (rule keeps_fold) auto

lemma keeps_AddUser: "keeps s (fst (snd (AddUser env bound (s, w))))"
proof (cases bound)
  case (Inr request)
  let ?s = "register (aur_Data request) s"
  show ?thesis
  proof (cases "aur_Data request = []")
    case False
    show ?thesis
    proof (cases "handlerClient env w")
      case (Inr client)
      obtain rs w' where rs: "call_results (hc_AddUser client \<circ> add_user_spec) (aur_Data request)
           (world_before_adding env client request s w) = (rs, w')" by fastforce
      have "keeps s ?s" by (rule keeps_register_items)
      also have "keeps ?s (fold (\<lambda>t. RemoveUserFromInbound t (remove_hash (aur_HashData request)))
           (KnownInboundTags ?s) ?s)" by (rule keeps_fold) simp
      also have "keeps \<dots> (fst (snd (AddUser env (Inr request) (s, w))))"
        by (simp add: AddUser_available [OF Inr False rs] keeps_add_succeeded)
      finally show ?thesis by (simp add: \<open>bound = Inr request\<close>)
    qed (use False Inr in \<open>simp add: AddUser_unavailable keeps_register_items\<close>)
  qed (simp add: Inr AddUser_def)
qed (simp add: AddUser_def)

lemma keeps_AddUsers: "keeps s (fst (snd (AddUsers env bound (s, w))))"
proof (cases bound)
  case (Inr request)
  let ?s = "fold (\<lambda>user s. fold (\<lambda>item s. AddKnownInboundTag (bid_Tag item) s) (bur_InboundData user) s)
      (ausr_Users request) (AddKnownInboundTags (ausr_AffectedInboundTags request) s)"
  have s: "keeps s ?s"
    by (rule keeps_trans [OF keeps_index_ops(2) [of s "ausr_AffectedInboundTags request"]])
      (simp add: keeps_fold)
  show ?thesis
  proof (cases "handlerClient env w")
    case (Inr client)
    have "keeps ?s (fst (snd (add_users_loop client (ausr_Users request) False None (?s, w))))"
      using keeps_add_users_loop [of "(?s, w)"] by simp
    with s show ?thesis
      using \<open>bound = Inr request\<close> Inr
      by (auto simp: AddUsers_def Let_def split: prod.split intro: keeps_trans)
  qed (use s Inr in \<open>simp add: AddUsers_def Let_def\<close>)
qed (simp add: AddUsers_def)

lemma keeps_RemoveUser: "keeps s (fst (snd (RemoveUser env bound (s, w))))"
  using keeps_remove_loop [of "(s, w)"]
  by (auto simp: RemoveUser_def removeFromAllKnownInbounds_def split: sum.split prod.split)
    (metis fst_conv snd_conv)+

lemma keeps_RemoveUsers: "keeps s (fst (snd (RemoveUsers env bound (s, w))))"
  using keeps_remove_users_loop [of "(s, w)"]
  by (auto simp: RemoveUsers_def split: sum.split prod.split) (metis fst_conv snd_conv)+



section \<open>Properties\<close>

text \<open>
  C11. No handler breaks the index of users, and none touches what a start recorded: the tags with
  users stay among the known tags, no empty tag or hash gets in, and the status flags, the
  version, the config and the hashes are unchanged, whatever the request and the client's
  answers.
\<close>

theorem user_handlers_keep_state:
  assumes "index_wf s"
    and "s' \<in> {fst (snd (AddUser env b1 (s, w))), fst (snd (AddUsers env b2 (s, w))),
               fst (snd (RemoveUser env b3 (s, w))), fst (snd (RemoveUsers env b4 (s, w)))}"
  shows "index_wf s' \<and> lifecycle s' = lifecycle s"
proof -
  have "keeps s s'"
    using assms(2)
    by (elim insertE emptyE)
      (simp_all only: keeps_AddUser keeps_AddUsers keeps_RemoveUser keeps_RemoveUsers)
  then show ?thesis using assms(1) by (simp add: keeps_def)
qed

text \<open>
  C17. \<open>RemoveUser\<close> asks the core to remove the user from every known inbound, and takes the
  hash out of every inbound of the index, also where the core refused. It reports success
  if one removal succeeded, together with the first error if one failed.
\<close>

theorem RemoveUser_everywhere:
  assumes "index_wf s" "KnownInboundTags s \<noteq> []" "handlerClient env w = Inr client"
    "uhd_VlessUUID (rur_HashData request) \<noteq> []"
    "call_results (\<lambda>t. hc_RemoveUser client t (rur_Username request)) (KnownInboundTags s) w = (rs, w')"
    "RemoveUser env (Inr request) (s, w) = (response, (s', w''))"
  shows "response = writeSuccess (None \<in> set rs) (first_error rs) \<and> w'' = w' \<and>
    KnownInboundTags s' = KnownInboundTags s \<and>
    inbound_users s' tag = inbound_users s tag - {|uhd_VlessUUID (rur_HashData request)|}"
proof -
  let ?h = "uhd_VlessUUID (rur_HashData request)"
  have "RemoveUser env (Inr request) (s, w) =
      (writeSuccess (None \<in> set rs) (first_error rs),
       (fold (\<lambda>t. RemoveUserFromInbound t ?h) (KnownInboundTags s) s, w'))"
    using assms(2,3,5) by (simp add: RemoveUser_def removeFromAllKnownInbounds_def remove_loop_split)
  then show ?thesis
    using assms(6) state_index.users_remove_all [OF assms(1,4)]
      state_index.known_remove_all [where u = ?h]
    by simp
qed

text \<open>
  C10. \<open>AddUser\<close> with a client: the hash it replaces (the previous UUID on a re-registration,
  else the new one) leaves every inbound, the new one enters exactly the inbounds whose
  add succeeded, and the answer is success if and only if one add succeeded, else the first error.
\<close>

theorem AddUser_reregisters:
  assumes "index_wf s" "handlerClient env w = Inr client" "aur_Data request \<noteq> []"
    "\<forall>item\<in>set (aur_Data request). uid_Tag item \<noteq> []" "uhd_VlessUUID (aur_HashData request) \<noteq> []"
    "call_results (hc_AddUser client \<circ> add_user_spec) (aur_Data request)
       (world_before_adding env client request s w) = (rs, w')"
    "AddUser env (Inr request) (s, w) = (response, (s', w''))"
  shows "response = writeSuccess (None \<in> set rs) (errIf (None \<notin> set rs) (first_error rs)) \<and>
    w'' = w' \<and>
    inbound_users s' tag =
      (inbound_users s tag - {|remove_hash (aur_HashData request)|}) |\<union>|
      (if \<exists>(item, r)\<in>set (zip (aur_Data request) rs). r = None \<and> uid_Tag item = tag
       then {|uhd_VlessUUID (aur_HashData request)|} else {||})"
proof -
  let ?h = "remove_hash (aur_HashData request)" and ?s = "register (aur_Data request) s"
  have h: "?h \<noteq> []"
    using assms(5) by (auto simp: remove_hash_def prev_uuid_def split: option.splits if_splits)
  have wf: "index_wf ?s" using keeps_register_items assms(1) by (auto simp: keeps_def)
  have "inbound_users ?s = inbound_users s" by (simp add: register_def frame_simps)
  then show ?thesis
    using AddUser_available [OF assms(2,3,6)] assms(7)
      users_add_succeeded [OF assms(5,4)] state_index.users_remove_all [OF wf h]
    by auto
qed


text \<open>
  \<open>DropIPs\<close> tries every IP of a non-empty request in order, whatever happened to the ones before, and
  answers success if and only if none failed, where an unavailable conntrack is no failure.
\<close>

theorem DropIPs_tries_all:
  "DropIPs env (Inr request) w =
     (if dir_IPs request = [] then (Envelope StatusOK \<lparr>ssr_Success = False\<rparr>, w)
      else case call_results (dropConnectionIP env) (dir_IPs request) w of
        (rs, w') \<Rightarrow> (Envelope StatusOK \<lparr>ssr_Success = list_all (\<lambda>r. r = None) rs\<rparr>, w'))"
  by (simp add: DropIPs_def drop_ips_split list_all_iff split: prod.split)

section \<open>Witnesses\<close>

text \<open>A core that is up and refuses the inbound \<open>bad\<close>; its world counts the calls.\<close>

definition example_client :: "nat HandlerClient" where
  "example_client =
     \<lparr>hc_AddUser = (\<lambda>spec w. (if us_Tag spec = ''bad'' then Some (NewError ''no'') else None, Suc w)),
      hc_RemoveUser = (\<lambda>tag u w. (if tag = ''bad'' then Some (NewError ''no'') else None, Suc w))\<rparr>"

definition example_env :: "nat HandlerEnv" where
  "example_env =
     \<lparr>he_core = Some \<lparr>core_Start = (\<lambda>_ w. (None, w)), core_Stop = (\<lambda>w. (None, w)),
        core_IsRunning = (\<lambda>_. True), core_Health = (\<lambda>_. None), core_Version = (\<lambda>_. Inr ''1''),
        core_Handler = Some example_client, core_Stats = None\<rparr>,
      he_dropper = None\<rparr>"

definition example_state :: RuntimeState where
  "example_state = AddUserToInbound ''in'' ''old'' (AddUserToInbound ''bad'' ''old'' NewRuntimeState)"

definition example_add :: AddUserRequest where
  "example_add =
     \<lparr>aur_Data = map (\<lambda>tag. \<lparr>uid_Type = ''vless'', uid_Tag = tag, uid_Username = ''u'',
        uid_Password = [], uid_UUID = ''new'', uid_Flow = [], uid_CipherType = 0,
        uid_IVCheck = False\<rparr>) [''in'', ''bad''],
      aur_HashData = \<lparr>uhd_VlessUUID = ''new'', uhd_PrevVlessUUID = Some ''old''\<rparr>\<rparr>"


definition example_remove :: RemoveUserRequest where
  "example_remove =
     \<lparr>rur_Username = ''u'', rur_HashData = \<lparr>uhd_VlessUUID = ''old'', uhd_PrevVlessUUID = None\<rparr>\<rparr>"

lemma index_wf_example: "index_wf example_state"
  unfolding example_state_def by (intro inv_intros)

lemma example_available: "handlerClient example_env w = Inr example_client"
  by (simp add: handlerClient_def example_env_def)

lemma example_tags: "KnownInboundTags example_state = [''bad'', ''in'']"
  by code_simp

theorem user_handlers_keep_state_witness:
  "index_wf (fst (snd (AddUser example_env (Inr example_add) (example_state, 0)))) \<and>
   lifecycle (fst (snd (AddUser example_env (Inr example_add) (example_state, 0)))) = lifecycle example_state"
  by (rule user_handlers_keep_state [OF index_wf_example]) (rule insertI1)

theorem RemoveUser_everywhere_witness:
  "fst (RemoveUser example_env (Inr example_remove) (example_state, 0)) =
     writeSuccess True (Some (NewError ''no'')) \<and>
   inbound_users (fst (snd (RemoveUser example_env (Inr example_remove) (example_state, 0)))) ''bad'' =
     inbound_users example_state ''bad'' - {|''old''|}"
proof -
  have rs: "call_results (\<lambda>t. hc_RemoveUser example_client t (rur_Username example_remove))
      (KnownInboundTags example_state) 0 = ([Some (NewError ''no''), None], 2)"
    by (simp add: example_tags example_client_def numeral_2_eq_2)
  have ne: "KnownInboundTags example_state \<noteq> []" by (simp add: example_tags)
  have h: "uhd_VlessUUID (rur_HashData example_remove) \<noteq> []" by (simp add: example_remove_def)
  obtain r s w where run: "RemoveUser example_env (Inr example_remove) (example_state, 0) = (r, (s, w))"
    by (metis surj_pair)
  show ?thesis
    using RemoveUser_everywhere [OF index_wf_example ne example_available h rs run, of "''bad''"]
    unfolding run by (simp add: example_remove_def)
qed

theorem AddUser_reregisters_witness:
  "fst (AddUser example_env (Inr example_add) (example_state, 0)) = writeSuccess True None \<and>
   inbound_users (fst (snd (AddUser example_env (Inr example_add) (example_state, 0)))) ''in'' = {|''new''|} \<and>
   inbound_users (fst (snd (AddUser example_env (Inr example_add) (example_state, 0)))) ''bad'' = {||}"
proof -
  have ne: "aur_Data example_add \<noteq> []" and tags: "\<forall>item\<in>set (aur_Data example_add). uid_Tag item \<noteq> []"
    and h: "uhd_VlessUUID (aur_HashData example_add) \<noteq> []"
    by (simp_all add: example_add_def)
  obtain v where rs: "call_results (hc_AddUser example_client \<circ> add_user_spec) (aur_Data example_add)
      (world_before_adding example_env example_client example_add example_state 0) =
      ([None, Some (NewError ''no'')], v)"
    by (simp add: example_add_def example_client_def)
  obtain r s w where run: "AddUser example_env (Inr example_add) (example_state, 0) = (r, (s, w))"
    by (metis surj_pair)
  have users: "inbound_users example_state ''in'' = {|''old''|}" "inbound_users example_state ''bad'' = {|''old''|}"
    by code_simp+
  have old: "remove_hash (aur_HashData example_add) = ''old''" by (simp add: example_add_def remove_hash_def prev_uuid_def)
  show ?thesis
    using AddUser_reregisters [OF index_wf_example example_available ne tags h rs run]
    by (simp add: run users old errIf_def) (simp add: example_add_def)
qed


section \<open>What the handlers do to the world\<close>

text \<open>
  A relation that holds between the worlds before and after every client call holds between
  the worlds before and after every handler.
\<close>

locale client_frame =
  fixes env :: "'w HandlerEnv" and R :: "'w \<Rightarrow> 'w \<Rightarrow> bool"
  assumes R_refl: "R w w"
    and R_trans: "R w w' \<Longrightarrow> R w' w'' \<Longrightarrow> R w w''"
    and R_AddUser:
      "he_core env = Some core \<Longrightarrow> core_Handler core = Some h \<Longrightarrow> R w (snd (hc_AddUser h spec w))"
    and R_RemoveUser:
      "he_core env = Some core \<Longrightarrow> core_Handler core = Some h \<Longrightarrow> R w (snd (hc_RemoveUser h tag u w))"
    and R_UserIPList:
      "he_core env = Some core \<Longrightarrow> core_Stats core = Some c \<Longrightarrow> R w (snd (sc_UserIPList c u r w))"
    and R_DropIP: "he_dropper env = Some d \<Longrightarrow> R w (snd (d ip w))"
begin

lemma R_handlerClient:
  assumes "handlerClient env w = Inr h"
  shows "R v (snd (hc_AddUser h spec v))" "R v (snd (hc_RemoveUser h tag u v))"
  using assms R_AddUser R_RemoveUser
  by (auto simp: handlerClient_def split: option.splits if_splits)

lemma R_statsClient: "statsClient env w = Inr c \<Longrightarrow> R v (snd (sc_UserIPList c u r v))"
  using R_UserIPList by (auto simp: statsClient_def split: option.splits if_splits)

lemma R_call_results: "(\<And>x v. R v (snd (f x v))) \<Longrightarrow> R w (snd (call_results f xs w))"
proof (induction xs arbitrary: w)
  case (Cons x xs)
  have "R w (snd (f x w))" "R (snd (f x w)) (snd (call_results f xs (snd (f x w))))"
    using Cons by blast+
  then show ?case by (auto simp: split_beta intro: R_trans)
qed (simp add: R_refl)

lemma R_fold: "(\<And>x v. R v (f x v)) \<Longrightarrow> R w (fold f xs w)"
  by (induction xs arbitrary: w) (auto intro: R_refl R_trans)

lemma R_dropConnectionIP: "R w (snd (dropConnectionIP env ip w))"
proof (cases "he_dropper env")
  case (Some d)
  then show ?thesis
    using R_DropIP [OF Some, of w ip]
    by (auto simp: dropConnectionIP_def split_beta split: option.split)
qed (simp add: dropConnectionIP_def R_refl)

lemma R_drop_ips: "R w (snd (drop_ips env ips ok w))"
  using R_call_results [of "dropConnectionIP env" w ips, OF R_dropConnectionIP]
  by (simp add: drop_ips_split split_beta)

lemma R_currentUserIPs: "R w (snd (currentUserIPs env u w))"
  using R_statsClient
  by (auto simp: currentUserIPs_def split_beta R_refl split: sum.split)

lemma R_add_bulk_items:
  assumes "\<And>spec v. R v (snd (hc_AddUser client spec v))"
  shows "R w (snd (snd (add_bulk_items client user items ok e (s, w))))"
proof (induction items arbitrary: s w ok e)
  case (Cons item items)
  show ?case
    using assms [of w "bulkUserSpec item user"] Cons.IH
    by (auto simp: Let_def split_beta split: option.split intro: R_trans)
qed (simp add: R_refl)

lemma R_remove_from_tags:
  assumes "\<And>tag u v. R v (snd (hc_RemoveUser client tag u v))"
  shows "R (snd n) (snd (remove_from_tags client u h tags n))"
  using R_fold [of "\<lambda>t w. snd (hc_RemoveUser client t u w)"] assms
  by (cases n) (simp add: remove_from_tags_split)

lemma R_add_users_loop:
  assumes "\<And>tag u v. R v (snd (hc_RemoveUser client tag u v))"
    and "\<And>spec v. R v (snd (hc_AddUser client spec v))"
  shows "R (snd n) (snd (snd (add_users_loop client users ok e n)))"
proof (induction users arbitrary: n ok e)
  case (Cons user users)
  let ?n = "remove_from_tags client (bud_UserID (bur_UserData user))
      (bud_HashUUID (bur_UserData user)) (KnownInboundTags (fst n)) n"
  let ?m = "snd (add_bulk_items client (bur_UserData user) (bur_InboundData user) ok e ?n)"
  have "R (snd n) (snd ?n)" by (rule R_remove_from_tags) (rule assms(1))
  moreover have "R (snd ?n) (snd ?m)"
    using R_add_bulk_items [OF assms(2)] by (metis prod.collapse)
  ultimately have "R (snd n) (snd ?m)" by (rule R_trans)
  from R_trans [OF this Cons.IH] show ?case by (simp add: Let_def split_beta)
qed (simp add: R_refl)

lemma R_removeFromAll:
  assumes "\<And>tag u v. R v (snd (hc_RemoveUser client tag u v))"
  shows "R (snd n) (snd (snd (removeFromAllKnownInbounds client u h n)))"
  using R_call_results [of "\<lambda>t. hc_RemoveUser client t u"] assms
  by (cases n) (simp add: removeFromAllKnownInbounds_def remove_loop_split split_beta)

lemma R_remove_users_loop:
  assumes "\<And>tag u v. R v (snd (hc_RemoveUser client tag u v))"
  shows "R (snd n) (snd (snd (remove_users_loop client users ok e n)))"
proof (induction users arbitrary: n ok e)
  case (Cons user users)
  from R_trans [OF R_removeFromAll [OF assms, of n "rui_UserID user" "rui_HashUUID user"] Cons.IH]
  show ?case by (simp add: split_beta)
qed (simp add: R_refl)

lemma R_drop_users_loop:
  assumes "\<And>u r v. R v (snd (sc_UserIPList client u r v))"
  shows "R w (snd (drop_users_loop env client us ok w))"
proof (induction us arbitrary: ok w)
  case (Cons u us)
  have list: "R w (snd (sc_UserIPList client u True w))" by (rule assms)
  have "R w (snd (drop_ips env ips b (snd (sc_UserIPList client u True w))))" for ips b
    using list R_drop_ips by (rule R_trans)
  from R_trans [OF this Cons.IH] R_trans [OF list Cons.IH] show ?case
    by (simp add: split_beta split: sum.split)
qed (simp add: R_refl)

lemma R_world_before_adding:
  assumes "handlerClient env w = Inr client"
  shows "R w (world_before_adding env client request s w)"
proof -
  let ?r = "if prev_uuid (aur_HashData request) \<noteq> None
            then currentUserIPs env (uid_Username (aur_Data request ! 0)) w else ([], w)"
  let ?w = "fold (\<lambda>t w. snd (hc_RemoveUser client t (uid_Username (aur_Data request ! 0)) w))
      (KnownInboundTags (register (aur_Data request) s)) (snd ?r)"
  have "R w (snd ?r)" by (simp add: R_currentUserIPs R_refl)
  moreover have "R (snd ?r) ?w" by (rule R_fold) (rule R_handlerClient(2) [OF assms])
  moreover have "R ?w (snd (drop_ips env (fst ?r) True ?w))" by (rule R_drop_ips)
  ultimately show ?thesis
    by (auto simp: world_before_adding_def Let_def split_beta intro: R_trans)
qed

lemma AddUser_world: "R w (snd (snd (AddUser env bound (s, w))))"
proof (cases "\<exists>request client. bound = Inr request \<and> aur_Data request \<noteq> [] \<and> handlerClient env w = Inr client")
  case True
  then obtain request client where b: "bound = Inr request" and ne: "aur_Data request \<noteq> []"
    and client: "handlerClient env w = Inr client" by blast
  obtain rs w' where rs: "call_results (hc_AddUser client \<circ> add_user_spec) (aur_Data request)
      (world_before_adding env client request s w) = (rs, w')" by fastforce
  have "R (world_before_adding env client request s w) w'"
    using R_call_results [of "hc_AddUser client \<circ> add_user_spec"] R_handlerClient(1) [OF client] rs
    by (metis comp_apply snd_conv)
  then show ?thesis
    using R_world_before_adding [OF client] AddUser_available [OF client ne rs] b
    by (auto intro: R_trans)
next
  case False
  then show ?thesis
    by (cases bound; cases "handlerClient env w")
      (auto simp: AddUser_def AddUser_unavailable R_refl Let_def)
qed

lemma AddUsers_world: "R w (snd (snd (AddUsers env bound (s, w))))"
  using R_add_users_loop [OF R_handlerClient(2,1)]
  by (cases bound; cases "handlerClient env w")
    (auto simp: AddUsers_def Let_def split_beta R_refl dest: R_add_users_loop [OF R_handlerClient(2,1)])

lemma RemoveUser_world: "R w (snd (snd (RemoveUser env bound (s, w))))"
  using R_removeFromAll [OF R_handlerClient(2), where n = "(s, w)"]
  by (cases bound; cases "handlerClient env w") (auto simp: RemoveUser_def split_beta R_refl)

lemma RemoveUsers_world: "R w (snd (snd (RemoveUsers env bound (s, w))))"
  using R_remove_users_loop [OF R_handlerClient(2), where n = "(s, w)"]
  by (cases bound; cases "handlerClient env w") (auto simp: RemoveUsers_def split_beta R_refl)

lemma DropUsersConnections_world: "R w (snd (DropUsersConnections env bound w))"
  using R_drop_users_loop [OF R_statsClient]
  by (cases bound; cases "statsClient env w") (auto simp: DropUsersConnections_def split_beta R_refl)

lemma DropIPs_world: "R w (snd (DropIPs env bound w))"
  using R_drop_ips by (cases bound) (auto simp: DropIPs_def split_beta R_refl)

end

end
