(* ===== verification/Geodata.thy ===== *)
theory Geodata
  imports GoStrings Contracts
begin

text \<open>
  Provisioning of the geodata assets before a start (\<open>internal/xray/geodata.go\<close>). Files,
  HTTP, \<open>net/url\<close>, \<open>path/filepath\<close> and the decoding of the section by \<open>encoding/json\<close>
  are fields of \<open>geodata_os\<close> over the world \<open>'w\<close>. The code runs up to five assets at a time;
  here they run one after the other, in the order of the list, which is one of the runs of theory
  \<open>GeodataPool\<close>. Log lines are not modelled.
\<close>

record GeodataAsset =
  ga_URL :: string
  ga_File :: string

datatype stat_result = StatNotExist | StatError gerror | StatInfo bool nat

text \<open>
  \<open>geo_Do\<close> is the whole request, whose answer is a status and a body; \<open>geo_CreateTemp\<close> makes a new temporary
  file of a directory, \<open>geo_CopyClose\<close> copies at
  most the given number of bytes of a body into it and closes it, with the error of either;
  \<open>geo_CreateExcl\<close> creates an empty file that must not exist yet.
\<close>

record 'w geodata_os =
  geo_decode :: "json_obj \<Rightarrow> gerror + GeodataAsset list"
  geo_URLScheme :: "string \<Rightarrow> string option"
  geo_AssetDir :: "'w \<Rightarrow> string"
  geo_Join :: "string \<Rightarrow> string \<Rightarrow> string"
  geo_Dir :: "string \<Rightarrow> string"
  geo_Stat :: "string \<Rightarrow> 'w \<Rightarrow> stat_result"
  geo_Do :: "string \<Rightarrow> 'w \<Rightarrow> (gerror + nat \<times> string) \<times> 'w"
  geo_MkdirAll :: "string \<Rightarrow> 'w \<Rightarrow> gerror option \<times> 'w"
  geo_CreateTemp :: "string \<Rightarrow> 'w \<Rightarrow> (gerror + string) \<times> 'w"
  geo_CopyClose :: "string \<Rightarrow> nat \<Rightarrow> string \<Rightarrow> 'w \<Rightarrow> gerror option \<times> 'w"
  geo_Rename :: "string \<Rightarrow> string \<Rightarrow> 'w \<Rightarrow> gerror option \<times> 'w"
  geo_Remove :: "string \<Rightarrow> 'w \<Rightarrow> 'w"
  geo_CreateExcl :: "string \<Rightarrow> 'w \<Rightarrow> 'w"

definition maxGeodataAssetSize :: nat where "maxGeodataAssetSize = 256 * 2 ^ 20"

text \<open>The pattern \<open>^[\w.-]+$\<close>; \<open>\w\<close> is ASCII and \<open>$\<close> is the end of the text.\<close>

definition word_char :: "char \<Rightarrow> bool" where
  "word_char c \<longleftrightarrow>
     (let n = byte c in (48 \<le> n \<and> n \<le> 57) \<or> (65 \<le> n \<and> n \<le> 90) \<or> (97 \<le> n \<and> n \<le> 122)) \<or> c = CHR ''_''"

definition geodataFileNamePattern :: "string \<Rightarrow> bool" where
  "geodataFileNamePattern s \<longleftrightarrow>
     s \<noteq> [] \<and> list_all (\<lambda>c. word_char c \<or> c = CHR ''.'' \<or> c = CHR ''-'') s"

definition validGeodataAsset :: "'w geodata_os \<Rightarrow> GeodataAsset \<Rightarrow> bool" where
  "validGeodataAsset os asset =
     (case geo_URLScheme os (ga_URL asset) of
        None \<Rightarrow> False
      | Some scheme \<Rightarrow>
          if scheme \<noteq> ''https'' then False
          else if \<not> geodataFileNamePattern (ga_File asset) \<or> ga_File asset = ''.'' \<or> ga_File asset = ''..''
          then False else True)"

definition fileExistsNonEmpty :: "'w geodata_os \<Rightarrow> string \<Rightarrow> 'w \<Rightarrow> gerror + bool" where
  "fileExistsNonEmpty os path w =
     (case geo_Stat os path w of
        StatNotExist \<Rightarrow> Inr False
      | StatError err \<Rightarrow> Inl err
      | StatInfo regular n \<Rightarrow> Inr (regular \<and> n > 0))"

definition createGeodataStub :: "'w geodata_os \<Rightarrow> string \<Rightarrow> 'w \<Rightarrow> 'w" where
  "createGeodataStub os path w =
     (case geo_MkdirAll os (geo_Dir os path) w of
        (Some err, w) \<Rightarrow> w
      | (None, w) \<Rightarrow> geo_CreateExcl os path w)"

definition downloadGeodataAsset :: "'w geodata_os \<Rightarrow> string \<Rightarrow> string \<Rightarrow> 'w \<Rightarrow> gerror option \<times> 'w" where
  "downloadGeodataAsset os downloadURL path w =
     (case geo_Do os downloadURL w of
        (Inl err, w) \<Rightarrow> (Some err, w)
      | (Inr (status, body), w) \<Rightarrow>
     if status \<noteq> 200 then (Some (NewError (''download status '' @ nat_digits status)), w)
     else case geo_MkdirAll os (geo_Dir os path) w of
        (Some err, w) \<Rightarrow> (Some err, w)
      | (None, w) \<Rightarrow>
     (case geo_CreateTemp os (geo_Dir os path) w of
        (Inl err, w) \<Rightarrow> (Some err, w)
      | (Inr tmpName, w) \<Rightarrow>
     (case geo_CopyClose os tmpName maxGeodataAssetSize body w of
        (Some err, w) \<Rightarrow> (Some err, geo_Remove os tmpName w)
      | (None, w) \<Rightarrow>
     (case geo_Rename os tmpName path w of (r, w) \<Rightarrow> (r, geo_Remove os tmpName w)))))"

definition prepareGeodataAsset :: "'w geodata_os \<Rightarrow> string \<Rightarrow> GeodataAsset \<Rightarrow> 'w \<Rightarrow> 'w" where
  "prepareGeodataAsset os assetDir asset w =
     (let path = geo_Join os assetDir (ga_File asset) in
      if fileExistsNonEmpty os path w = Inr True then w
      else case downloadGeodataAsset os (ga_URL asset) path w of
        (Some err, w) \<Rightarrow> createGeodataStub os path w
      | (None, w) \<Rightarrow> w)"

definition PrepareGeodata :: "'w geodata_os \<Rightarrow> json_map \<Rightarrow> 'w \<Rightarrow> 'w" where
  "PrepareGeodata os panelConfig w =
     (case panelConfig of
        None \<Rightarrow> w
      | Some m \<Rightarrow>
     (case as_map (fmlookup m ''geodata'') of
        None \<Rightarrow> w
      | Some section \<Rightarrow>
     (case geo_decode os section of
        Inl err \<Rightarrow> w
      | Inr parsed \<Rightarrow>
          let assets = filter (validGeodataAsset os) parsed
          in if length assets = 0 then w
             else fold (prepareGeodataAsset os (geo_AssetDir os w)) assets w)))"

section \<open>Properties\<close>

lemma geodata_no_slash: "geodataFileNamePattern s \<Longrightarrow> CHR 0x2F \<notin> set s"
  by (auto simp: geodataFileNamePattern_def list_all_iff word_char_def Let_def)

lemma validGeodataAsset_iff:
  "validGeodataAsset os a \<longleftrightarrow>
     geo_URLScheme os (ga_URL a) = Some ''https'' \<and> geodataFileNamePattern (ga_File a) \<and>
     ga_File a \<noteq> ''.'' \<and> ga_File a \<noteq> ''..''"
  by (auto simp: validGeodataAsset_def split: option.splits)

lemma fold_unchanged: "(\<And>x. x \<in> set xs \<Longrightarrow> f x w = w) \<Longrightarrow> fold f xs w = w"
  by (induction xs) auto

text \<open>
  An asset that cannot leave the asset directory or is there already is never written: if every
  https asset of the section with a plain file name (no path separator, no dot
  directory) has a non-empty file, then preparing the section changes nothing, whatever its other
  assets are.
\<close>

theorem PrepareGeodata_present:
  assumes "geo_decode os section = Inr parsed"
    and "\<And>a. a \<in> set parsed \<Longrightarrow> geo_URLScheme os (ga_URL a) = Some ''https'' \<Longrightarrow>
      CHR 0x2F \<notin> set (ga_File a) \<Longrightarrow> ga_File a \<notin> {[], ''.'', ''..''} \<Longrightarrow>
      fileExistsNonEmpty os (geo_Join os (geo_AssetDir os w) (ga_File a)) w = Inr True"
  shows "PrepareGeodata os (Some (fmupd ''geodata'' (JObj section) m)) w = w"
proof -
  have "fold (prepareGeodataAsset os (geo_AssetDir os w)) (filter (validGeodataAsset os) parsed) w = w"
    using assms(2) geodata_no_slash
    by (intro fold_unchanged)
      (auto simp: prepareGeodataAsset_def validGeodataAsset_iff Let_def geodataFileNamePattern_def)
  then show ?thesis by (simp add: PrepareGeodata_def assms(1) Let_def)
qed

definition example_geodata_os :: "string list geodata_os" where
  "example_geodata_os =
     \<lparr>geo_decode = (\<lambda>_. Inr [\<lparr>ga_URL = ''https://h/geoip.dat'', ga_File = ''geoip.dat''\<rparr>,
                              \<lparr>ga_URL = ''https://h/x'', ga_File = ''../x''\<rparr>]),
      geo_URLScheme = (\<lambda>url. if take 8 url = ''https://'' then Some ''https'' else None),
      geo_AssetDir = (\<lambda>_. ''/d''), geo_Join = (\<lambda>d f. d @ ''/'' @ f), geo_Dir = (\<lambda>_. ''/d''),
      geo_Stat = (\<lambda>p w. if p \<in> set w then StatInfo True 1 else StatNotExist),
      geo_Do = (\<lambda>_ w. (Inr (200, ''body''), w)), geo_MkdirAll = (\<lambda>_ w. (None, w)),
      geo_CreateTemp = (\<lambda>_ w. (Inr ''/d/t'', w)), geo_CopyClose = (\<lambda>_ _ _ w. (None, w)),
      geo_Rename = (\<lambda>_ p w. (None, p # w)), geo_Remove = (\<lambda>_ w. w), geo_CreateExcl = (\<lambda>p w. w)\<rparr>"

theorem PrepareGeodata_present_witness:
  "PrepareGeodata example_geodata_os (Some (fmupd ''geodata'' (JObj fmempty) fmempty)) [''/d/geoip.dat''] =
     [''/d/geoip.dat'']"
  by (rule PrepareGeodata_present
      [where parsed = "[\<lparr>ga_URL = ''https://h/geoip.dat'', ga_File = ''geoip.dat''\<rparr>,
                        \<lparr>ga_URL = ''https://h/x'', ga_File = ''../x''\<rparr>]"])
    (auto simp: example_geodata_os_def fileExistsNonEmpty_def)

end
