(* ===== verification/XrayController.thy ===== *)
theory XrayController
  imports UserIndex CoreInterface Geodata Http System
begin

text \<open>
  The lifecycle handlers (\<open>internal/controller/xray_controller.go\<close>): start, stop and
  health check. A handler is a function of the decoded request, the runtime state and the
  world of the core; \<open>startProcessing\<close> is the flag behind \<open>startMu\<close>. Contexts and timings
  are not modelled; the log lines are in \<open>StartLog\<close>, what the code computes for them in
  \<open>totalInboundUsers\<close>, \<open>inboundRows\<close> and the config counters of \<open>ConfigBuilder\<close>.
\<close>

text \<open>
  The fields of \<open>XrayController\<close>; \<open>None\<close> is a nil snapshotter, for which the code takes
  \<open>system.SnapshotStats()\<close>. \<open>xe_MarshalIndent\<close> is \<open>json.MarshalIndent\<close>.
\<close>

record 'w XrayEnv =
  xe_core :: "'w Core"
  xe_builder :: ConfigBuilder
  xe_snapshot :: "('w \<Rightarrow> SystemStatsPayload) option"
  xe_go :: go_env
  xe_provider :: "'w systemProvider"
  xe_geodata :: "'w geodata_os"
  xe_MarshalIndent :: "json_obj \<Rightarrow> gerror + string"

text \<open>The controller's own flag, the runtime state and the world.\<close>

record 'w xnode =
  startProcessing :: bool
  rt :: RuntimeState
  world :: 'w

section \<open>Helpers\<close>

definition tryBeginStart :: "bool \<Rightarrow> bool \<times> bool" where
  "tryBeginStart processing = (if processing then (False, processing) else (True, True))"

definition endStart :: "bool \<Rightarrow> bool" where
  "endStart processing = False"

definition systemStats :: "'w XrayEnv \<Rightarrow> 'w \<Rightarrow> SystemStatsPayload" where
  "systemStats env w =
     (case xe_snapshot env of
        None \<Rightarrow> SnapshotStats (xe_go env) (xe_provider env) None w
      | Some snapshot \<Rightarrow> snapshot w)"

definition totalInboundUsers :: "Hashes \<Rightarrow> goint" where
  "totalInboundUsers hashes = fold (\<lambda>i total. total + UsersCount i) (Inbounds hashes) 0"

definition inboundRows :: "Hashes \<Rightarrow> (string \<times> goint \<times> string) list" where
  "inboundRows hashes = map (\<lambda>i. (Tag i, UsersCount i, Hash i)) (Inbounds hashes)"

definition syncStartFailureState :: "'w XrayEnv \<Rightarrow> RuntimeState \<Rightarrow> 'w \<Rightarrow> RuntimeState" where
  "syncStartFailureState env s w =
     (if core_IsRunning (xe_core env) w
      then SetXrayInternalStatusCached True (SetXrayRunning True s)
      else SetXrayRunning False s)"

definition startError :: "'w XrayEnv \<Rightarrow> gerror \<Rightarrow> RuntimeState \<Rightarrow> 'w \<Rightarrow> StartXrayResponse response" where
  "startError env err s w =
     (let snapshot = Snapshot_of s in
      Envelope StatusOK
        \<lparr>sres_IsStarted = False, sres_Version = snap_XrayVersion snapshot,
         sres_Error = Some (Error_msg err),
         sres_NodeInformation = \<lparr>nin_Version = Some (snap_NodeVersion snapshot)\<rparr>,
         sres_System = systemStats env w\<rparr>)"

section \<open>Start\<close>

text \<open>The part of \<open>Start\<close> after the restart decision: build, provision, start.\<close>

definition start_core :: "'w XrayEnv \<Rightarrow> json_map \<Rightarrow> Hashes \<Rightarrow> RuntimeState \<times> 'w \<Rightarrow>
    StartXrayResponse response \<times> RuntimeState \<times> 'w" where
  "start_core env panelConfig hashes n =
     (case n of (s, w) \<Rightarrow>
      case Build (xe_builder env) panelConfig of
        Inl err \<Rightarrow>
          (let s = syncStartFailureState env s w in (startError env err s w, (s, w)))
      | Inr fullConfig \<Rightarrow>
      (let w = PrepareGeodata (xe_geodata env) (Some fullConfig) w in
       case xe_MarshalIndent env fullConfig of
         Inl err \<Rightarrow>
           (let s = syncStartFailureState env s w in (startError env err s w, (s, w)))
       | Inr configBytes \<Rightarrow>
      (case core_Start (xe_core env) configBytes w of
         (Some err, w) \<Rightarrow>
           (let s = syncStartFailureState env s w in (startError env err s w, (s, w)))
       | (None, w) \<Rightarrow>
           let versionPtr = (case core_Version (xe_core env) w of
                               Inl _ \<Rightarrow> None
                             | Inr version \<Rightarrow> if version \<noteq> [] then Some version else None);
               s = SetXrayStarted versionPtr (Some fullConfig) hashes s;
               s = SetInboundProtocolsFromConfig fullConfig s
           in (Envelope StatusOK
                 \<lparr>sres_IsStarted = True, sres_Version = versionPtr, sres_Error = None,
                  sres_NodeInformation = \<lparr>nin_Version = Some (NodeVersion s)\<rparr>,
                  sres_System = systemStats env w\<rparr>, (s, w)))))"

text \<open>What \<open>Start\<close> does between \<open>tryBeginStart\<close> and \<open>endStart\<close>.\<close>

definition start_guarded :: "'w XrayEnv \<Rightarrow> gerror + StartXrayRequest \<Rightarrow> RuntimeState \<times> 'w \<Rightarrow>
    StartXrayResponse response \<times> RuntimeState \<times> 'w" where
  "start_guarded env bound n =
     (case n of (s, w) \<Rightarrow>
      case bound of
        Inl err \<Rightarrow> (startError env err s w, (s, w))
      | Inr request \<Rightarrow>
      (let hashes = HashesFromContract (si_Hashes (sxr_Internals request));
           coreRunning = core_IsRunning (xe_core env) w;
           dec = RestartDecision (si_ForceRestart (sxr_Internals request)) hashes coreRunning s
       in if \<not> ShouldRestart dec then
            (case core_Health (xe_core env) w of
               None \<Rightarrow>
                 (let s = SetXrayInternalStatusCached True s;
                      snapshot = Snapshot_of s
                  in (Envelope StatusOK
                        \<lparr>sres_IsStarted = True, sres_Version = snap_XrayVersion snapshot,
                         sres_Error = None,
                         sres_NodeInformation = \<lparr>nin_Version = Some (snap_NodeVersion snapshot)\<rparr>,
                         sres_System = systemStats env w\<rparr>, (s, w)))
             | Some err \<Rightarrow>
                 start_core env (sxr_XrayConfig request) hashes (SetXrayInternalStatusCached False s, w))
          else start_core env (sxr_XrayConfig request) hashes (s, w)))"

definition Start_handler :: "'w XrayEnv \<Rightarrow> gerror + StartXrayRequest \<Rightarrow> 'w xnode \<Rightarrow>
    StartXrayResponse response \<times> 'w xnode" where
  "Start_handler env bound n =
     (case tryBeginStart (startProcessing n) of
        (False, processing) \<Rightarrow>
          (startError env (NewError ''Request already in progress'') (rt n) (world n), n)
      | (True, processing) \<Rightarrow>
          (case start_guarded env bound (rt n, world n) of
             (response, (s, w)) \<Rightarrow>
               (response, n\<lparr>startProcessing := endStart processing, rt := s, world := w\<rparr>)))"

section \<open>Stop and health check\<close>

definition Stop_handler :: "'w XrayEnv \<Rightarrow> 'w xnode \<Rightarrow> StopXrayResponse response \<times> 'w xnode" where
  "Stop_handler env n =
     (case core_Stop (xe_core env) (world n) of
        (err, w) \<Rightarrow>
          (Envelope StatusOK \<lparr>stop_IsStopped = True\<rparr>,
           n\<lparr>rt := SetXrayRunning False (rt n), world := w\<rparr>))"

definition Healthcheck :: "RuntimeState \<Rightarrow> HealthcheckResponse response" where
  "Healthcheck s =
     (let snapshot = Snapshot_of s in
      Envelope StatusOK
        \<lparr>hr_IsAlive = True,
         hr_XrayInternalStatusCached = snap_XrayInternalStatusCached snapshot,
         hr_XrayVersion = snap_XrayVersion snapshot,
         hr_NodeVersion = snap_NodeVersion snapshot\<rparr>)"

section \<open>Lemmas\<close>

text \<open>The status flags, which are all that a failed start may write.\<close>

definition same_but_flags :: "RuntimeState \<Rightarrow> RuntimeState \<Rightarrow> bool" where
  "same_but_flags s s' \<longleftrightarrow>
     s' = s\<lparr>XrayRunning := XrayRunning s', XrayInternalStatusCached := XrayInternalStatusCached s'\<rparr>"

lemma same_but_flags_refl [simp]: "same_but_flags s s"
  by (simp add: same_but_flags_def)

lemma same_but_flags_trans [trans]:
  "same_but_flags s t \<Longrightarrow> same_but_flags t u \<Longrightarrow> same_but_flags s u"
  by (cases s, cases t, cases u) (simp add: same_but_flags_def)

lemma same_but_flags_ops [simp]:
  "same_but_flags s (SetXrayRunning b s)"
  "same_but_flags s (SetXrayInternalStatusCached b s)"
  "same_but_flags s (syncStartFailureState env s w)"
  by (simp_all add: same_but_flags_def SetXrayRunning_def SetXrayInternalStatusCached_def
      syncStartFailureState_def Let_def)

lemma sync_flags [simp]:
  "XrayRunning (syncStartFailureState env s w) = core_IsRunning (xe_core env) w"
  "XrayInternalStatusCached (syncStartFailureState env s w) = core_IsRunning (xe_core env) w"
  by (simp_all add: syncStartFailureState_def SetXrayRunning_def SetXrayInternalStatusCached_def Let_def)

definition started :: "'r response \<Rightarrow> ('r \<Rightarrow> bool) \<Rightarrow> bool" where
  "started r f = (case r of Envelope _ resp \<Rightarrow> f resp | _ \<Rightarrow> False)"

abbreviation is_started :: "StartXrayResponse response \<Rightarrow> bool" where
  "is_started r \<equiv> started r sres_IsStarted"

lemma is_started_simps [simp]:
  "started (Envelope c resp) f = f resp" "\<not> is_started (startError env err s w)"
  by (simp_all add: started_def startError_def Let_def)

text \<open>The three ways of the guarded part.\<close>

lemma start_core_failed:
  "start_core env c h (s, w) = (r, (s', w')) \<Longrightarrow> \<not> is_started r \<Longrightarrow>
   same_but_flags s s' \<and> XrayRunning s' = core_IsRunning (xe_core env) w' \<and>
   XrayInternalStatusCached s' = core_IsRunning (xe_core env) w'"
  by (auto simp: start_core_def Let_def split: sum.splits prod.splits option.splits)

lemma start_core_started:
  "start_core env c h (s, w) = (r, (s', w')) \<Longrightarrow> is_started r \<Longrightarrow>
   \<exists>full bytes v. Build (xe_builder env) c = Inr full \<and> xe_MarshalIndent env full = Inr bytes \<and>
     core_Start (xe_core env) bytes (PrepareGeodata (xe_geodata env) (Some full) w) = (None, w') \<and>
     s' = SetInboundProtocolsFromConfig full (SetXrayStarted v (Some full) h s)"
  by (fastforce simp: start_core_def Let_def split: sum.splits prod.splits option.splits if_splits)

definition request_hashes :: "StartXrayRequest \<Rightarrow> Hashes" where
  "request_hashes request = HashesFromContract (si_Hashes (sxr_Internals request))"

definition up_to_date :: "StartXrayRequest \<Rightarrow> bool \<Rightarrow> RuntimeState \<Rightarrow> bool" where
  "up_to_date request running s \<longleftrightarrow>
     \<not> si_ForceRestart (sxr_Internals request) \<and> running \<and> HasLastHashes s \<and>
     sameHashes (LastHashes s) (request_hashes request)"

lemma ShouldRestart_iff:
  "ShouldRestart (RestartDecision force h running s) \<longleftrightarrow>
     force \<or> \<not> running \<or> \<not> HasLastHashes s \<or> \<not> sameHashes (LastHashes s) h"
  by (simp add: RestartDecision_def)

lemma start_guarded_request:
  "start_guarded env (Inr request) (s, w) =
     (if up_to_date request (core_IsRunning (xe_core env) w) s
      then (case core_Health (xe_core env) w of
              None \<Rightarrow> (Envelope StatusOK
                  \<lparr>sres_IsStarted = True, sres_Version = XrayVersion s, sres_Error = None,
                   sres_NodeInformation = \<lparr>nin_Version = Some (NodeVersion s)\<rparr>,
                   sres_System = systemStats env w\<rparr>, (SetXrayInternalStatusCached True s, w))
            | Some err \<Rightarrow> start_core env (sxr_XrayConfig request) (request_hashes request)
                           (SetXrayInternalStatusCached False s, w))
      else start_core env (sxr_XrayConfig request) (request_hashes request) (s, w))"
  by (simp add: start_guarded_def Let_def ShouldRestart_iff up_to_date_def request_hashes_def
      Snapshot_of_def SetXrayInternalStatusCached_def split: option.split)

section \<open>The lifecycle over any core\<close>

text \<open>
  What the status flags mean, for every core that keeps the contract and a geodata step that
  leaves the core alone.
\<close>

locale node_lifecycle = core_contract "xe_core env" for env :: "'w XrayEnv" +
  assumes geodata_running:
    "core_IsRunning (xe_core env) (PrepareGeodata (xe_geodata env) c w) = core_IsRunning (xe_core env) w"
begin

definition synced :: "RuntimeState \<Rightarrow> 'w \<Rightarrow> bool" where
  "synced s w \<longleftrightarrow> XrayRunning s = core_IsRunning (xe_core env) w \<and>
     XrayInternalStatusCached s = core_IsRunning (xe_core env) w"

lemma start_core_synced:
  "start_core env c h (s, w) = (r, (s', w')) \<Longrightarrow> synced s' w'"
proof (cases "is_started r")
  case True
  assume run: "start_core env c h (s, w) = (r, (s', w'))"
  from start_core_started [OF run True] obtain full bytes v w0
    where "core_Start (xe_core env) bytes w0 = (None, w')"
      and s': "s' = SetInboundProtocolsFromConfig full (SetXrayStarted v (Some full) h s)"
    by blast
  then have "core_IsRunning (xe_core env) w'" using Start_running by blast
  moreover have "lifecycle s' = lifecycle (SetXrayStarted v (Some full) h s)"
    by (simp add: s' frame_simps)
  then have "XrayRunning s' \<and> XrayInternalStatusCached s'"
    using lifecycle_eqD(1,2) [of s' "SetXrayStarted v (Some full) h s"] by (simp add: SetXrayStarted_def)
  ultimately show ?thesis by (simp add: synced_def)
qed (auto simp: synced_def dest: start_core_failed)

lemma start_guarded_synced:
  assumes "synced s w" "start_guarded env bound (s, w) = (r, (s', w'))"
  shows "synced s' w'"
proof (cases bound)
  case (Inl err)
  then show ?thesis using assms by (simp add: start_guarded_def)
next
  case (Inr request)
  show ?thesis
  proof (cases "up_to_date request (core_IsRunning (xe_core env) w) s")
    case True
    then have up: "core_IsRunning (xe_core env) w" by (simp add: up_to_date_def)
    then have "core_Health (xe_core env) w = None" using Health_running by blast
    then show ?thesis
      using assms True up Inr
      by (auto simp: start_guarded_request synced_def SetXrayInternalStatusCached_def)
  next
    case False
    then show ?thesis
      using assms Inr start_core_synced by (simp add: start_guarded_request)
  qed
qed

lemma Start_handler_synced:
  assumes "synced (rt n) (world n)"
  shows "synced (rt (snd (Start_handler env bound n))) (world (snd (Start_handler env bound n)))"
  using start_guarded_synced [OF assms] assms
  by (auto simp: Start_handler_def tryBeginStart_def split: prod.split)

lemma Stop_handler_synced:
  "synced (rt (snd (Stop_handler env n))) (world (snd (Stop_handler env n)))"
  using Stop_stopped [of "world n"]
  by (auto simp: Stop_handler_def synced_def SetXrayRunning_def split: prod.split)

text \<open>A healthy core is never restarted for the hashes it runs with.\<close>

lemma up_to_date_kept:
  assumes "up_to_date request (core_IsRunning (xe_core env) w) s"
  shows "\<exists>r. start_guarded env (Inr request) (s, w) = (r, (SetXrayInternalStatusCached True s, w)) \<and> is_started r"
proof -
  have "core_Health (xe_core env) w = None"
    using assms Health_running by (auto simp: up_to_date_def)
  then show ?thesis using assms by (simp add: start_guarded_request)
qed

end

end
