(* ===== verification/Geocheck.thy ===== *)
theory Geocheck
  imports GoStrings
begin

text \<open>
  The geocheck runner (\<open>internal/geocheck/geocheck.go\<close>): it validates the request, lets one
  run at a time execute the binary, and checks the report. Running the process, parsing
  the report's image section and the printing of durations are fields of
  \<open>geocheck_os\<close> over the world \<open>'w\<close>.
\<close>

definition DefaultBinaryPath :: string where "DefaultBinaryPath = ''/usr/local/bin/geocheck''"
definition DefaultTimeout :: int where "DefaultTimeout = 45 * 1000000000"
definition DefaultMaxOutput :: int where "DefaultMaxOutput = 32 * 2 ^ 20"

definition ErrAlreadyRunning :: gerror where
  "ErrAlreadyRunning = NewError ''geocheck: a run is already in progress''"
definition ErrNoImage :: gerror where
  "ErrNoImage = NewError ''geocheck report carries no image''"
definition ErrNotFound :: gerror where
  "ErrNotFound = NewError ''executable file not found in $PATH''"

record Request =
  req_IP :: string
  req_Interface :: string

record ExecRunner =
  er_BinaryPath :: string
  er_Timeout :: int
  er_MaxOutput :: int
  er_isRunning :: bool

definition NewRunner :: ExecRunner where
  "NewRunner = \<lparr>er_BinaryPath = [], er_Timeout = 0, er_MaxOutput = 0, er_isRunning = False\<rparr>"

text \<open>
  \<open>gc_exec path args timeout maxOutput\<close> is the bounded run of the process: its output or error, and
  whether the context was done. \<open>gc_parse\<close> is the decoding of the report, with the image's data
  if there is an image.
\<close>

record 'w geocheck_os =
  gc_ParseIP :: "string \<Rightarrow> bool"
  gc_Getenv :: "string \<Rightarrow> string"
  gc_exec :: "string \<Rightarrow> string list \<Rightarrow> int \<Rightarrow> int \<Rightarrow> 'w \<Rightarrow> ((gerror + string) \<times> bool) \<times> 'w"
  gc_parse :: "string \<Rightarrow> gerror + string option"
  gc_Duration :: "int \<Rightarrow> string"

text \<open>
  The output buffer: a write that would pass the limit stores nothing and fails. \<open>execOutput\<close>
  writes the process's output to it chunk by chunk.
\<close>

record limitedBuffer =
  lb_buf :: string
  lb_max :: int
  lb_tooLarge :: bool

definition buffer_Write :: "string \<Rightarrow> limitedBuffer \<Rightarrow> (gerror + nat) \<times> limitedBuffer" where
  "buffer_Write p b =
     (if lb_max b > 0 \<and> int (length (lb_buf b) + length p) > lb_max b
      then (Inl (NewError ''output exceeds limit''), b\<lparr>lb_tooLarge := True\<rparr>)
      else (Inr (length p), b\<lparr>lb_buf := lb_buf b @ p\<rparr>))"

fun write_chunks :: "string list \<Rightarrow> limitedBuffer \<Rightarrow> gerror option \<times> limitedBuffer" where
  "write_chunks [] b = (None, b)"
| "write_chunks (p # ps) b =
     (case buffer_Write p b of
        (Inl err, b) \<Rightarrow> (Some err, b)
      | (Inr n, b) \<Rightarrow> write_chunks ps b)"

text \<open>
  \<open>execOutput\<close>: \<open>chunks\<close> is what the process writes, \<open>exit\<close> the error of the process. \<open>cmd.Run\<close>
  reports the process's error, else the error of copying its output.
\<close>

definition execOutput :: "string list \<Rightarrow> gerror option \<Rightarrow> int \<Rightarrow> gerror + string" where
  "execOutput chunks exit maxOutput =
     (case write_chunks chunks \<lparr>lb_buf = [], lb_max = maxOutput, lb_tooLarge = False\<rparr> of
        (copyErr, stdout) \<Rightarrow>
          (case (case exit of Some e \<Rightarrow> Some e | None \<Rightarrow> copyErr) of
             Some err \<Rightarrow>
               if lb_tooLarge stdout
               then Inl (NewError (''geocheck output exceeded '' @ Itoa maxOutput @ '' bytes''))
               else Inl err
           | None \<Rightarrow> Inr (lb_buf stdout)))"

definition begin_run :: "ExecRunner \<Rightarrow> bool \<times> ExecRunner" where
  "begin_run r = (if er_isRunning r then (False, r) else (True, r\<lparr>er_isRunning := True\<rparr>))"

definition end_run :: "ExecRunner \<Rightarrow> ExecRunner" where
  "end_run r = r\<lparr>er_isRunning := False\<rparr>"

definition envBinaryPath :: "'w geocheck_os \<Rightarrow> string" where
  "envBinaryPath os =
     (let value = TrimSpace (gc_Getenv os ''GEOCHECK_BINARY_PATH'')
      in if value \<noteq> [] then value else DefaultBinaryPath)"

definition formatExecError :: "'w geocheck_os \<Rightarrow> bool \<Rightarrow> string \<Rightarrow> int \<Rightarrow> gerror \<Rightarrow> gerror" where
  "formatExecError os ctxDone target timeout err =
     (if ctxDone then
        NewError (''geocheck via '' @ target @ '' exceeded '' @ gc_Duration os timeout @ '' and was killed'')
      else if errors_Is err ErrNotFound then
        NewError (''geocheck via '' @ target @ '' failed: binary not found'')
      else Errorf_w (''geocheck via '' @ target @ '' failed'') err)"

text \<open>The address or interface to bind to; empty for the default route.\<close>

definition bind_target :: "'w geocheck_os \<Rightarrow> Request \<Rightarrow> gerror + string" where
  "bind_target os request =
     (let ip = TrimSpace (req_IP request);
          iface = TrimSpace (req_Interface request)
      in if ip \<noteq> [] then
           (if \<not> gc_ParseIP os ip
            then Inl (NewError (''geocheck: '' @ Quote ip @ '' is not a valid IP address''))
            else Inr ip)
         else Inr iface)"

text \<open>What runs between \<open>begin\<close> and \<open>end\<close>.\<close>

definition run_guarded :: "'w geocheck_os \<Rightarrow> ExecRunner \<Rightarrow> string \<Rightarrow> 'w \<Rightarrow> (gerror + string) \<times> 'w" where
  "run_guarded os r bindTo w =
     (let target = (if bindTo = [] then ''default route'' else bindTo);
          args = [''--json'', ''--svg-base64'', ''--quiet''];
          args = (if bindTo \<noteq> [] then [''--interface'', bindTo] @ args else args);
          binaryPath = (if er_BinaryPath r = [] then envBinaryPath os else er_BinaryPath r);
          timeout = (if er_Timeout r \<le> 0 then DefaultTimeout else er_Timeout r);
          maxOutput = (if er_MaxOutput r \<le> 0 then DefaultMaxOutput else er_MaxOutput r)
      in case gc_exec os binaryPath args timeout maxOutput w of
           ((Inl err, ctxDone), w) \<Rightarrow> (Inl (formatExecError os ctxDone target timeout err), w)
         | ((Inr stdout, ctxDone), w) \<Rightarrow>
             (case gc_parse os (TrimSpace stdout) of
                Inl err \<Rightarrow> (Inl (Errorf_w (''geocheck via '' @ target @ '' failed'') err), w)
              | Inr img \<Rightarrow>
                  if img = None \<or> img = Some [] then (Inl ErrNoImage, w)
                  else (Inr (TrimSpace stdout), w)))"

definition Run :: "'w geocheck_os \<Rightarrow> Request \<Rightarrow> ExecRunner \<times> 'w \<Rightarrow>
    (gerror + string) \<times> ExecRunner \<times> 'w" where
  "Run os request n =
     (case n of (r, w) \<Rightarrow>
      case bind_target os request of
        Inl err \<Rightarrow> (Inl err, (r, w))
      | Inr bindTo \<Rightarrow>
     (case begin_run r of
        (False, r) \<Rightarrow> (Inl ErrAlreadyRunning, (r, w))
      | (True, r) \<Rightarrow>
          (case run_guarded os r bindTo w of (result, w) \<Rightarrow> (result, (end_run r, w)))))"

text \<open>The world only changes by the process that is run.\<close>

lemma run_guarded_world:
  "\<exists>p args t m. snd (run_guarded os r bindTo w) = snd (gc_exec os p args t m w)"
proof -
  let ?target = "if bindTo = [] then ''default route'' else bindTo"
  let ?args = "[''--json'', ''--svg-base64'', ''--quiet'']"
  let ?args = "if bindTo \<noteq> [] then [''--interface'', bindTo] @ ?args else ?args"
  let ?p = "if er_BinaryPath r = [] then envBinaryPath os else er_BinaryPath r"
  let ?t = "if er_Timeout r \<le> 0 then DefaultTimeout else er_Timeout r"
  let ?m = "if er_MaxOutput r \<le> 0 then DefaultMaxOutput else er_MaxOutput r"
  obtain out ended w' where e: "gc_exec os ?p ?args ?t ?m w = ((out, ended), w')"
    by (metis prod.exhaust)
  have "snd (run_guarded os r bindTo w) = w'"
    unfolding run_guarded_def Let_def e
    by (simp split: sum.split split del: if_split add: if_distrib [where f = snd]) simp
  then show ?thesis using e by (metis snd_conv)
qed

section \<open>Concurrent runs\<close>

text \<open>
  Requests run concurrently on the one runner. A goroutine in \<open>Run\<close> has arrived, holds the runner, has its report and
  has still to run the deferred \<open>end\<close>, or has returned. Between these points it has the turns of \<open>run_turn\<close>: the checks
  up to \<open>begin\<close>, the process, the deferred \<open>end\<close>. \<open>begin\<close> and \<open>end\<close> hold the mutex of the runner; the rest of \<open>Run\<close>
  does not touch the flag.
\<close>

datatype run_pc =
    RunArrived Request
  | RunHolds string
  | RunReported "gerror + string"
  | RunReturned "gerror + string"

fun run_turn :: "'w geocheck_os \<Rightarrow> run_pc \<Rightarrow> ExecRunner \<times> 'w \<Rightarrow> run_pc \<times> ExecRunner \<times> 'w" where
  "run_turn os (RunArrived request) (r, w) =
     (case bind_target os request of
        Inl err \<Rightarrow> (RunReturned (Inl err), (r, w))
      | Inr bindTo \<Rightarrow>
          (case begin_run r of
             (False, r) \<Rightarrow> (RunReturned (Inl ErrAlreadyRunning), (r, w))
           | (True, r) \<Rightarrow> (RunHolds bindTo, (r, w))))"
| "run_turn os (RunHolds bindTo) (r, w) =
     (case run_guarded os r bindTo w of (result, w) \<Rightarrow> (RunReported result, (r, w)))"
| "run_turn os (RunReported result) (r, w) = (RunReturned result, (end_run r, w))"
| "run_turn os (RunReturned result) n = (RunReturned result, n)"

fun run_turns :: "'w geocheck_os \<Rightarrow> nat \<Rightarrow> run_pc \<times> ExecRunner \<times> 'w \<Rightarrow> run_pc \<times> ExecRunner \<times> 'w" where
  "run_turns os 0 g = g"
| "run_turns os (Suc n) g = run_turns os n (run_turn os (fst g) (snd g))"

text \<open>The goroutine has passed \<open>begin\<close> and not yet \<open>end\<close>: it alone may have a process.\<close>

fun executing :: "run_pc \<Rightarrow> bool" where
  "executing (RunHolds bindTo) = True"
| "executing (RunReported result) = True"
| "executing pc = False"

text \<open>Any request may arrive, any goroutine may have its turn, and the world may change, at any time.\<close>

inductive runs_step :: "'w geocheck_os \<Rightarrow> run_pc list \<times> ExecRunner \<times> 'w \<Rightarrow> run_pc list \<times> ExecRunner \<times> 'w \<Rightarrow> bool"
  for os where
  run_arrives: "runs_step os (ps, n) (ps @ [RunArrived request], n)"
| run_moves: "i < length ps \<Longrightarrow> run_turn os (ps ! i) n = (pc, n') \<Longrightarrow> runs_step os (ps, n) (ps[i := pc], n')"
| world_moves: "runs_step os (ps, (r, w)) (ps, (r, w'))"

definition single_flight :: "run_pc list \<times> ExecRunner \<times> 'w \<Rightarrow> bool" where
  "single_flight g \<longleftrightarrow> length (filter executing (fst g)) = (if er_isRunning (fst (snd g)) then 1 else 0)"

lemma filter_update:
  "i < length ps \<Longrightarrow> length (filter P (ps[i := p])) + (if P (ps ! i) then 1 else 0) =
     length (filter P ps) + (if P p then 1 else 0)"
proof (induction ps arbitrary: i)
  case (Cons q ps)
  then show ?case by (cases i) auto
qed simp

lemma run_turn_flag:
  assumes "run_turn os pc n = (pc', n')" "executing pc \<longrightarrow> er_isRunning (fst n)"
  shows "(if er_isRunning (fst n') then 1 else 0) + (if executing pc then 1 else 0) =
    (if er_isRunning (fst n) then 1 else 0) + (if executing pc' then 1 else (0::nat))"
  using assms
  by (cases pc; cases n)
    (auto simp: begin_run_def end_run_def split: sum.splits prod.splits bool.splits if_splits)

lemma executing_counted: "i < length ps \<Longrightarrow> P (ps ! i) \<Longrightarrow> 0 < length (filter P ps)"
  by (auto simp: filter_empty_conv)

lemma single_flight_step: "runs_step os g g' \<Longrightarrow> single_flight g \<Longrightarrow> single_flight g'"
proof (induction rule: runs_step.induct)
  case (run_moves i ps n pc n')
  have "executing (ps ! i) \<longrightarrow> er_isRunning (fst n)"
    using run_moves(3) executing_counted [OF run_moves(1), of executing] by (auto simp: single_flight_def split: if_splits)
  from run_turn_flag [OF run_moves(2) this] filter_update [OF run_moves(1), of executing pc] run_moves(3)
  show ?case by (auto simp: single_flight_def split: if_splits)
qed (simp_all add: single_flight_def)

lemma single_flight_reachable: "(runs_step os)\<^sup>*\<^sup>* ([], (NewRunner, w0)) g \<Longrightarrow> single_flight g"
  by (induction rule: rtranclp_induct)
    (auto simp: single_flight_def [of "([], _)"] NewRunner_def intro: single_flight_step)

text \<open>The turns of a goroutine, one after the other, are \<open>Run\<close>.\<close>

lemma run_turns_Run:
  "run_turns os 3 (RunArrived request, n) = (case Run os request n of (result, n') \<Rightarrow> (RunReturned result, n'))"
  by (cases n) (simp add: Run_def numeral_3_eq_3 split: sum.split prod.split bool.split)

section \<open>Lemmas on the output limit\<close>

lemma write_chunks_limit:
  assumes "0 < lb_max b" "int (length (lb_buf b)) \<le> lb_max b" "\<not> lb_tooLarge b"
  shows "if int (length (lb_buf b) + length (concat ps)) \<le> lb_max b
         then write_chunks ps b = (None, b\<lparr>lb_buf := lb_buf b @ concat ps\<rparr>)
         else fst (write_chunks ps b) \<noteq> None \<and> lb_tooLarge (snd (write_chunks ps b))"
  using assms
proof (induction ps arbitrary: b)
  case (Cons p ps)
  show ?case
  proof (cases "int (length (lb_buf b) + length p) > lb_max b")
    case False
    then show ?thesis
      using Cons.IH [of "b\<lparr>lb_buf := lb_buf b @ p\<rparr>"] Cons.prems
      by (simp add: buffer_Write_def add.assoc)
  qed (use Cons.prems in \<open>simp add: buffer_Write_def\<close>)
qed simp

section \<open>Properties\<close>

text \<open>
  C24. At most one geocheck process runs at a time, whatever the interleaving of the turns that make up \<open>Run\<close>: the
  number of goroutines between \<open>begin\<close> and \<open>end\<close> is 1 exactly while the flag is set, else 0. While it is 1, a request
  with a valid target is refused and changes nothing, the flag included; while it is 0, such a request is let in.
  The turns are those of \<open>Run\<close>: taken one after the other, from any state, they return what \<open>Run\<close> returns
  and leave what it leaves.
\<close>

theorem geocheck_single_flight:
  assumes "(runs_step os)\<^sup>*\<^sup>* ([], (NewRunner, w0)) (ps, (r, w))"
  shows "length (filter executing ps) = (if er_isRunning r then 1 else 0) \<and>
    (\<forall>request bindTo. bind_target os request = Inr bindTo \<longrightarrow>
      (if \<exists>pc\<in>set ps. executing pc
       then run_turn os (RunArrived request) (r, w) = (RunReturned (Inl ErrAlreadyRunning), (r, w))
       else \<exists>r'. run_turn os (RunArrived request) (r, w) = (RunHolds bindTo, (r', w)) \<and> er_isRunning r')) \<and>
    (\<forall>request n. run_turns os 3 (RunArrived request, n) =
      (case Run os request n of (result, n') \<Rightarrow> (RunReturned result, n')))"
proof (intro conjI allI impI)
  from single_flight_reachable [OF assms]
  show one: "length (filter executing ps) = (if er_isRunning r then 1 else 0)" by (simp add: single_flight_def)
  fix request bindTo assume target: "bind_target os request = Inr bindTo"
  have "(\<exists>pc\<in>set ps. executing pc) \<longleftrightarrow> er_isRunning r"
    using one filter_empty_conv [of executing ps] by (cases "filter executing ps") (auto split: if_splits)
  with target show "if \<exists>pc\<in>set ps. executing pc
       then run_turn os (RunArrived request) (r, w) = (RunReturned (Inl ErrAlreadyRunning), (r, w))
       else \<exists>r'. run_turn os (RunArrived request) (r, w) = (RunHolds bindTo, (r', w)) \<and> er_isRunning r'"
    by (simp add: begin_run_def)
qed (rule run_turns_Run)

definition quiet_geocheck :: "unit geocheck_os" where
  "quiet_geocheck =
     \<lparr>gc_ParseIP = (\<lambda>_. True), gc_Getenv = (\<lambda>_. []), gc_exec = (\<lambda>_ _ _ _ w. ((Inr ''{}'', False), w)),
      gc_parse = (\<lambda>_. Inr (Some ''svg'')), gc_Duration = (\<lambda>_. ''45s'')\<rparr>"

text \<open>Two requests: the first has begun, and the second is refused.\<close>

theorem geocheck_single_flight_witness:
  "run_turn quiet_geocheck (RunArrived \<lparr>req_IP = [], req_Interface = ''eth1''\<rparr>) (NewRunner\<lparr>er_isRunning := True\<rparr>, ()) =
     (RunReturned (Inl ErrAlreadyRunning), (NewRunner\<lparr>er_isRunning := True\<rparr>, ()))"
proof -
  let ?req = "\<lparr>req_IP = [], req_Interface = ''eth1''\<rparr>"
  have target: "bind_target quiet_geocheck ?req = Inr ''eth1''" by code_simp
  have "runs_step quiet_geocheck ([], (NewRunner, ())) ([RunArrived ?req], (NewRunner, ()))"
    using run_arrives [of quiet_geocheck "[]"] by simp
  moreover have "runs_step quiet_geocheck ([RunArrived ?req], (NewRunner, ()))
      ([RunHolds ''eth1''], (NewRunner\<lparr>er_isRunning := True\<rparr>, ()))"
    using run_moves [of 0 "[RunArrived ?req]" quiet_geocheck] target
    by (simp add: begin_run_def NewRunner_def)
  ultimately have "(runs_step quiet_geocheck)\<^sup>*\<^sup>* ([], (NewRunner, ()))
      ([RunHolds ''eth1''], (NewRunner\<lparr>er_isRunning := True\<rparr>, ()))" by simp
  from geocheck_single_flight [OF this] target show ?thesis by (auto simp del: run_turn.simps)
qed

text \<open>
  The output limit: with a positive limit, the output is the whole output of a
  process that succeeded and fits into it, and anything longer is an error, never a truncated report.
\<close>

theorem execOutput_limit:
  assumes "0 < maxOutput"
  shows "execOutput chunks None maxOutput =
    (if int (length (concat chunks)) \<le> maxOutput then Inr (concat chunks)
     else Inl (NewError (''geocheck output exceeded '' @ Itoa maxOutput @ '' bytes'')))"
  using write_chunks_limit [of "\<lparr>lb_buf = [], lb_max = maxOutput, lb_tooLarge = False\<rparr>" chunks] assms
  by (auto simp: execOutput_def split: prod.split if_splits)

theorem execOutput_limit_witness:
  "execOutput [''abc'', ''de''] None 4 =
    (if int (length (concat [''abc'', ''de''])) \<le> 4 then Inr (concat [''abc'', ''de''])
     else Inl (NewError (''geocheck output exceeded '' @ Itoa 4 @ '' bytes'')))"
  by (rule execOutput_limit) simp

end
