(* ===== verification/GoTime.thy ===== *)
theory GoTime
  imports GoStrings
begin

text \<open>Time stamps of Go's \<open>time\<close> package, as far as the program prints them.\<close>

text \<open>\<open>time.Unix(s, 0).UTC().Format(time.RFC3339)\<close>, in the proleptic Gregorian calendar.\<close>

definition civil_date :: "int \<Rightarrow> int \<times> int \<times> int" where
  "civil_date days =
     (let z = days + 719468;
          era = z div 146097;
          doe = z mod 146097;
          yoe = (doe - doe div 1460 + doe div 36524 - doe div 146096) div 365;
          doy = doe - (365 * yoe + yoe div 4 - yoe div 100);
          mp = (5 * doy + 2) div 153;
          d = doy - (153 * mp + 2) div 5 + 1;
          m = (if mp < 10 then mp + 3 else mp - 9);
          y = yoe + era * 400 + (if m \<le> 2 then 1 else 0)
      in (y, m, d))"

definition pad_int :: "nat \<Rightarrow> int \<Rightarrow> string" where
  "pad_int width x =
     (let ds = nat_digits (nat (abs x))
      in (if x < 0 then ''-'' else []) @ replicate (width - length ds) (CHR ''0'') @ ds)"

definition format_RFC3339 :: "int \<Rightarrow> string" where
  "format_RFC3339 s =
     (case civil_date (s div 86400) of
        (y, m, d) \<Rightarrow>
          let t = s mod 86400 in
          pad_int 4 y @ ''-'' @ pad_int 2 m @ ''-'' @ pad_int 2 d @ ''T'' @
          pad_int 2 (t div 3600) @ '':'' @ pad_int 2 (t mod 3600 div 60) @ '':'' @ pad_int 2 (t mod 60) @ ''Z'')"

lemma format_RFC3339_examples:
  "format_RFC3339 0 = ''1970-01-01T00:00:00Z''" "format_RFC3339 1709210096 = ''2024-02-29T12:34:56Z''"
  by code_simp+

end
