(* ===== verification/StatsController.thy ===== *)
theory StatsController
  imports RuntimeState CoreInterface Http System Geocheck GoTime
begin

text \<open>
  The stats handlers (\<open>internal/controller/stats_controller.go\<close>), and the plugin and internal
  handlers, whose answers are fixed or a view of the state
  (\<open>plugin_controller.go\<close>, \<open>internal_controller.go\<close>). A handler gets the request's clock
  reading and URI for the official error envelope.
\<close>

section \<open>The controller\<close>

text \<open>The fields of \<open>StatsController\<close>; \<open>None\<close> is nil.\<close>

record ('w, 'g) StatsEnv =
  se_core :: "'w Core option"
  se_snapshot :: "('w \<Rightarrow> SystemStatsPayload) option"
  se_go :: go_env
  se_provider :: "'w systemProvider"
  se_geocheck :: "(Request \<Rightarrow> 'g \<Rightarrow> (gerror + string) \<times> 'g) option"

text \<open>The error answer of a handler, given the request's clock reading and URI.\<close>

type_synonym request_info = "string \<times> string"

definition writeOfficialStatsError :: "request_info \<Rightarrow> string \<Rightarrow> string \<Rightarrow> 'r response" where
  "writeOfficialStatsError ri message code =
     WriteOfficialError (fst ri) (snd ri) StatusInternalServerError message code"

definition stats_systemStats :: "('w, 'g) StatsEnv \<Rightarrow> 'w \<Rightarrow> SystemStatsPayload" where
  "stats_systemStats env w =
     (case se_snapshot env of
        None \<Rightarrow> SnapshotStats (se_go env) (se_provider env) None w
      | Some snapshot \<Rightarrow> snapshot w)"

definition stats_client :: "('w, 'g) StatsEnv \<Rightarrow> 'w \<Rightarrow> gerror + 'w StatsClient" where
  "stats_client env w =
     (case se_core env of
        None \<Rightarrow> Inl (NewError ''xray core not running'')
      | Some core \<Rightarrow>
          if \<not> core_IsRunning core w then Inl (NewError ''xray core not running'')
          else case core_Stats core of
            None \<Rightarrow> Inl (NewError ''xray stats client is unavailable'')
          | Some client \<Rightarrow> Inr client)"

section \<open>Contract conversions\<close>

definition contractXraySysStats :: "SysStats \<Rightarrow> XraySysStats" where
  "contractXraySysStats stats =
     \<lparr>xss_NumGoroutine = sys_NumGoroutine stats, xss_NumGC = sys_NumGC stats,
      xss_Alloc = sys_Alloc stats, xss_TotalAlloc = sys_TotalAlloc stats, xss_Sys = sys_Sys stats,
      xss_Mallocs = sys_Mallocs stats, xss_Frees = sys_Frees stats,
      xss_LiveObjects = sys_LiveObjects stats, xss_PauseTotalNs = sys_PauseTotalNs stats,
      xss_Uptime = sys_Uptime stats\<rparr>"

definition contractUserTrafficStats :: "UserTrafficStats list \<Rightarrow> CUserTrafficStats list" where
  "contractUserTrafficStats users =
     map (\<lambda>u. \<lparr>cut_Username = ut_Username u, cut_Downlink = ut_Downlink u, cut_Uplink = ut_Uplink u\<rparr>)
       (filter (\<lambda>u. \<not> (ut_Uplink u = 0 \<and> ut_Downlink u = 0)) users)"

definition contractInboundTrafficStats :: "InboundTrafficStats \<Rightarrow> InboundTrafficStatsResponse" where
  "contractInboundTrafficStats stats =
     \<lparr>its_Inbound = it_Inbound stats, its_Downlink = it_Downlink stats, its_Uplink = it_Uplink stats\<rparr>"

definition contractOutboundTrafficStats :: "OutboundTrafficStats \<Rightarrow> OutboundTrafficStatsResponse" where
  "contractOutboundTrafficStats stats =
     \<lparr>ots_Outbound = ot_Outbound stats, ots_Downlink = ot_Downlink stats, ots_Uplink = ot_Uplink stats\<rparr>"

definition contractInboundTrafficStatsList :: "InboundTrafficStats list \<Rightarrow> InboundTrafficStatsResponse list" where
  "contractInboundTrafficStatsList stats = map contractInboundTrafficStats stats"

definition contractOutboundTrafficStatsList ::
    "OutboundTrafficStats list \<Rightarrow> OutboundTrafficStatsResponse list" where
  "contractOutboundTrafficStatsList stats = map contractOutboundTrafficStats stats"

definition contractIPLastSeenList :: "IPLastSeen list \<Rightarrow> CIPLastSeen list" where
  "contractIPLastSeenList ips =
     map (\<lambda>i. \<lparr>cil_IP = ils_IP i, cil_LastSeen = format_RFC3339 (ils_LastSeen i)\<rparr>) ips"

definition contractUsersIPList :: "UserIPList list \<Rightarrow> CUserIPList list" where
  "contractUsersIPList users =
     sort_key cui_UserID
       (map (\<lambda>u. \<lparr>cui_UserID = uil_Username u, cui_IPs = contractIPLastSeenList (uil_IPs u)\<rparr>) users)"

section \<open>The handlers\<close>

definition GetSystemStats :: "('w, 'g) StatsEnv \<Rightarrow> request_info \<Rightarrow> RuntimeState \<Rightarrow> 'w \<Rightarrow>
    SystemStatsResponse response" where
  "GetSystemStats env ri s w =
     (let response = \<lparr>ssr_XrayInfo = None,
            ssr_Plugins = \<lparr>ps_TorrentBlocker = \<lparr>tbp_ReportsCount = TorrentBlockerReportsCount s\<rparr>\<rparr>,
            ssr_System = \<lparr>ss_Stats = sp_Stats (stats_systemStats env w)\<rparr>\<rparr>
      in case stats_client env w of
           Inl err \<Rightarrow> writeOfficialStatsError ri ''Failed to get system stats'' ErrFailedToGetSystemStats
         | Inr client \<Rightarrow>
             (case sc_SysStats client w of
                Inl err \<Rightarrow> writeOfficialStatsError ri ''Failed to get system stats'' ErrFailedToGetSystemStats
              | Inr sysStats \<Rightarrow>
                  Envelope StatusOK (response\<lparr>ssr_XrayInfo := Some (contractXraySysStats sysStats)\<rparr>)))"

definition GetUsersStats :: "('w, 'g) StatsEnv \<Rightarrow> request_info \<Rightarrow> gerror + ResetRequest \<Rightarrow> 'w \<Rightarrow>
    UsersStatsResponse response \<times> 'w" where
  "GetUsersStats env ri bound w =
     (let failed = writeOfficialStatsError ri ''Failed to get users stats'' ErrFailedToGetUsersStats in
      case bound of
        Inl err \<Rightarrow> (failed, w)
      | Inr request \<Rightarrow>
     (case stats_client env w of
        Inl err \<Rightarrow> (failed, w)
      | Inr client \<Rightarrow>
     (case sc_UsersStats client (rr_Reset request) w of
        (Inl err, w) \<Rightarrow> (failed, w)
      | (Inr users, w) \<Rightarrow>
          (Envelope StatusOK \<lparr>usr_Users = contractUserTrafficStats users\<rparr>, w))))"

definition GetUserOnlineStatus :: "('w, 'g) StatsEnv \<Rightarrow> gerror + UserOnlineStatusRequest \<Rightarrow> 'w \<Rightarrow>
    UserOnlineStatusResponse response" where
  "GetUserOnlineStatus env bound w =
     (case bound of
        Inl err \<Rightarrow> Envelope StatusOK \<lparr>uosr_IsOnline = False\<rparr>
      | Inr request \<Rightarrow>
     (case stats_client env w of
        Inl err \<Rightarrow> Envelope StatusOK \<lparr>uosr_IsOnline = False\<rparr>
      | Inr client \<Rightarrow>
     (case sc_UserOnlineStatus client (uosr_Username request) w of
        Inl err \<Rightarrow> Envelope StatusOK \<lparr>uosr_IsOnline = False\<rparr>
      | Inr online \<Rightarrow> Envelope StatusOK \<lparr>uosr_IsOnline = online\<rparr>)))"

definition GetUserIPList :: "('w, 'g) StatsEnv \<Rightarrow> gerror + UserIPListRequest \<Rightarrow> 'w \<Rightarrow>
    UserIPListResponse response \<times> 'w" where
  "GetUserIPList env bound w =
     (case bound of
        Inl err \<Rightarrow> (Envelope StatusOK \<lparr>uilr_IPs = []\<rparr>, w)
      | Inr request \<Rightarrow>
     (case stats_client env w of
        Inl err \<Rightarrow> (Envelope StatusOK \<lparr>uilr_IPs = []\<rparr>, w)
      | Inr client \<Rightarrow>
     (case sc_UserIPList client (uilr_UserID request) True w of
        (Inl err, w) \<Rightarrow> (Envelope StatusOK \<lparr>uilr_IPs = []\<rparr>, w)
      | (Inr ips, w) \<Rightarrow> (Envelope StatusOK \<lparr>uilr_IPs = contractIPLastSeenList ips\<rparr>, w))))"

definition GetUsersIPList :: "('w, 'g) StatsEnv \<Rightarrow> 'w \<Rightarrow> UsersIPListResponse response \<times> 'w" where
  "GetUsersIPList env w =
     (case stats_client env w of
        Inl err \<Rightarrow> (Envelope StatusOK \<lparr>usil_Users = []\<rparr>, w)
      | Inr client \<Rightarrow>
     (case sc_UsersIPList client True w of
        (Inl err, w) \<Rightarrow> (Envelope StatusOK \<lparr>usil_Users = []\<rparr>, w)
      | (Inr users, w) \<Rightarrow> (Envelope StatusOK \<lparr>usil_Users = contractUsersIPList users\<rparr>, w)))"

definition GetInboundStats :: "('w, 'g) StatsEnv \<Rightarrow> request_info \<Rightarrow> gerror + TaggedStatsRequest \<Rightarrow> 'w \<Rightarrow>
    InboundTrafficStatsResponse response \<times> 'w" where
  "GetInboundStats env ri bound w =
     (let failed = writeOfficialStatsError ri ''Failed to get inbound stats'' ErrFailedToGetInboundStats in
      case bound of
        Inl err \<Rightarrow> (failed, w)
      | Inr request \<Rightarrow>
     (case stats_client env w of
        Inl err \<Rightarrow> (failed, w)
      | Inr client \<Rightarrow>
     (case sc_InboundStats client (tsr_Tag request) (tsr_Reset request) w of
        (Inl err, w) \<Rightarrow> (failed, w)
      | (Inr stats, w) \<Rightarrow> (Envelope StatusOK (contractInboundTrafficStats stats), w))))"

definition GetOutboundStats :: "('w, 'g) StatsEnv \<Rightarrow> request_info \<Rightarrow> gerror + TaggedStatsRequest \<Rightarrow> 'w \<Rightarrow>
    OutboundTrafficStatsResponse response \<times> 'w" where
  "GetOutboundStats env ri bound w =
     (let failed = writeOfficialStatsError ri ''Failed to get outbound stats'' ErrFailedToGetOutboundStats in
      case bound of
        Inl err \<Rightarrow> (failed, w)
      | Inr request \<Rightarrow>
     (case stats_client env w of
        Inl err \<Rightarrow> (failed, w)
      | Inr client \<Rightarrow>
     (case sc_OutboundStats client (tsr_Tag request) (tsr_Reset request) w of
        (Inl err, w) \<Rightarrow> (failed, w)
      | (Inr stats, w) \<Rightarrow> (Envelope StatusOK (contractOutboundTrafficStats stats), w))))"

definition GetAllInboundsStats :: "('w, 'g) StatsEnv \<Rightarrow> request_info \<Rightarrow> gerror + ResetRequest \<Rightarrow> 'w \<Rightarrow>
    AllInboundsStatsResponse response \<times> 'w" where
  "GetAllInboundsStats env ri bound w =
     (let failed = writeOfficialStatsError ri ''Failed to get inbounds stats'' ErrFailedToGetInboundsStats in
      case bound of
        Inl err \<Rightarrow> (failed, w)
      | Inr request \<Rightarrow>
     (case stats_client env w of
        Inl err \<Rightarrow> (failed, w)
      | Inr client \<Rightarrow>
     (case sc_AllInboundStats client (rr_Reset request) w of
        (Inl err, w) \<Rightarrow> (failed, w)
      | (Inr inbounds, w) \<Rightarrow>
          (Envelope StatusOK \<lparr>ais_Inbounds = contractInboundTrafficStatsList inbounds\<rparr>, w))))"

definition GetAllOutboundsStats :: "('w, 'g) StatsEnv \<Rightarrow> request_info \<Rightarrow> gerror + ResetRequest \<Rightarrow> 'w \<Rightarrow>
    AllOutboundsStatsResponse response \<times> 'w" where
  "GetAllOutboundsStats env ri bound w =
     (let failed = writeOfficialStatsError ri ''Failed to get outbounds stats'' ErrFailedToGetOutboundsStats in
      case bound of
        Inl err \<Rightarrow> (failed, w)
      | Inr request \<Rightarrow>
     (case stats_client env w of
        Inl err \<Rightarrow> (failed, w)
      | Inr client \<Rightarrow>
     (case sc_AllOutboundStats client (rr_Reset request) w of
        (Inl err, w) \<Rightarrow> (failed, w)
      | (Inr outbounds, w) \<Rightarrow>
          (Envelope StatusOK \<lparr>aos_Outbounds = contractOutboundTrafficStatsList outbounds\<rparr>, w))))"

text \<open>Both reads are made, and reset, before either error is looked at.\<close>

definition GetCombinedStats :: "('w, 'g) StatsEnv \<Rightarrow> request_info \<Rightarrow> gerror + ResetRequest \<Rightarrow> 'w \<Rightarrow>
    CombinedStatsResponse response \<times> 'w" where
  "GetCombinedStats env ri bound w =
     (let failed = writeOfficialStatsError ri ''Failed to get combined stats'' ErrFailedToGetCombinedStats in
      case bound of
        Inl err \<Rightarrow> (failed, w)
      | Inr request \<Rightarrow>
     (case stats_client env w of
        Inl err \<Rightarrow> (failed, w)
      | Inr client \<Rightarrow>
     (case sc_AllInboundStats client (rr_Reset request) w of
        (inbounds, w) \<Rightarrow>
     (case sc_AllOutboundStats client (rr_Reset request) w of
        (outbounds, w) \<Rightarrow>
     (case (inbounds, outbounds) of
        (Inr ins, Inr outs) \<Rightarrow>
          (Envelope StatusOK
             \<lparr>cs_Inbounds = contractInboundTrafficStatsList ins,
              cs_Outbounds = contractOutboundTrafficStatsList outs\<rparr>, w)
      | _ \<Rightarrow> (failed, w))))))"

definition GetGeocheck :: "('w, 'g) StatsEnv \<Rightarrow> request_info \<Rightarrow> gerror + GetGeocheckRequest \<Rightarrow> 'g \<Rightarrow>
    string response \<times> 'g" where
  "GetGeocheck env ri bound g =
     (case bound of
        Inl err \<Rightarrow> (writeOfficialStatsError ri ''Failed to get geocheck report'' ErrFailedToGetGeocheck, g)
      | Inr request \<Rightarrow>
     (case se_geocheck env of
        None \<Rightarrow> (writeOfficialStatsError ri ''Failed to get geocheck report'' ErrFailedToGetGeocheck, g)
      | Some run \<Rightarrow>
     (case run \<lparr>req_IP = ggr_IP request, req_Interface = ggr_Interface request\<rparr> g of
        (Inl err, g) \<Rightarrow> (writeOfficialStatsError ri (Error_msg err) ErrFailedToGetGeocheck, g)
      | (Inr report, g) \<Rightarrow> (Envelope StatusOK report, g))))"

section \<open>Plugin handlers (plugin_controller.go)\<close>

definition Sync :: "gerror + PluginSyncRequest \<Rightarrow> AcceptedResponse response" where
  "Sync bound =
     (case bound of
        Inl err \<Rightarrow> Envelope StatusOK \<lparr>ar_Accepted = False\<rparr>
      | Inr request \<Rightarrow> Envelope StatusOK \<lparr>ar_Accepted = True\<rparr>)"

definition CollectTorrentBlockerReports :: "TorrentBlockerReportsResponse response" where
  "CollectTorrentBlockerReports = Envelope StatusOK \<lparr>tbrr_Reports = []\<rparr>"

definition BlockIPs :: "AcceptedResponse response" where
  "BlockIPs = Envelope StatusOK \<lparr>ar_Accepted = True\<rparr>"

definition UnblockIPs :: "AcceptedResponse response" where
  "UnblockIPs = Envelope StatusOK \<lparr>ar_Accepted = True\<rparr>"

definition RecreateTables :: "AcceptedResponse response" where
  "RecreateTables = Envelope StatusOK \<lparr>ar_Accepted = True\<rparr>"

section \<open>Internal handler (internal_controller.go)\<close>

definition GetConfig :: "string \<Rightarrow> RuntimeState \<Rightarrow> json_obj response" where
  "GetConfig panelSni s =
     (let config = (case snap_CurrentConfig (Snapshot_of s) of None \<Rightarrow> fmempty | Some m \<Rightarrow> m);
          config = (if panelSni \<noteq> [] then fmupd ''panelSni'' (JStr panelSni) config else config)
      in PlainJSON StatusOK config)"

end
