(* ===== verification/Node.thy ===== *)
theory Node
  imports EmbeddedCore HandlerController XrayController StatsController
begin

text \<open>
  The whole node: the registry that wires one embedded core, one runtime state and the
  controllers together (\<open>internal/controller/registry.go\<close>), and what a sequence of
  requests does to it. The interfaces of the controllers are interpreted on the embedded core.
\<close>

section \<open>Wiring\<close>

text \<open>
  What the node depends on: xray-core, the geodata files, conntrack, the statistics
  provider and \<open>json.MarshalIndent\<close>, all over one world \<open>'w\<close>.
\<close>

record ('a, 'i, 'w) NodeDeps =
  nd_lib :: "'w xray_lib"
  nd_geodata :: "'w geodata_os"
  nd_conntrack :: "('a, 'i, 'w) conntrack_os"
  nd_go :: go_env
  nd_snapshot :: "'w \<Rightarrow> SystemStatsPayload"
  nd_provider :: "'w systemProvider"
  nd_MarshalIndent :: "json_obj \<Rightarrow> gerror + string"

text \<open>An operation on the outside world, run on a core.\<close>

definition on_world :: "('w \<Rightarrow> 'a \<times> 'w) \<Rightarrow> 'w EmbeddedCore \<Rightarrow> 'a \<times> 'w EmbeddedCore" where
  "on_world f c = (case f (ec_world c) of (a, w) \<Rightarrow> (a, c\<lparr>ec_world := w\<rparr>))"

definition at_world :: "('w \<Rightarrow> 'w) \<Rightarrow> 'w EmbeddedCore \<Rightarrow> 'w EmbeddedCore" where
  "at_world f c = c\<lparr>ec_world := f (ec_world c)\<rparr>"

definition geodata_on_core :: "'w geodata_os \<Rightarrow> 'w EmbeddedCore geodata_os" where
  "geodata_on_core os =
     \<lparr>geo_decode = geo_decode os, geo_URLScheme = geo_URLScheme os,
      geo_AssetDir = (\<lambda>c. geo_AssetDir os (ec_world c)),
      geo_Join = geo_Join os, geo_Dir = geo_Dir os,
      geo_Stat = (\<lambda>p c. geo_Stat os p (ec_world c)),
      geo_Do = (\<lambda>u. on_world (geo_Do os u)), geo_MkdirAll = (\<lambda>p. on_world (geo_MkdirAll os p)),
      geo_CreateTemp = (\<lambda>p. on_world (geo_CreateTemp os p)),
      geo_CopyClose = (\<lambda>p n b. on_world (geo_CopyClose os p n b)),
      geo_Rename = (\<lambda>p q. on_world (geo_Rename os p q)),
      geo_Remove = (\<lambda>p. at_world (geo_Remove os p)),
      geo_CreateExcl = (\<lambda>p. at_world (geo_CreateExcl os p))\<rparr>"

definition provider_on_core :: "'w systemProvider \<Rightarrow> 'w EmbeddedCore systemProvider" where
  "provider_on_core p =
     \<lparr>prov_HostInfo = (\<lambda>c. prov_HostInfo p (ec_world c)), prov_Uptime = (\<lambda>c. prov_Uptime p (ec_world c)),
      prov_VirtualMemory = (\<lambda>c. prov_VirtualMemory p (ec_world c)),
      prov_CPUCounts = (\<lambda>c. prov_CPUCounts p (ec_world c)), prov_CPUInfo = (\<lambda>c. prov_CPUInfo p (ec_world c)),
      prov_LoadAvg = (\<lambda>c. prov_LoadAvg p (ec_world c)),
      prov_NetInterfaces = (\<lambda>c. prov_NetInterfaces p (ec_world c))\<rparr>"

text \<open>\<open>NewRegistry\<close>: the builder, and the controllers' fields.\<close>

definition registry_builder :: "('a, 'i, 'w) NodeDeps \<Rightarrow> int \<Rightarrow> 'w \<Rightarrow> ConfigBuilder" where
  "registry_builder deps hysteriaListenPort w =
     \<lparr>StatsUserOnline = HasNetAdmin (ct_goos (nd_conntrack deps)) (ct_status (nd_conntrack deps) w),
      HysteriaListenPort = hysteriaListenPort\<rparr>"

definition xray_env :: "('a, 'i, 'w) NodeDeps \<Rightarrow> ConfigBuilder \<Rightarrow> 'w EmbeddedCore XrayEnv" where
  "xray_env deps builder =
     \<lparr>xe_core = embedded_core (nd_lib deps), xe_builder = builder,
      xe_snapshot = Some (\<lambda>c. nd_snapshot deps (ec_world c)),
      xe_go = nd_go deps, xe_provider = provider_on_core (nd_provider deps),
      xe_geodata = geodata_on_core (nd_geodata deps), xe_MarshalIndent = nd_MarshalIndent deps\<rparr>"

definition handler_env :: "('a, 'i, 'w) NodeDeps \<Rightarrow> 'w EmbeddedCore HandlerEnv" where
  "handler_env deps =
     \<lparr>he_core = Some (embedded_core (nd_lib deps)),
      he_dropper = Some (\<lambda>ip. on_world (DropIP (nd_conntrack deps) ip))\<rparr>"

definition stats_env :: "('a, 'i, 'w) NodeDeps \<Rightarrow> (Request \<Rightarrow> 'g \<Rightarrow> (gerror + string) \<times> 'g) \<Rightarrow>
    ('w EmbeddedCore, 'g) StatsEnv" where
  "stats_env deps geocheck =
     \<lparr>se_core = Some (embedded_core (nd_lib deps)),
      se_snapshot = Some (\<lambda>c. nd_snapshot deps (ec_world c)),
      se_go = nd_go deps, se_provider = provider_on_core (nd_provider deps), se_geocheck = Some geocheck\<rparr>"

definition NewRegistry :: "('a, 'i, 'w) NodeDeps \<Rightarrow> 'w \<Rightarrow> 'w EmbeddedCore xnode" where
  "NewRegistry deps w =
     \<lparr>startProcessing = False, rt = NewRuntimeState, world = NewEmbeddedCore (nd_lib deps) w\<rparr>"

section \<open>The core's frame\<close>

text \<open>A client leaves everything of the core but the outside world alone.\<close>

definition inert :: "'w EmbeddedCore \<Rightarrow> 'w EmbeddedCore \<Rightarrow> bool" where
  "inert c c' \<longleftrightarrow> (\<exists>w. c' = c\<lparr>ec_world := w\<rparr>)"

lemma inert_refl [simp]: "inert c c"
  unfolding inert_def by (rule exI [of _ "ec_world c"]) simp

lemma inert_trans [trans]: "inert c c' \<Longrightarrow> inert c' c'' \<Longrightarrow> inert c c''"
  by (auto simp: inert_def)

lemma inert_world [simp]: "inert c (c\<lparr>ec_world := w\<rparr>)"
  by (auto simp: inert_def)

lemma inert_on_world [simp]: "inert c (snd (on_world f c))" "inert c (at_world g c)"
  by (simp_all add: on_world_def at_world_def split_beta)

lemma inertD:
  assumes "inert c c'"
  shows "IsRunning c' = IsRunning c" "accounted held c' = accounted held c" "ec_calls c' = ec_calls c"
    "ec_instance c' = ec_instance c"
  using assms by (auto simp: inert_def IsRunning_def)

lemma inert_client_AddUser: "inert c (snd (client_AddUser lib spec c))"
  by (simp add: client_AddUser_def split: sum.split option.split prod.split)

lemma inert_client_RemoveUser: "inert c (snd (client_RemoveUser lib tag u c))"
  by (simp add: client_RemoveUser_def split: sum.split option.split prod.split)

interpretation handlers: client_frame "handler_env deps" inert for deps
  by unfold_locales
    (auto simp: handler_env_def embedded_core_def embeddedHandlerClient_def embeddedStatsClient_def
      inert_client_AddUser inert_client_RemoveUser client_UserIPList_core intro: inert_trans)

lemma inert_with_counters: "inert c (snd (with_counters lib f c))"
  by (simp add: with_counters_def split: sum.split prod.split)

lemma inert_stub: "inert c (createGeodataStub (geodata_on_core os) path c)"
proof -
  have "inert c (snd (geo_MkdirAll (geodata_on_core os) p c))"
    "inert c' (geo_CreateExcl (geodata_on_core os) path c')" for p c'
    by (simp_all add: geodata_on_core_def)
  then show ?thesis
    by (auto simp: createGeodataStub_def split_beta split: option.split intro: inert_trans)
qed

lemma inert_download: "inert c (snd (downloadGeodataAsset (geodata_on_core os) u p c))"
proof -
  have steps: "inert c' (snd (geo_Do (geodata_on_core os) u c'))"
    "inert c' (snd (geo_MkdirAll (geodata_on_core os) d c'))"
    "inert c' (snd (geo_CreateTemp (geodata_on_core os) d c'))"
    "inert c' (snd (geo_CopyClose (geodata_on_core os) t n b c'))"
    "inert c' (snd (geo_Rename (geodata_on_core os) t p c'))"
    "inert c' (geo_Remove (geodata_on_core os) t c')" for c' d t n b
    by (simp_all add: geodata_on_core_def)
  show ?thesis
    unfolding downloadGeodataAsset_def
    by (auto simp: split_beta split: sum.split option.split
        intro!: inert_trans [OF _ steps(1)] inert_trans [OF _ steps(2)]
          inert_trans [OF _ steps(3)] inert_trans [OF _ steps(4)] inert_trans [OF _ steps(5)]
          inert_trans [OF _ steps(6)])
qed

lemma inert_prepare: "inert c (prepareGeodataAsset (geodata_on_core os) d a c)"
proof -
  let ?p = "geo_Join (geodata_on_core os) d (ga_File a)"
  note down = inert_download [of c os "ga_URL a" ?p]
  have "inert c (createGeodataStub (geodata_on_core os) ?p
      (snd (downloadGeodataAsset (geodata_on_core os) (ga_URL a) ?p c)))"
    using down inert_stub by (rule inert_trans)
  with down show ?thesis
    by (simp add: prepareGeodataAsset_def Let_def split_beta split: option.split)
qed

lemma inert_PrepareGeodata: "inert c (PrepareGeodata (geodata_on_core os) cfg c)"
proof -
  have "inert c (fold (prepareGeodataAsset (geodata_on_core os) d) as c)" for d as
    by (induction as arbitrary: c) (auto intro: inert_trans [OF inert_prepare])
  then show ?thesis
    by (simp add: PrepareGeodata_def Let_def split: option.split sum.split)
qed

interpretation lifecycle: node_lifecycle "xray_env deps builder" for deps builder
proof -
  have "core_contract (xe_core (xray_env deps builder))"
    by (simp add: xray_env_def embedded.core_contract_axioms)
  moreover have "core_IsRunning (xe_core (xray_env deps builder))
      (PrepareGeodata (xe_geodata (xray_env deps builder)) cfg c) =
      core_IsRunning (xe_core (xray_env deps builder)) c" for cfg c
    using inertD(1) [OF inert_PrepareGeodata]
    by (simp add: xray_env_def embedded_core_def)
  ultimately show "node_lifecycle (xray_env deps builder)"
    by (simp add: node_lifecycle_def node_lifecycle_axioms_def)
qed

section \<open>Requests\<close>

text \<open>The requests that change the node; the others only read it.\<close>

datatype request =
    ReqStart "gerror + StartXrayRequest"
  | ReqStop
  | ReqAddUser "gerror + AddUserRequest"
  | ReqAddUsers "gerror + AddUsersRequest"
  | ReqRemoveUser "gerror + RemoveUserRequest"
  | ReqRemoveUsers "gerror + RemoveUsersRequest"
  | ReqDropUsersConnections "gerror + DropUsersConnectionsRequest"
  | ReqDropIPs "gerror + DropIPsRequest"
  | ReqUsersStats "gerror + ResetRequest"
  | ReqCombinedStats "gerror + ResetRequest"

definition with_node :: "(RuntimeState \<times> 'w \<Rightarrow> 'r \<times> RuntimeState \<times> 'w) \<Rightarrow> 'w xnode \<Rightarrow> 'w xnode" where
  "with_node f n = (case f (rt n, world n) of (_, (s, w)) \<Rightarrow> n\<lparr>rt := s, world := w\<rparr>)"

definition with_world :: "('w \<Rightarrow> 'r \<times> 'w) \<Rightarrow> 'w xnode \<Rightarrow> 'w xnode" where
  "with_world f n = n\<lparr>world := snd (f (world n))\<rparr>"

definition no_geocheck :: "Request \<Rightarrow> unit \<Rightarrow> (gerror + string) \<times> unit" where
  "no_geocheck r g = (Inl ErrAlreadyRunning, g)"

fun serve :: "('a, 'i, 'w) NodeDeps \<Rightarrow> ConfigBuilder \<Rightarrow> request \<Rightarrow> 'w EmbeddedCore xnode \<Rightarrow>
    'w EmbeddedCore xnode" where
  "serve deps b (ReqStart r) n = snd (Start_handler (xray_env deps b) r n)"
| "serve deps b ReqStop n = snd (Stop_handler (xray_env deps b) n)"
| "serve deps b (ReqAddUser r) n = with_node (AddUser (handler_env deps) r) n"
| "serve deps b (ReqAddUsers r) n = with_node (AddUsers (handler_env deps) r) n"
| "serve deps b (ReqRemoveUser r) n = with_node (RemoveUser (handler_env deps) r) n"
| "serve deps b (ReqRemoveUsers r) n = with_node (RemoveUsers (handler_env deps) r) n"
| "serve deps b (ReqDropUsersConnections r) n = with_world (DropUsersConnections (handler_env deps) r) n"
| "serve deps b (ReqDropIPs r) n = with_world (DropIPs (handler_env deps) r) n"
| "serve deps b (ReqUsersStats r) n = with_world (GetUsersStats (stats_env deps no_geocheck) ([], []) r) n"
| "serve deps b (ReqCombinedStats r) n = with_world (GetCombinedStats (stats_env deps no_geocheck) ([], []) r) n"

text \<open>
  A step of the node: a request is served, an abandoned start returns, or the outside world
  changes (Xray counts traffic, users connect, files change).
\<close>

inductive node_step :: "('a, 'i, 'w) NodeDeps \<Rightarrow> ConfigBuilder \<Rightarrow> 'w EmbeddedCore xnode \<Rightarrow>
    'w EmbeddedCore xnode \<Rightarrow> bool"
  for deps :: "('a, 'i, 'w) NodeDeps" and b :: ConfigBuilder where
  node_serve: "node_step deps b n (serve deps b r n)"
| node_abandoned: "node_step deps b n (n\<lparr>world := abandonedStartReturns (nd_lib deps) h (world n)\<rparr>)"
| node_world: "node_step deps b n (n\<lparr>world := (world n)\<lparr>ec_world := w\<rparr>\<rparr>)"

section \<open>The invariant of the node\<close>

definition node_inv :: "'w EmbeddedCore xnode \<Rightarrow> bool" where
  "node_inv n \<longleftrightarrow>
     XrayRunning (rt n) = IsRunning (world n) \<and>
     XrayInternalStatusCached (rt n) = IsRunning (world n) \<and>
     index_wf (rt n) \<and> accounted [] (world n) \<and> \<not> startProcessing n"

lemma synced_core:
  "node_lifecycle.synced (xray_env deps b) s c \<longleftrightarrow> XrayRunning s = IsRunning c \<and> XrayInternalStatusCached s = IsRunning c"
  unfolding lifecycle.synced_def by (simp add: xray_env_def embedded_core_def)

lemma node_inv_initial: "node_inv (NewRegistry deps w)"
  by (simp add: node_inv_def NewRegistry_def NewRuntimeState_def NewEmbeddedCore_def IsRunning_def
      accounted_def index_wf_New [unfolded NewRuntimeState_def])

lemma node_inv_client:
  assumes "node_inv n" "inert (world n) c" "keeps (rt n) s"
  shows "node_inv (n\<lparr>rt := s, world := c\<rparr>)"
  using assms lifecycle_eqD(1,2) [of s "rt n"] inertD [OF assms(2)]
  by (auto simp: node_inv_def keeps_def)

lemma node_inv_with_node:
  assumes "node_inv n" "inert (world n) (snd (snd (f (rt n, world n))))"
    "keeps (rt n) (fst (snd (f (rt n, world n))))"
  shows "node_inv (with_node f n)"
  using node_inv_client [OF assms] by (simp add: with_node_def split_beta)

lemma node_inv_with_world:
  assumes "node_inv n" "inert (world n) (snd (f (world n)))"
  shows "node_inv (with_world f n)"
  using node_inv_client [OF assms keeps_refl] by (simp add: with_world_def)

lemma inert_GetUsersStats: "inert c (snd (GetUsersStats (stats_env deps g) ri b c))"
  using inert_with_counters
  by (auto simp: GetUsersStats_def stats_client_def stats_env_def embedded_core_def
      embeddedStatsClient_def Let_def split_beta split: sum.split)

lemma inert_GetCombinedStats: "inert c (snd (GetCombinedStats (stats_env deps g) ri b c))"
  using inert_trans [OF inert_with_counters inert_with_counters]
  by (auto simp: GetCombinedStats_def stats_client_def stats_env_def embedded_core_def
      embeddedStatsClient_def Let_def split_beta split: sum.split)

text \<open>What the lifecycle handlers do to the instances and to the index.\<close>

lemma accounted_start_core:
  assumes "accounted [] c"
  shows "accounted [] (snd (snd (start_core (xray_env deps b) cfg h (s, c))))"
proof -
  have "accounted [] (PrepareGeodata (geodata_on_core (nd_geodata deps)) (Some m) c)" for m
    using inertD(2) [OF inert_PrepareGeodata] assms by blast
  then show ?thesis
    using assms accounted_Start
    by (auto simp: start_core_def xray_env_def embedded_core_def Let_def split_beta
        split: sum.split option.split)
qed

lemma index_wf_same_but_flags: "same_but_flags s s' \<Longrightarrow> index_wf s' = index_wf s"
  by (rule index_wf_cong; cases s; cases s') (simp_all add: same_but_flags_def)

lemma index_wf_start_core:
  "index_wf s \<Longrightarrow> index_wf (fst (snd (start_core env cfg h (s, w))))"
proof -
  assume s: "index_wf s"
  obtain r s' w' where run: "start_core env cfg h (s, w) = (r, (s', w'))" by (metis surj_pair)
  show ?thesis
  proof (cases "is_started r")
    case True
    then show ?thesis
      using start_core_started [OF run] run by (auto intro: inv_intros)
  next
    case False
    then show ?thesis
      using start_core_failed [OF run] index_wf_same_but_flags s run by auto
  qed
qed

lemma Start_handler_guarded:
  "\<not> startProcessing n \<Longrightarrow> snd (Start_handler env r n) =
     n\<lparr>startProcessing := False, rt := fst (snd (start_guarded env r (rt n, world n))),
       world := snd (snd (start_guarded env r (rt n, world n)))\<rparr>"
  by (simp add: Start_handler_def tryBeginStart_def endStart_def split_beta)

lemma start_guarded_cases:
  obtains (same) s' where "same_but_flags s s'" "snd (start_guarded env r (s, w)) = (s', w)"
  | (core) cfg h s0 where "same_but_flags s s0" "start_guarded env r (s, w) = start_core env cfg h (s0, w)"
proof (cases r)
  case (Inl e)
  then show ?thesis by (intro same [of s]) (simp_all add: start_guarded_def)
next
  case (Inr request)
  then show ?thesis
    by (cases "up_to_date request (core_IsRunning (xe_core env) w) s"; cases "core_Health (xe_core env) w")
      (auto simp: start_guarded_request intro: that same_but_flags_ops same_but_flags_refl)
qed

lemma node_inv_Start: "node_inv n \<Longrightarrow> node_inv (snd (Start_handler (xray_env deps b) r n))"
proof -
  assume n: "node_inv n"
  let ?env = "xray_env deps b"
  let ?g = "snd (start_guarded ?env r (rt n, world n))"
  have idle: "\<not> startProcessing n" using n by (simp add: node_inv_def)
  have "node_lifecycle.synced (xray_env deps b) (rt n) (world n)" using n by (simp add: node_inv_def synced_core)
  from lifecycle.Start_handler_synced [OF this, of r]
  have sync: "XrayRunning (fst ?g) = IsRunning (snd ?g)" "XrayInternalStatusCached (fst ?g) = IsRunning (snd ?g)"
    by (simp_all add: Start_handler_guarded [OF idle] synced_core)
  have "index_wf (fst ?g) \<and> accounted [] (snd ?g)"
    using n
    by (cases rule: start_guarded_cases [of "rt n" ?env r "world n"])
      (auto simp: node_inv_def index_wf_same_but_flags intro!: accounted_start_core index_wf_start_core)
  with sync show ?thesis
    by (simp add: Start_handler_guarded [OF idle] node_inv_def)
qed

lemma node_inv_Stop: "node_inv n \<Longrightarrow> node_inv (snd (Stop_handler (xray_env deps b) n))"
proof -
  assume n: "node_inv n"
  let ?m = "snd (Stop_handler (xray_env deps b) n)"
  have "XrayRunning (rt ?m) = IsRunning (world ?m) \<and> XrayInternalStatusCached (rt ?m) = IsRunning (world ?m)"
    using lifecycle.Stop_handler_synced [of deps b n] by (simp add: synced_core)
  moreover have "accounted [] (world ?m)"
    using n accounted_Stop by (auto simp: Stop_handler_def node_inv_def xray_env_def embedded_core_def split_beta)
  ultimately show ?thesis
    using n by (auto simp: node_inv_def Stop_handler_def inv_intros split_beta)
qed

lemma node_inv_serve: "node_inv n \<Longrightarrow> node_inv (serve deps b r n)"
proof (induction deps b r n rule: serve.induct)
  case (1 deps b r n)
  then show ?case by (simp add: node_inv_Start)
next
  case (2 deps b n)
  then show ?case by (simp add: node_inv_Stop)
qed (simp_all add: node_inv_with_node node_inv_with_world handlers.AddUser_world handlers.AddUsers_world
    handlers.RemoveUser_world handlers.RemoveUsers_world handlers.DropUsersConnections_world
    handlers.DropIPs_world keeps_AddUser keeps_AddUsers keeps_RemoveUser keeps_RemoveUsers
    inert_GetUsersStats inert_GetCombinedStats)

lemma node_inv_step: "node_step deps b n n' \<Longrightarrow> node_inv n \<Longrightarrow> node_inv n'"
proof (induction rule: node_step.induct)
  case (node_abandoned n h)
  have "ec_instance (abandonedStartReturns (nd_lib deps) h (world n)) = ec_instance (world n)"
    by (simp add: abandonedStartReturns_def closeXrayInstance_def split_beta)
  then show ?case
    using node_abandoned accounted_abandoned by (auto simp: node_inv_def IsRunning_def)
next
  case (node_world n w)
  then show ?case using node_inv_client [OF node_world inert_world keeps_refl] by simp
qed (rule node_inv_serve)

lemma node_inv_reachable: "(node_step deps b)\<^sup>*\<^sup>* (NewRegistry deps w) n \<Longrightarrow> node_inv n"
  by (induction rule: rtranclp_induct) (auto intro: node_inv_step node_inv_initial)

section \<open>A node after a successful start\<close>

definition user_request :: "request \<Rightarrow> bool" where
  "user_request r = (case r of ReqStart _ \<Rightarrow> False | ReqStop \<Rightarrow> False | _ \<Rightarrow> True)"

lemma serve_user_request:
  "user_request r \<Longrightarrow> keeps (rt n) (rt (serve deps b r n)) \<and> inert (world n) (world (serve deps b r n))"
  by (induction deps b r n rule: serve.induct)
    (simp_all add: user_request_def with_node_def with_world_def split_beta
      handlers.AddUser_world handlers.AddUsers_world
      handlers.RemoveUser_world handlers.RemoveUsers_world handlers.DropUsersConnections_world
      handlers.DropIPs_world keeps_AddUser keeps_AddUsers keeps_RemoveUser keeps_RemoveUsers
      inert_GetUsersStats inert_GetCombinedStats)

lemma serve_user_requests:
  "\<forall>r\<in>set rs. user_request r \<Longrightarrow>
   keeps (rt n) (rt (fold (serve deps b) rs n)) \<and> inert (world n) (world (fold (serve deps b) rs n))"
proof (induction rs arbitrary: n)
  case (Cons r rs)
  then show ?case
    using serve_user_request [of r n deps b] by (auto intro: keeps_trans inert_trans)
qed simp

lemma node_inv_fold: "node_inv n \<Longrightarrow> node_inv (fold (serve deps b) rs n)"
  by (induction rs arbitrary: n) (simp_all add: node_inv_serve)

text \<open>What a start that answered success has recorded, whether it restarted the core or not.\<close>

lemma started_records:
  assumes "start_guarded (xray_env deps b) (Inr request) (s, c) = (r, (s', c'))" "is_started r"
  shows "IsRunning c' \<and> HasLastHashes s' \<and> sameHashes (LastHashes s') (request_hashes request)"
proof (cases "up_to_date request (IsRunning c) s \<and> Health c = None")
  case True
  then have "s' = SetXrayInternalStatusCached True s \<and> c' = c"
    using assms by (simp add: start_guarded_request xray_env_def embedded_core_def)
  then show ?thesis
    using True by (simp add: up_to_date_def SetXrayInternalStatusCached_def)
next
  case False
  then have "\<exists>s0. start_core (xray_env deps b) (sxr_XrayConfig request) (request_hashes request) (s0, c) = (r, (s', c'))"
    using assms by (auto simp: start_guarded_request xray_env_def embedded_core_def split: if_splits option.splits)
  then obtain s0 where run: "start_core (xray_env deps b) (sxr_XrayConfig request) (request_hashes request) (s0, c)
      = (r, (s', c'))" by blast
  from start_core_started [OF run assms(2)] obtain full bytes v c0 where
    "core_Start (xe_core (xray_env deps b)) bytes c0 = (None, c')"
    and s': "s' = SetInboundProtocolsFromConfig full (SetXrayStarted v (Some full) (request_hashes request) s0)"
    by blast
  then have "IsRunning c'"
    using Start_IsRunning by (auto simp: xray_env_def embedded_core_def)
  moreover have "lifecycle s' = lifecycle (SetXrayStarted v (Some full) (request_hashes request) s0)"
    by (simp add: s' frame_simps)
  note lifecycle_eqD(6,7) [OF this]
  ultimately show ?thesis by (simp add: SetXrayStarted_def sameHashes_mset)
qed

section \<open>Properties\<close>

text \<open>
  C1. The node tells the truth about Xray: after any sequence of requests, with starts
  that fail, time out or find a dead core among them, the two status flags both say
  whether the core holds an instance; no start is left marked as in progress, and the user
  index is well-formed.
\<close>

theorem node_status_truthful:
  assumes "(node_step deps b)\<^sup>*\<^sup>* (NewRegistry deps w) n"
  shows "XrayRunning (rt n) = IsRunning (world n) \<and>
    XrayInternalStatusCached (rt n) = IsRunning (world n) \<and>
    \<not> startProcessing n \<and> index_wf (rt n)"
  using node_inv_reachable [OF assms] by (simp add: node_inv_def)

text \<open>
  C8. Starting twice starts once: when a start answered success, then after any requests but
  start and stop, another unforced start whose hashes are the same up to the order of the inbounds
  answers success without touching the core, the users or anything else.
\<close>

theorem second_start_changes_nothing:
  assumes "node_inv n" "\<forall>r\<in>set rs. user_request r"
    "is_started (fst (Start_handler (xray_env deps b) (Inr request) n))"
    "m = fold (serve deps b) rs (snd (Start_handler (xray_env deps b) (Inr request) n))"
    "\<not> si_ForceRestart (sxr_Internals request')"
    "sameHashes (request_hashes request) (request_hashes request')"
  shows "is_started (fst (Start_handler (xray_env deps b) (Inr request') m)) \<and>
    snd (Start_handler (xray_env deps b) (Inr request') m) = m"
proof -
  let ?env = "xray_env deps b" and ?n = "snd (Start_handler (xray_env deps b) (Inr request) n)"
  have idle: "\<not> startProcessing n" using assms(1) by (simp add: node_inv_def)
  obtain r s c where run: "start_guarded ?env (Inr request) (rt n, world n) = (r, (s, c))" by (metis surj_pair)
  have "is_started r"
    using assms(3) idle run by (simp add: Start_handler_def tryBeginStart_def)
  note rec = started_records [OF run this]
  have n': "rt ?n = s" "world ?n = c" by (simp_all add: Start_handler_guarded [OF idle] run)
  have m: "keeps s (rt m)" "inert c (world m)" "node_inv m"
    using serve_user_requests [OF assms(2), of ?n deps b] n' assms(4)
      node_inv_fold [OF node_inv_Start [OF assms(1)]] by simp_all
  have up: "up_to_date request' (IsRunning (world m)) (rt m)"
    using rec m(1) lifecycle_eqD(6,7) [of "rt m" s] inertD(1) [OF m(2)] assms(5,6)
    by (simp add: up_to_date_def keeps_def sameHashes_mset)
  have "XrayInternalStatusCached (rt m)" using m(3) up by (simp add: node_inv_def up_to_date_def)
  then have "SetXrayInternalStatusCached True (rt m) = rt m"
    by (cases "rt m") (simp add: SetXrayInternalStatusCached_def)
  moreover obtain r' where
    "start_guarded ?env (Inr request') (rt m, world m) = (r', (SetXrayInternalStatusCached True (rt m), world m))"
    "is_started r'"
    using lifecycle.up_to_date_kept [of request' deps b "world m" "rt m"] up
    by (auto simp: xray_env_def embedded_core_def)
  moreover have "\<not> startProcessing m" using m(3) by (simp add: node_inv_def)
  ultimately show ?thesis
    by (cases m) (simp add: Start_handler_def tryBeginStart_def endStart_def)
qed

text \<open>
  C14. A start that answers failure keeps what the last successful start recorded: the
  config, the hashes, the version, the known inbounds and the users. Only the two status
  flags change, both to what the core is now, and no start stays marked as in progress.
\<close>

theorem failed_start_keeps_record:
  assumes "node_inv n" "\<not> is_started (fst (Start_handler (xray_env deps b) bound n))"
  shows "same_but_flags (rt n) (rt (snd (Start_handler (xray_env deps b) bound n))) \<and>
    XrayRunning (rt (snd (Start_handler (xray_env deps b) bound n))) =
      IsRunning (world (snd (Start_handler (xray_env deps b) bound n))) \<and>
    XrayInternalStatusCached (rt (snd (Start_handler (xray_env deps b) bound n))) =
      IsRunning (world (snd (Start_handler (xray_env deps b) bound n))) \<and>
    \<not> startProcessing (snd (Start_handler (xray_env deps b) bound n))"
proof -
  let ?env = "xray_env deps b"
  have idle: "\<not> startProcessing n" using assms(1) by (simp add: node_inv_def)
  obtain r s c where run: "start_guarded ?env bound (rt n, world n) = (r, (s, c))" by (metis surj_pair)
  have r: "\<not> is_started r"
    using assms(2) idle run by (simp add: Start_handler_def tryBeginStart_def)
  have "same_but_flags (rt n) s"
  proof (cases rule: start_guarded_cases [of "rt n" ?env bound "world n"])
    case (same s')
    then show ?thesis using run by simp
  next
    case (core cfg h s0)
    have "start_core ?env cfg h (s0, world n) = (r, (s, c))" using core(2) run by simp
    from start_core_failed [OF this r] have "same_but_flags s0 s" by simp
    with core(1) show ?thesis by (rule same_but_flags_trans)
  qed
  moreover have "node_inv (snd (Start_handler ?env bound n))" by (rule node_inv_Start) (rule assms(1))
  ultimately show ?thesis
    by (simp add: Start_handler_guarded [OF idle] run node_inv_def)
qed

text \<open>
  Only one start at a time: while one is in progress, another start request is refused with
  an error and changes nothing; the flag is cleared however a start ends.
\<close>

theorem start_excludes_start:
  "\<not> is_started (fst (Start_handler env bound (n\<lparr>startProcessing := True\<rparr>))) \<and>
   snd (Start_handler env bound (n\<lparr>startProcessing := True\<rparr>)) = n\<lparr>startProcessing := True\<rparr> \<and>
   \<not> startProcessing (snd (Start_handler env bound (n\<lparr>startProcessing := False\<rparr>)))"
  by (auto simp: Start_handler_def tryBeginStart_def endStart_def split: prod.split)

section \<open>Witnesses\<close>

definition example_deps :: "(unit, unit, bool) NodeDeps" where
  "example_deps =
     \<lparr>nd_lib = example_lib,
      nd_geodata =
        \<lparr>geo_decode = (\<lambda>_. Inr []), geo_URLScheme = (\<lambda>_. None), geo_AssetDir = (\<lambda>_. []),
         geo_Join = (\<lambda>d f. f), geo_Dir = id, geo_Stat = (\<lambda>_ _. StatNotExist),
         geo_Do = (\<lambda>_ w. (Inr (404, []), w)), geo_MkdirAll = (\<lambda>_ w. (None, w)),
         geo_CreateTemp = (\<lambda>_ w. (Inr [], w)), geo_CopyClose = (\<lambda>_ _ _ w. (None, w)),
         geo_Rename = (\<lambda>_ _ w. (None, w)), geo_Remove = (\<lambda>_ w. w), geo_CreateExcl = (\<lambda>_ w. w)\<rparr>,
      nd_conntrack =
        \<lparr>ct_goos = ''linux'', ct_ParseAddr = (\<lambda>_. None), ct_Unmap = id, ct_Is6 = (\<lambda>_. False),
         ct_AddrString = (\<lambda>_. []), ct_ParseIP = (\<lambda>_. None), ct_AddIP = (\<lambda>_ _. None),
         ct_status = (\<lambda>_. Inr []), ct_ctxErr = (\<lambda>_. None), ct_delete = (\<lambda>_ _ w. (None, w))\<rparr>,
      nd_go = \<lparr>go_GOARCH = ''amd64'', go_GOOS = ''linux'', go_NumCPU = 1, go_Version = ''go1'',
        go_Hostname = Inr ''h''\<rparr>,
      nd_snapshot = (\<lambda>_. SnapshotStats \<lparr>go_GOARCH = [], go_GOOS = [], go_NumCPU = 1, go_Version = [],
        go_Hostname = Inr []\<rparr>
        \<lparr>prov_HostInfo = (\<lambda>_. Inr None), prov_Uptime = (\<lambda>_. Inr 0), prov_VirtualMemory = (\<lambda>_. Inr None),
         prov_CPUCounts = (\<lambda>_. Inr 1), prov_CPUInfo = (\<lambda>_. Inr []), prov_LoadAvg = (\<lambda>_. Inr None),
         prov_NetInterfaces = (\<lambda>_. Inr [])\<rparr> None ()),
      nd_provider =
        \<lparr>prov_HostInfo = (\<lambda>_. Inr None), prov_Uptime = (\<lambda>_. Inr 0), prov_VirtualMemory = (\<lambda>_. Inr None),
         prov_CPUCounts = (\<lambda>_. Inr 1), prov_CPUInfo = (\<lambda>_. Inr []), prov_LoadAvg = (\<lambda>_. Inr None),
         prov_NetInterfaces = (\<lambda>_. Inr [])\<rparr>,
      nd_MarshalIndent = (\<lambda>_. Inr ''{}'')\<rparr>"

definition example_builder :: ConfigBuilder where
  "example_builder = \<lparr>StatsUserOnline = True, HysteriaListenPort = 0\<rparr>"

definition example_request :: StartXrayRequest where
  "example_request =
     \<lparr>sxr_Internals = \<lparr>si_Metadata = None, si_Integrations = None, si_ForceRestart = False,
        si_Hashes = \<lparr>ch_EmptyConfig = ''h'',
          ch_Inbounds = [\<lparr>cih_UsersCount = 1, cih_Hash = ''a'', cih_Tag = ''in''\<rparr>]\<rparr>\<rparr>,
      sxr_XrayConfig = None\<rparr>"

lemma example_Start:
  "Start example_lib ''{}'' (NewEmbeddedCore example_lib True) = (None, example_core)"
  by code_simp

lemma example_is_started:
  "is_started (fst (Start_handler (xray_env example_deps example_builder) (Inr example_request)
      (NewRegistry example_deps True)))"
proof -
  let ?env = "xray_env example_deps example_builder"
  have "\<not> hasTag fmempty tag" for tag by (simp add: hasTag_def ensureArray_def)
  then obtain full where full: "Build example_builder None = Inr full"
    by (simp add: Build_def Let_def)
  then have "fmlookup full ''geodata'' = None"
    using Build_lookup_other [OF full, of "''geodata''"] by simp
  then have geo: "PrepareGeodata os (Some full) w = w" for os and w :: "bool EmbeddedCore"
    by (simp add: PrepareGeodata_def)
  have env: "xe_core ?env = embedded_core example_lib" "xe_builder ?env = example_builder"
      "xe_MarshalIndent ?env full = Inr ''{}''"
    by (simp_all add: xray_env_def example_deps_def)
  have core: "core_Start (embedded_core example_lib) ''{}'' (NewEmbeddedCore example_lib True) = (None, example_core)"
    by (simp add: embedded_core_def example_Start)
  have new: "rt (NewRegistry example_deps True) = NewRuntimeState"
      "world (NewRegistry example_deps True) = NewEmbeddedCore example_lib True"
      "\<not> startProcessing (NewRegistry example_deps True)" "\<not> HasLastHashes NewRuntimeState"
      "sxr_XrayConfig example_request = None"
    by (simp_all add: NewRegistry_def example_deps_def NewRuntimeState_def example_request_def)
  show ?thesis
    by (simp add: Start_handler_def tryBeginStart_def new start_guarded_request up_to_date_def
        start_core_def env full geo core Let_def)
qed

theorem node_status_truthful_witness:
  "XrayRunning (rt (serve example_deps example_builder (ReqStart (Inr example_request))
       (NewRegistry example_deps True))) =
   IsRunning (world (serve example_deps example_builder (ReqStart (Inr example_request))
       (NewRegistry example_deps True)))"
proof -
  have "(node_step example_deps example_builder)\<^sup>*\<^sup>* (NewRegistry example_deps True)
      (serve example_deps example_builder (ReqStart (Inr example_request)) (NewRegistry example_deps True))"
    by (rule r_into_rtranclp, rule node_serve)
  from node_status_truthful [OF this] show ?thesis by blast
qed

theorem second_start_changes_nothing_witness:
  "snd (Start_handler (xray_env example_deps example_builder) (Inr example_request)
     (snd (Start_handler (xray_env example_deps example_builder) (Inr example_request)
       (NewRegistry example_deps True)))) =
   snd (Start_handler (xray_env example_deps example_builder) (Inr example_request)
     (NewRegistry example_deps True))"
  using second_start_changes_nothing [OF node_inv_initial _ example_is_started, of "[]"
      "snd (Start_handler (xray_env example_deps example_builder) (Inr example_request)
         (NewRegistry example_deps True))" example_request]
  by (simp add: example_request_def sameHashes_mset)

theorem failed_start_keeps_record_witness:
  "same_but_flags (rt (NewRegistry example_deps True))
     (rt (snd (Start_handler (xray_env example_deps example_builder) (Inl (NewError ''EOF''))
        (NewRegistry example_deps True))))"
  by (rule failed_start_keeps_record [OF node_inv_initial, THEN conjunct1])
    (simp add: Start_handler_def tryBeginStart_def start_guarded_def NewRegistry_def)

end
