(* ===== verification/Config.thy ===== *)
theory Config
  imports GoTime XrayUsers
begin

text \<open>
  The configuration of the process (\<open>internal/config\<close>): the environment variables with their
  checks (\<open>env.go\<close>), the secret key and the normal form of its PEM blocks (\<open>env.go\<close>), the
  integrity report of its payload (\<open>validate.go\<close>) and the asset directory (\<open>paths.go\<close>).
  The environment is a function from names to values, empty for an unset variable.
  \<open>godotenv\<close> and the X.509 and PEM libraries are arguments.
\<close>

section \<open>The environment (env.go)\<close>

definition DefaultNodePort :: int where "DefaultNodePort = 2222"
definition DefaultInternalRESTPort :: int where "DefaultInternalRESTPort = 61001"
definition DefaultLogLevel :: string where "DefaultLogLevel = ''info''"
definition DefaultLogColor :: string where "DefaultLogColor = ''always''"
definition DefaultRWNodeDir :: string where "DefaultRWNodeDir = ''/opt/rw-node-go''"
definition DefaultRequestBodyLimitBytes :: int where "DefaultRequestBodyLimitBytes = 2 ^ 30"
definition DefaultNodeTLSClientAuth :: string where "DefaultNodeTLSClientAuth = ''mtls''"

record Config =
  cfg_NodePort :: int
  cfg_InternalRESTPort :: int
  cfg_HysteriaListenPort :: int
  cfg_SecretKey :: string
  cfg_NodeTLSClientAuth :: string
  cfg_SNIVerification :: bool
  cfg_LogLevel :: string
  cfg_LogColor :: string
  cfg_RWNodeDir :: string
  cfg_RequestBodyLimitBytes :: int
  cfg_RequireSecretKey :: bool

type_synonym env = "string \<Rightarrow> string"

definition envString :: "env \<Rightarrow> string \<Rightarrow> string \<Rightarrow> string" where
  "envString getenv key fallback =
     (let value = TrimSpace (getenv key) in if value \<noteq> [] then value else fallback)"

definition envBool :: "env \<Rightarrow> string \<Rightarrow> bool \<Rightarrow> gerror + bool" where
  "envBool getenv key fallback =
     (let value = TrimSpace (getenv key) in
      if value = [] then Inr fallback
      else case ParseBool value of
        Inl err \<Rightarrow> Inl (Errorf_w (key @ '' must be a boolean'') err)
      | Inr parsed \<Rightarrow> Inr parsed)"

definition envPort :: "env \<Rightarrow> string \<Rightarrow> int \<Rightarrow> gerror + int" where
  "envPort getenv key fallback =
     (let value = TrimSpace (getenv key) in
      if value = [] then Inr fallback
      else case Atoi value of
        Inl err \<Rightarrow> Inl (Errorf_w (key @ '' must be an integer'') err)
      | Inr parsed \<Rightarrow>
          if parsed < 1 \<or> parsed > 65535 then Inl (NewError (key @ '' must be between 1 and 65535''))
          else Inr parsed)"

definition envOptionalPort :: "env \<Rightarrow> string \<Rightarrow> gerror + int" where
  "envOptionalPort getenv key =
     (let value = TrimSpace (getenv key) in
      if value = [] \<or> value = ''0'' then Inr 0 else envPort getenv key 0)"

definition envNonNegativeInt64 :: "env \<Rightarrow> string \<Rightarrow> int \<Rightarrow> gerror + int" where
  "envNonNegativeInt64 getenv key fallback =
     (let value = TrimSpace (getenv key) in
      if value = [] then Inr fallback
      else case ParseInt value of
        Inl err \<Rightarrow> Inl (Errorf_w (key @ '' must be an integer'') err)
      | Inr parsed \<Rightarrow>
          if parsed < 0 then Inl (NewError (key @ '' must be greater than or equal to 0''))
          else Inr parsed)"

definition normalizeNodeTLSClientAuth :: "string \<Rightarrow> string" where
  "normalizeNodeTLSClientAuth value = ToLower (TrimSpace value)"

definition validNodeTLSClientAuth :: "string \<Rightarrow> bool" where
  "validNodeTLSClientAuth value =
     (normalizeNodeTLSClientAuth value \<in> {''mtls'', ''optional'', ''none''})"

definition normalizeLogLevel :: "string \<Rightarrow> string" where
  "normalizeLogLevel value = ToLower (TrimSpace value)"

definition validLogLevel :: "string \<Rightarrow> bool" where
  "validLogLevel value = (normalizeLogLevel value \<in> {''debug'', ''info'', ''warn'', ''error''})"

definition normalizeLogColor :: "string \<Rightarrow> string" where
  "normalizeLogColor value = ToLower (TrimSpace value)"

definition validLogColor :: "string \<Rightarrow> bool" where
  "validLogColor value = (normalizeLogColor value \<in> {''always'', ''never''})"

text \<open>\<open>dotenv\<close> is the error of \<open>godotenv.Load\<close>, with whether it is \<open>os.ErrNotExist\<close>.\<close>

definition loadDotEnv :: "(gerror \<times> bool) option \<Rightarrow> gerror option" where
  "loadDotEnv dotenv =
     (case dotenv of
        Some (err, notExist) \<Rightarrow> if \<not> notExist then Some (Errorf_w ''load .env'' err) else None
      | None \<Rightarrow> None)"

text \<open>The checks that \<open>Load\<close> makes on the finished configuration.\<close>

definition check_config :: "Config \<Rightarrow> gerror + Config" where
  "check_config cfg =
     (if cfg_NodePort cfg = cfg_InternalRESTPort cfg then
        Inl (NewError ''NODE_PORT and INTERNAL_REST_PORT must be different'')
      else if cfg_RequireSecretKey cfg \<and> cfg_SecretKey cfg = [] then
        Inl (NewError ''SECRET_KEY is required'')
      else if \<not> validNodeTLSClientAuth (cfg_NodeTLSClientAuth cfg) then
        Inl (NewError ''NODE_TLS_CLIENT_AUTH must be one of: mtls, optional, none'')
      else if \<not> validLogLevel (cfg_LogLevel cfg) then
        Inl (NewError ''LOG_LEVEL must be one of: debug, info, warn, error'')
      else if \<not> validLogColor (cfg_LogColor cfg) then
        Inl (NewError ''LOG_COLOR must be one of: always, never'')
      else Inr cfg)"

definition Load :: "(gerror \<times> bool) option \<Rightarrow> env \<Rightarrow> gerror + Config" where
  "Load dotenv getenv =
     (case loadDotEnv dotenv of
        Some err \<Rightarrow> Inl err
      | None \<Rightarrow>
     on_ok (envPort getenv ''NODE_PORT'' DefaultNodePort) (\<lambda>nodePort.
     on_ok (envPort getenv ''INTERNAL_REST_PORT'' DefaultInternalRESTPort) (\<lambda>internalRESTPort.
     on_ok (envOptionalPort getenv ''HYSTERIA_LISTEN_PORT'') (\<lambda>hysteriaListenPort.
     on_ok (envNonNegativeInt64 getenv ''REQUEST_BODY_LIMIT_BYTES'' DefaultRequestBodyLimitBytes)
       (\<lambda>requestBodyLimitBytes.
     on_ok (envBool getenv ''REQUIRE_SECRET_KEY'' False) (\<lambda>requireSecretKey.
     on_ok (envBool getenv ''SNI_VERIFICATION'' False) (\<lambda>sniVerification.
     check_config
       \<lparr>cfg_NodePort = nodePort, cfg_InternalRESTPort = internalRESTPort,
        cfg_HysteriaListenPort = hysteriaListenPort,
        cfg_SecretKey = TrimSpace (getenv ''SECRET_KEY''),
        cfg_NodeTLSClientAuth = normalizeNodeTLSClientAuth
          (envString getenv ''NODE_TLS_CLIENT_AUTH'' DefaultNodeTLSClientAuth),
        cfg_SNIVerification = sniVerification,
        cfg_LogLevel = normalizeLogLevel (envString getenv ''LOG_LEVEL'' DefaultLogLevel),
        cfg_LogColor = normalizeLogColor (envString getenv ''LOG_COLOR'' DefaultLogColor),
        cfg_RWNodeDir = envString getenv ''RW_NODE_DIR'' DefaultRWNodeDir,
        cfg_RequestBodyLimitBytes = requestBodyLimitBytes,
        cfg_RequireSecretKey = requireSecretKey\<rparr>)))))))"

definition ListenAddress :: "Config \<Rightarrow> string" where
  "ListenAddress c = ''0.0.0.0:'' @ Itoa (cfg_NodePort c)"

definition InternalListenAddress :: "Config \<Rightarrow> string" where
  "InternalListenAddress c = ''127.0.0.1:'' @ Itoa (cfg_InternalRESTPort c)"

definition TLSClientAuthMode :: "Config \<Rightarrow> string" where
  "TLSClientAuthMode c =
     (let mode = normalizeNodeTLSClientAuth (cfg_NodeTLSClientAuth c)
      in if mode = [] then DefaultNodeTLSClientAuth else mode)"

datatype Level = LevelDebug | LevelInfo | LevelWarn | LevelError

definition SlogLevel :: "Config \<Rightarrow> Level" where
  "SlogLevel c =
     (let l = normalizeLogLevel (cfg_LogLevel c) in
      if l = ''debug'' then LevelDebug
      else if l = ''warn'' then LevelWarn
      else if l = ''error'' then LevelError
      else LevelInfo)"

definition LogColorEnabled :: "Config \<Rightarrow> bool" where
  "LogColorEnabled c = (normalizeLogColor (cfg_LogColor c) \<noteq> ''never'')"

text \<open>paths.go\<close>

definition DefaultXrayAssetDir :: string where "DefaultXrayAssetDir = ''/usr/local/share/xray''"

definition XrayAssetDir :: "env \<Rightarrow> string" where
  "XrayAssetDir getenv =
     (let dir = TrimSpace (getenv ''XRAY_LOCATION_ASSET'') in
      if dir \<noteq> [] then dir
      else let dir = TrimSpace (getenv ''XRAY_ASSET_DIR'') in
        if dir \<noteq> [] then dir else DefaultXrayAssetDir)"

section \<open>The secret key (env.go)\<close>

record NodePayload =
  np_CACertPEM :: string
  np_JWTPublicKey :: string
  np_NodeCertPEM :: string
  np_NodeKeyPEM :: string

text \<open>The loop of \<open>NormalizePEM\<close>: trimmed lines, with a run of blank ones as one.\<close>

fun squeeze :: "string list \<Rightarrow> bool \<Rightarrow> string list" where
  "squeeze [] lastBlank = []"
| "squeeze (line # rest) lastBlank =
     (let line = TrimSpace line in
      if line = [] then (if \<not> lastBlank then [[]] else []) @ squeeze rest True
      else line # squeeze rest False)"

definition NormalizePEM :: "string \<Rightarrow> string" where
  "NormalizePEM value =
     (let value = ReplaceAll value [CHR 0x5C, CHR ''n''] LF;
          value = ReplaceAll value [CHR 0x0D, CHR 0x0A] LF;
          value = TrimSpace value
      in TrimSpace (Join (squeeze (Split value LF) False) LF))"

text \<open>
  \<open>parse\<close> is the decoding of the payload by \<open>encoding/json\<close>; \<open>corrupt\<close> is the error of
  \<open>encoding/base64\<close> for an input that does not decode.
\<close>

definition DecodeSecretKey :: "(string \<Rightarrow> gerror) \<Rightarrow> (string \<Rightarrow> gerror + NodePayload) \<Rightarrow> string \<Rightarrow>
    gerror + NodePayload" where
  "DecodeSecretKey corrupt parse secretKey =
     (case DecodeString (TrimSpace secretKey) of
        None \<Rightarrow> Inl (Errorf_w ''decode SECRET_KEY'' (corrupt (TrimSpace secretKey)))
      | Some raw \<Rightarrow>
     (case parse raw of
        Inl err \<Rightarrow> Inl (Errorf_w ''parse SECRET_KEY payload'' err)
      | Inr payload \<Rightarrow>
          let payload = \<lparr>np_CACertPEM = NormalizePEM (np_CACertPEM payload),
                         np_JWTPublicKey = NormalizePEM (np_JWTPublicKey payload),
                         np_NodeCertPEM = NormalizePEM (np_NodeCertPEM payload),
                         np_NodeKeyPEM = NormalizePEM (np_NodeKeyPEM payload)\<rparr>
          in if np_CACertPEM payload = [] then Inl (NewError ''SECRET_KEY payload missing caCertPem'')
             else if np_JWTPublicKey payload = [] then Inl (NewError ''SECRET_KEY payload missing jwtPublicKey'')
             else if np_NodeCertPEM payload = [] then Inl (NewError ''SECRET_KEY payload missing nodeCertPem'')
             else if np_NodeKeyPEM payload = [] then Inl (NewError ''SECRET_KEY payload missing nodeKeyPem'')
             else Inr payload))"

section \<open>The integrity report (validate.go)\<close>

text \<open>
  Certificates have the type \<open>'c\<close> and public keys the type \<open>'p\<close>. \<open>x_ParsePKCS8\<close> parses a
  private key and extracts its public key: \<open>Inr (Inl t)\<close> is a key of a type \<open>t\<close> without one.
\<close>

record ('c, 'p) x509_lib =
  x_pemDecode :: "string \<Rightarrow> string option"
  x_ParseCertificate :: "string \<Rightarrow> gerror + 'c"
  x_NotBefore :: "'c \<Rightarrow> int"
  x_NotAfter :: "'c \<Rightarrow> int"
  x_CheckSignatureFrom :: "'c \<Rightarrow> 'c \<Rightarrow> gerror option"
  x_sha256_Raw :: "'c \<Rightarrow> string"
  x_PublicKey :: "'c \<Rightarrow> 'p"
  x_ParsePKCS8 :: "string \<Rightarrow> gerror + (string + 'p)"
  x_ParsePKCS1 :: "string \<Rightarrow> gerror + 'p"
  x_ParseEC :: "string \<Rightarrow> gerror + 'p"
  x_MarshalPKIX :: "'p \<Rightarrow> gerror + string"
  x_ParsePKIX :: "string \<Rightarrow> gerror + 'p"
  x_IsRSA :: "'p \<Rightarrow> bool"
  x_TypeName :: "'p \<Rightarrow> string"

record PayloadCheck =
  pc_Name :: string
  pc_OK :: bool
  pc_Detail :: string

definition hex_EncodeToString :: "string \<Rightarrow> string" where
  "hex_EncodeToString s = concat (map (\<lambda>c. [digit_char (byte c div 16), digit_char (byte c mod 16)]) s)"

definition parseCertificate :: "('c, 'p) x509_lib \<Rightarrow> string \<Rightarrow> gerror + 'c" where
  "parseCertificate x pemValue =
     (case x_pemDecode x pemValue of
        None \<Rightarrow> Inl (NewError ''no PEM block'')
      | Some block \<Rightarrow> x_ParseCertificate x block)"

definition shortFingerprint :: "('c, 'p) x509_lib \<Rightarrow> 'c option \<Rightarrow> string" where
  "shortFingerprint x cert =
     (case cert of None \<Rightarrow> [] | Some c \<Rightarrow> take 24 (hex_EncodeToString (x_sha256_Raw x c)))"

definition equalBytes :: "string \<Rightarrow> string \<Rightarrow> bool" where
  "equalBytes a b =
     (if length a \<noteq> length b then False else list_all (\<lambda>i. a ! i = b ! i) [0..<length a])"

definition verifyKeyMatchesCert :: "('c, 'p) x509_lib \<Rightarrow> string \<Rightarrow> 'c option \<Rightarrow> gerror option" where
  "verifyKeyMatchesCert x keyPEM cert =
     (case cert of
        None \<Rightarrow> Some (NewError ''cert unavailable'')
      | Some c \<Rightarrow>
     (case x_pemDecode x keyPEM of
        None \<Rightarrow> Some (NewError ''no PEM block'')
      | Some block \<Rightarrow>
     (case (case x_ParsePKCS8 x block of
              Inr (Inr public) \<Rightarrow> Inr public
            | Inr (Inl t) \<Rightarrow> Inl (NewError (''node key type '' @ t @ '' has no extractable public key''))
            | Inl _ \<Rightarrow>
                (case x_ParsePKCS1 x block of
                   Inr public \<Rightarrow> Inr public
                 | Inl _ \<Rightarrow>
                     (case x_ParseEC x block of
                        Inr public \<Rightarrow> Inr public
                      | Inl _ \<Rightarrow> Inl (NewError ''unsupported node key format'')))) of
        Inl err \<Rightarrow> Some err
      | Inr public \<Rightarrow>
     (case x_MarshalPKIX x (x_PublicKey x c) of
        Inl err \<Rightarrow> Some (Errorf_w ''marshal cert public key'' err)
      | Inr certKeyDER \<Rightarrow>
     (case x_MarshalPKIX x public of
        Inl err \<Rightarrow> Some (Errorf_w ''marshal node key public key'' err)
      | Inr keyKeyDER \<Rightarrow>
          if \<not> equalBytes certKeyDER keyKeyDER then Some (NewError ''key does not match cert'')
          else None)))))"

definition verifyRSAPublicKey :: "('c, 'p) x509_lib \<Rightarrow> string \<Rightarrow> gerror option" where
  "verifyRSAPublicKey x pemValue =
     (case x_pemDecode x pemValue of
        None \<Rightarrow> Some (NewError ''no PEM block'')
      | Some block \<Rightarrow>
     (case x_ParsePKIX x block of
        Inl err \<Rightarrow> Some (Errorf_w ''parse jwt public key'' err)
      | Inr key \<Rightarrow>
          if \<not> x_IsRSA x key
          then Some (NewError (''jwt public key is '' @ x_TypeName x key @ '', want RSA for RS256''))
          else None))"

definition firstLine :: "string \<Rightarrow> string" where
  "firstLine value = takeWhile (\<lambda>c. c \<noteq> CHR 0x0A) value"

definition payload_check :: "string \<Rightarrow> string \<Rightarrow> gerror option \<Rightarrow> PayloadCheck" where
  "payload_check name detail err =
     (case err of
        Some e \<Rightarrow> \<lparr>pc_Name = name, pc_OK = False, pc_Detail = firstLine (Error_msg e)\<rparr>
      | None \<Rightarrow> \<lparr>pc_Name = name, pc_OK = True, pc_Detail = detail\<rparr>)"

definition result_error :: "gerror + 'a \<Rightarrow> gerror option" where
  "result_error r = (case r of Inl e \<Rightarrow> Some e | Inr _ \<Rightarrow> None)"

definition result_value :: "gerror + 'a \<Rightarrow> 'a option" where
  "result_value r = (case r of Inl _ \<Rightarrow> None | Inr v \<Rightarrow> Some v)"

text \<open>Times are nanoseconds; the printed one is in seconds.\<close>

definition payload_checks :: "('c, 'p) x509_lib \<Rightarrow> int \<Rightarrow> NodePayload \<Rightarrow> PayloadCheck list" where
  "payload_checks x now payload =
     (let ca = parseCertificate x (np_CACertPEM payload);
          caCert = result_value ca;
          nodeResult = parseCertificate x (np_NodeCertPEM payload);
          nodeCert = result_value nodeResult
      in [payload_check ''CA parses'' (shortFingerprint x caCert) (result_error ca)]
         @ (case caCert of
              Some c \<Rightarrow>
                [if x_NotBefore x c > now then payload_check ''CA not expired'' [] (Some (NewError ''not yet valid''))
                 else if now > x_NotAfter x c then payload_check ''CA not expired'' [] (Some (NewError ''expired''))
                 else payload_check ''CA not expired''
                        (''until '' @ format_RFC3339 (x_NotAfter x c div 1000000000)) None,
                 payload_check ''CA self-signature'' ''valid'' (x_CheckSignatureFrom x c c)]
            | None \<Rightarrow>
                [payload_check ''CA not expired'' [] (Some (NewError ''CA unavailable'')),
                 payload_check ''CA self-signature'' [] (Some (NewError ''CA unavailable''))])
         @ [payload_check ''node cert parses'' (shortFingerprint x nodeCert) (result_error nodeResult),
            (case (caCert, nodeCert) of
               (Some c, Some n) \<Rightarrow> payload_check ''node signed by CA'' ''valid'' (x_CheckSignatureFrom x n c)
             | _ \<Rightarrow> payload_check ''node signed by CA'' [] (Some (NewError ''cert unavailable''))),
            payload_check ''node key matches cert'' ''valid''
              (verifyKeyMatchesCert x (np_NodeKeyPEM payload) nodeCert),
            payload_check ''jwt public key'' ''ok'' (verifyRSAPublicKey x (np_JWTPublicKey payload))])"

definition ValidateNodePayload :: "('c, 'p) x509_lib \<Rightarrow> int \<Rightarrow> NodePayload \<Rightarrow>
    PayloadCheck list \<times> gerror option" where
  "ValidateNodePayload x now payload =
     (let checks = payload_checks x now payload;
          failures = map (\<lambda>c. pc_Name c @ '' ('' @ pc_Detail c @ '')'') (filter (\<lambda>c. \<not> pc_OK c) checks)
      in if length failures > 0
         then (checks, Some (NewError (''SECRET_KEY payload validation failed: '' @ Join failures ''; '')))
         else (checks, None))"

section \<open>Lemmas\<close>

lemma equalBytes_eq [simp]: "equalBytes a b \<longleftrightarrow> a = b"
  by (auto simp: equalBytes_def list_all_iff intro: nth_equalityI)

lemma payload_check_OK [simp]: "pc_OK (payload_check name detail err) \<longleftrightarrow> err = None"
  by (simp add: payload_check_def split: option.split)

lemma payload_check_Name [simp]: "pc_Name (payload_check name detail err) = name"
  by (simp add: payload_check_def split: option.split)

lemma result_simps [simp]:
  "result_error r = None \<longleftrightarrow> isOk r" "result_value (Inr v) = Some v" "result_value (Inl e) = None"
  "result_error (Inr v) = None" "result_error (Inl e) = Some e"
  by (auto simp: result_error_def result_value_def split: sum.splits)

lemma envPort_range:
  "envPort getenv key fallback = Inr p \<Longrightarrow> p = fallback \<or> 1 \<le> p \<and> p \<le> 65535"
  by (auto simp: envPort_def Let_def split: if_splits sum.splits)

text \<open>The public key of a private key, as the code extracts it from any of three formats.\<close>

definition key_public :: "('c, 'p) x509_lib \<Rightarrow> string \<Rightarrow> 'p option" where
  "key_public x block =
     (case x_ParsePKCS8 x block of
        Inr (Inr p) \<Rightarrow> Some p
      | Inr (Inl _) \<Rightarrow> None
      | Inl _ \<Rightarrow> (case x_ParsePKCS1 x block of
                  Inr p \<Rightarrow> Some p
                | Inl _ \<Rightarrow> (case x_ParseEC x block of Inr p \<Rightarrow> Some p | Inl _ \<Rightarrow> None)))"

lemma verifyKeyMatchesCert_None:
  "verifyKeyMatchesCert x keyPEM cert = None \<longleftrightarrow>
     (\<exists>c block p der. cert = Some c \<and> x_pemDecode x keyPEM = Some block \<and> key_public x block = Some p \<and>
        x_MarshalPKIX x (x_PublicKey x c) = Inr der \<and> x_MarshalPKIX x p = Inr der)"
  by (auto simp: verifyKeyMatchesCert_def key_public_def split: option.splits sum.splits)

section \<open>The normal form of the modes\<close>

text \<open>
  Normal form of the modes: lower-casing leaves no white space at the ends of a trimmed text and
  changes nothing the second time, so a normalised value is its own normal form.
\<close>

definition lower_letter :: "char \<Rightarrow> bool" where
  "lower_letter c \<longleftrightarrow> 97 \<le> byte c \<and> byte c \<le> 122"

lemma byte_of_nat: "n < 256 \<Longrightarrow> byte (char_of n) = n"
  by (simp add: of_char_of)

lemma lower_char_other: "x = lower_char c \<Longrightarrow> \<not> lower_letter x \<Longrightarrow> x = c"
  by (auto simp: lower_char_def lower_letter_def byte_of_nat split: if_splits)

lemma lower_char_idem: "lower_char (lower_char c) = lower_char c"
  by (auto simp: lower_char_def byte_of_nat)

lemma lower_letter_simps: "lower_letter (CHR ''i'')" "lower_letter (CHR ''k'')"
  by (simp_all add: lower_letter_def)

lemma ToLower_Cons_cases [case_names dotted kelvin plain]:
  assumes "c = CHR 0xC4 \<Longrightarrow> prefix [CHR 0xB0] s \<Longrightarrow> ToLower (c # s) = CHR ''i'' # ToLower (drop 1 s) \<Longrightarrow> P"
    and "c = CHR 0xE2 \<Longrightarrow> prefix [CHR 0x84, CHR 0xAA] s \<Longrightarrow>
      ToLower (c # s) = CHR ''k'' # ToLower (drop 2 s) \<Longrightarrow> P"
    and "\<not> (c = CHR 0xC4 \<and> prefix [CHR 0xB0] s) \<Longrightarrow> \<not> (c = CHR 0xE2 \<and> prefix [CHR 0x84, CHR 0xAA] s) \<Longrightarrow>
      ToLower (c # s) = lower_char c # ToLower s \<Longrightarrow> P"
  shows P
proof (cases "c = CHR 0xC4 \<and> prefix [CHR 0xB0] s")
  case True
  then show ?thesis using assms(1) by simp
next
  case not_dotted: False
  show ?thesis
  proof (cases "c = CHR 0xE2 \<and> prefix [CHR 0x84, CHR 0xAA] s")
    case True
    then show ?thesis using assms(2) by simp
  next
    case False
    then show ?thesis by (rule assms(3) [OF not_dotted]) (simp only: ToLower.simps not_dotted False if_False)
  qed
qed

lemma prefix_ToLower:
  "prefix r (ToLower s) \<Longrightarrow> \<forall>c\<in>set r. \<not> lower_letter c \<Longrightarrow> prefix r s"
proof (induction s arbitrary: r rule: ToLower.induct)
  case (2 c s)
  show ?case
  proof (cases r)
    case (Cons x r')
    then have x: "\<not> lower_letter x" and r': "\<forall>c\<in>set r'. \<not> lower_letter c" using 2(5) by auto
    show ?thesis
    proof (cases c s rule: ToLower_Cons_cases)
      case plain
      then have "x = c" "prefix r' (ToLower s)"
        using 2(4) x lower_char_other [of x c] Cons by simp_all
      then show ?thesis using 2(3) [OF plain(1,2) _ r'] Cons by simp
    qed (use 2(4) Cons x in \<open>auto simp: lower_letter_simps\<close>)
  qed simp
qed simp

lemma ToLower_no_letters: "\<forall>c\<in>set (ToLower s). \<not> lower_letter c \<Longrightarrow> ToLower s = s"
proof (induction s rule: ToLower.induct)
  case (2 c s)
  show ?case
  proof (cases c s rule: ToLower_Cons_cases)
    case plain
    then have "\<not> lower_letter (lower_char c)" "\<forall>c\<in>set (ToLower s). \<not> lower_letter c"
      using 2(4) by simp_all
    then show ?thesis using 2(3) [OF plain(1,2)] lower_char_other [OF refl] plain(3) by simp
  qed (use 2(4) in \<open>simp_all add: lower_letter_simps\<close>)
qed simp

lemma suffix_ToLower:
  "suffix r (ToLower s) \<Longrightarrow> \<forall>c\<in>set r. \<not> lower_letter c \<Longrightarrow> suffix r s"
proof (induction s rule: ToLower.induct)
  case (2 c s)
  show ?case
  proof (cases "r = ToLower (c # s)")
    case True
    then show ?thesis using 2(5) ToLower_no_letters [of "c # s"] by simp
  next
    case False
    show ?thesis
    proof (cases c s rule: ToLower_Cons_cases)
      case dotted
      with 2(4) False have "suffix r (ToLower (drop 1 s))" by (simp add: suffix_Cons)
      then have "suffix r (drop 1 s)" using dotted(1,2) 2(1,5) by blast
      then show ?thesis by (meson suffix_ConsI suffix_drop suffix_order.trans)
    next
      case kelvin
      with 2(4) False have "suffix r (ToLower (drop 2 s))" by (simp add: suffix_Cons)
      moreover have "\<not> (c = CHR 0xC4 \<and> prefix [CHR 0xB0] s)" using kelvin(1) by simp
      ultimately have "suffix r (drop 2 s)" using kelvin(1,2) 2(2,5) by blast
      then show ?thesis by (meson suffix_ConsI suffix_drop suffix_order.trans)
    next
      case plain
      with 2(4) False have "suffix r (ToLower s)" by (simp add: suffix_Cons)
      then show ?thesis using 2(3) [OF plain(1,2) _ 2(5)] by (simp add: suffix_ConsI)
    qed
  qed
qed simp

lemma ToLower_idem: "ToLower (ToLower s) = ToLower s"
proof (induction s rule: ToLower.induct)
  case (2 c s)
  show ?case
  proof (cases c s rule: ToLower_Cons_cases)
    case dotted
    then show ?thesis using 2(1) by (simp add: lower_char_def)
  next
    case kelvin
    then show ?thesis using 2(2) by (simp add: lower_char_def)
  next
    case plain
    have "prefix [CHR 0xB0] (ToLower s) \<Longrightarrow> prefix [CHR 0xB0] s"
      by (rule prefix_ToLower) (simp_all add: lower_letter_def)
    moreover have "prefix [CHR 0x84, CHR 0xAA] (ToLower s) \<Longrightarrow> prefix [CHR 0x84, CHR 0xAA] s"
      by (rule prefix_ToLower) (simp_all add: lower_letter_def)
    moreover have "lower_char c = CHR 0xC4 \<Longrightarrow> c = CHR 0xC4" "lower_char c = CHR 0xE2 \<Longrightarrow> c = CHR 0xE2"
      using lower_char_other [of "CHR 0xC4" c] lower_char_other [of "CHR 0xE2" c]
      by (auto simp: lower_letter_def)
    ultimately show ?thesis
      using plain 2(3) [OF plain(1,2)] by (simp only: ToLower.simps lower_char_idem) argo
  qed
qed simp

lemma space_runes_no_letters: "\<forall>r\<in>set space_runes. \<forall>c\<in>set r. \<not> lower_letter c"
  by (simp add: space_runes_def lower_letter_def)

lemma trimmed_iff: "trimmed s \<longleftrightarrow> (\<forall>r\<in>set space_runes. \<not> prefix r s \<and> \<not> suffix r s)"
  by (auto simp: trimmed_def rune_at_0_iff [OF space_runes_nonempty(1)]
      rune_at_0_iff [OF space_runes_nonempty(2)] suffix_to_prefix)

lemma trimmed_ToLower: "trimmed s \<Longrightarrow> trimmed (ToLower s)"
  using space_runes_no_letters prefix_ToLower suffix_ToLower unfolding trimmed_iff by blast

lemma normal_form_idem: "ToLower (TrimSpace (ToLower (TrimSpace v))) = ToLower (TrimSpace v)"
  by (simp add: TrimSpace_trimmed trimmed_ToLower ToLower_idem)

section \<open>Properties\<close>

text \<open>
  C19. A loaded configuration is a usable one: the two ports are TCP ports and differ, the
  hysteria port is 0 or a port, the body limit is not negative, the secret key is there
  when it is required, and each of the three modes is stored as one of its words, in lower case
  and without white space around it, whatever way the environment spells it.
\<close>

theorem Load_valid:
  assumes "Load dotenv getenv = Inr cfg"
  shows "cfg_NodePort cfg \<in> {1..65535} \<and> cfg_InternalRESTPort cfg \<in> {1..65535} \<and>
    cfg_NodePort cfg \<noteq> cfg_InternalRESTPort cfg \<and> cfg_HysteriaListenPort cfg \<in> {0..65535} \<and>
    0 \<le> cfg_RequestBodyLimitBytes cfg \<and> cfg_RequestBodyLimitBytes cfg < 2 ^ 63 \<and>
    \<not> (cfg_RequireSecretKey cfg \<and> cfg_SecretKey cfg = []) \<and>
    cfg_NodeTLSClientAuth cfg \<in> {''mtls'', ''optional'', ''none''} \<and>
    cfg_LogLevel cfg \<in> {''debug'', ''info'', ''warn'', ''error''} \<and>
    cfg_LogColor cfg \<in> {''always'', ''never''}"
proof -
  have limit: "envNonNegativeInt64 getenv key d = Inr n \<Longrightarrow> n = d \<or> 0 \<le> n \<and> n < 2 ^ 63" for key d n
    using ParseInt10_range [of "''ParseInt''" "TrimSpace (getenv key)"]
    by (auto simp: envNonNegativeInt64_def ParseInt_def Let_def split: if_splits sum.splits)
  have optional: "envOptionalPort getenv key = Inr n \<Longrightarrow> 0 \<le> n \<and> n \<le> 65535" for key n
    using envPort_range [of getenv key 0 n]
    by (auto simp: envOptionalPort_def Let_def split: if_splits)
  have checked: "check_config c = Inr cfg \<Longrightarrow> cfg = c \<and> cfg_NodePort c \<noteq> cfg_InternalRESTPort c \<and>
      \<not> (cfg_RequireSecretKey c \<and> cfg_SecretKey c = []) \<and>
      validNodeTLSClientAuth (cfg_NodeTLSClientAuth c) \<and> validLogLevel (cfg_LogLevel c) \<and>
      validLogColor (cfg_LogColor c)" for c
    by (simp add: check_config_def split: if_splits)
  have "loadDotEnv dotenv = None" using assms by (simp add: Load_def split: option.splits)
  with assms obtain port rest hysteria limit_value key sni c where
      "envPort getenv ''NODE_PORT'' DefaultNodePort = Inr port"
      "envPort getenv ''INTERNAL_REST_PORT'' DefaultInternalRESTPort = Inr rest"
      "envOptionalPort getenv ''HYSTERIA_LISTEN_PORT'' = Inr hysteria"
      "envNonNegativeInt64 getenv ''REQUEST_BODY_LIMIT_BYTES'' DefaultRequestBodyLimitBytes = Inr limit_value"
    and c: "check_config c = Inr cfg" "cfg_NodePort c = port" "cfg_InternalRESTPort c = rest"
      "cfg_HysteriaListenPort c = hysteria" "cfg_RequestBodyLimitBytes c = limit_value"
      "cfg_NodeTLSClientAuth c = normalizeNodeTLSClientAuth
        (envString getenv ''NODE_TLS_CLIENT_AUTH'' DefaultNodeTLSClientAuth)"
      "cfg_LogLevel c = normalizeLogLevel (envString getenv ''LOG_LEVEL'' DefaultLogLevel)"
      "cfg_LogColor c = normalizeLogColor (envString getenv ''LOG_COLOR'' DefaultLogColor)"
    unfolding Load_def
    by (simp only: on_ok_Inr option.case) (elim exE conjE, rule that, assumption+, simp_all)
  then have numbers: "port \<in> {1..65535} \<and> rest \<in> {1..65535} \<and> hysteria \<in> {0..65535} \<and>
      0 \<le> limit_value \<and> limit_value < 2 ^ 63"
    using envPort_range [of getenv "''NODE_PORT''" DefaultNodePort port]
      envPort_range [of getenv "''INTERNAL_REST_PORT''" DefaultInternalRESTPort rest]
      optional [of "''HYSTERIA_LISTEN_PORT''" hysteria]
      limit [of "''REQUEST_BODY_LIMIT_BYTES''" DefaultRequestBodyLimitBytes limit_value]
    by (auto simp: DefaultNodePort_def DefaultInternalRESTPort_def DefaultRequestBodyLimitBytes_def)
  have modes: "cfg_NodeTLSClientAuth c \<in> {''mtls'', ''optional'', ''none''} \<and>
      cfg_LogLevel c \<in> {''debug'', ''info'', ''warn'', ''error''} \<and> cfg_LogColor c \<in> {''always'', ''never''}"
    using checked [OF c(1)] unfolding c(6-8) validNodeTLSClientAuth_def validLogLevel_def validLogColor_def
      normalizeNodeTLSClientAuth_def normalizeLogLevel_def normalizeLogColor_def normal_form_idem by blast
  from checked [OF c(1)] have cfg: "cfg = c" by blast
  from checked [OF c(1)] numbers modes show ?thesis unfolding cfg c(2-5) by blast
qed

lemma default_modes:
  "validNodeTLSClientAuth (normalizeNodeTLSClientAuth DefaultNodeTLSClientAuth)"
  "validLogLevel (normalizeLogLevel DefaultLogLevel)" "validLogColor (normalizeLogColor DefaultLogColor)"
  by (simp_all add: validNodeTLSClientAuth_def validLogLevel_def validLogColor_def
      normalizeNodeTLSClientAuth_def normalizeLogLevel_def normalizeLogColor_def
      DefaultNodeTLSClientAuth_def DefaultLogLevel_def DefaultLogColor_def
      TrimSpace_trimmed trimmed_def rune_at_0_iff space_runes_def lower_char_def)

text \<open>With no variable set, every default is taken.\<close>

theorem Load_valid_witness:
  "\<exists>cfg. Load None (\<lambda>_. []) = Inr cfg \<and> cfg_NodePort cfg \<in> {1..65535} \<and>
     cfg_NodePort cfg \<noteq> cfg_InternalRESTPort cfg"
proof -
  have "\<exists>cfg. Load None (\<lambda>_. []) = Inr cfg"
    by (simp add: Load_def loadDotEnv_def envPort_def envOptionalPort_def envNonNegativeInt64_def
        envBool_def envString_def check_config_def default_modes DefaultNodePort_def
        DefaultInternalRESTPort_def)
  then obtain cfg where cfg: "Load None (\<lambda>_. []) = Inr cfg" by blast
  with Load_valid [OF cfg] show ?thesis by blast
qed

lemma ValidateNodePayload_None:
  "snd (ValidateNodePayload x now payload) = None \<longleftrightarrow>
     (\<exists>ca node block p der jwt key.
        parseCertificate x (np_CACertPEM payload) = Inr ca \<and>
        x_NotBefore x ca \<le> now \<and> now \<le> x_NotAfter x ca \<and> x_CheckSignatureFrom x ca ca = None \<and>
        parseCertificate x (np_NodeCertPEM payload) = Inr node \<and> x_CheckSignatureFrom x node ca = None \<and>
        x_pemDecode x (np_NodeKeyPEM payload) = Some block \<and> key_public x block = Some p \<and>
        x_MarshalPKIX x (x_PublicKey x node) = Inr der \<and> x_MarshalPKIX x p = Inr der \<and>
        x_pemDecode x (np_JWTPublicKey payload) = Some jwt \<and> x_ParsePKIX x jwt = Inr key \<and> x_IsRSA x key)"
proof -
  have rsa: "verifyRSAPublicKey x pem = None \<longleftrightarrow>
      (\<exists>jwt key. x_pemDecode x pem = Some jwt \<and> x_ParsePKIX x jwt = Inr key \<and> x_IsRSA x key)" for pem
    by (auto simp: verifyRSAPublicKey_def split: option.splits sum.splits)
  have none: "snd (ValidateNodePayload x now payload) = None \<longleftrightarrow>
      (\<forall>c\<in>set (payload_checks x now payload). pc_OK c)"
    by (auto simp: ValidateNodePayload_def Let_def filter_empty_conv)
  show ?thesis
    unfolding none
    by (cases "parseCertificate x (np_CACertPEM payload)"; cases "parseCertificate x (np_NodeCertPEM payload)")
      (auto simp: payload_checks_def Let_def rsa verifyKeyMatchesCert_None split: if_splits)
qed

lemma ValidateNodePayload_names:
  "map pc_Name (fst (ValidateNodePayload x now payload)) =
     [''CA parses'', ''CA not expired'', ''CA self-signature'', ''node cert parses'', ''node signed by CA'',
      ''node key matches cert'', ''jwt public key'']"
  by (cases "result_value (parseCertificate x (np_CACertPEM payload))";
      cases "result_value (parseCertificate x (np_NodeCertPEM payload))")
    (simp_all add: ValidateNodePayload_def payload_checks_def Let_def)

text \<open>
  C23. The integrity report has the same seven checks in the same order for every payload, and
  there is no error exactly when the CA parses, is valid at this time and signed by itself, the
  node certificate parses, is signed by the CA and has the key's public key, and the JWT key is an
  RSA key.
\<close>

theorem ValidateNodePayload_complete:
  "map pc_Name (fst (ValidateNodePayload x now payload)) =
     [''CA parses'', ''CA not expired'', ''CA self-signature'', ''node cert parses'', ''node signed by CA'',
      ''node key matches cert'', ''jwt public key''] \<and>
   (snd (ValidateNodePayload x now payload) = None \<longleftrightarrow>
     (\<exists>ca node block p der jwt key.
        parseCertificate x (np_CACertPEM payload) = Inr ca \<and>
        x_NotBefore x ca \<le> now \<and> now \<le> x_NotAfter x ca \<and> x_CheckSignatureFrom x ca ca = None \<and>
        parseCertificate x (np_NodeCertPEM payload) = Inr node \<and> x_CheckSignatureFrom x node ca = None \<and>
        x_pemDecode x (np_NodeKeyPEM payload) = Some block \<and> key_public x block = Some p \<and>
        x_MarshalPKIX x (x_PublicKey x node) = Inr der \<and> x_MarshalPKIX x p = Inr der \<and>
        x_pemDecode x (np_JWTPublicKey payload) = Some jwt \<and> x_ParsePKIX x jwt = Inr key \<and> x_IsRSA x key))"
  using ValidateNodePayload_names ValidateNodePayload_None by blast

end
