(* ===== verification/Tls.thy ===== *)
theory Tls
  imports Config
begin

text \<open>
  The TLS set-up of the main API (\<open>internal/httpapi/tls.go\<close>): the client authentication
  mode, the server name derived from the secret key and the configuration that gates the
  handshake on it. \<open>crypto/tls\<close>, \<open>crypto/x509\<close> and \<open>crypto/hkdf\<close> are parameters.
\<close>

section \<open>Client authentication\<close>

text \<open>The constants of \<open>crypto/tls\<close>, in their order.\<close>

datatype ClientAuthType =
    NoClientCert | RequestClientCert | RequireAnyClientCert
  | VerifyClientCertIfGiven | RequireAndVerifyClientCert

fun auth_rank :: "ClientAuthType \<Rightarrow> nat" where
  "auth_rank NoClientCert = 0"
| "auth_rank RequestClientCert = 1"
| "auth_rank RequireAnyClientCert = 2"
| "auth_rank VerifyClientCertIfGiven = 3"
| "auth_rank RequireAndVerifyClientCert = 4"

lemma auth_rank_inject: "auth_rank a = auth_rank b \<longleftrightarrow> a = b"
  by (cases a; cases b) simp_all

instantiation ClientAuthType :: linorder
begin

definition less_eq_ClientAuthType :: "ClientAuthType \<Rightarrow> ClientAuthType \<Rightarrow> bool" where
  "less_eq_ClientAuthType a b \<longleftrightarrow> auth_rank a \<le> auth_rank b"

definition less_ClientAuthType :: "ClientAuthType \<Rightarrow> ClientAuthType \<Rightarrow> bool" where
  "less_ClientAuthType a b \<longleftrightarrow> auth_rank a < auth_rank b"

instance
  by standard (auto simp: less_eq_ClientAuthType_def less_ClientAuthType_def auth_rank_inject [symmetric])

end

definition tlsClientAuth :: "string \<Rightarrow> ClientAuthType" where
  "tlsClientAuth mode =
     (let m = ToLower (TrimSpace mode) in
      if m = ''optional'' then VerifyClientCertIfGiven
      else if m = ''none'' then NoClientCert
      else RequireAndVerifyClientCert)"

section \<open>The derived server name\<close>

definition sniTLDs :: "string list" where
  "sniTLDs = [''com'', ''net'', ''org'', ''io'', ''dev'', ''app'']"

definition base64_char :: "char \<Rightarrow> bool" where
  "base64_char c \<longleftrightarrow>
     (CHR ''A'' \<le> c \<and> c \<le> CHR ''Z'') \<or> (CHR ''a'' \<le> c \<and> c \<le> CHR ''z'') \<or>
     (CHR ''0'' \<le> c \<and> c \<le> CHR ''9'') \<or> c = CHR ''+'' \<or> c = CHR ''/'' \<or> c = CHR ''=''"

text \<open>
  One line of \<open>canonBase64\<close>. The code ranges over runes; the kept ones are ASCII and no byte of
  another rune is, so it is a filter of bytes.
\<close>

definition canon_line :: "string \<Rightarrow> string" where
  "canon_line line =
     (let line = TrimSpace line
      in if prefix ''-----'' line then [] else filter base64_char line)"

definition canonBase64 :: "string \<Rightarrow> string" where
  "canonBase64 pemValue = concat (map canon_line (Split pemValue LF))"

text \<open>
  \<open>tl_hkdf ikm info n\<close> is \<open>hkdf.Key\<close> with SHA-256 and no salt; \<open>tl_X509KeyPair\<close> and
  \<open>tl_AppendCertsFromPEM\<close> load the key pair and the pool of client CAs.
\<close>

record ('k, 'pool) tls_lib =
  tl_X509KeyPair :: "string \<Rightarrow> string \<Rightarrow> gerror + 'k"
  tl_AppendCertsFromPEM :: "string \<Rightarrow> 'pool option"
  tl_hkdf :: "string \<Rightarrow> string \<Rightarrow> nat \<Rightarrow> gerror + string"

definition DeriveSNI :: "('k, 'pool) tls_lib \<Rightarrow> NodePayload \<Rightarrow> gerror + string" where
  "DeriveSNI lib payload =
     (let ikm = canonBase64 (np_JWTPublicKey payload) @ canonBase64 (np_CACertPEM payload)
      in case tl_hkdf lib ikm ''rw-v1'' 22 of
           Inl err \<Rightarrow> Inl (Errorf_w ''derive sni'' err)
         | Inr okm \<Rightarrow>
             let host = hex_EncodeToString (take 16 okm);
                 label = hex_EncodeToString (take 5 (drop 16 okm));
                 tld = sniTLDs ! (byte (okm ! 21) mod length sniTLDs)
             in Inr (host @ ''.'' @ label @ ''.'' @ tld))"

section \<open>The configuration\<close>

text \<open>
  \<open>tc_GetConfigForClient\<close> is the callback on the client's server name: the error that ends
  the handshake, or none when it goes on with the configuration itself.
\<close>

definition VersionTLS13 :: nat where "VersionTLS13 = 0x0304"

record ('k, 'pool) tls_config =
  tc_MinVersion :: nat
  tc_Certificates :: "'k list"
  tc_ClientCAs :: 'pool
  tc_ClientAuth :: ClientAuthType
  tc_GetConfigForClient :: "(string \<Rightarrow> gerror option) option"

definition TLSConfigFromSecretWithOptions :: "('k, 'pool) tls_lib \<Rightarrow> NodePayload \<Rightarrow> string \<Rightarrow> bool \<Rightarrow>
    gerror + ('k, 'pool) tls_config" where
  "TLSConfigFromSecretWithOptions lib payload clientAuthMode sniVerification =
     (case tl_X509KeyPair lib (np_NodeCertPEM payload) (np_NodeKeyPEM payload) of
        Inl err \<Rightarrow> Inl (Errorf_w ''load node keypair'' err)
      | Inr cert \<Rightarrow>
     (case tl_AppendCertsFromPEM lib (np_CACertPEM payload) of
        None \<Rightarrow> Inl (NewError ''load client CA'')
      | Some clientCAs \<Rightarrow>
          let tlsConfig = \<lparr>tc_MinVersion = VersionTLS13, tc_Certificates = [cert], tc_ClientCAs = clientCAs,
                           tc_ClientAuth = tlsClientAuth clientAuthMode, tc_GetConfigForClient = None\<rparr>
          in if sniVerification
             then on_ok (DeriveSNI lib payload) (\<lambda>expected.
                    Inr (tlsConfig\<lparr>tc_GetConfigForClient :=
                           Some (\<lambda>serverName. if serverName \<noteq> expected then Some (NewError ''unknown sni'')
                                              else None)\<rparr>))
             else Inr tlsConfig))"

definition TLSConfigFromSecretWithClientAuth :: "('k, 'pool) tls_lib \<Rightarrow> NodePayload \<Rightarrow> string \<Rightarrow>
    gerror + ('k, 'pool) tls_config" where
  "TLSConfigFromSecretWithClientAuth lib payload clientAuthMode =
     TLSConfigFromSecretWithOptions lib payload clientAuthMode False"

definition TLSConfigFromSecret :: "('k, 'pool) tls_lib \<Rightarrow> NodePayload \<Rightarrow>
    gerror + ('k, 'pool) tls_config" where
  "TLSConfigFromSecret lib payload =
     TLSConfigFromSecretWithOptions lib payload DefaultNodeTLSClientAuth False"

text \<open>
  \<open>derivePanelSni\<close> of the registry (\<open>internal/controller/registry.go\<close>): the server name for the
  internal API, empty when there is no key or it cannot be derived.
\<close>

definition derivePanelSni :: "('k, 'pool) tls_lib \<Rightarrow> (string \<Rightarrow> gerror) \<Rightarrow> (string \<Rightarrow> gerror + NodePayload) \<Rightarrow>
    env \<Rightarrow> string" where
  "derivePanelSni lib corrupt parse getenv =
     (let secretKey = TrimSpace (getenv ''SECRET_KEY'')
      in if secretKey = [] then []
         else case DecodeSecretKey corrupt parse secretKey of
                Inl err \<Rightarrow> []
              | Inr payload \<Rightarrow> (case DeriveSNI lib payload of Inl err \<Rightarrow> [] | Inr sni \<Rightarrow> sni))"


section \<open>The canonical form\<close>

text \<open>White space is not kept, and is no dash.\<close>

lemma space_bytes_junk: "c \<in> space_bytes \<Longrightarrow> \<not> base64_char c \<and> c \<noteq> CHR ''-''"
  by (auto simp: space_bytes_def space_runes_def base64_char_def less_eq_char_def)

definition keep_base64 :: "string \<Rightarrow> string" where
  "keep_base64 s = (if prefix ''-----'' s then [] else filter base64_char s)"

lemma filter_junk: "set s \<subseteq> space_bytes \<Longrightarrow> filter base64_char s = []"
  using space_bytes_junk by (auto simp: filter_empty_conv)

lemma prefix_dashes_junk:
  assumes "set s \<subseteq> space_bytes" shows "prefix (replicate n (CHR ''-'')) (y @ s) \<longleftrightarrow> prefix (replicate n (CHR ''-'')) y"
proof (induction n arbitrary: y)
  case (Suc n)
  show ?case
  proof (cases y)
    case Nil
    then show ?thesis using assms space_bytes_junk by (cases s) auto
  qed (simp add: Suc)
qed simp

lemma keep_base64_append: "set s \<subseteq> space_bytes \<Longrightarrow> keep_base64 (y @ s) = keep_base64 y"
  using prefix_dashes_junk [of s 5 y] by (simp add: keep_base64_def filter_junk numeral_eq_Suc)

lemma keep_base64_junk: "set s \<subseteq> space_bytes \<Longrightarrow> keep_base64 s = []"
  using keep_base64_append [of s "[]"] by (simp add: keep_base64_def)

lemma canon_line_strip: "canon_line s = keep_base64 (strip space_runes s)"
proof -
  obtain suf where "strip space_runes s = TrimSpace s @ suf" "set suf \<subseteq> space_bytes"
    using TrimSpace_parts by blast
  then show ?thesis by (simp add: keep_base64_append) (simp add: canon_line_def keep_base64_def)
qed

lemma canon_line_TrimSpace [simp]: "canon_line (TrimSpace s) = canon_line s"
  by (simp add: canon_line_def)

lemma canon_line_Nil [simp]: "canon_line [] = []"
  by (simp add: canon_line_def)

lemma canon_line_left: "r \<in> set space_runes \<Longrightarrow> canon_line (r @ s) = canon_line s"
  by (simp add: canon_line_strip strip_space)

lemma canon_line_right: 
  assumes "c \<in> space_bytes" shows "canon_line (s @ [c]) = canon_line s"
proof -
  define y where "y = strip space_runes s"
  have split: "strip space_runes (s @ [c]) = strip space_runes (y @ [c])"
    unfolding y_def by (rule strip_append)
  show ?thesis
  proof (cases "rune_at space_runes (y @ [c]) = 0")
    case True
    then have "canon_line (s @ [c]) = keep_base64 (y @ [c])"
      by (simp add: canon_line_strip split strip_id)
    then show ?thesis using assms by (simp add: keep_base64_append canon_line_strip y_def)
  next
    case False
    then obtain r t where r: "r \<in> set space_runes" "y @ [c] = r @ t"
      by (cases rule: rune_at_cases [of "y @ [c]"]) auto
    have "rune_at space_runes y = 0" by (simp add: y_def rune_at_strip)
    then have "\<not> prefix r y" using r(1) rune_at_0_iff [OF space_runes_nonempty(1)] by blast
    then have "t = []" using r(2) by (cases t rule: rev_cases) auto
    then have "set (y @ [c]) \<subseteq> space_bytes" using r by (auto simp: space_bytes_def)
    then have "set y \<subseteq> space_bytes" "keep_base64 y = []" "set (strip space_runes (y @ [c])) \<subseteq> space_bytes"
      using keep_base64_junk set_strip_sub [of space_runes "y @ [c]"] by auto
    then show ?thesis by (simp add: canon_line_strip split keep_base64_junk y_def [symmetric])
  qed
qed


lemma canon_append_LF: "canonBase64 (a @ CHR 0x0A # b) = canonBase64 a @ canonBase64 b"
  by (simp add: canonBase64_def LF_def Split_append_sep)

lemma canon_snoc_space:
  assumes "c \<in> space_bytes" shows "canonBase64 (s @ [c]) = canonBase64 s"
proof -
  let ?ls = "Split s [CHR 0x0A]"
  have "canonBase64 s = concat (map canon_line (butlast ?ls @ [last ?ls]))"
    by (simp add: canonBase64_def LF_def)
  also have "\<dots> = concat (map canon_line (butlast ?ls)) @ canon_line (last ?ls)"
    by (simp del: append_butlast_last_id)
  finally have "canonBase64 s = \<dots>" .
  then show ?thesis
    using assms by (cases "c = CHR 0x0A")
      (simp_all add: canonBase64_def LF_def Split_snoc_sep Split_snoc_char canon_line_right)
qed

lemma canon_append_space: "set r \<subseteq> space_bytes \<Longrightarrow> canonBase64 (s @ r) = canonBase64 s"
proof (induction r rule: rev_induct)
  case (snoc c r)
  then show ?case using canon_snoc_space [of c "s @ r"] by simp
qed simp

lemma space_rune_LF: "r \<in> set space_runes \<Longrightarrow> r = [CHR 0x0A] \<or> CHR 0x0A \<notin> set r"
  by (auto simp: space_runes_def)

lemma canon_left_space:
  assumes "r \<in> set space_runes" shows "canonBase64 (r @ s) = canonBase64 s"
proof (cases "r = [CHR 0x0A]")
  case True
  then show ?thesis by (simp add: canonBase64_def LF_def Split_Cons)
next
  case False
  obtain l ls where "Split s LF = l # ls" using Split_nonempty by (metis list.exhaust)
  then show ?thesis
    using assms False space_rune_LF [OF assms]
    by (simp add: canonBase64_def LF_def Split_append_left canon_line_left)
qed

lemma canon_TrimSpace: "canonBase64 (TrimSpace s) = canonBase64 s"
proof -
  obtain suf where "strip space_runes s = TrimSpace s @ suf" "set suf \<subseteq> space_bytes"
    using TrimSpace_parts by blast
  then have "canonBase64 (TrimSpace s) = canonBase64 (strip space_runes s)"
    by (simp add: canon_append_space)
  also have "\<dots> = canonBase64 s"
  proof (induction s rule: strip_induct)
    case (stop s)
    then show ?case by (simp add: strip_id)
  qed (simp add: strip_space canon_left_space)
  finally show ?thesis .
qed

lemma canon_CRLF: "canonBase64 (Join xs [CHR 0x0D, CHR 0x0A]) = canonBase64 (Join xs [CHR 0x0A])"
proof (induction xs rule: induct_list012)
  case (3 x y xs)
  have "canonBase64 (x @ [CHR 0x0D, CHR 0x0A] @ Join (y # xs) [CHR 0x0D, CHR 0x0A]) =
      canonBase64 (x @ [CHR 0x0D]) @ canonBase64 (Join (y # xs) [CHR 0x0D, CHR 0x0A])"
    using canon_append_LF [of "x @ [CHR 0x0D]"] by simp
  also have "canonBase64 (x @ [CHR 0x0D]) = canonBase64 x"
    by (rule canon_snoc_space) (simp add: space_bytes_def space_runes_def)
  finally show ?case using 3 by (simp add: canon_append_LF)
qed simp_all



lemma squeeze_canon: "concat (map canon_line (squeeze ls b)) = concat (map canon_line ls)"
proof (induction ls b rule: squeeze.induct)
  case (2 l ls b)
  have "TrimSpace l = [] \<Longrightarrow> canon_line l = []"
    using canon_line_TrimSpace [of l] by simp
  with 2 show ?case by (simp add: Let_def)
qed simp

lemma squeeze_nonempty: "ls \<noteq> [] \<Longrightarrow> squeeze ls False \<noteq> []"
  by (cases ls) (simp_all add: Let_def)

lemma squeeze_trimmed: "l \<in> set (squeeze ls b) \<Longrightarrow> l = [] \<or> l \<in> TrimSpace ` set ls"
  by (induction ls b rule: squeeze.induct) (auto simp: Let_def split: if_splits)

text \<open>
  Normalising keeps the canonical form; escaped newlines count as newlines.
\<close>

lemma canon_NormalizePEM:
  "canonBase64 (NormalizePEM v) = canonBase64 (ReplaceAll v [CHR 0x5C, CHR ''n''] LF)"
proof -
  let ?v = "ReplaceAll v [CHR 0x5C, CHR ''n''] LF"
  let ?w = "TrimSpace (ReplaceAll ?v [CHR 0x0D, CHR 0x0A] LF)"
  let ?ls = "squeeze (Split ?w LF) False"
  have "CHR 0x0A \<notin> set l" if l: "l \<in> set ?ls" for l
  proof -
    have "CHR 0x0A \<notin> set (TrimSpace k)" if "k \<in> set (Split ?w LF)" for k
      using Split_char [of k ?w "CHR 0x0A"] that set_TrimSpace [of k] by (auto simp: LF_def)
    then show ?thesis using squeeze_trimmed [OF l] by auto
  qed
  then have "Split (Join ?ls LF) LF = ?ls"
    unfolding LF_def by (intro Split_Join_char) (simp_all add: squeeze_nonempty)
  then have "canonBase64 (Join ?ls LF) = canonBase64 ?w"
    by (simp add: canonBase64_def squeeze_canon)
  also have "\<dots> = canonBase64 (Join (Split ?v [CHR 0x0D, CHR 0x0A]) [CHR 0x0D, CHR 0x0A])"
    by (simp only: canon_TrimSpace ReplaceAll_def LF_def canon_CRLF)
  also have "\<dots> = canonBase64 ?v"
    by (simp only: Join_Split)
  finally show ?thesis
    by (simp add: NormalizePEM_def Let_def canon_TrimSpace)
qed


section \<open>Properties\<close>

lemma hex_length: "length (hex_EncodeToString s) = 2 * length s"
  by (induction s) (simp_all add: hex_EncodeToString_def)

lemma hex_digits: "set (hex_EncodeToString s) \<subseteq> set ''0123456789abcdef''"
proof -
  have digit: "n < 16 \<Longrightarrow> digit_char n \<in> set ''0123456789abcdef''" for n
  proof -
    assume "n < 16"
    then have "n \<in> {0, 1, 2, 3, 4, 5, 6, 7, 8, 9, 10, 11, 12, 13, 14, 15}" by simp presburger
    then show ?thesis by (elim insertE) (simp_all add: digit_char_def char_of_def bit_0)
  qed
  have "byte c < 256" for c by (rule nat_of_char_less_256)
  then have div: "byte c div 16 < 16" for c by (simp add: less_mult_imp_div_less)
  have "set [digit_char (byte c div 16), digit_char (byte c mod 16)] \<subseteq> set ''0123456789abcdef''" for c
    using digit [OF div [of c]] digit [of "byte c mod 16"] by simp
  then show ?thesis unfolding hex_EncodeToString_def set_concat set_map by blast
qed

text \<open>
  The derived server name is a host name of the documented shape for every key: 32 and then 10
  lowercase hexadecimal digits, and one of the six top-level domains, given that HKDF returns as
  many bytes as it is asked for.
\<close>

theorem DeriveSNI_shape:
  assumes "\<And>ikm info n okm. tl_hkdf lib ikm info n = Inr okm \<Longrightarrow> length okm = n"
    and "DeriveSNI lib payload = Inr sni"
  shows "\<exists>host label tld. sni = host @ ''.'' @ label @ ''.'' @ tld \<and>
    length host = 32 \<and> length label = 10 \<and> tld \<in> set sniTLDs \<and>
    set (host @ label) \<subseteq> set ''0123456789abcdef''"
proof -
  from assms(2) obtain okm where okm: "length okm = 22"
    and sni: "sni = hex_EncodeToString (take 16 okm) @ ''.'' @ hex_EncodeToString (take 5 (drop 16 okm)) @
      ''.'' @ sniTLDs ! (byte (okm ! 21) mod length sniTLDs)"
    by (auto simp: DeriveSNI_def Let_def split: sum.splits dest: assms(1))
  have "sniTLDs ! (byte (okm ! 21) mod length sniTLDs) \<in> set sniTLDs"
    by (rule nth_mem) (simp add: sniTLDs_def)
  with okm sni show ?thesis
    using hex_digits [of "take 16 okm"] hex_digits [of "take 5 (drop 16 okm)"]
    by (intro exI conjI) (assumption, simp_all add: hex_length)
qed

text \<open>
  The TLS configuration that a secret gives: TLS 1.3 at least, the node's key pair, client
  certificates asked for as the mode says, and with server name verification the handshake goes on
  exactly for clients that name the derived server.
\<close>

theorem TLS_config_from_secret:
  "case TLSConfigFromSecretWithOptions lib payload mode sniVerification of
     Inl err \<Rightarrow> tl_X509KeyPair lib (np_NodeCertPEM payload) (np_NodeKeyPEM payload) \<in> range Inl \<or>
       tl_AppendCertsFromPEM lib (np_CACertPEM payload) = None \<or>
       sniVerification \<and> DeriveSNI lib payload = Inl err
   | Inr c \<Rightarrow> tc_MinVersion c = VersionTLS13 \<and> tc_ClientAuth c = tlsClientAuth mode \<and>
       map Inr (tc_Certificates c) = [tl_X509KeyPair lib (np_NodeCertPEM payload) (np_NodeKeyPEM payload)] \<and>
       Some (tc_ClientCAs c) = tl_AppendCertsFromPEM lib (np_CACertPEM payload) \<and>
       (case tc_GetConfigForClient c of
          None \<Rightarrow> \<not> sniVerification
        | Some gate \<Rightarrow> sniVerification \<and>
            (\<forall>serverName. gate serverName = None \<longleftrightarrow> DeriveSNI lib payload = Inr serverName))"
  by (auto simp: TLSConfigFromSecretWithOptions_def on_ok_def Let_def split: sum.splits option.splits)

text \<open>\<open>w\<close> is \<open>v\<close> with some of its newlines, or all or none, written as a backslash and an n.\<close>

inductive newlines_escaped :: "string \<Rightarrow> string \<Rightarrow> bool" where
  empty: "newlines_escaped [] []"
| kept: "newlines_escaped v w \<Longrightarrow> newlines_escaped (c # v) (c # w)"
| escaped: "newlines_escaped v w \<Longrightarrow> newlines_escaped (CHR 0x0A # v) (CHR 0x5C # CHR ''n'' # w)"

lemma newlines_escaped_refl: "newlines_escaped v v"
  by (induction v) (auto intro: newlines_escaped.intros)

lemma unescape_aux:
  "newlines_escaped v w \<Longrightarrow> CHR 0x5C \<notin> set v \<Longrightarrow>
     Join (Split_aux [CHR 0x5C, CHR ''n''] acc w) LF = rev acc @ v"
proof (induction v w arbitrary: acc rule: newlines_escaped.induct)
  case empty
  then show ?case by (simp add: Split_aux.simps)
next
  case (kept v w c)
  have "Split_aux [CHR 0x5C, CHR ''n''] acc (c # w) = Split_aux [CHR 0x5C, CHR ''n''] (c # acc) w"
    using kept(3) by (subst Split_aux.simps) simp
  with kept show ?case by simp
next
  case (escaped v w)
  have "Split_aux [CHR 0x5C, CHR ''n''] acc (CHR 0x5C # CHR ''n'' # w) =
      rev acc # Split_aux [CHR 0x5C, CHR ''n''] [] w"
    by (subst Split_aux.simps) simp
  with escaped show ?case by (simp add: Join_Cons LF_def)
qed

lemma unescape: "newlines_escaped v w \<Longrightarrow> CHR 0x5C \<notin> set v \<Longrightarrow> ReplaceAll w [CHR 0x5C, CHR ''n''] LF = v"
  using unescape_aux [of v w "[]"] by (simp add: ReplaceAll_def Split_def)

text \<open>
  C25. The node derives the server name of the PEM texts that the Panel has, whatever form they have in
  the secret key: if the Panel's key and CA certificate contain no backslash, as PEM texts do not, and the payload of
  the secret key holds them as they are or with newlines escaped, in all places or in some, then the name that
  the node derives from the decoded secret is the one derived from the Panel's texts.
\<close>

theorem DeriveSNI_normalized:
  assumes "CHR 0x5C \<notin> set (np_JWTPublicKey panel)" "CHR 0x5C \<notin> set (np_CACertPEM panel)"
    and "newlines_escaped (np_JWTPublicKey panel) (np_JWTPublicKey sent)"
      "newlines_escaped (np_CACertPEM panel) (np_CACertPEM sent)"
    and "DecodeString (TrimSpace secret) = Some raw" "parse raw = Inr sent"
    and "DecodeSecretKey corrupt parse secret = Inr payload"
  shows "DeriveSNI lib payload = DeriveSNI lib panel"
proof -
  have "np_JWTPublicKey payload = NormalizePEM (np_JWTPublicKey sent)"
    "np_CACertPEM payload = NormalizePEM (np_CACertPEM sent)"
    using assms(5-7) by (auto simp: DecodeSecretKey_def Let_def split: if_splits)
  then show ?thesis
    using unescape [OF assms(3,1)] unescape [OF assms(4,2)] by (simp add: DeriveSNI_def canon_NormalizePEM)
qed

text \<open>It is the normalisation that makes it so: a text with escaped newlines has no other canonical lines.\<close>

lemma escaped_not_canonical:
  "canonBase64 (''-----BEGIN KEY-----'' @ [CHR 0x5C] @ ''nabcd'' @ [CHR 0x5C] @ ''n-----END KEY-----'') = [] \<and>
   canonBase64 (''-----BEGIN KEY-----'' @ LF @ ''abcd'' @ LF @ ''-----END KEY-----'') = ''abcd''"
  by code_simp

text \<open>Only two modes relax client authentication.\<close>

lemma tlsClientAuth_strict:
  "tlsClientAuth mode < RequireAndVerifyClientCert \<longleftrightarrow>
     ToLower (TrimSpace mode) \<in> {''optional'', ''none''}"
  by (simp add: tlsClientAuth_def Let_def less_ClientAuthType_def)


definition example_tls_lib :: "(string, string) tls_lib" where
  "example_tls_lib = \<lparr>tl_X509KeyPair = (\<lambda>c k. Inr c), tl_AppendCertsFromPEM = Some,
     tl_hkdf = (\<lambda>ikm info n. Inr (replicate n (CHR ''z'')))\<rparr>"

definition example_payload :: NodePayload where
  "example_payload = \<lparr>np_CACertPEM = ''YQ'', np_JWTPublicKey = ''Yg'', np_NodeCertPEM = ''Yw'',
     np_NodeKeyPEM = ''ZA''\<rparr>"

theorem DeriveSNI_shape_witness:
  "\<exists>sni host label tld. DeriveSNI example_tls_lib example_payload = Inr sni \<and>
     sni = host @ ''.'' @ label @ ''.'' @ tld \<and> length host = 32 \<and> length label = 10 \<and> tld \<in> set sniTLDs"
proof -
  have ok: "length okm = n" if "tl_hkdf example_tls_lib ikm info n = Inr okm" for ikm info n okm
    using that by (auto simp: example_tls_lib_def)
  obtain sni where sni: "DeriveSNI example_tls_lib example_payload = Inr sni"
    by (simp add: DeriveSNI_def Let_def example_tls_lib_def)
  then show ?thesis
    using DeriveSNI_shape [of example_tls_lib example_payload sni] ok by blast
qed

text \<open>The two texts of a payload that was sent with one of them escaped.\<close>

definition escaped_payload :: NodePayload where
  "escaped_payload = example_payload\<lparr>np_JWTPublicKey := ''K'' @ LF @ ''Yg'', np_CACertPEM := ''YQ''\<rparr>"

theorem DeriveSNI_normalized_witness:
  "\<exists>payload. DecodeSecretKey (\<lambda>_. NewError ''corrupt'')
       (\<lambda>_. Inr (escaped_payload\<lparr>np_JWTPublicKey := ''K'' @ [CHR 0x5C, CHR ''n''] @ ''Yg''\<rparr>)) [] = Inr payload \<and>
     DeriveSNI example_tls_lib payload = DeriveSNI example_tls_lib escaped_payload"
proof -
  let ?sent = "escaped_payload\<lparr>np_JWTPublicKey := ''K'' @ [CHR 0x5C, CHR ''n''] @ ''Yg''\<rparr>"
  have raw: "DecodeString (TrimSpace []) = Some []" by code_simp
  have "NormalizePEM (''K'' @ [CHR 0x5C, CHR ''n''] @ ''Yg'') \<noteq> []" "NormalizePEM ''YQ'' \<noteq> []"
    "NormalizePEM ''Yw'' \<noteq> []" "NormalizePEM ''ZA'' \<noteq> []"
    by code_simp+
  then obtain payload where payload:
    "DecodeSecretKey (\<lambda>_. NewError ''corrupt'') (\<lambda>_. Inr ?sent) [] = Inr payload"
    using raw by (simp add: DecodeSecretKey_def Let_def escaped_payload_def example_payload_def)
  moreover have "newlines_escaped (np_JWTPublicKey escaped_payload) (np_JWTPublicKey ?sent)"
    by (simp add: escaped_payload_def LF_def newlines_escaped.intros newlines_escaped_refl)
  moreover have "newlines_escaped (np_CACertPEM escaped_payload) (np_CACertPEM ?sent)"
    by (simp add: newlines_escaped_refl)
  ultimately show ?thesis
    using DeriveSNI_normalized [of escaped_payload ?sent "[]" "[]" "\<lambda>_. Inr ?sent", OF _ _ _ _ raw refl payload]
    by (auto simp: escaped_payload_def example_payload_def LF_def)
qed

end
