(* ===== verification/HttpServer.thy ===== *)
theory HttpServer
  imports Http Tls
begin

text \<open>
  The HTTP side of the node (\<open>internal/httpapi\<close>): the middlewares (\<open>jwt.go\<close>, \<open>zstd.go\<close>,
  \<open>middleware.go\<close>), the route tables (\<open>router.go\<close>) and the set-up of the two servers (\<open>server.go\<close>).
  gin's matching of routes, the JWT library and the zstd decoder are parameters.
\<close>

section \<open>Requests\<close>

text \<open>
  What the middlewares read of a request. \<open>hq_LocalAddr\<close> is the port and the loopback test of
  the local TCP address; \<open>hq_Hijack\<close> says whether the connection can be taken over;
  \<open>hq_BodyLimit\<close> is the limit of the \<open>http.MaxBytesReader\<close> around the body, if there is one. A
  request that a server passes on has a body, which may be empty.
\<close>

record http_request =
  hq_Method :: string
  hq_Path :: string
  hq_Authorization :: string
  hq_ContentEncoding :: string
  hq_Body :: string
  hq_BodyLimit :: "64 word option"
  hq_LocalAddr :: "(int \<times> bool) option"
  hq_Hijack :: bool

type_synonym ('r, 'n) handler = "http_request \<Rightarrow> 'n \<Rightarrow> 'r response \<times> 'n"

definition StatusText :: "nat \<Rightarrow> string" where
  "StatusText code =
     (if code = StatusUnauthorized then ''Unauthorized''
      else if code = StatusNotFound then ''Not Found''
      else if code = StatusRequestEntityTooLarge then ''Request Entity Too Large''
      else [])"

definition closeRequestConnection :: "http_request \<Rightarrow> nat \<Rightarrow> 'r response" where
  "closeRequestConnection req fallbackStatus =
     (if \<not> hq_Hijack req then HttpError fallbackStatus (StatusText fallbackStatus)
      else ConnectionClosed)"

section \<open>JWT (jwt.go)\<close>

definition bearerToken :: "string \<Rightarrow> string option" where
  "bearerToken header =
     (case Fields header of
        [scheme, token] \<Rightarrow> if \<not> EqualFold scheme ''Bearer'' \<or> token = [] then None else Some token
      | _ \<Rightarrow> None)"

text \<open>
  A parsed token: whether its method is of the RSA family, the name of the method, the \<open>alg\<close>
  header, and whether it was found valid. \<open>jw_Parse\<close> is \<open>jwt.Parse\<close> with a key function.
\<close>

record jwt_token =
  jt_IsRSA :: bool
  jt_Alg :: string
  jt_HeaderAlg :: string
  jt_Valid :: bool

record 'p jwt_lib =
  jw_Parse :: "string \<Rightarrow> (jwt_token \<Rightarrow> gerror + 'p) \<Rightarrow> gerror option \<times> jwt_token option"
  jw_ParseRSAPublicKeyFromPEM :: "string \<Rightarrow> gerror + 'p"

definition jwt_key :: "'p \<Rightarrow> jwt_token \<Rightarrow> gerror + 'p" where
  "jwt_key publicKey token =
     (if \<not> jt_IsRSA token \<or> jt_Alg token \<noteq> ''RS256''
      then Inl (NewError (''unexpected signing method: '' @ jt_HeaderAlg token))
      else Inr publicKey)"

definition JWTMiddlewareWithExemptPaths :: "'p jwt_lib \<Rightarrow> 'p \<Rightarrow> string fset \<Rightarrow> ('r, 'n) handler \<Rightarrow>
    ('r, 'n) handler" where
  "JWTMiddlewareWithExemptPaths lib publicKey exemptPaths next req n =
     (if hq_Path req |\<in>| exemptPaths then next req n
      else case bearerToken (hq_Authorization req) of
        None \<Rightarrow> (closeRequestConnection req StatusUnauthorized, n)
      | Some tokenValue \<Rightarrow>
     (case jw_Parse lib tokenValue (jwt_key publicKey) of
        (None, Some token) \<Rightarrow>
          if \<not> jt_Valid token then (closeRequestConnection req StatusUnauthorized, n) else next req n
      | _ \<Rightarrow> (closeRequestConnection req StatusUnauthorized, n)))"

definition JWTMiddleware :: "'p jwt_lib \<Rightarrow> 'p \<Rightarrow> ('r, 'n) handler \<Rightarrow> ('r, 'n) handler" where
  "JWTMiddleware lib publicKey = JWTMiddlewareWithExemptPaths lib publicKey {||}"

definition ParseJWTPublicKey :: "'p jwt_lib \<Rightarrow> string \<Rightarrow> gerror + 'p" where
  "ParseJWTPublicKey lib pemValue =
     (case jw_ParseRSAPublicKeyFromPEM lib pemValue of
        Inl err \<Rightarrow> Inl (Errorf_w ''parse jwt public key'' err)
      | Inr key \<Rightarrow> Inr key)"

section \<open>Compressed bodies (zstd.go)\<close>

text \<open>
  \<open>zs_decode\<close> is what the decoder yields for a body before its end or its error.
  \<open>LimitReader\<close> stops after \<open>limit\<close> bytes without an error.
\<close>

record zstd_lib =
  zs_NewReader :: "string \<Rightarrow> gerror option"
  zs_decode :: "string \<Rightarrow> string \<times> gerror option"

definition LimitReader :: "64 word \<Rightarrow> string \<times> gerror option \<Rightarrow> string \<times> gerror option" where
  "LimitReader limit source =
     (if limit \<le>s 0 then ([], None)
      else if int (length (fst source)) < sint limit then source
      else (take (nat (sint limit)) (fst source), None))"

definition ZstdMiddlewareWithLimit :: "zstd_lib \<Rightarrow> ('r, 'n) handler \<Rightarrow> 64 word \<Rightarrow> ('r, 'n) handler" where
  "ZstdMiddlewareWithLimit lib next limit req n =
     (if EqualFold (hq_ContentEncoding req) ''zstd'' then
        (case zs_NewReader lib (hq_Body req) of
           Some err \<Rightarrow> (HttpError StatusBadRequest (''decode zstd body: '' @ Error_msg err), n)
         | None \<Rightarrow>
        (case (if 0 <s limit then LimitReader (limit + 1) (zs_decode lib (hq_Body req))
               else zs_decode lib (hq_Body req)) of
           (_, Some err) \<Rightarrow> (HttpError StatusBadRequest (''decode zstd body: '' @ Error_msg err), n)
         | (body, None) \<Rightarrow>
             if 0 <s limit \<and> limit <s word_of_nat (length body)
             then (HttpError StatusRequestEntityTooLarge (StatusText StatusRequestEntityTooLarge), n)
             else next (req\<lparr>hq_Body := body, hq_ContentEncoding := []\<rparr>) n))
      else next req n)"

definition ZstdMiddleware :: "zstd_lib \<Rightarrow> ('r, 'n) handler \<Rightarrow> ('r, 'n) handler" where
  "ZstdMiddleware lib next = ZstdMiddlewareWithLimit lib next 0"

section \<open>gin middlewares (middleware.go)\<close>

definition ginBodyLimit :: "64 word \<Rightarrow> http_request \<Rightarrow> http_request" where
  "ginBodyLimit limit req = (if 0 <s limit then req\<lparr>hq_BodyLimit := Some limit\<rparr> else req)"

text \<open>Reading a limited body to its end.\<close>

definition read_body :: "http_request \<Rightarrow> gerror + string" where
  "read_body req =
     (case hq_BodyLimit req of
        None \<Rightarrow> Inr (hq_Body req)
      | Some limit \<Rightarrow>
          if sint limit < int (length (hq_Body req)) then Inl (NewError ''http: request body too large'')
          else Inr (hq_Body req))"

text \<open>
  A gin handler may panic before it wrote an answer: it then gives \<open>None\<close>, and the recovery
  answers with the body \<open>internal_error\<close>.
\<close>

type_synonym ('r, 'n) gin_handler = "http_request \<Rightarrow> 'n \<Rightarrow> 'r response option \<times> 'n"

definition ginInternalPortGuard :: "int \<Rightarrow> ('r, 'n) gin_handler \<Rightarrow> ('r, 'n) gin_handler" where
  "ginInternalPortGuard expectedPort next req n =
     (case hq_LocalAddr req of
        Some (port, loopback) \<Rightarrow>
          if port \<noteq> expectedPort \<or> \<not> loopback then (Some (closeRequestConnection req StatusNotFound), n)
          else next req n
      | None \<Rightarrow> (Some (closeRequestConnection req StatusNotFound), n))"

definition ginRecovery :: "'r \<Rightarrow> ('r, 'n) gin_handler \<Rightarrow> ('r, 'n) handler" where
  "ginRecovery internal_error next req n =
     (case next req n of
        (Some response, n) \<Rightarrow> (response, n)
      | (None, n) \<Rightarrow> (Envelope StatusInternalServerError internal_error, n))"

section \<open>Routes (router.go)\<close>

datatype endpoint =
    Xray_Start | Xray_Stop | Xray_Healthcheck
  | Handler_AddUser | Handler_AddUsers | Handler_RemoveUser | Handler_RemoveUsers
  | Handler_DropUsersConnections | Handler_DropIPs
  | Stats_GetSystemStats | Stats_GetUsersStats | Stats_GetUserOnlineStatus | Stats_GetUserIPList
  | Stats_GetUsersIPList | Stats_GetInboundStats | Stats_GetOutboundStats
  | Stats_GetAllInboundsStats | Stats_GetAllOutboundsStats | Stats_GetCombinedStats | Stats_GetGeocheck
  | Plugin_Sync | Plugin_CollectTorrentBlockerReports | Plugin_BlockIPs | Plugin_UnblockIPs
  | Plugin_RecreateTables
  | Internal_GetConfig

definition POST :: string where "POST = ''POST''"
definition GET :: string where "GET = ''GET''"

definition registerRoutes :: "((string \<times> string) \<times> endpoint) list" where
  "registerRoutes =
     [((POST, ''/node/xray/start''), Xray_Start),
      ((GET, ''/node/xray/stop''), Xray_Stop),
      ((GET, ''/node/xray/healthcheck''), Xray_Healthcheck),
      ((POST, ''/node/handler/add-user''), Handler_AddUser),
      ((POST, ''/node/handler/add-users''), Handler_AddUsers),
      ((POST, ''/node/handler/remove-user''), Handler_RemoveUser),
      ((POST, ''/node/handler/remove-users''), Handler_RemoveUsers),
      ((POST, ''/node/handler/drop-users-connections''), Handler_DropUsersConnections),
      ((POST, ''/node/handler/drop-ips''), Handler_DropIPs),
      ((GET, ''/node/stats/get-system-stats''), Stats_GetSystemStats),
      ((POST, ''/node/stats/get-users-stats''), Stats_GetUsersStats),
      ((POST, ''/node/stats/get-user-online-status''), Stats_GetUserOnlineStatus),
      ((POST, ''/node/stats/get-user-ip-list''), Stats_GetUserIPList),
      ((GET, ''/node/stats/get-users-ip-list''), Stats_GetUsersIPList),
      ((POST, ''/node/stats/get-inbound-stats''), Stats_GetInboundStats),
      ((POST, ''/node/stats/get-outbound-stats''), Stats_GetOutboundStats),
      ((POST, ''/node/stats/get-all-inbounds-stats''), Stats_GetAllInboundsStats),
      ((POST, ''/node/stats/get-all-outbounds-stats''), Stats_GetAllOutboundsStats),
      ((POST, ''/node/stats/get-combined-stats''), Stats_GetCombinedStats),
      ((POST, ''/node/stats/get-geocheck''), Stats_GetGeocheck),
      ((POST, ''/node/plugin/sync''), Plugin_Sync),
      ((POST, ''/node/plugin/torrent-blocker/collect''), Plugin_CollectTorrentBlockerReports),
      ((POST, ''/node/plugin/nftables/block-ips''), Plugin_BlockIPs),
      ((POST, ''/node/plugin/nftables/unblock-ips''), Plugin_UnblockIPs),
      ((POST, ''/node/plugin/nftables/recreate-tables''), Plugin_RecreateTables)]"

definition registerInternalRoutes :: "((string \<times> string) \<times> endpoint) list" where
  "registerInternalRoutes = [((GET, ''/internal/get-config''), Internal_GetConfig)]"

text \<open>
  gin's matching on a table of static routes: the endpoint, a redirect to a registered path (with
  or without the trailing slash), or no route.
\<close>

datatype gin_match = Matched endpoint | RedirectTo nat string | NoRoute

type_synonym gin_engine = "((string \<times> string) \<times> endpoint) list \<Rightarrow> string \<Rightarrow> string \<Rightarrow> gin_match"

type_synonym ('r, 'n) Handlers = "endpoint \<Rightarrow> ('r, 'n) gin_handler"

text \<open>
  What gin does with a request: the middlewares run before the handler of a route and before the
  \<open>NoRoute\<close> handler, but not before a redirect.
\<close>

definition gin_serve :: "gin_engine \<Rightarrow> ((string \<times> string) \<times> endpoint) list \<Rightarrow>
    (('r, 'n) gin_handler \<Rightarrow> ('r, 'n) handler) \<Rightarrow> ('r, 'n) Handlers \<Rightarrow> ('r, 'n) handler" where
  "gin_serve gin routes middleware handlers req n =
     (case gin routes (hq_Method req) (hq_Path req) of
        Matched e \<Rightarrow> middleware (handlers e) req n
      | RedirectTo status path \<Rightarrow> (Redirected status path, n)
      | NoRoute \<Rightarrow> middleware (\<lambda>req n. (Some (closeRequestConnection req StatusNotFound), n)) req n)"

definition NewRouter :: "gin_engine \<Rightarrow> 'r \<Rightarrow> Config \<Rightarrow> ('r, 'n) Handlers \<Rightarrow> ('r, 'n) handler" where
  "NewRouter gin internal_error cfg =
     gin_serve gin registerRoutes
       (\<lambda>next req. ginRecovery internal_error next
          (ginBodyLimit (word_of_int (cfg_RequestBodyLimitBytes cfg)) req))"

definition NewInternalRouter :: "gin_engine \<Rightarrow> 'r \<Rightarrow> Config \<Rightarrow> ('r, 'n) Handlers \<Rightarrow> ('r, 'n) handler" where
  "NewInternalRouter gin internal_error cfg =
     gin_serve gin registerInternalRoutes
       (\<lambda>next req. ginRecovery internal_error
          (ginInternalPortGuard (cfg_InternalRESTPort cfg) next)
          (ginBodyLimit (word_of_int (cfg_RequestBodyLimitBytes cfg)) req))"

section \<open>The server (server.go)\<close>

text \<open>
  \<open>sv_PublicKey\<close> is the key of the JWT middleware around the main handler, if there is one; the
  two addresses and the TLS configuration are those of the \<open>http.Server\<close>s. Timeouts are not modelled.
\<close>

record ('k, 'pool, 'p) Server =
  sv_Addr :: string
  sv_TLSConfig :: "('k, 'pool) tls_config option"
  sv_PublicKey :: "'p option"
  sv_InternalAddr :: string
  sv_useTLS :: bool

text \<open>The libraries that the set-up uses, with the decoding of the secret key.\<close>

record ('c, 'p, 'k, 'pool) server_libs =
  sl_x509 :: "('c, 'p) x509_lib"
  sl_tls :: "('k, 'pool) tls_lib"
  sl_jwt :: "'p jwt_lib"
  sl_corrupt :: "string \<Rightarrow> gerror"
  sl_parse :: "string \<Rightarrow> gerror + NodePayload"

definition NewServer :: "('c, 'p, 'k, 'pool) server_libs \<Rightarrow> int \<Rightarrow> Config \<Rightarrow>
    gerror + ('k, 'pool, 'p) Server" where
  "NewServer lib now cfg =
     (let server = \<lparr>sv_Addr = ListenAddress cfg, sv_TLSConfig = None, sv_PublicKey = None,
                    sv_InternalAddr = InternalListenAddress cfg, sv_useTLS = cfg_SecretKey cfg \<noteq> []\<rparr>
      in if cfg_SecretKey cfg \<noteq> [] then
           on_ok (DecodeSecretKey (sl_corrupt lib) (sl_parse lib) (cfg_SecretKey cfg)) (\<lambda>payload.
           case ValidateNodePayload (sl_x509 lib) now payload of
             (checks, Some err) \<Rightarrow> Inl err
           | (checks, None) \<Rightarrow>
           on_ok (TLSConfigFromSecretWithOptions (sl_tls lib) payload (TLSClientAuthMode cfg)
                    (cfg_SNIVerification cfg)) (\<lambda>tlsConfig.
           on_ok (ParseJWTPublicKey (sl_jwt lib) (np_JWTPublicKey payload)) (\<lambda>publicKey.
             Inr (server\<lparr>sv_TLSConfig := Some tlsConfig, sv_PublicKey := Some publicKey\<rparr>))))
         else Inr server)"

text \<open>The handler of the main server.\<close>

definition main_handler :: "gin_engine \<Rightarrow> zstd_lib \<Rightarrow> 'p jwt_lib \<Rightarrow> 'r \<Rightarrow> Config \<Rightarrow>
    ('k, 'pool, 'p) Server \<Rightarrow> ('r, 'n) Handlers \<Rightarrow> ('r, 'n) handler" where
  "main_handler gin zs jw internal_error cfg server handlers =
     (let handler = ZstdMiddlewareWithLimit zs (NewRouter gin internal_error cfg handlers)
                      (word_of_int (cfg_RequestBodyLimitBytes cfg))
      in case sv_PublicKey server of
           None \<Rightarrow> handler
         | Some publicKey \<Rightarrow> JWTMiddleware jw publicKey handler)"

text \<open>The rows that \<open>logPayloadChecks\<close> prints.\<close>

definition payload_check_row :: "PayloadCheck \<Rightarrow> string \<times> string" where
  "payload_check_row check =
     (pc_Name check, (if pc_OK check then ''ok'' else ''failed'') @ '' '' @ pc_Detail check)"

section \<open>Listening and shutting down\<close>

text \<open>
  The sockets and the two \<open>http.Server\<close>s over a world: a listener is a handle, and the server
  \<open>True\<close> is the internal one. \<open>nt_serve\<close> starts a goroutine per listener that serves it, and
  \<open>nt_receive\<close> waits until the next of them has returned.
\<close>

record 'w net_os =
  nt_Listen :: "string \<Rightarrow> 'w \<Rightarrow> (gerror + nat) \<times> 'w"
  nt_Close :: "nat \<Rightarrow> 'w \<Rightarrow> 'w"
  nt_serve :: "(bool \<times> nat \<times> bool) list \<Rightarrow> 'w \<Rightarrow> 'w"
  nt_receive :: "'w \<Rightarrow> (bool \<times> gerror option) \<times> 'w"
  nt_CloseServer :: "bool \<Rightarrow> 'w \<Rightarrow> gerror option \<times> 'w"
  nt_Shutdown :: "bool \<Rightarrow> 'w \<Rightarrow> gerror option \<times> 'w"

definition ErrServerClosed :: gerror where
  "ErrServerClosed = NewError ''http: Server closed''"

definition server_name :: "bool \<Rightarrow> string" where
  "server_name internal = (if internal then ''internal server'' else ''main server'')"

definition closeListeners :: "'w net_os \<Rightarrow> nat list \<Rightarrow> 'w \<Rightarrow> 'w" where
  "closeListeners os listeners w = fold (nt_Close os) listeners w"

text \<open>The two listeners with their servers and whether they serve TLS, or the first error.\<close>

definition open_listeners :: "'w net_os \<Rightarrow> ('k, 'pool, 'p) Server \<Rightarrow> 'w \<Rightarrow>
    (gerror + (bool \<times> nat \<times> bool) list) \<times> 'w" where
  "open_listeners os server w =
     (case nt_Listen os (sv_InternalAddr server) w of
        (Inl err, w) \<Rightarrow> (Inl (Errorf_w ''internal server'' err), w)
      | (Inr internalListener, w) \<Rightarrow>
          if sv_useTLS server \<and> sv_TLSConfig server = None then
            (Inl (NewError ''TLS enabled without TLS config''), closeListeners os [internalListener] w)
          else case nt_Listen os (sv_Addr server) w of
                 (Inl err, w) \<Rightarrow>
                   (Inl (Errorf_w ''main server'' err), closeListeners os [internalListener] w)
               | (Inr mainListener, w) \<Rightarrow>
                   (Inr [(True, internalListener, False), (False, mainListener, sv_useTLS server)], w))"

text \<open>\<open>errors.Join\<close>: the messages on lines of their own.\<close>

definition errors_Join :: "gerror list \<Rightarrow> gerror option" where
  "errors_Join errs = (if errs = [] then None else Some (NewError (Join (map Error_msg errs) LF)))"

text \<open>An operation on both servers in turn, whose errors are joined.\<close>

definition both_servers :: "(bool \<Rightarrow> 'w \<Rightarrow> gerror option \<times> 'w) \<Rightarrow> 'w \<Rightarrow> gerror option \<times> 'w" where
  "both_servers f w =
     (case f True w of (e1, w) \<Rightarrow>
     (case f False w of (e2, w) \<Rightarrow>
        (errors_Join
           ((case e1 of None \<Rightarrow> [] | Some err \<Rightarrow> [Errorf_w ''internal server'' err]) @
            (case e2 of None \<Rightarrow> [] | Some err \<Rightarrow> [Errorf_w ''main server'' err])), w)))"

definition server_close :: "'w net_os \<Rightarrow> 'w \<Rightarrow> gerror option \<times> 'w" where
  "server_close os = both_servers (nt_CloseServer os)"

definition server_Shutdown :: "'w net_os \<Rightarrow> 'w \<Rightarrow> gerror option \<times> 'w" where
  "server_Shutdown os = both_servers (nt_Shutdown os)"

text \<open>What a serving goroutine sends: nothing for a server that was closed.\<close>

definition serve_error :: "bool \<times> gerror option \<Rightarrow> gerror option" where
  "serve_error r =
     (case r of
        (internal, Some err) \<Rightarrow>
          if errors_Is err ErrServerClosed then None else Some (Errorf_w (server_name internal) err)
      | (internal, None) \<Rightarrow> None)"

text \<open>The receiving loop, once per server: the first error closes both servers.\<close>

fun wait_servers :: "'w net_os \<Rightarrow> nat \<Rightarrow> gerror option \<Rightarrow> 'w \<Rightarrow> gerror option \<times> 'w" where
  "wait_servers os 0 firstErr w = (firstErr, w)"
| "wait_servers os (Suc n) firstErr w =
     (case nt_receive os w of
        (r, w) \<Rightarrow>
          let err = serve_error r
          in if err \<noteq> None \<and> firstErr = None then wait_servers os n err (snd (server_close os w))
             else wait_servers os n firstErr w)"

definition ListenAndServe :: "'w net_os \<Rightarrow> ('k, 'pool, 'p) Server \<Rightarrow> 'w \<Rightarrow> gerror option \<times> 'w" where
  "ListenAndServe os server w =
     (case open_listeners os server w of
        (Inl err, w) \<Rightarrow> (Some err, w)
      | (Inr entries, w) \<Rightarrow> wait_servers os (length entries) None (nt_serve os entries w))"

section \<open>Lemmas\<close>

text \<open>Signed 64-bit lengths and limits.\<close>

lemma sint_word_of_nat: "n < 2 ^ 63 \<Longrightarrow> sint (word_of_nat n :: 64 word) = int n"
  by (simp add: signed_of_nat signed_take_bit_int_eq_self)

definition max_int64 :: "64 word" where "max_int64 = 0x7FFFFFFFFFFFFFFF"

lemma sint_max_int64 [simp]: "sint max_int64 = 2 ^ 63 - 1"
  by (simp add: max_int64_def)

lemma sint_plus_one:
  fixes limit :: "64 word"
  assumes "0 <s limit" "limit \<noteq> max_int64"
  shows "sint (limit + 1) = sint limit + 1"
proof -
  have pos: "0 < sint limit" using assms(1) by (simp add: word_sless_alt)
  have "sint limit < 2 ^ 63" using sint_lt [of limit] by simp
  moreover have "sint limit \<noteq> 2 ^ 63 - 1"
    using assms(2) signed_word_eqI [of limit max_int64] sint_max_int64 by metis
  ultimately have "sint limit + 1 < 2 ^ 63" by simp
  then show ?thesis using pos by (simp add: sint_word_add signed_take_bit_int_eq_self)
qed

section \<open>Properties\<close>

text \<open>
  C6. With a key, no request reaches the router without a bearer token that the key verifies under
  RS256: any other request gets the refusal and changes nothing. What is relied on is that the JWT
  library reports a token as valid only if the key that the key function gave for it verifies the token
  with the method it names.
\<close>

theorem main_handler_authenticated:
  assumes "\<And>tok kf t. jw_Parse jw tok kf = (None, Some t) \<Longrightarrow> jt_Valid t \<Longrightarrow>
      \<exists>key. kf t = Inr key \<and> verifies tok (jt_Alg t) key"
    and "sv_PublicKey server = Some publicKey"
    and "main_handler gin zs jw ie cfg server handlers req n = (response, n')"
  shows "(\<exists>tok. bearerToken (hq_Authorization req) = Some tok \<and> verifies tok ''RS256'' publicKey) \<or>
    response = closeRequestConnection req StatusUnauthorized \<and> n' = n"
  using assms(2,3)
  by (auto simp: main_handler_def JWTMiddleware_def JWTMiddlewareWithExemptPaths_def jwt_key_def
      split: option.splits prod.splits if_splits dest!: assms(1))

text \<open>
  C20. A compressed body cannot expand beyond the limit: for a positive limit below the largest
  one, the next handler gets the whole decoded body exactly if it decodes and fits; a longer one is
  answered with 413 after one byte more than the limit, a broken one with 400.
\<close>

theorem zstd_body_limited:
  assumes "0 <s limit" "limit \<noteq> max_int64"
  shows "ZstdMiddlewareWithLimit lib next limit req n =
    (if \<not> EqualFold (hq_ContentEncoding req) ''zstd'' then next req n
     else case zs_NewReader lib (hq_Body req) of
       Some err \<Rightarrow> (HttpError 400 (''decode zstd body: '' @ Error_msg err), n)
     | None \<Rightarrow>
         if sint limit < int (length (fst (zs_decode lib (hq_Body req))))
         then (HttpError 413 ''Request Entity Too Large'', n)
         else case snd (zs_decode lib (hq_Body req)) of
           Some err \<Rightarrow> (HttpError 400 (''decode zstd body: '' @ Error_msg err), n)
         | None \<Rightarrow> next (req\<lparr>hq_Body := fst (zs_decode lib (hq_Body req)), hq_ContentEncoding := []\<rparr>) n)"
proof -
  obtain body err where dec: "zs_decode lib (hq_Body req) = (body, err)" by fastforce
  have next1: "sint (limit + 1) = sint limit + 1" using assms by (rule sint_plus_one)
  have pos: "0 < sint limit" "sint limit < 2 ^ 63"
    using assms(1) sint_lt [of limit] by (simp_all add: word_sless_alt)
  show ?thesis
  proof (cases "sint limit < int (length body)")
    case True
    then have "LimitReader (limit + 1) (body, err) = (take (nat (sint limit + 1)) body, None)"
      using pos next1 by (simp add: LimitReader_def word_sle_eq)
    moreover have "length (take (nat (sint limit + 1)) body) = nat (sint limit + 1)"
      using True pos by simp
    ultimately show ?thesis
      using True assms(1) pos dec next1 sint_word_of_nat [of "nat (sint limit + 1)"] sint_lt [of "limit + 1"]
      by (simp add: ZstdMiddlewareWithLimit_def word_sless_alt StatusBadRequest_def StatusText_def
          StatusUnauthorized_def StatusNotFound_def StatusRequestEntityTooLarge_def split: option.split)
  next
    case False
    then have "LimitReader (limit + 1) (body, err) = (body, err)"
      using pos next1 by (simp add: LimitReader_def word_sle_eq)
    moreover have "sint (word_of_nat (length body) :: 64 word) = int (length body)"
      using False pos by (intro sint_word_of_nat) simp
    ultimately show ?thesis
      using False assms(1) dec
      by (simp add: ZstdMiddlewareWithLimit_def word_sless_alt StatusBadRequest_def split: option.split)
  qed
qed

text \<open>
  The largest limit overflows: with a limit of 2 to the 63 minus 1, which the configuration
  accepts, the sum is negative and every compressed request that the decoder opens is handled
  with an empty body.
\<close>

theorem zstd_largest_limit_empties_body:
  assumes "EqualFold (hq_ContentEncoding req) ''zstd''" "zs_NewReader lib (hq_Body req) = None"
  shows "ZstdMiddlewareWithLimit lib next max_int64 req n =
    next (req\<lparr>hq_Body := [], hq_ContentEncoding := []\<rparr>) n"
proof -
  have "LimitReader (max_int64 + 1) source = ([], None)" for source
    by (simp add: LimitReader_def max_int64_def word_sle_eq)
  then show ?thesis using assms
    by (simp add: ZstdMiddlewareWithLimit_def word_sless_alt)
qed

text \<open>
  C22. The internal API answers only on its own port of the loopback interface: a request from
  any other local address is refused or redirected without reaching a handler.
\<close>

theorem internal_router_guarded:
  assumes "hq_LocalAddr req \<noteq> Some (cfg_InternalRESTPort cfg, True)"
    and "NewInternalRouter gin ie cfg handlers req n = (response, n')"
  shows "n' = n \<and>
    (response = closeRequestConnection req StatusNotFound \<or> (\<exists>status path. response = Redirected status path))"
proof -
  have limited: "hq_LocalAddr (ginBodyLimit l req) = hq_LocalAddr req"
    "hq_Hijack (ginBodyLimit l req) = hq_Hijack req" for l
    by (simp_all add: ginBodyLimit_def)
  show ?thesis
    using assms
    by (auto simp: NewInternalRouter_def gin_serve_def ginRecovery_def ginInternalPortGuard_def limited
        closeRequestConnection_def split: gin_match.splits option.splits prod.splits if_splits)
qed

text \<open>
  What a server that was set up guarantees. Without a secret key it serves plain HTTP and no
  token is asked for. With one, the secret key decoded to a payload whose integrity checks all
  passed, the main server serves TLS 1.3 with the client authentication of the configuration,
  and every request needs a token for the payload's JWT key. The set-up fails only with a key.
\<close>

theorem NewServer_secured:
  "case NewServer lib now cfg of
     Inl err \<Rightarrow> cfg_SecretKey cfg \<noteq> []
   | Inr server \<Rightarrow>
       sv_Addr server = ListenAddress cfg \<and> sv_InternalAddr server = InternalListenAddress cfg \<and>
       (if cfg_SecretKey cfg = []
        then \<not> sv_useTLS server \<and> sv_TLSConfig server = None \<and> sv_PublicKey server = None
        else sv_useTLS server \<and>
          (\<exists>payload tls key.
             DecodeSecretKey (sl_corrupt lib) (sl_parse lib) (cfg_SecretKey cfg) = Inr payload \<and>
             snd (ValidateNodePayload (sl_x509 lib) now payload) = None \<and>
             sv_TLSConfig server = Some tls \<and> tc_MinVersion tls = VersionTLS13 \<and>
             tc_ClientAuth tls = tlsClientAuth (TLSClientAuthMode cfg) \<and>
             (tc_GetConfigForClient tls = None \<longleftrightarrow> \<not> cfg_SNIVerification cfg) \<and>
             sv_PublicKey server = Some key \<and>
             jw_ParseRSAPublicKeyFromPEM (sl_jwt lib) (np_JWTPublicKey payload) = Inr key))"
  by (auto simp: NewServer_def TLSConfigFromSecretWithOptions_def ParseJWTPublicKey_def on_ok_def Let_def
      split: sum.splits option.splits prod.splits if_splits)

text \<open>
  Listening is all or nothing: when one of the two sockets cannot be opened, an opened one has
  been closed and no server runs; and a server that the set-up returned never fails for a missing
  TLS configuration.
\<close>

theorem open_listeners_all_or_nothing:
  assumes "NewServer lib now cfg = Inr server"
  shows "case open_listeners os server w of
    (Inr entries, w') \<Rightarrow>
      (\<exists>i m w1. nt_Listen os (InternalListenAddress cfg) w = (Inr i, w1) \<and>
         nt_Listen os (ListenAddress cfg) w1 = (Inr m, w') \<and>
         entries = [(True, i, False), (False, m, cfg_SecretKey cfg \<noteq> [])])
  | (Inl err, w') \<Rightarrow>
      (\<exists>e. nt_Listen os (InternalListenAddress cfg) w = (Inl e, w')) \<or>
      (\<exists>i e w1 w2. nt_Listen os (InternalListenAddress cfg) w = (Inr i, w1) \<and>
         nt_Listen os (ListenAddress cfg) w1 = (Inl e, w2) \<and> w' = nt_Close os i w2)"
proof -
  have "sv_InternalAddr server = InternalListenAddress cfg" "sv_Addr server = ListenAddress cfg"
    "sv_useTLS server \<longleftrightarrow> cfg_SecretKey cfg \<noteq> []" "sv_useTLS server \<Longrightarrow> sv_TLSConfig server \<noteq> None"
    using assms by (auto simp: NewServer_def on_ok_def Let_def split: sum.splits option.splits prod.splits if_splits)
  then show ?thesis
    by (auto simp: open_listeners_def closeListeners_def split: sum.split prod.split)
qed


section \<open>Witnesses\<close>

definition example_http_request :: http_request where
  "example_http_request = \<lparr>hq_Method = GET, hq_Path = ''/node/xray/stop'', hq_Authorization = ''Bearer good'',
     hq_ContentEncoding = ''zstd'', hq_Body = ''z'', hq_BodyLimit = None, hq_LocalAddr = None, hq_Hijack = False\<rparr>"

definition example_jwt_lib :: "nat jwt_lib" where
  "example_jwt_lib =
     \<lparr>jw_Parse = (\<lambda>tok kf.
        let t = \<lparr>jt_IsRSA = True, jt_Alg = ''RS256'', jt_HeaderAlg = ''RS256'', jt_Valid = tok = ''good''\<rparr>
        in case kf t of Inl e \<Rightarrow> (Some e, Some t) | Inr key \<Rightarrow> (None, Some t)),
      jw_ParseRSAPublicKeyFromPEM = (\<lambda>pem. Inr 0)\<rparr>"

definition example_zstd_lib :: zstd_lib where
  "example_zstd_lib = \<lparr>zs_NewReader = (\<lambda>b. None), zs_decode = (\<lambda>b. (''decoded'', None))\<rparr>"

definition example_config :: Config where
  "example_config = \<lparr>cfg_NodePort = 2222, cfg_InternalRESTPort = 61001, cfg_HysteriaListenPort = 0,
     cfg_SecretKey = [], cfg_NodeTLSClientAuth = ''mtls'', cfg_SNIVerification = False,
     cfg_LogLevel = ''info'', cfg_LogColor = ''never'', cfg_RWNodeDir = ''/opt'',
     cfg_RequestBodyLimitBytes = 100, cfg_RequireSecretKey = False\<rparr>"

definition example_server :: "(nat, nat, nat) Server" where
  "example_server = \<lparr>sv_Addr = ''a'', sv_TLSConfig = None, sv_PublicKey = Some 7, sv_InternalAddr = ''b'',
     sv_useTLS = False\<rparr>"

definition example_gin :: gin_engine where
  "example_gin routes method path =
     (case map_of routes (method, path) of None \<Rightarrow> NoRoute | Some e \<Rightarrow> Matched e)"

theorem main_handler_authenticated_witness:
  "\<exists>r. main_handler example_gin example_zstd_lib example_jwt_lib () example_config example_server
       (\<lambda>e req n. (None, n + 1)) (example_http_request\<lparr>hq_Authorization := ''''\<rparr>) (0::nat) = (r, 0)"
proof -
  let ?req = "example_http_request\<lparr>hq_Authorization := ''''\<rparr>"
  let ?run = "main_handler example_gin example_zstd_lib example_jwt_lib () example_config example_server
       (\<lambda>e req n. (None, n + 1)) ?req (0::nat)"
  obtain r n' where run: "?run = (r, n')" by fastforce
  have "\<exists>key. kf t = Inr key \<and> tok = ''good''"
    if "jw_Parse example_jwt_lib tok kf = (None, Some t)" "jt_Valid t" for tok kf t
    using that by (auto simp: example_jwt_lib_def Let_def split: sum.splits)
  moreover have "sv_PublicKey example_server = Some 7"
    by (simp add: example_server_def)
  ultimately have "(\<exists>tok. bearerToken (hq_Authorization ?req) = Some tok \<and> tok = ''good'') \<or>
      r = closeRequestConnection ?req StatusUnauthorized \<and> n' = 0"
    by (rule main_handler_authenticated [where verifies = "\<lambda>tok alg key. tok = ''good''", OF _ _ run])
  moreover have "bearerToken (hq_Authorization ?req) = None"
    by (simp add: example_http_request_def bearerToken_def Fields_def)
  ultimately show ?thesis using run by auto
qed

theorem zstd_body_limited_witness:
  "ZstdMiddlewareWithLimit example_zstd_lib (\<lambda>req n. (ConnectionClosed, n + 1)) 4 example_http_request (0::nat) =
     (HttpError 413 ''Request Entity Too Large'', 0)"
  by (subst zstd_body_limited)
    (simp_all add: max_int64_def example_http_request_def example_zstd_lib_def word_sless_alt)

theorem zstd_largest_limit_empties_body_witness:
  "ZstdMiddlewareWithLimit example_zstd_lib (\<lambda>req n. (ConnectionClosed, hq_Body req)) max_int64
     example_http_request ''x'' = (ConnectionClosed, '''')"
  by (subst zstd_largest_limit_empties_body) (simp_all add: example_http_request_def example_zstd_lib_def)

theorem internal_router_guarded_witness:
  "snd (NewInternalRouter example_gin () example_config (\<lambda>e req n. (None, Suc n)) example_http_request 0) = 0"
proof -
  obtain r n' where run: "NewInternalRouter example_gin () example_config (\<lambda>e req n. (None, Suc n))
      example_http_request 0 = (r, n')" by fastforce
  have "hq_LocalAddr example_http_request \<noteq> Some (cfg_InternalRESTPort example_config, True)"
    by (simp add: example_http_request_def)
  from internal_router_guarded [OF this run] run show ?thesis by simp
qed

definition example_net :: "nat net_os" where
  "example_net = \<lparr>nt_Listen = (\<lambda>a w. (Inr w, Suc w)), nt_Close = (\<lambda>h w. w),
     nt_serve = (\<lambda>es w. w), nt_receive = (\<lambda>w. ((True, None), w)),
     nt_CloseServer = (\<lambda>b w. (None, w)), nt_Shutdown = (\<lambda>b w. (None, w))\<rparr>"

theorem open_listeners_all_or_nothing_witness:
  "\<forall>lib :: (nat, nat, nat, nat) server_libs. \<exists>server i m w'.
     NewServer lib 0 example_config = Inr server \<and>
     open_listeners example_net server 0 = (Inr [(True, i, False), (False, m, False)], w')"
proof
  fix lib :: "(nat, nat, nat, nat) server_libs"
  obtain server where server: "NewServer lib 0 example_config = Inr server"
    by (simp add: NewServer_def example_config_def Let_def)
  with open_listeners_all_or_nothing [OF server, of example_net 0]
  show "\<exists>server i m w'. NewServer lib 0 example_config = Inr server \<and>
      open_listeners example_net server 0 = (Inr [(True, i, False), (False, m, False)], w')"
    by (auto simp: example_config_def example_net_def split: prod.splits sum.splits)
qed

end
