(* ===== verification/Api.thy ===== *)
theory Api
  imports Node HttpServer
begin

text \<open>
  The composition of the two halves: the route tables and middlewares of \<open>HttpServer\<close> in front of
  the controllers of \<open>Node\<close>, so that an HTTP request is a function on the state of the whole node
  (\<open>internal/httpapi/router.go\<close> and \<open>internal/controller/registry.go\<close>).
\<close>

section \<open>Replies and requests\<close>

datatype api_body =
    BodyStart StartXrayResponse
  | BodyStop StopXrayResponse
  | BodyHealth HealthcheckResponse
  | BodyGeneric GenericResponse
  | BodySimple SimpleSuccessResponse
  | BodySystemStats SystemStatsResponse
  | BodyUsersStats UsersStatsResponse
  | BodyOnline UserOnlineStatusResponse
  | BodyUserIPs UserIPListResponse
  | BodyUsersIPs UsersIPListResponse
  | BodyInbound InboundTrafficStatsResponse
  | BodyOutbound OutboundTrafficStatsResponse
  | BodyInbounds AllInboundsStatsResponse
  | BodyOutbounds AllOutboundsStatsResponse
  | BodyCombined CombinedStatsResponse
  | BodyGeocheck string
  | BodyAccepted AcceptedResponse
  | BodyReports TorrentBlockerReportsResponse
  | BodyConfig json_obj
  | BodyInternalError

text \<open>
  \<open>ShouldBindJSON\<close> for every request type, and what the official error envelope takes from a
  request.
\<close>

record binders =
  bd_Start :: "http_request \<Rightarrow> gerror + StartXrayRequest"
  bd_AddUser :: "http_request \<Rightarrow> gerror + AddUserRequest"
  bd_AddUsers :: "http_request \<Rightarrow> gerror + AddUsersRequest"
  bd_RemoveUser :: "http_request \<Rightarrow> gerror + RemoveUserRequest"
  bd_RemoveUsers :: "http_request \<Rightarrow> gerror + RemoveUsersRequest"
  bd_DropUsers :: "http_request \<Rightarrow> gerror + DropUsersConnectionsRequest"
  bd_DropIPs :: "http_request \<Rightarrow> gerror + DropIPsRequest"
  bd_Reset :: "http_request \<Rightarrow> gerror + ResetRequest"
  bd_Tagged :: "http_request \<Rightarrow> gerror + TaggedStatsRequest"
  bd_Online :: "http_request \<Rightarrow> gerror + UserOnlineStatusRequest"
  bd_UserIPs :: "http_request \<Rightarrow> gerror + UserIPListRequest"
  bd_Geocheck :: "http_request \<Rightarrow> gerror + GetGeocheckRequest"
  bd_Sync :: "http_request \<Rightarrow> gerror + PluginSyncRequest"
  bd_info :: "http_request \<Rightarrow> request_info"

text \<open>The node, the geocheck runner, and what they depend on.\<close>

record 'w api_state =
  ap_node :: "'w EmbeddedCore xnode"
  ap_runner :: ExecRunner

record ('a, 'i, 'w) ApiDeps =
  ad_node :: "('a, 'i, 'w) NodeDeps"
  ad_builder :: ConfigBuilder
  ad_geocheck :: "'w geocheck_os"
  ad_panelSni :: string
  ad_bind :: binders

definition geocheck_on_core :: "'w geocheck_os \<Rightarrow> 'w EmbeddedCore geocheck_os" where
  "geocheck_on_core os =
     \<lparr>gc_ParseIP = gc_ParseIP os, gc_Getenv = gc_Getenv os,
      gc_exec = (\<lambda>p args t m. on_world (gc_exec os p args t m)), gc_parse = gc_parse os,
      gc_Duration = gc_Duration os\<rparr>"

section \<open>The handlers\<close>

type_synonym 'w api_handler = "(api_body, 'w api_state) gin_handler"

text \<open>A handler of the runtime state and the core, of the core alone, and one that only reads.\<close>

definition on_node :: "('r \<Rightarrow> api_body) \<Rightarrow>
    (RuntimeState \<times> 'w EmbeddedCore \<Rightarrow> 'r response \<times> RuntimeState \<times> 'w EmbeddedCore) \<Rightarrow>
    'w api_state \<Rightarrow> api_body response option \<times> 'w api_state" where
  "on_node body f a =
     (case f (rt (ap_node a), world (ap_node a)) of
        (r, (s, c)) \<Rightarrow> (Some (map_response body r), a\<lparr>ap_node := (ap_node a)\<lparr>rt := s, world := c\<rparr>\<rparr>))"

definition on_core :: "('r \<Rightarrow> api_body) \<Rightarrow> ('w EmbeddedCore \<Rightarrow> 'r response \<times> 'w EmbeddedCore) \<Rightarrow>
    'w api_state \<Rightarrow> api_body response option \<times> 'w api_state" where
  "on_core body f a =
     (case f (world (ap_node a)) of
        (r, c) \<Rightarrow> (Some (map_response body r), a\<lparr>ap_node := (ap_node a)\<lparr>world := c\<rparr>\<rparr>))"

definition reply :: "('r \<Rightarrow> api_body) \<Rightarrow> 'r response \<Rightarrow> 'w api_state \<Rightarrow>
    api_body response option \<times> 'w api_state" where
  "reply body r a = (Some (map_response body r), a)"

definition on_xnode :: "('r \<Rightarrow> api_body) \<Rightarrow> ('w EmbeddedCore xnode \<Rightarrow> 'r response \<times> 'w EmbeddedCore xnode) \<Rightarrow>
    'w api_state \<Rightarrow> api_body response option \<times> 'w api_state" where
  "on_xnode body f a =
     (case f (ap_node a) of (r, n) \<Rightarrow> (Some (map_response body r), a\<lparr>ap_node := n\<rparr>))"

definition geocheck_handler :: "('a, 'i, 'w) ApiDeps \<Rightarrow> 'w api_handler" where
  "geocheck_handler d req a =
     (case GetGeocheck (stats_env (ad_node d) (Run (geocheck_on_core (ad_geocheck d)))) (bd_info (ad_bind d) req)
             (bd_Geocheck (ad_bind d) req) (ap_runner a, world (ap_node a)) of
        (r, (runner, c)) \<Rightarrow>
          (Some (map_response BodyGeocheck r),
           a\<lparr>ap_node := (ap_node a)\<lparr>world := c\<rparr>, ap_runner := runner\<rparr>))"

definition stats_of :: "('a, 'i, 'w) ApiDeps \<Rightarrow> ('w EmbeddedCore, unit) StatsEnv" where
  "stats_of d = stats_env (ad_node d) no_geocheck"

text \<open>The handlers that the registry gives to the router.\<close>

fun node_Handlers :: "('a, 'i, 'w) ApiDeps \<Rightarrow> (api_body, 'w api_state) Handlers" where
  "node_Handlers d Xray_Start req = on_xnode BodyStart (Start_handler (xray_env (ad_node d) (ad_builder d)) (bd_Start (ad_bind d) req))"
| "node_Handlers d Xray_Stop req = on_xnode BodyStop (Stop_handler (xray_env (ad_node d) (ad_builder d)))"
| "node_Handlers d Xray_Healthcheck req = (\<lambda>a. reply BodyHealth (Healthcheck (rt (ap_node a))) a)"
| "node_Handlers d Handler_AddUser req = on_node BodyGeneric (AddUser (handler_env (ad_node d)) (bd_AddUser (ad_bind d) req))"
| "node_Handlers d Handler_AddUsers req = on_node BodyGeneric (AddUsers (handler_env (ad_node d)) (bd_AddUsers (ad_bind d) req))"
| "node_Handlers d Handler_RemoveUser req = on_node BodyGeneric (RemoveUser (handler_env (ad_node d)) (bd_RemoveUser (ad_bind d) req))"
| "node_Handlers d Handler_RemoveUsers req = on_node BodyGeneric (RemoveUsers (handler_env (ad_node d)) (bd_RemoveUsers (ad_bind d) req))"
| "node_Handlers d Handler_DropUsersConnections req = on_core BodySimple (DropUsersConnections (handler_env (ad_node d)) (bd_DropUsers (ad_bind d) req))"
| "node_Handlers d Handler_DropIPs req = on_core BodySimple (DropIPs (handler_env (ad_node d)) (bd_DropIPs (ad_bind d) req))"
| "node_Handlers d Stats_GetSystemStats req = (\<lambda>a. reply BodySystemStats
     (GetSystemStats (stats_of d) (bd_info (ad_bind d) req) (rt (ap_node a)) (world (ap_node a))) a)"
| "node_Handlers d Stats_GetUsersStats req = on_core BodyUsersStats (GetUsersStats (stats_of d) (bd_info (ad_bind d) req) (bd_Reset (ad_bind d) req))"
| "node_Handlers d Stats_GetUserOnlineStatus req = (\<lambda>a. reply BodyOnline
     (GetUserOnlineStatus (stats_of d) (bd_Online (ad_bind d) req) (world (ap_node a))) a)"
| "node_Handlers d Stats_GetUserIPList req = on_core BodyUserIPs (GetUserIPList (stats_of d) (bd_UserIPs (ad_bind d) req))"
| "node_Handlers d Stats_GetUsersIPList req = on_core BodyUsersIPs (GetUsersIPList (stats_of d))"
| "node_Handlers d Stats_GetInboundStats req = on_core BodyInbound (GetInboundStats (stats_of d) (bd_info (ad_bind d) req) (bd_Tagged (ad_bind d) req))"
| "node_Handlers d Stats_GetOutboundStats req = on_core BodyOutbound (GetOutboundStats (stats_of d) (bd_info (ad_bind d) req) (bd_Tagged (ad_bind d) req))"
| "node_Handlers d Stats_GetAllInboundsStats req = on_core BodyInbounds (GetAllInboundsStats (stats_of d) (bd_info (ad_bind d) req) (bd_Reset (ad_bind d) req))"
| "node_Handlers d Stats_GetAllOutboundsStats req = on_core BodyOutbounds (GetAllOutboundsStats (stats_of d) (bd_info (ad_bind d) req) (bd_Reset (ad_bind d) req))"
| "node_Handlers d Stats_GetCombinedStats req = on_core BodyCombined (GetCombinedStats (stats_of d) (bd_info (ad_bind d) req) (bd_Reset (ad_bind d) req))"
| "node_Handlers d Stats_GetGeocheck req = geocheck_handler d req"
| "node_Handlers d Plugin_Sync req = reply BodyAccepted (Sync (bd_Sync (ad_bind d) req))"
| "node_Handlers d Plugin_CollectTorrentBlockerReports req = reply BodyReports CollectTorrentBlockerReports"
| "node_Handlers d Plugin_BlockIPs req = reply BodyAccepted BlockIPs"
| "node_Handlers d Plugin_UnblockIPs req = reply BodyAccepted UnblockIPs"
| "node_Handlers d Plugin_RecreateTables req = reply BodyAccepted RecreateTables"
| "node_Handlers d Internal_GetConfig req = (\<lambda>a. reply BodyConfig (GetConfig (ad_panelSni d) (rt (ap_node a))) a)"

section \<open>Every request is a run of the node\<close>

text \<open>Handlers that only touch the outside world are steps of it.\<close>

lemma inert_step: "inert (world n) c \<Longrightarrow> node_step deps b n (n\<lparr>world := c\<rparr>)"
  by (auto simp: inert_def intro: node_world)

lemma inert_no_step: "node_step deps b n n"
  using node_world [of deps b n "ec_world (world n)"] by simp

lemma inert_on_core:
  "(\<And>c. inert c (snd (f c))) \<Longrightarrow>
   node_step deps b (ap_node a) (ap_node (snd (on_core body f a)))"
  by (simp add: on_core_def split_beta inert_step)

lemmas embedded_stats_defs = stats_client_def stats_env_def embedded_core_def embeddedStatsClient_def Let_def split_beta

lemma client_UsersIPList_core: "snd (client_UsersIPList lib r c) = c"
  by (simp add: client_UsersIPList_def split: sum.split)

lemma inert_UserIPList: "inert c (snd (GetUserIPList (stats_env deps g) b c))"
  by (cases b) (simp_all add: GetUserIPList_def embedded_stats_defs client_UserIPList_core split: sum.split)

lemma inert_UsersIPList: "inert c (snd (GetUsersIPList (stats_env deps g) c))"
  by (simp add: GetUsersIPList_def embedded_stats_defs client_UsersIPList_core split: sum.split)

lemma inert_InboundStats: "inert c (snd (GetInboundStats (stats_env deps g) ri b c))"
  using inert_with_counters by (auto simp: GetInboundStats_def embedded_stats_defs split: sum.split)

lemma inert_OutboundStats: "inert c (snd (GetOutboundStats (stats_env deps g) ri b c))"
  using inert_with_counters by (auto simp: GetOutboundStats_def embedded_stats_defs split: sum.split)

lemma inert_AllInboundsStats: "inert c (snd (GetAllInboundsStats (stats_env deps g) ri b c))"
  using inert_with_counters by (auto simp: GetAllInboundsStats_def embedded_stats_defs split: sum.split)

lemma inert_AllOutboundsStats: "inert c (snd (GetAllOutboundsStats (stats_env deps g) ri b c))"
  using inert_with_counters by (auto simp: GetAllOutboundsStats_def embedded_stats_defs split: sum.split)

lemmas inert_stats = inert_UserIPList inert_UsersIPList inert_InboundStats inert_OutboundStats
  inert_AllInboundsStats inert_AllOutboundsStats

lemma inert_Run: "inert c (snd (snd (Run (geocheck_on_core os) rq (r, c))))"
proof -
  have "inert c (snd (run_guarded (geocheck_on_core os) r' t c))" for r' t
    using run_guarded_world [of "geocheck_on_core os" r' t c] by (auto simp: geocheck_on_core_def)
  then show ?thesis
    by (auto simp: Run_def begin_run_def split_beta split: sum.split)
qed

lemma inert_geocheck:
  "\<exists>c. inert (world (ap_node a)) c \<and> ap_node (snd (geocheck_handler d req a)) = (ap_node a)\<lparr>world := c\<rparr>"
proof (cases "bd_Geocheck (ad_bind d) req")
  case (Inl e)
  then have "ap_node (snd (geocheck_handler d req a)) = (ap_node a)\<lparr>world := world (ap_node a)\<rparr>"
    by (simp add: geocheck_handler_def GetGeocheck_def)
  then show ?thesis using inert_refl by blast
next
  case (Inr request)
  then show ?thesis
    using inert_Run [of "world (ap_node a)" "ad_geocheck d"]
    by (auto simp: geocheck_handler_def GetGeocheck_def stats_env_def split_beta split: sum.split)
qed

lemma on_node_step:
  "with_node f (ap_node a) = serve deps b r (ap_node a) \<Longrightarrow>
   node_step deps b (ap_node a) (ap_node (snd (on_node body f a)))"
  using node_serve [of deps b "ap_node a" r] by (simp add: on_node_def with_node_def split_beta)

lemma node_step_on_xnode:
  "f (ap_node a) = (r, n) \<Longrightarrow> node_step deps b (ap_node a) n \<Longrightarrow>
   node_step deps b (ap_node a) (ap_node (snd (on_xnode body f a)))"
  by (simp add: on_xnode_def)

text \<open>Every handler is one step of the node.\<close>

lemma handler_step: "node_step (ad_node d) (ad_builder d) (ap_node a) (ap_node (snd (node_Handlers d e req a)))"
proof -
  let ?n = "ap_node a"
  have serve: "node_step (ad_node d) (ad_builder d) ?n (serve (ad_node d) (ad_builder d) r ?n)" for r
    by (rule node_serve)
  have frame: "n\<lparr>rt := rt n, world := c\<rparr> = n\<lparr>world := c\<rparr>" for n :: "'w EmbeddedCore xnode" and c
    by (cases n) simp
  show ?thesis
  proof (cases e)
    case Xray_Start
    then show ?thesis using serve [of "ReqStart (bd_Start (ad_bind d) req)"]
      by (simp add: on_xnode_def split_beta)
  next
    case Xray_Stop
    then show ?thesis using serve [of ReqStop] by (simp add: on_xnode_def split_beta)
  next
    case Handler_AddUser
    then show ?thesis by (simp add: on_node_step [where r = "ReqAddUser (bd_AddUser (ad_bind d) req)"])
  next
    case Handler_AddUsers
    then show ?thesis by (simp add: on_node_step [where r = "ReqAddUsers (bd_AddUsers (ad_bind d) req)"])
  next
    case Handler_RemoveUser
    then show ?thesis by (simp add: on_node_step [where r = "ReqRemoveUser (bd_RemoveUser (ad_bind d) req)"])
  next
    case Handler_RemoveUsers
    then show ?thesis by (simp add: on_node_step [where r = "ReqRemoveUsers (bd_RemoveUsers (ad_bind d) req)"])
  next
    case Handler_DropUsersConnections
    then show ?thesis by simp (rule inert_on_core, rule handlers.DropUsersConnections_world)
  next
    case Handler_DropIPs
    then show ?thesis by simp (rule inert_on_core, rule handlers.DropIPs_world)
  next
    case Stats_GetGeocheck
    obtain c where "inert (world ?n) c" "ap_node (snd (geocheck_handler d req a)) = ?n\<lparr>world := c\<rparr>"
      using inert_geocheck by blast
    then show ?thesis using Stats_GetGeocheck inert_step by simp
  qed (simp_all add: reply_def inert_no_step stats_of_def inert_on_core inert_stats
      inert_GetUsersStats inert_GetCombinedStats)
qed

section \<open>Traffic\<close>

text \<open>
  The steps that the running program makes: a request to the main or to the internal server, an
  abandoned start that returns, a change of the outside world.
\<close>

record ('a, 'i, 'w, 'k, 'pool, 'p) ApiServer =
  as_gin :: gin_engine
  as_zstd :: zstd_lib
  as_jwt :: "'p jwt_lib"
  as_cfg :: Config
  as_server :: "('k, 'pool, 'p) Server"
  as_deps :: "('a, 'i, 'w) ApiDeps"

definition serve_main :: "('a, 'i, 'w, 'k, 'pool, 'p) ApiServer \<Rightarrow> (api_body, 'w api_state) handler" where
  "serve_main s = main_handler (as_gin s) (as_zstd s) (as_jwt s) BodyInternalError (as_cfg s) (as_server s)
                    (node_Handlers (as_deps s))"

definition serve_internal :: "('a, 'i, 'w, 'k, 'pool, 'p) ApiServer \<Rightarrow> (api_body, 'w api_state) handler" where
  "serve_internal s = NewInternalRouter (as_gin s) BodyInternalError (as_cfg s) (node_Handlers (as_deps s))"

inductive api_step :: "('a, 'i, 'w, 'k, 'pool, 'p) ApiServer \<Rightarrow> 'w api_state \<Rightarrow> 'w api_state \<Rightarrow> bool"
  for s :: "('a, 'i, 'w, 'k, 'pool, 'p) ApiServer" where
  api_main: "api_step s a (snd (serve_main s req a))"
| api_internal: "api_step s a (snd (serve_internal s req a))"
| api_abandoned: "api_step s a
    (a\<lparr>ap_node := (ap_node a)\<lparr>world := abandonedStartReturns (nd_lib (ad_node (as_deps s))) h (world (ap_node a))\<rparr>\<rparr>)"
| api_world: "api_step s a (a\<lparr>ap_node := (ap_node a)\<lparr>world := (world (ap_node a))\<lparr>ec_world := w\<rparr>\<rparr>\<rparr>)"

inductive_cases api_stepE: "api_step s a a'"

definition api_init :: "('a, 'i, 'w, 'k, 'pool, 'p) ApiServer \<Rightarrow> 'w \<Rightarrow> 'w api_state" where
  "api_init s w = \<lparr>ap_node = NewRegistry (ad_node (as_deps s)) w, ap_runner = NewRunner\<rparr>"

lemma reply_node [simp]: "ap_node (snd (reply body r a)) = ap_node a"
  by (simp add: reply_def)

lemma router_step: "node_step (ad_node d) (ad_builder d) (ap_node a)
    (ap_node (snd (NewRouter gin ie cfg (node_Handlers d) req a)))"
  using handler_step [of d a]
  by (auto simp: NewRouter_def gin_serve_def ginRecovery_def split_beta inert_no_step
      split: gin_match.split option.split)

lemma serve_main_step: "node_step (ad_node (as_deps s)) (ad_builder (as_deps s)) (ap_node a)
    (ap_node (snd (serve_main s req a)))"
proof -
  have zstd: "node_step (ad_node d) (ad_builder d) (ap_node a)
      (ap_node (snd (ZstdMiddlewareWithLimit lib (NewRouter gin ie cfg (node_Handlers d)) limit req a)))"
    for d lib gin ie cfg limit req
    by (auto simp: ZstdMiddlewareWithLimit_def inert_no_step router_step split: option.split prod.split)
  show ?thesis
    by (auto simp: serve_main_def main_handler_def JWTMiddleware_def JWTMiddlewareWithExemptPaths_def
        Let_def inert_no_step zstd split: option.split prod.split)
qed

lemma serve_internal_step: "node_step (ad_node (as_deps s)) (ad_builder (as_deps s)) (ap_node a)
    (ap_node (snd (serve_internal s req a)))"
  using handler_step [of "as_deps s" a]
  by (auto simp: serve_internal_def NewInternalRouter_def gin_serve_def ginRecovery_def
      ginInternalPortGuard_def split_beta inert_no_step split: gin_match.split option.split prod.split)

lemma api_step_node: "api_step s a a' \<Longrightarrow>
    node_step (ad_node (as_deps s)) (ad_builder (as_deps s)) (ap_node a) (ap_node a')"
  by (cases rule: api_step.cases)
    (auto intro: serve_main_step serve_internal_step node_abandoned node_world)

lemma api_steps_node: "(api_step s)\<^sup>*\<^sup>* a a' \<Longrightarrow>
    (node_step (ad_node (as_deps s)) (ad_builder (as_deps s)))\<^sup>*\<^sup>* (ap_node a) (ap_node a')"
proof (induction rule: rtranclp_induct)
  case (step a1 a2)
  from step.IH api_step_node [OF step.hyps(2)] show ?case by (rule rtranclp.rtrancl_into_rtrancl)
qed simp

lemma api_reachable_inv: "(api_step s)\<^sup>*\<^sup>* (api_init s w) a \<Longrightarrow> node_inv (ap_node a)"
  by (drule api_steps_node) (simp add: api_init_def node_inv_reachable)

lemma api_state_id: "a\<lparr>ap_node := (ap_node a)\<lparr>world := world (ap_node a)\<rparr>\<rparr> = a"
  by (cases a; cases "ap_node a") simp

lemmas down_defs = writeOfficialStatsError_def StatusInternalServerError_def Let_def
  ErrFailedToGetSystemStats_def ErrFailedToGetUsersStats_def ErrFailedToGetInboundStats_def
  ErrFailedToGetOutboundStats_def ErrFailedToGetInboundsStats_def ErrFailedToGetOutboundsStats_def
  ErrFailedToGetCombinedStats_def

lemma stats_down:
  assumes "stats_client env w = Inl err"
  shows "GetUsersStats env ri b w = (WriteOfficialError (fst ri) (snd ri) 500 ''Failed to get users stats'' ''A011'', w)"
    "GetInboundStats env ri b1 w = (WriteOfficialError (fst ri) (snd ri) 500 ''Failed to get inbound stats'' ''A012'', w)"
    "GetOutboundStats env ri b2 w = (WriteOfficialError (fst ri) (snd ri) 500 ''Failed to get outbound stats'' ''A013'', w)"
    "GetAllInboundsStats env ri b3 w = (WriteOfficialError (fst ri) (snd ri) 500 ''Failed to get inbounds stats'' ''A015'', w)"
    "GetAllOutboundsStats env ri b4 w = (WriteOfficialError (fst ri) (snd ri) 500 ''Failed to get outbounds stats'' ''A016'', w)"
    "GetCombinedStats env ri b5 w = (WriteOfficialError (fst ri) (snd ri) 500 ''Failed to get combined stats'' ''A017'', w)"
    "GetUserIPList env b6 w = (Envelope StatusOK \<lparr>uilr_IPs = []\<rparr>, w)"
    "GetUsersIPList env w = (Envelope StatusOK \<lparr>usil_Users = []\<rparr>, w)"
  using assms
  by (simp_all add: GetUsersStats_def GetInboundStats_def GetOutboundStats_def GetAllInboundsStats_def
      GetAllOutboundsStats_def GetCombinedStats_def GetUserIPList_def GetUsersIPList_def down_defs
      split: sum.split)

lemma stats_down_read:
  assumes "stats_client env w = Inl err"
  shows "GetSystemStats env ri rt_state w =
      WriteOfficialError (fst ri) (snd ri) 500 ''Failed to get system stats'' ''A010''"
    "GetUserOnlineStatus env b w = Envelope StatusOK \<lparr>uosr_IsOnline = False\<rparr>"
  using assms by (simp_all add: GetSystemStats_def GetUserOnlineStatus_def down_defs split: sum.split)

section \<open>The routes\<close>

text \<open>
  What the API promises, by method and path: the answer of each request and the state after it. Six requests are served
  by the node (\<open>serve\<close> of \<open>Node\<close>), the others only ask the core or read.
\<close>

definition route_table :: "('a, 'i, 'w) ApiDeps \<Rightarrow> http_request \<Rightarrow> 'w api_state \<Rightarrow>
    ((string \<times> string) \<times> (api_body response \<times> 'w api_state)) list" where
  "route_table d req a =
     (let n = ap_node a; s = rt n; c = world n; b = ad_bind d; info = bd_info b req;
          xray = xray_env (ad_node d) (ad_builder d); users = handler_env (ad_node d); stats = stats_env (ad_node d) no_geocheck;
          served = (\<lambda>r. a\<lparr>ap_node := serve (ad_node d) (ad_builder d) r n\<rparr>);
          core = (\<lambda>c. a\<lparr>ap_node := n\<lparr>world := c\<rparr>\<rparr>) in
     [((''POST'', ''/node/xray/start''), map_response BodyStart (fst (Start_handler xray (bd_Start b req) n)), served (ReqStart (bd_Start b req))),
      ((''GET'', ''/node/xray/stop''), map_response BodyStop (fst (Stop_handler xray n)), served ReqStop),
      ((''GET'', ''/node/xray/healthcheck''), map_response BodyHealth (Healthcheck s), a),
      ((''POST'', ''/node/handler/add-user''), map_response BodyGeneric (fst (AddUser users (bd_AddUser b req) (s, c))), served (ReqAddUser (bd_AddUser b req))),
      ((''POST'', ''/node/handler/add-users''), map_response BodyGeneric (fst (AddUsers users (bd_AddUsers b req) (s, c))), served (ReqAddUsers (bd_AddUsers b req))),
      ((''POST'', ''/node/handler/remove-user''), map_response BodyGeneric (fst (RemoveUser users (bd_RemoveUser b req) (s, c))), served (ReqRemoveUser (bd_RemoveUser b req))),
      ((''POST'', ''/node/handler/remove-users''), map_response BodyGeneric (fst (RemoveUsers users (bd_RemoveUsers b req) (s, c))), served (ReqRemoveUsers (bd_RemoveUsers b req))),
      ((''POST'', ''/node/handler/drop-users-connections''), map_response BodySimple (fst (DropUsersConnections users (bd_DropUsers b req) c)), core (snd (DropUsersConnections users (bd_DropUsers b req) c))),
      ((''POST'', ''/node/handler/drop-ips''), map_response BodySimple (fst (DropIPs users (bd_DropIPs b req) c)), core (snd (DropIPs users (bd_DropIPs b req) c))),
      ((''GET'', ''/node/stats/get-system-stats''), map_response BodySystemStats (GetSystemStats stats info s c), a),
      ((''POST'', ''/node/stats/get-users-stats''), map_response BodyUsersStats (fst (GetUsersStats stats info (bd_Reset b req) c)), core (snd (GetUsersStats stats info (bd_Reset b req) c))),
      ((''POST'', ''/node/stats/get-user-online-status''), map_response BodyOnline (GetUserOnlineStatus stats (bd_Online b req) c), a),
      ((''POST'', ''/node/stats/get-user-ip-list''), map_response BodyUserIPs (fst (GetUserIPList stats (bd_UserIPs b req) c)), core (snd (GetUserIPList stats (bd_UserIPs b req) c))),
      ((''GET'', ''/node/stats/get-users-ip-list''), map_response BodyUsersIPs (fst (GetUsersIPList stats c)), core (snd (GetUsersIPList stats c))),
      ((''POST'', ''/node/stats/get-inbound-stats''), map_response BodyInbound (fst (GetInboundStats stats info (bd_Tagged b req) c)), core (snd (GetInboundStats stats info (bd_Tagged b req) c))),
      ((''POST'', ''/node/stats/get-outbound-stats''), map_response BodyOutbound (fst (GetOutboundStats stats info (bd_Tagged b req) c)), core (snd (GetOutboundStats stats info (bd_Tagged b req) c))),
      ((''POST'', ''/node/stats/get-all-inbounds-stats''), map_response BodyInbounds (fst (GetAllInboundsStats stats info (bd_Reset b req) c)), core (snd (GetAllInboundsStats stats info (bd_Reset b req) c))),
      ((''POST'', ''/node/stats/get-all-outbounds-stats''), map_response BodyOutbounds (fst (GetAllOutboundsStats stats info (bd_Reset b req) c)), core (snd (GetAllOutboundsStats stats info (bd_Reset b req) c))),
      ((''POST'', ''/node/stats/get-combined-stats''), map_response BodyCombined (fst (GetCombinedStats stats info (bd_Reset b req) c)), core (snd (GetCombinedStats stats info (bd_Reset b req) c))),
      ((''POST'', ''/node/stats/get-geocheck''),
       case GetGeocheck (stats_env (ad_node d) (Run (geocheck_on_core (ad_geocheck d)))) info (bd_Geocheck b req) (ap_runner a, c) of
         (r, (runner, c)) \<Rightarrow> (map_response BodyGeocheck r, a\<lparr>ap_node := n\<lparr>world := c\<rparr>, ap_runner := runner\<rparr>)),
      ((''POST'', ''/node/plugin/sync''), map_response BodyAccepted (Sync (bd_Sync b req)), a),
      ((''POST'', ''/node/plugin/torrent-blocker/collect''), map_response BodyReports CollectTorrentBlockerReports, a),
      ((''POST'', ''/node/plugin/nftables/block-ips''), map_response BodyAccepted BlockIPs, a),
      ((''POST'', ''/node/plugin/nftables/unblock-ips''), map_response BodyAccepted UnblockIPs, a),
      ((''POST'', ''/node/plugin/nftables/recreate-tables''), map_response BodyAccepted RecreateTables, a)])"

definition route_outcome :: "('a, 'i, 'w) ApiDeps \<Rightarrow> http_request \<Rightarrow> 'w api_state \<Rightarrow>
    (api_body response \<times> 'w api_state) option" where
  "route_outcome d req a = map_of (route_table d req a) (hq_Method req, hq_Path req)"

text \<open>The requests that may touch the state of the node or its instance.\<close>

definition node_routes :: "(string \<times> string) set" where
  "node_routes =
     {(''POST'', ''/node/xray/start''), (''GET'', ''/node/xray/stop''), (''POST'', ''/node/handler/add-user''),
      (''POST'', ''/node/handler/add-users''), (''POST'', ''/node/handler/remove-user''), (''POST'', ''/node/handler/remove-users'')}"

text \<open>Without a key every request is admitted, with one those with a bearer token that the library accepts for it.\<close>

definition admitted :: "('a, 'i, 'w, 'k, 'pool, 'p) ApiServer \<Rightarrow> http_request \<Rightarrow> bool" where
  "admitted s req \<longleftrightarrow>
     (\<forall>key. sv_PublicKey (as_server s) = Some key \<longrightarrow>
        (\<exists>tok t. bearerToken (hq_Authorization req) = Some tok \<and> jw_Parse (as_jwt s) tok (jwt_key key) = (None, Some t) \<and> jt_Valid t))"

text \<open>The request as a handler sees it: its body is read up to the configured limit.\<close>

definition body_limited :: "('a, 'i, 'w, 'k, 'pool, 'p) ApiServer \<Rightarrow> http_request \<Rightarrow> http_request" where
  "body_limited s req =
     (let limit = word_of_int (cfg_RequestBodyLimitBytes (as_cfg s)) in
      if 0 <s limit then req\<lparr>hq_BodyLimit := Some limit\<rparr> else req)"

text \<open>
  gin's promise on a table of static routes: the handler of a route gets exactly the requests with its method and path.
\<close>

definition gin_exact :: "gin_engine \<Rightarrow> bool" where
  "gin_exact gin \<longleftrightarrow> (\<forall>routes m p e. gin routes m p = Matched e \<longleftrightarrow> map_of routes (m, p) = Some e)"

lemma route_table_handlers:
  "route_table d req a =
     map (\<lambda>(route, e). (route, the (fst (node_Handlers d e req a)), snd (node_Handlers d e req a))) registerRoutes"
  unfolding route_table_def Let_def registerRoutes_def POST_def GET_def
  by (simp add: on_xnode_def on_node_def on_core_def reply_def geocheck_handler_def stats_of_def with_node_def split_beta)

lemma node_Handlers_answer: "\<exists>r. fst (node_Handlers d e req a) = Some r"
  by (cases e) (simp_all add: on_xnode_def on_node_def on_core_def reply_def geocheck_handler_def split_beta)

lemma map_of_map_snd: "map_of (map (\<lambda>(k, e). (k, f e)) xs) key = map_option f (map_of xs key)"
  by (induction xs) auto

lemma route_outcome_handlers:
  "route_outcome d req a = map_option (\<lambda>e. (the (fst (node_Handlers d e req a)), snd (node_Handlers d e req a)))
     (map_of registerRoutes (hq_Method req, hq_Path req))"
  unfolding route_outcome_def route_table_handlers by (rule map_of_map_snd)

lemma NewRouter_outcome:
  assumes "gin_exact (as_gin s)"
  shows "case route_outcome (as_deps s) (body_limited s req) a of
      Some out \<Rightarrow> NewRouter (as_gin s) BodyInternalError (as_cfg s) (node_Handlers (as_deps s)) req a = out
    | None \<Rightarrow> NewRouter (as_gin s) BodyInternalError (as_cfg s) (node_Handlers (as_deps s)) req a \<in>
        {(closeRequestConnection req 404, a)} \<union> range (\<lambda>(status, path). (Redirected status path, a))"
proof -
  have limited: "body_limited s req = ginBodyLimit (word_of_int (cfg_RequestBodyLimitBytes (as_cfg s))) req"
    "hq_Method (body_limited s req) = hq_Method req" "hq_Path (body_limited s req) = hq_Path req"
    "closeRequestConnection (body_limited s req) st = closeRequestConnection req st" for st
    by (simp_all add: body_limited_def ginBodyLimit_def closeRequestConnection_def Let_def)
  show ?thesis
  proof (cases "map_of registerRoutes (hq_Method req, hq_Path req)")
    case None
    then have "as_gin s registerRoutes (hq_Method req) (hq_Path req) \<noteq> Matched e" for e
      using assms by (simp add: gin_exact_def)
    with None show ?thesis
      by (cases "as_gin s registerRoutes (hq_Method req) (hq_Path req)")
        (auto simp: route_outcome_handlers limited(2-4) NewRouter_def gin_serve_def ginRecovery_def limited(1) [symmetric]
          StatusNotFound_def)
  next
    case (Some e)
    obtain r where "fst (node_Handlers (as_deps s) e (body_limited s req) a) = Some r" using node_Handlers_answer by blast
    moreover have "as_gin s registerRoutes (hq_Method req) (hq_Path req) = Matched e"
      using assms Some by (simp add: gin_exact_def)
    ultimately show ?thesis
      using Some by (simp add: route_outcome_handlers limited(2,3) NewRouter_def gin_serve_def ginRecovery_def
          limited(1) [symmetric] split_beta)
  qed
qed

text \<open>The main handler in front of the router: the token, then the compressed body.\<close>

lemma serve_main_refused: "\<not> admitted s req \<Longrightarrow> serve_main s req a = (closeRequestConnection req 401, a)"
  by (auto simp: admitted_def serve_main_def main_handler_def JWTMiddleware_def JWTMiddlewareWithExemptPaths_def
      StatusUnauthorized_def Let_def split: option.split prod.split)

lemma serve_main_admitted:
  assumes "admitted s req"
  shows "serve_main s req a = ZstdMiddlewareWithLimit (as_zstd s) (NewRouter (as_gin s) BodyInternalError (as_cfg s) (node_Handlers (as_deps s)))
     (word_of_int (cfg_RequestBodyLimitBytes (as_cfg s))) req a"
proof (cases "sv_PublicKey (as_server s)")
  case None
  then show ?thesis by (simp add: serve_main_def main_handler_def Let_def)
next
  case (Some key)
  with assms obtain tok t where "bearerToken (hq_Authorization req) = Some tok"
    "jw_Parse (as_jwt s) tok (jwt_key key) = (None, Some t)" "jt_Valid t" by (auto simp: admitted_def)
  with Some show ?thesis
    by (simp add: serve_main_def main_handler_def JWTMiddleware_def JWTMiddlewareWithExemptPaths_def Let_def)
qed

lemma serve_main_plain:
  "admitted s req \<Longrightarrow> \<not> EqualFold (hq_ContentEncoding req) ''zstd'' \<Longrightarrow>
   serve_main s req a = NewRouter (as_gin s) BodyInternalError (as_cfg s) (node_Handlers (as_deps s)) req a"
  by (simp add: serve_main_admitted ZstdMiddlewareWithLimit_def)

lemma LimitReader_whole:
  assumes "0 <s limit" "limit \<noteq> max_int64" "LimitReader (limit + 1) source = (body, err)"
    "\<not> limit <s word_of_nat (length body)"
  shows "body = fst source"
proof (rule ccontr)
  assume cut: "body \<noteq> fst source"
  have next1: "sint (limit + 1) = sint limit + 1" using assms(1,2) by (rule sint_plus_one)
  have pos: "0 < sint limit" using assms(1) by (simp add: word_sless_alt)
  have len: "body = take (nat (sint limit + 1)) (fst source)" "sint limit + 1 \<le> int (length (fst source))"
    using assms(3) cut pos next1 by (auto simp: LimitReader_def word_sle_eq split: if_splits)
  then have "length body = nat (sint limit + 1)" by simp
  moreover have "nat (sint limit + 1) < 2 ^ 63" using sint_lt [of "limit + 1"] next1 by simp
  ultimately have "sint (word_of_nat (length body) :: 64 word) = sint limit + 1"
    using sint_word_of_nat [of "length body"] pos by simp
  then show False using assms(4) by (simp add: word_sless_alt)
qed

text \<open>The body that a compressed request is treated with: the decoded one, but for the limit whose successor overflows.\<close>

definition decoded_body :: "('a, 'i, 'w, 'k, 'pool, 'p) ApiServer \<Rightarrow> http_request \<Rightarrow> string" where
  "decoded_body s req =
     (if word_of_int (cfg_RequestBodyLimitBytes (as_cfg s)) = max_int64 then []
      else fst (zs_decode (as_zstd s) (hq_Body req)))"

lemma serve_main_compressed:
  assumes adm: "admitted s req" and zstd: "EqualFold (hq_ContentEncoding req) ''zstd''"
  shows "(\<exists>code\<in>{400, 413}. \<exists>message. serve_main s req a = (HttpError code message, a)) \<or>
    serve_main s req a = serve_main s (req\<lparr>hq_Body := decoded_body s req, hq_ContentEncoding := []\<rparr>) a"
proof -
  have plain: "serve_main s (req\<lparr>hq_Body := body, hq_ContentEncoding := []\<rparr>) a =
      NewRouter (as_gin s) BodyInternalError (as_cfg s) (node_Handlers (as_deps s)) (req\<lparr>hq_Body := body, hq_ContentEncoding := []\<rparr>) a" for body
    using adm by (intro serve_main_plain) (simp_all add: admitted_def EqualFold_def)
  let ?limit = "word_of_int (cfg_RequestBodyLimitBytes (as_cfg s)) :: 64 word"
  let ?dec = "zs_decode (as_zstd s) (hq_Body req)"
  obtain body err where out: "(if 0 <s ?limit then LimitReader (?limit + 1) ?dec else ?dec) = (body, err)" by fastforce
  have body: "body = decoded_body s req" if fits: "\<not> (0 <s ?limit \<and> ?limit <s word_of_nat (length body))"
  proof (cases "0 <s ?limit")
    case True
    have max: "fst (LimitReader (max_int64 + 1) ?dec) = []" by (simp add: LimitReader_def max_int64_def word_sle_eq)
    from True out have "LimitReader (?limit + 1) ?dec = (body, err)" by simp
    with True fits LimitReader_whole [of ?limit ?dec body err] max show ?thesis
      by (auto simp: decoded_body_def)
  next
    case False
    then have "?limit \<noteq> max_int64" by (auto simp: word_sless_alt)
    with False out show ?thesis by (simp add: decoded_body_def)
  qed
  have "serve_main s req a \<in> {(HttpError code message, a) | code message. code \<in> {400, 413}} \<union>
      (if 0 <s ?limit \<and> ?limit <s word_of_nat (length body) then {}
       else {serve_main s (req\<lparr>hq_Body := body, hq_ContentEncoding := []\<rparr>) a})"
    unfolding serve_main_admitted [OF adm] plain ZstdMiddlewareWithLimit_def if_P [OF zstd] out
    by (cases "zs_NewReader (as_zstd s) (hq_Body req)"; cases err)
      (auto simp: StatusBadRequest_def StatusRequestEntityTooLarge_def)
  then show ?thesis using body by (auto split: if_splits)
qed

text \<open>The other requests leave the node and its instance alone.\<close>

lemma handler_quiet:
  assumes "e \<notin> {Xray_Start, Xray_Stop, Handler_AddUser, Handler_AddUsers, Handler_RemoveUser, Handler_RemoveUsers}"
  shows "\<exists>c. inert (world (ap_node a)) c \<and> ap_node (snd (node_Handlers d e req a)) = (ap_node a)\<lparr>world := c\<rparr>"
proof -
  have on_core: "\<exists>c. inert (world (ap_node a)) c \<and> ap_node (snd (on_core body f a)) = (ap_node a)\<lparr>world := c\<rparr>"
    if "\<And>c. inert c (snd (f c))" for body :: "'r \<Rightarrow> api_body" and f
    using that by (auto simp: on_core_def split_beta)
  have same: "\<exists>c. inert (world (ap_node a)) c \<and> ap_node a = (ap_node a)\<lparr>world := c\<rparr>"
    by (rule exI [of _ "world (ap_node a)"]) simp
  show ?thesis
    using assms same inert_geocheck [of a d req]
    by (cases e) (simp_all add: stats_of_def on_core inert_stats inert_GetUsersStats inert_GetCombinedStats
        handlers.DropUsersConnections_world handlers.DropIPs_world)
qed

lemma route_quiet:
  assumes "route_outcome d req a = Some (r, a')" "(hq_Method req, hq_Path req) \<notin> node_routes"
  shows "\<exists>w. ap_node a' = (ap_node a)\<lparr>world := (world (ap_node a))\<lparr>ec_world := w\<rparr>\<rparr>"
proof -
  obtain e where e: "map_of registerRoutes (hq_Method req, hq_Path req) = Some e"
    and a': "a' = snd (node_Handlers d e req a)"
    using assms(1) by (auto simp: route_outcome_handlers)
  from e assms(2) have "e \<notin> {Xray_Start, Xray_Stop, Handler_AddUser, Handler_AddUsers, Handler_RemoveUser, Handler_RemoveUsers}"
    unfolding registerRoutes_def node_routes_def POST_def GET_def by (auto split: if_splits)
  from handler_quiet [OF this, of a d req] show ?thesis unfolding a' inert_def by blast
qed

lemma NewRouter_quiet:
  fixes s :: "('a, 'i, 'w, 'k, 'pool, 'p) ApiServer"
  assumes "gin_exact (as_gin s)" "(hq_Method req, hq_Path req) \<notin> node_routes"
  shows "\<exists>w. ap_node (snd (NewRouter (as_gin s) BodyInternalError (as_cfg s) (node_Handlers (as_deps s)) req a)) =
    (ap_node a)\<lparr>world := (world (ap_node a))\<lparr>ec_world := w\<rparr>\<rparr>"
proof (cases "route_outcome (as_deps s) (body_limited s req) a")
  case None
  with NewRouter_outcome [OF assms(1), of req a]
  have "snd (NewRouter (as_gin s) BodyInternalError (as_cfg s) (node_Handlers (as_deps s)) req a) = a" by auto
  then show ?thesis by (intro exI [of _ "ec_world (world (ap_node a))"]) simp
next
  case (Some out)
  then have "NewRouter (as_gin s) BodyInternalError (as_cfg s) (node_Handlers (as_deps s)) req a = out"
    using NewRouter_outcome [OF assms(1), of req a] by simp
  moreover have "(hq_Method (body_limited s req), hq_Path (body_limited s req)) \<notin> node_routes"
    using assms(2) by (simp add: body_limited_def Let_def)
  ultimately show ?thesis using route_quiet [of "as_deps s" "body_limited s req" a "fst out" "snd out"] Some by simp
qed

lemma serve_main_quiet:
  assumes "gin_exact (as_gin s)" "(hq_Method req, hq_Path req) \<notin> node_routes"
  shows "\<exists>w. ap_node (snd (serve_main s req a)) = (ap_node a)\<lparr>world := (world (ap_node a))\<lparr>ec_world := w\<rparr>\<rparr>"
proof -
  have same: "\<exists>w. ap_node a = (ap_node a)\<lparr>world := (world (ap_node a))\<lparr>ec_world := w\<rparr>\<rparr>"
    by (intro exI [of _ "ec_world (world (ap_node a))"]) simp
  consider "\<not> admitted s req" | "admitted s req" "\<not> EqualFold (hq_ContentEncoding req) ''zstd''"
    | "admitted s req" "EqualFold (hq_ContentEncoding req) ''zstd''" by blast
  then show ?thesis
  proof cases
    case 1
    then show ?thesis using same by (simp add: serve_main_refused)
  next
    case 2
    then show ?thesis using NewRouter_quiet [OF assms] by (simp add: serve_main_plain)
  next
    case 3
    from serve_main_compressed [OF this, of a] show ?thesis
    proof (elim disjE exE bexE)
      let ?req = "req\<lparr>hq_Body := decoded_body s req, hq_ContentEncoding := []\<rparr>"
      assume "serve_main s req a = serve_main s ?req a"
      moreover have "serve_main s ?req a = NewRouter (as_gin s) BodyInternalError (as_cfg s) (node_Handlers (as_deps s)) ?req a"
        using 3 by (intro serve_main_plain) (simp_all add: admitted_def EqualFold_def)
      ultimately show ?thesis using NewRouter_quiet [OF assms(1), of ?req a] assms(2) by simp
    qed (use same in simp)
  qed
qed

lemma serve_internal_quiet:
  assumes "gin_exact (as_gin s)"
  shows "snd (serve_internal s req a) = a"
proof -
  have "e = Internal_GetConfig" if "as_gin s registerInternalRoutes (hq_Method req) (hq_Path req) = Matched e" for e
    using that assms by (auto simp: gin_exact_def registerInternalRoutes_def split: if_splits)
  then show ?thesis
    by (auto simp: serve_internal_def NewInternalRouter_def gin_serve_def ginRecovery_def
        ginInternalPortGuard_def reply_def split: gin_match.split option.split prod.split)
qed

section \<open>Properties\<close>

text \<open>
  C7. What the HTTP side does with a request, from every state. A request that is not admitted is refused and changes
  nothing. An admitted one with a plain body gets, by its method and path alone, the answer and the state of the
  table of routes, with its body limited: a start starts, a stop stops, the four user requests are served by the node
  with what their own binder reads of the request. A request for no route is refused or redirected and changes nothing.
  A compressed body is refused, changing nothing, or the request is treated as the one with the decoded body (an empty one
  under the largest possible limit). No request but those six touches the runtime state, the instance or the start in progress, and the internal server
  changes nothing at all.
\<close>

theorem http_refines_node:
  assumes "gin_exact (as_gin s)"
  shows "(if \<not> admitted s req then serve_main s req a = (closeRequestConnection req 401, a)
      else if EqualFold (hq_ContentEncoding req) ''zstd'' then
        (\<exists>code\<in>{400, 413}. \<exists>message. serve_main s req a = (HttpError code message, a)) \<or>
        serve_main s req a = serve_main s (req\<lparr>hq_Body := decoded_body s req, hq_ContentEncoding := []\<rparr>) a
      else case route_outcome (as_deps s) (body_limited s req) a of
        Some out \<Rightarrow> serve_main s req a = out
      | None \<Rightarrow> serve_main s req a \<in>
          {(closeRequestConnection req 404, a)} \<union> range (\<lambda>(status, path). (Redirected status path, a))) \<and>
    ((hq_Method req, hq_Path req) \<notin> node_routes \<longrightarrow>
      (\<exists>w. ap_node (snd (serve_main s req a)) = (ap_node a)\<lparr>world := (world (ap_node a))\<lparr>ec_world := w\<rparr>\<rparr>)) \<and>
    snd (serve_internal s req a) = a"
proof (intro conjI impI)
  show main: "if \<not> admitted s req then serve_main s req a = (closeRequestConnection req 401, a)
      else if EqualFold (hq_ContentEncoding req) ''zstd'' then
        (\<exists>code\<in>{400, 413}. \<exists>message. serve_main s req a = (HttpError code message, a)) \<or>
        serve_main s req a = serve_main s (req\<lparr>hq_Body := decoded_body s req, hq_ContentEncoding := []\<rparr>) a
      else case route_outcome (as_deps s) (body_limited s req) a of
        Some out \<Rightarrow> serve_main s req a = out
      | None \<Rightarrow> serve_main s req a \<in>
          {(closeRequestConnection req 404, a)} \<union> range (\<lambda>(status, path). (Redirected status path, a))"
    using serve_main_refused [of s req a] serve_main_compressed [of s req a] serve_main_plain [of s req a]
      NewRouter_outcome [OF assms, of req a] by presburger
  show "snd (serve_internal s req a) = a" by (rule serve_internal_quiet [OF assms])
next
  assume "(hq_Method req, hq_Path req) \<notin> node_routes"
  then show "\<exists>w. ap_node (snd (serve_main s req a)) = (ap_node a)\<lparr>world := (world (ap_node a))\<lparr>ec_world := w\<rparr>\<rparr>"
    by (rule serve_main_quiet [OF assms])
qed

text \<open>
  C21. The health check over HTTP tells the truth: after any traffic, a request that reaches the
  health check is answered with 200 and says that Xray is up exactly when the core holds an
  instance, and it changes nothing.
\<close>

theorem http_healthcheck_truthful:
  assumes "(api_step s)\<^sup>*\<^sup>* (api_init s w) a"
    and "as_gin s registerRoutes (hq_Method req) (hq_Path req) = Matched Xray_Healthcheck"
  shows "NewRouter (as_gin s) BodyInternalError (as_cfg s) (node_Handlers (as_deps s)) req a =
    (Envelope 200 (BodyHealth
       \<lparr>hr_IsAlive = True, hr_XrayInternalStatusCached = IsRunning (world (ap_node a)),
        hr_XrayVersion = XrayVersion (rt (ap_node a)), hr_NodeVersion = NodeVersion (rt (ap_node a))\<rparr>), a)"
  using assms(2) api_reachable_inv [OF assms(1)]
  by (simp add: NewRouter_def gin_serve_def ginRecovery_def reply_def Healthcheck_def Snapshot_of_def
      StatusOK_def cloneStringPtr_def Let_def node_inv_def split: option.split)

text \<open>The answers of the stats routes without an instance.\<close>

definition down_reply :: "request_info \<Rightarrow> endpoint \<Rightarrow> api_body response option" where
  "down_reply ri e =
     (let failed = (\<lambda>message code. Some (WriteOfficialError (fst ri) (snd ri) 500 message code)) in
      case e of
        Stats_GetSystemStats \<Rightarrow> failed ''Failed to get system stats'' ''A010''
      | Stats_GetUsersStats \<Rightarrow> failed ''Failed to get users stats'' ''A011''
      | Stats_GetInboundStats \<Rightarrow> failed ''Failed to get inbound stats'' ''A012''
      | Stats_GetOutboundStats \<Rightarrow> failed ''Failed to get outbound stats'' ''A013''
      | Stats_GetAllInboundsStats \<Rightarrow> failed ''Failed to get inbounds stats'' ''A015''
      | Stats_GetAllOutboundsStats \<Rightarrow> failed ''Failed to get outbounds stats'' ''A016''
      | Stats_GetCombinedStats \<Rightarrow> failed ''Failed to get combined stats'' ''A017''
      | Stats_GetUserOnlineStatus \<Rightarrow> Some (Envelope 200 (BodyOnline \<lparr>uosr_IsOnline = False\<rparr>))
      | Stats_GetUserIPList \<Rightarrow> Some (Envelope 200 (BodyUserIPs \<lparr>uilr_IPs = []\<rparr>))
      | Stats_GetUsersIPList \<Rightarrow> Some (Envelope 200 (BodyUsersIPs \<lparr>usil_Users = []\<rparr>))
      | _ \<Rightarrow> None)"

text \<open>
  Statistics while Xray is down: after any traffic, when the core holds no instance, no stats
  request changes anything, whatever it asks for. The counters answer with the official error
  of their code, the lists of online users degrade to empty answers.
\<close>

theorem stats_when_down:
  assumes "\<not> IsRunning (world (ap_node a))" "down_reply (bd_info (ad_bind d) req) e \<noteq> None"
  shows "node_Handlers d e req a = (down_reply (bd_info (ad_bind d) req) e, a)"
proof -
  have down: "stats_client (stats_of d) (world (ap_node a)) = Inl (NewError ''xray core not running'')"
    using assms(1) by (simp add: stats_client_def stats_of_def stats_env_def embedded_core_def)
  from assms(2) show ?thesis
    by (cases e) (simp_all add: down_reply_def on_core_def stats_down [OF down] stats_down_read [OF down]
        api_state_id reply_def WriteOfficialError_def StatusOK_def)
qed


text \<open>
  No traffic is reported twice and none is lost by a reset: when Xray runs with statistics,
  a resetting users request reports the totals of all user counters and stores zero in them, so that the
  next request, if nothing has been counted in between, reports nobody. The library is relied on to
  give back the counters that were stored.
\<close>

theorem users_stats_reported_once:
  assumes "\<And>h cs w. lib_Counters lib h (lib_SetCounters lib h cs w) = cs"
    and "\<And>h h' cs w. lib_StatsManager lib h (lib_SetCounters lib h' cs w) = lib_StatsManager lib h w"
    and "stats_manager lib c = Inr m" "nd_lib deps = lib"
    and "GetUsersStats (stats_env deps g) ri (Inr \<lparr>rr_Reset = True\<rparr>) c = (r1, c1)"
    and "GetUsersStats (stats_env deps g) ri' (Inr \<lparr>rr_Reset = reset\<rparr>) c1 = (r2, c2)"
  shows "r1 = Envelope 200 \<lparr>usr_Users =
        contractUserTrafficStats (fst (UsersStats True (lib_Counters lib m (ec_world c))))\<rparr> \<and>
    r2 = Envelope 200 \<lparr>usr_Users = []\<rparr>"
proof -
  let ?cs = "lib_Counters lib m (ec_world c)"
  have run: "IsRunning c"
    using assms(3) by (auto simp: stats_manager_def Instance_def IsRunning_def split: option.splits)
  have get: "GetUsersStats (stats_env deps g) ri (Inr \<lparr>rr_Reset = b\<rparr>) c' =
      (Envelope 200 \<lparr>usr_Users = contractUserTrafficStats (fst (UsersStats b (lib_Counters lib m (ec_world c'))))\<rparr>,
       c'\<lparr>ec_world := lib_SetCounters lib m (snd (UsersStats b (lib_Counters lib m (ec_world c')))) (ec_world c')\<rparr>)"
    if "IsRunning c'" "stats_manager lib c' = Inr m" for b c' ri
    using that assms(4)
    by (simp add: GetUsersStats_def embedded_stats_defs with_counters_def StatusOK_def)
  have c1: "c1 = c\<lparr>ec_world := lib_SetCounters lib m (snd (UsersStats True ?cs)) (ec_world c)\<rparr>"
    "r1 = Envelope 200 \<lparr>usr_Users = contractUserTrafficStats (fst (UsersStats True ?cs))\<rparr>"
    using get [OF run assms(3)] assms(5) by auto
  have "stats_manager lib c1 = Inr m" "IsRunning c1"
    using assms(3) run by (auto simp: c1 stats_manager_def Instance_def assms(2) split: option.splits)
  from get [OF this(2,1)] assms(6) have
    "r2 = Envelope 200 \<lparr>usr_Users = contractUserTrafficStats (fst (UsersStats reset (lib_Counters lib m (ec_world c1))))\<rparr>"
    by simp
  moreover have "lib_Counters lib m (ec_world c1) = snd (UsersStats True ?cs)"
    by (simp add: c1 assms(1))
  ultimately show ?thesis
    by (simp add: c1 UsersStats_after_reset contractUserTrafficStats_def)
qed

text \<open>
  The internal API shows the configuration that the last successful start recorded, with the
  derived server name added under its own key when there is one, and never changes it: a request on
  the loopback port that gin routes there is answered with a copy.
\<close>

theorem internal_config_served:
  assumes "as_gin s registerInternalRoutes (hq_Method req) (hq_Path req) = Matched Internal_GetConfig"
    "hq_LocalAddr req = Some (cfg_InternalRESTPort (as_cfg s), True)"
    "serve_internal s req a = (response, a')"
  shows "a' = a \<and> (\<exists>config. response = PlainJSON 200 (BodyConfig config) \<and>
    (\<forall>key. fmlookup config key =
       (if key = ''panelSni'' \<and> ad_panelSni (as_deps s) \<noteq> [] then Some (JStr (ad_panelSni (as_deps s)))
        else case CurrentConfig (rt (ap_node a)) of None \<Rightarrow> None | Some m \<Rightarrow> fmlookup m key)))"
proof -
  have limited: "hq_LocalAddr (ginBodyLimit l req) = hq_LocalAddr req" for l
    by (simp add: ginBodyLimit_def)
  from assms show ?thesis
    by (auto simp: serve_internal_def NewInternalRouter_def gin_serve_def ginRecovery_def
        ginInternalPortGuard_def limited reply_def GetConfig_def Snapshot_of_def state_cloneMap_def StatusOK_def
        Let_def split: option.splits)
qed


section \<open>Witnesses\<close>

text \<open>
  The examples hold for every node: only the router, the request and, for the counters, the library are
  concrete.
\<close>

lemma example_gin_exact: "gin_exact example_gin"
  by (simp add: gin_exact_def example_gin_def split: option.split)

text \<open>A stop over HTTP stops: on every server without a key whose router is exact.\<close>

theorem http_refines_node_witness:
  "\<forall>(s0 :: (unit, unit, bool, nat, nat, nat) ApiServer) a.
     snd (serve_main (s0\<lparr>as_gin := example_gin, as_server := example_server\<lparr>sv_PublicKey := None\<rparr>\<rparr>)
       (example_http_request\<lparr>hq_ContentEncoding := []\<rparr>) a) =
     a\<lparr>ap_node := snd (Stop_handler (xray_env (ad_node (as_deps s0)) (ad_builder (as_deps s0))) (ap_node a))\<rparr>"
proof (intro allI)
  fix s0 :: "(unit, unit, bool, nat, nat, nat) ApiServer" and a
  let ?s = "s0\<lparr>as_gin := example_gin, as_server := example_server\<lparr>sv_PublicKey := None\<rparr>\<rparr>"
  let ?req = "example_http_request\<lparr>hq_ContentEncoding := []\<rparr>"
  have "admitted ?s ?req" by (simp add: admitted_def)
  moreover have "\<not> EqualFold (hq_ContentEncoding ?req) ''zstd''" by (simp add: EqualFold_def)
  moreover have "route_outcome (as_deps ?s) (body_limited ?s ?req) a =
      Some (map_response BodyStop (fst (Stop_handler (xray_env (ad_node (as_deps s0)) (ad_builder (as_deps s0))) (ap_node a))),
        a\<lparr>ap_node := snd (Stop_handler (xray_env (ad_node (as_deps s0)) (ad_builder (as_deps s0))) (ap_node a))\<rparr>)"
    by (simp add: route_outcome_def route_table_def Let_def body_limited_def example_http_request_def GET_def)
  moreover have "gin_exact (as_gin ?s)" by (simp add: example_gin_exact)
  ultimately show "snd (serve_main ?s ?req a) =
      a\<lparr>ap_node := snd (Stop_handler (xray_env (ad_node (as_deps s0)) (ad_builder (as_deps s0))) (ap_node a))\<rparr>"
    using http_refines_node [of ?s ?req a] by simp
qed

definition example_health_request :: http_request where
  "example_health_request = example_http_request\<lparr>hq_Path := ''/node/xray/healthcheck''\<rparr>"

definition example_internal_request :: http_request where
  "example_internal_request = example_http_request\<lparr>hq_Path := ''/internal/get-config'',
     hq_LocalAddr := Some (61001, True)\<rparr>"

theorem http_healthcheck_truthful_witness:
  "\<forall>s0 :: (unit, unit, bool, nat, nat, nat) ApiServer. \<exists>version.
     fst (NewRouter example_gin BodyInternalError (as_cfg s0) (node_Handlers (as_deps s0))
       example_health_request (api_init s0 True)) =
     Envelope 200 (BodyHealth \<lparr>hr_IsAlive = True, hr_XrayInternalStatusCached = False,
       hr_XrayVersion = version, hr_NodeVersion = NodeVersion NewRuntimeState\<rparr>)"
proof
  fix s0 :: "(unit, unit, bool, nat, nat, nat) ApiServer"
  let ?s = "s0\<lparr>as_gin := example_gin\<rparr>"
  have "as_gin ?s registerRoutes (hq_Method example_health_request) (hq_Path example_health_request) =
      Matched Xray_Healthcheck"
    by (simp add: example_gin_def registerRoutes_def example_health_request_def example_http_request_def
        GET_def POST_def)
  from http_healthcheck_truthful [of ?s True "api_init ?s True", OF rtranclp.rtrancl_refl this]
  show "\<exists>version. fst (NewRouter example_gin BodyInternalError (as_cfg s0) (node_Handlers (as_deps s0))
      example_health_request (api_init s0 True)) =
    Envelope 200 (BodyHealth \<lparr>hr_IsAlive = True, hr_XrayInternalStatusCached = False,
      hr_XrayVersion = version, hr_NodeVersion = NodeVersion NewRuntimeState\<rparr>)"
    by (simp add: api_init_def NewRegistry_def NewEmbeddedCore_def IsRunning_def)
qed

theorem stats_when_down_witness:
  "\<forall>(s :: (unit, unit, bool, nat, nat, nat) ApiServer) req.
     node_Handlers (as_deps s) Stats_GetUsersIPList req (api_init s True) =
       (Some (Envelope 200 (BodyUsersIPs \<lparr>usil_Users = []\<rparr>)), api_init s True)"
proof (intro allI)
  fix s :: "(unit, unit, bool, nat, nat, nat) ApiServer" and req
  have "\<not> IsRunning (world (ap_node (api_init s True)))"
    by (simp add: api_init_def NewRegistry_def NewEmbeddedCore_def IsRunning_def)
  from stats_when_down [OF this, of "as_deps s" req Stats_GetUsersIPList]
  show "node_Handlers (as_deps s) Stats_GetUsersIPList req (api_init s True) =
      (Some (Envelope 200 (BodyUsersIPs \<lparr>usil_Users = []\<rparr>)), api_init s True)"
    by (simp add: down_reply_def)
qed

definition counting_lib :: "counters xray_lib" where
  "counting_lib =
     \<lparr>lib_LoadConfig = (\<lambda>_ _. Inr 0), lib_New = (\<lambda>_ _ w. (None, w)),
      lib_Start = (\<lambda>h w. (StartReturned None, w)), lib_Close = (\<lambda>_ w. (None, w)), lib_Version = ''26.3.27'',
      lib_Now = (\<lambda>_. 7), lib_rnd = id, lib_InboundManager = (\<lambda>_ _. FeatureNil),
      lib_GetHandler = (\<lambda>_ _ _. Inr 0), lib_GetInbound = (\<lambda>_ _. None), lib_UserManager = (\<lambda>_ _. None),
      lib_ToMemoryUser = (\<lambda>_. Inr 0), lib_AddUser = (\<lambda>_ _ w. (None, w)),
      lib_RemoveUser = (\<lambda>_ _ w. (None, w)), lib_StatsManager = (\<lambda>_ _. Feature 0),
      lib_Counters = (\<lambda>_ w. w), lib_SetCounters = (\<lambda>_ cs _. cs),
      lib_GetOnlineMap = (\<lambda>_ _ _. None), lib_GetAllOnlineUsers = (\<lambda>_ _. []), lib_NumGoroutine = (\<lambda>_. 1),
      lib_MemStats = (\<lambda>_. \<lparr>sys_NumGoroutine = 0, sys_NumGC = 0, sys_Alloc = 0, sys_TotalAlloc = 0,
        sys_Sys = 0, sys_Mallocs = 0, sys_Frees = 0, sys_LiveObjects = 0, sys_PauseTotalNs = 0,
        sys_Uptime = 0\<rparr>)\<rparr>"

definition counting_core :: "counters EmbeddedCore" where
  "counting_core = \<lparr>ec_instance = Some 0, ec_version = ''26.3.27'', ec_startedAt = Some 7, ec_pending = [],
     ec_next = 1, ec_calls = [CallNew 0, CallStart 0], ec_world = [(''user>>>bob>>>traffic>>>uplink'', 7)]\<rparr>"

theorem users_stats_reported_once_witness:
  "\<forall>d0 :: (unit, unit, counters) NodeDeps. \<exists>c1 c2.
     GetUsersStats (stats_env (d0\<lparr>nd_lib := counting_lib\<rparr>) no_geocheck) ([], []) (Inr \<lparr>rr_Reset = True\<rparr>) counting_core =
       (Envelope 200 \<lparr>usr_Users = contractUserTrafficStats (fst (UsersStats True (ec_world counting_core)))\<rparr>, c1) \<and>
     GetUsersStats (stats_env (d0\<lparr>nd_lib := counting_lib\<rparr>) no_geocheck) ([], []) (Inr \<lparr>rr_Reset = True\<rparr>) c1 =
       (Envelope 200 \<lparr>usr_Users = []\<rparr>, c2)"
proof
  fix d0 :: "(unit, unit, counters) NodeDeps"
  let ?e = "stats_env (d0\<lparr>nd_lib := counting_lib\<rparr>) no_geocheck"
  obtain r1 c1 where run1: "GetUsersStats ?e ([], []) (Inr \<lparr>rr_Reset = True\<rparr>) counting_core = (r1, c1)" by fastforce
  obtain r2 c2 where run2: "GetUsersStats ?e ([], []) (Inr \<lparr>rr_Reset = True\<rparr>) c1 = (r2, c2)" by fastforce
  have m: "stats_manager counting_lib counting_core = Inr 0"
    by (simp add: stats_manager_def Instance_def counting_core_def counting_lib_def)
  have laws: "lib_Counters counting_lib h (lib_SetCounters counting_lib h cs w) = cs"
    "lib_StatsManager counting_lib h (lib_SetCounters counting_lib h' cs w) = lib_StatsManager counting_lib h w"
    "lib_Counters counting_lib h w = w" for h h' cs w
    by (simp_all add: counting_lib_def)
  have "nd_lib (d0\<lparr>nd_lib := counting_lib\<rparr>) = counting_lib" by simp
  from users_stats_reported_once [OF laws(1,2) m this run1 run2] run1 run2
  show "\<exists>c1 c2. GetUsersStats ?e ([], []) (Inr \<lparr>rr_Reset = True\<rparr>) counting_core =
      (Envelope 200 \<lparr>usr_Users = contractUserTrafficStats (fst (UsersStats True (ec_world counting_core)))\<rparr>, c1) \<and>
    GetUsersStats ?e ([], []) (Inr \<lparr>rr_Reset = True\<rparr>) c1 = (Envelope 200 \<lparr>usr_Users = []\<rparr>, c2)"
    by (auto simp: laws(3))
qed

theorem internal_config_served_witness:
  "\<forall>s0 :: (unit, unit, bool, nat, nat, nat) ApiServer.
     snd (serve_internal (s0\<lparr>as_gin := example_gin, as_cfg := example_config\<rparr>) example_internal_request
       (api_init s0 True)) = api_init s0 True"
proof
  fix s0 :: "(unit, unit, bool, nat, nat, nat) ApiServer"
  let ?s = "s0\<lparr>as_gin := example_gin, as_cfg := example_config\<rparr>"
  obtain r a' where run: "serve_internal ?s example_internal_request (api_init s0 True) = (r, a')" by fastforce
  have "as_gin ?s registerInternalRoutes (hq_Method example_internal_request) (hq_Path example_internal_request) =
      Matched Internal_GetConfig"
    "hq_LocalAddr example_internal_request = Some (cfg_InternalRESTPort (as_cfg ?s), True)"
    by (simp_all add: example_gin_def registerInternalRoutes_def example_internal_request_def
        example_http_request_def example_config_def)
  from internal_config_served [OF this run] run
  show "snd (serve_internal ?s example_internal_request (api_init s0 True)) = api_init s0 True" by simp
qed

end
