(* ===== verification/Concurrency.thy ===== *)
theory Concurrency
  imports Node
begin

text \<open>
  The lifecycle under concurrency. The HTTP server runs every request in a goroutine of its own,
  and the lifecycle controller guards only \<open>Start\<close>, with a flag, against other starts; \<open>Stop\<close>
  runs at any time. Here \<open>Start\<close> and \<open>Stop\<close> (\<open>internal/controller/xray_controller.go\<close> over
  \<open>internal/xray/core.go\<close>) are cut at the points where another goroutine can act: one turn is
  one critical section of the core's or the state's mutex, or one call of xray-core.
\<close>

section \<open>Where a request is\<close>

text \<open>
  The program counter of the start in progress, with its local variables. \<open>StartIdle\<close> is
  no start in progress (\<open>startProcessing\<close> is false). The last argument of \<open>StartEnding\<close> is the
  \<open>isStarted\<close> of the answer.
\<close>

datatype start_pc =
    StartIdle
  | StartBind "gerror + StartXrayRequest"
  | StartObserved StartXrayRequest bool
  | StartHealth StartXrayRequest
  | StartHealthy
  | StartUnhealthy StartXrayRequest
  | StartBuild StartXrayRequest
  | StartLoad json_obj Hashes string
  | StartCreated handle json_obj Hashes
  | StartTaken handle "handle option" json_obj Hashes
  | StartClosed handle json_obj Hashes
  | StartStarted handle json_obj Hashes
  | StartSet json_obj Hashes
  | StartVersioned "string option" json_obj Hashes
  | StartRecorded json_obj
  | StartFailed
  | StartFailedUp
  | StartFailedCached
  | StartFailedDown
  | StartEnding bool

text \<open>A stop: it has taken the instance away, or it has closed it.\<close>

datatype stop_pc = StopTaken "handle option" | StopClosed

section \<open>One turn of each\<close>

text \<open>
  \<open>Start\<close>, turn by turn. The geodata files and the encoding of the config are
  one turn with the build, since they touch nothing that is shared but the outside world; the
  bounded start of the instance is one turn, the one in which it returns.
\<close>

fun start_turn :: "('a, 'i, 'w) NodeDeps \<Rightarrow> ConfigBuilder \<Rightarrow> start_pc \<Rightarrow> RuntimeState \<times> 'w EmbeddedCore \<Rightarrow>
    start_pc \<times> RuntimeState \<times> 'w EmbeddedCore" where
  "start_turn deps b StartIdle n = (StartIdle, n)"
| "start_turn deps b (StartBind (Inl err)) n = (StartEnding False, n)"
| "start_turn deps b (StartBind (Inr request)) (s, c) = (StartObserved request (IsRunning c), (s, c))"
| "start_turn deps b (StartObserved request coreRunning) (s, c) =
     (if \<not> ShouldRestart (RestartDecision (si_ForceRestart (sxr_Internals request))
            (request_hashes request) coreRunning s)
      then (StartHealth request, (s, c)) else (StartBuild request, (s, c)))"
| "start_turn deps b (StartHealth request) (s, c) =
     ((case Health c of None \<Rightarrow> StartHealthy | Some err \<Rightarrow> StartUnhealthy request), (s, c))"
| "start_turn deps b StartHealthy (s, c) = (StartEnding True, (SetXrayInternalStatusCached True s, c))"
| "start_turn deps b (StartUnhealthy request) (s, c) =
     (StartBuild request, (SetXrayInternalStatusCached False s, c))"
| "start_turn deps b (StartBuild request) (s, c) =
     (case Build b (sxr_XrayConfig request) of
        Inl err \<Rightarrow> (StartFailed, (s, c))
      | Inr fullConfig \<Rightarrow>
          let c = PrepareGeodata (geodata_on_core (nd_geodata deps)) (Some fullConfig) c
          in case nd_MarshalIndent deps fullConfig of
               Inl err \<Rightarrow> (StartFailed, (s, c))
             | Inr configBytes \<Rightarrow> (StartLoad fullConfig (request_hashes request) configBytes, (s, c)))"
| "start_turn deps b (StartLoad fullConfig hashes configBytes) (s, c) =
     (if \<not> json_Valid configBytes then (StartFailed, (s, c))
      else case lib_LoadConfig (nd_lib deps) configBytes (ec_world c) of
        Inl err \<Rightarrow> (StartFailed, (s, c))
      | Inr config \<Rightarrow>
          (case newXrayInstance (nd_lib deps) config c of
             (Inl err, c) \<Rightarrow> (StartFailed, (s, c))
           | (Inr instance, c) \<Rightarrow> (StartCreated instance fullConfig hashes, (s, c))))"
| "start_turn deps b (StartCreated instance fullConfig hashes) (s, c) =
     (case takeInstance c of (old, c) \<Rightarrow> (StartTaken instance old fullConfig hashes, (s, c)))"
| "start_turn deps b (StartTaken instance old fullConfig hashes) (s, c) =
     (StartClosed instance fullConfig hashes, (s, closeOld (nd_lib deps) old c))"
| "start_turn deps b (StartClosed instance fullConfig hashes) (s, c) =
     (case startInstanceWithContext (nd_lib deps) instance c of
        (Some err, c) \<Rightarrow> (StartFailed, (s, c))
      | (None, c) \<Rightarrow> (StartStarted instance fullConfig hashes, (s, c)))"
| "start_turn deps b (StartStarted instance fullConfig hashes) (s, c) =
     (StartSet fullConfig hashes, (s, setInstance (nd_lib deps) instance c))"
| "start_turn deps b (StartSet fullConfig hashes) (s, c) =
     (StartVersioned
        (case Version (nd_lib deps) c of
           Inl _ \<Rightarrow> None
         | Inr version \<Rightarrow> if version \<noteq> [] then Some version else None) fullConfig hashes, (s, c))"
| "start_turn deps b (StartVersioned versionPtr fullConfig hashes) (s, c) =
     (StartRecorded fullConfig, (SetXrayStarted versionPtr (Some fullConfig) hashes s, c))"
| "start_turn deps b (StartRecorded fullConfig) (s, c) =
     (StartEnding True, (SetInboundProtocolsFromConfig fullConfig s, c))"
| "start_turn deps b StartFailed (s, c) = ((if IsRunning c then StartFailedUp else StartFailedDown), (s, c))"
| "start_turn deps b StartFailedUp (s, c) = (StartFailedCached, (SetXrayRunning True s, c))"
| "start_turn deps b StartFailedCached (s, c) = (StartEnding False, (SetXrayInternalStatusCached True s, c))"
| "start_turn deps b StartFailedDown (s, c) = (StartEnding False, (SetXrayRunning False s, c))"
| "start_turn deps b (StartEnding answer) n = (StartIdle, n)"

text \<open>\<open>Stop\<close>: its first turn, and the ones after it; \<open>None\<close> when it has returned.\<close>

definition stop_first :: "RuntimeState \<times> 'w EmbeddedCore \<Rightarrow> stop_pc \<times> RuntimeState \<times> 'w EmbeddedCore" where
  "stop_first n = (case n of (s, c) \<Rightarrow> (case takeInstance c of (instance, c) \<Rightarrow> (StopTaken instance, (s, c))))"

fun stop_turn :: "'w xray_lib \<Rightarrow> stop_pc \<Rightarrow> RuntimeState \<times> 'w EmbeddedCore \<Rightarrow>
    stop_pc option \<times> RuntimeState \<times> 'w EmbeddedCore" where
  "stop_turn lib (StopTaken instance) (s, c) = (Some StopClosed, (s, closeOld lib instance c))"
| "stop_turn lib StopClosed (s, c) = (None, (SetXrayRunning False s, c))"

section \<open>Interleavings\<close>

text \<open>The shared data, the start in progress and the stops in progress.\<close>

record 'w shared =
  sh_node :: "RuntimeState \<times> 'w EmbeddedCore"
  sh_start :: start_pc
  sh_stops :: "stop_pc list"

text \<open>
  Whose turn it is: a start request arrives (and is refused while one is in progress), the
  start in progress moves, a stop request arrives, or one of the stops moves.
\<close>

datatype turn = BeginStart "gerror + StartXrayRequest" | TurnStart | BeginStop | TurnStop nat

fun take_turn :: "('a, 'i, 'w) NodeDeps \<Rightarrow> ConfigBuilder \<Rightarrow> turn \<Rightarrow> 'w shared \<Rightarrow> 'w shared" where
  "take_turn deps b (BeginStart bound) a =
     (if sh_start a = StartIdle then a\<lparr>sh_start := StartBind bound\<rparr> else a)"
| "take_turn deps b TurnStart a =
     (case start_turn deps b (sh_start a) (sh_node a) of (pc, n) \<Rightarrow> a\<lparr>sh_start := pc, sh_node := n\<rparr>)"
| "take_turn deps b BeginStop a =
     (case stop_first (sh_node a) of (pc, n) \<Rightarrow> a\<lparr>sh_stops := sh_stops a @ [pc], sh_node := n\<rparr>)"
| "take_turn deps b (TurnStop i) a =
     (if i < length (sh_stops a) then
        (case stop_turn (nd_lib deps) (sh_stops a ! i) (sh_node a) of
           (Some pc, n) \<Rightarrow> a\<lparr>sh_stops := (sh_stops a)[i := pc], sh_node := n\<rparr>
         | (None, n) \<Rightarrow> a\<lparr>sh_stops := take i (sh_stops a) @ drop (Suc i) (sh_stops a), sh_node := n\<rparr>)
      else a)"

text \<open>
  A step of the whole: a turn, the return of an abandoned start, a change of the outside
  world, or an operation of a user request on the runtime state, which keeps the lifecycle data.
\<close>

inductive shared_step :: "('a, 'i, 'w) NodeDeps \<Rightarrow> ConfigBuilder \<Rightarrow> 'w shared \<Rightarrow> 'w shared \<Rightarrow> bool"
  for deps :: "('a, 'i, 'w) NodeDeps" and b :: ConfigBuilder where
  shared_turn: "shared_step deps b a (take_turn deps b t a)"
| shared_abandoned: "sh_node a = (s, c) \<Longrightarrow>
     shared_step deps b a (a\<lparr>sh_node := (s, abandonedStartReturns (nd_lib deps) h c)\<rparr>)"
| shared_world: "sh_node a = (s, c) \<Longrightarrow> shared_step deps b a (a\<lparr>sh_node := (s, c\<lparr>ec_world := w\<rparr>)\<rparr>)"
| shared_user: "sh_node a = (s, c) \<Longrightarrow> keeps s s' \<Longrightarrow> shared_step deps b a (a\<lparr>sh_node := (s', c)\<rparr>)"

inductive_cases shared_stepE: "shared_step deps b a a'"

definition shared_init :: "('a, 'i, 'w) NodeDeps \<Rightarrow> 'w \<Rightarrow> 'w shared" where
  "shared_init deps w =
     \<lparr>sh_node = (NewRuntimeState, NewEmbeddedCore (nd_lib deps) w), sh_start = StartIdle, sh_stops = []\<rparr>"

definition quiescent :: "'w shared \<Rightarrow> bool" where
  "quiescent a \<longleftrightarrow> sh_start a = StartIdle \<and> sh_stops a = []"

section \<open>Who holds an instance\<close>

text \<open>The instances that the requests in progress hold, and when a start relies on there being no current one.\<close>

abbreviation held_opt :: "handle option \<Rightarrow> handle list" where
  "held_opt old \<equiv> (case old of None \<Rightarrow> [] | Some h \<Rightarrow> [h])"

fun start_held :: "start_pc \<Rightarrow> handle list" where
  "start_held (StartCreated h _ _) = [h]"
| "start_held (StartTaken h old _ _) = h # held_opt old"
| "start_held (StartClosed h _ _) = [h]"
| "start_held (StartStarted h _ _) = [h]"
| "start_held _ = []"

fun stop_held :: "stop_pc \<Rightarrow> handle list" where
  "stop_held (StopTaken old) = held_opt old"
| "stop_held StopClosed = []"

fun start_owns :: "start_pc \<Rightarrow> bool" where
  "start_owns (StartTaken _ _ _ _) = True"
| "start_owns (StartClosed _ _ _) = True"
| "start_owns (StartStarted _ _ _) = True"
| "start_owns _ = False"

definition shared_held :: "'w shared \<Rightarrow> handle list" where
  "shared_held a = start_held (sh_start a) @ concat (map stop_held (sh_stops a))"

text \<open>
  Every instance is accounted for, only the start in progress can set one, and the index of users
  is well-formed.
\<close>

definition shared_inv :: "'w shared \<Rightarrow> bool" where
  "shared_inv a \<longleftrightarrow>
     accounted (shared_held a) (snd (sh_node a)) \<and>
     (start_owns (sh_start a) \<longrightarrow> ec_instance (snd (sh_node a)) = None) \<and>
     index_wf (fst (sh_node a))"

lemma accounted_perm: "mset held = mset held' \<Longrightarrow> accounted held c = accounted held' c"
  by (simp add: accounted_def)

lemma accounted_swap: "accounted (xs @ ys) c = accounted (ys @ xs) c"
  by (rule accounted_perm) simp

lemma start_turn_accounted:
  assumes "start_turn deps b pc (s, c) = (pc', (s', c'))"
    and "accounted (start_held pc @ rest) c" "start_owns pc \<longrightarrow> ec_instance c = None"
  shows "accounted (start_held pc' @ rest) c'" "start_owns pc' \<longrightarrow> ec_instance c' = None"
proof -
  show "accounted (start_held pc' @ rest) c'"
  proof (cases pc)
    case (StartBuild request)
    have "accounted rest (PrepareGeodata (geodata_on_core (nd_geodata deps)) (Some m) c)" for m
      using assms(2) StartBuild by (simp add: inertD(2) [OF inert_PrepareGeodata])
    then show ?thesis
      using assms StartBuild by (auto simp: Let_def split: sum.splits)
  next
    case (StartLoad full hashes bytes)
    then show ?thesis
      using assms accounted_new [of rest c] accounted_new_error [of rest c]
      by (auto split: if_splits sum.splits prod.splits)
  next
    case (StartCreated h full hashes)
    then show ?thesis
      using assms accounted_take [of "h # rest" c]
      by (auto split: prod.splits simp: accounted_def)
  next
    case (StartTaken h old full hashes)
    have "mset (held_opt old @ h # rest) = mset (start_held pc @ rest)"
      using StartTaken by (simp split: option.split)
    then have "accounted (held_opt old @ h # rest) c" using assms(2) accounted_perm by blast
    then show ?thesis using assms(1) StartTaken accounted_closeOld by auto
  next
    case (StartClosed h full hashes)
    then show ?thesis
      using assms accounted_start [of h rest c "nd_lib deps"]
      by (auto split: prod.splits option.splits)
  next
    case (StartStarted h full hashes)
    then show ?thesis using assms accounted_set [of h rest c] by auto
  next
    case (StartBind bound)
    then show ?thesis using assms by (cases bound) auto
  next
    case (StartHealth request)
    then show ?thesis using assms by (auto split: option.splits)
  qed (use assms in \<open>auto split: if_splits\<close>)
  show "start_owns pc' \<longrightarrow> ec_instance c' = None"
  proof (cases pc)
    case (StartClosed h full hashes)
    then show ?thesis
      using assms startInstance_instance [of "nd_lib deps" h c]
      by (auto split: prod.splits option.splits)
  next
    case (StartBind bound)
    then show ?thesis using assms by (cases bound) auto
  next
    case (StartHealth request)
    then show ?thesis using assms by (auto split: option.splits)
  qed (use assms in \<open>auto simp: takeInstance_def Let_def split: if_splits sum.splits prod.splits\<close>)
qed

lemma index_wf_start_turn:
  "start_turn deps b pc (s, c) = (pc', (s', c')) \<Longrightarrow> index_wf s \<Longrightarrow> index_wf s'"
proof (cases pc)
  case (StartBind bound)
  assume "start_turn deps b pc (s, c) = (pc', (s', c'))" "index_wf s"
  then show ?thesis using StartBind by (cases bound) auto
qed (auto simp: Let_def inv_intros split: if_splits sum.splits prod.splits option.splits)

lemma stop_turn_accounted:
  assumes "stop_turn lib pc (s, c) = (r, (s', c'))" "accounted (stop_held pc @ rest) c"
  shows "accounted ((case r of None \<Rightarrow> [] | Some pc' \<Rightarrow> stop_held pc') @ rest) c'"
    "ec_instance c' = ec_instance c" "index_wf s \<Longrightarrow> index_wf s'"
proof -
  show "accounted ((case r of None \<Rightarrow> [] | Some pc' \<Rightarrow> stop_held pc') @ rest) c'"
    using assms accounted_closeOld by (cases pc) auto
  show "ec_instance c' = ec_instance c" "index_wf s \<Longrightarrow> index_wf s'"
    using assms(1) by (cases pc; auto simp: inv_intros)+
qed

lemma shared_held_split:
  assumes "i < length (sh_stops a)"
  shows "mset (shared_held a) = mset (stop_held (sh_stops a ! i) @
    (start_held (sh_start a) @ concat (map stop_held (take i (sh_stops a))) @
     concat (map stop_held (drop (Suc i) (sh_stops a)))))"
proof -
  have "concat (map stop_held (sh_stops a)) =
      concat (map stop_held (take i (sh_stops a) @ sh_stops a ! i # drop (Suc i) (sh_stops a)))"
    using id_take_nth_drop [OF assms] by simp
  then show ?thesis by (simp add: shared_held_def)
qed

lemma shared_inv_turn_start:
  assumes "shared_inv a"
  shows "shared_inv (take_turn deps b TurnStart a)"
proof -
  obtain s c where n: "sh_node a = (s, c)" by fastforce
  obtain pc' s' c' where turn: "start_turn deps b (sh_start a) (s, c) = (pc', (s', c'))" by (metis surj_pair)
  note start_turn_accounted [OF turn, of "concat (map stop_held (sh_stops a))"]
  then show ?thesis
    using assms n turn index_wf_start_turn [OF turn] by (simp add: shared_inv_def shared_held_def)
qed

lemma shared_inv_begin_stop:
  assumes "shared_inv a"
  shows "shared_inv (take_turn deps b BeginStop a)"
proof -
  obtain s c where n: "sh_node a = (s, c)" by fastforce
  obtain old c' where take: "takeInstance c = (old, c')" by fastforce
  have "accounted (held_opt old @ shared_held a) c'"
    using assms n accounted_take [OF _ take] by (simp add: shared_inv_def)
  then have "accounted (shared_held a @ held_opt old) c'" by (simp add: accounted_swap)
  moreover have "ec_instance c' = None" using take by (auto simp: takeInstance_def)
  ultimately show ?thesis
    using assms n take by (simp add: shared_inv_def shared_held_def stop_first_def)
qed

lemma shared_inv_turn_stop:
  assumes "shared_inv a"
  shows "shared_inv (take_turn deps b (TurnStop i) a)"
proof (cases "i < length (sh_stops a)")
  case True
  let ?rest = "start_held (sh_start a) @ concat (map stop_held (take i (sh_stops a))) @
     concat (map stop_held (drop (Suc i) (sh_stops a)))"
  obtain s c where n: "sh_node a = (s, c)" by fastforce
  obtain r s' c' where turn: "stop_turn (nd_lib deps) (sh_stops a ! i) (s, c) = (r, (s', c'))" by (metis surj_pair)
  have "accounted (stop_held (sh_stops a ! i) @ ?rest) c"
    using assms n by (intro accounted_perm [OF shared_held_split [OF True], THEN iffD1]) (simp add: shared_inv_def)
  note after = stop_turn_accounted [OF turn this]
  show ?thesis
  proof (cases r)
    case None
    then show ?thesis
      using after assms n turn True by (simp add: shared_inv_def shared_held_def)
  next
    case (Some pc')
    let ?a = "a\<lparr>sh_stops := (sh_stops a)[i := pc']\<rparr>"
    have "mset (shared_held ?a) = mset (stop_held pc' @ ?rest)"
      using shared_held_split [of i ?a] True by simp
    then have "accounted (shared_held ?a) c'"
      using after(1) Some
      by (intro accounted_perm [of "shared_held ?a" "stop_held pc' @ ?rest", THEN iffD2]) simp_all
    then show ?thesis
      using after(2,3) assms n turn True Some by (simp add: shared_inv_def shared_held_def)
  qed
qed (use assms in simp)

lemma accounted_abandoned_held:
  "accounted held c \<Longrightarrow> accounted held (abandonedStartReturns lib h c)"
proof -
  assume c: "accounted held c"
  show ?thesis
  proof (cases "h \<in> set (ec_pending c)")
    case True
    then have "accounted (h # held) (c\<lparr>ec_pending := remove1 h (ec_pending c)\<rparr>)"
      using c by (simp add: accounted_def)
    then show ?thesis
      using True accounted_close [OF _ prod.collapse [symmetric]]
      by (simp add: abandonedStartReturns_def)
  qed (simp add: abandonedStartReturns_def c)
qed

lemma abandoned_instance: "ec_instance (abandonedStartReturns lib h c) = ec_instance c"
  by (simp add: abandonedStartReturns_def closeXrayInstance_def split_beta)

lemma shared_inv_step: "shared_step deps b a a' \<Longrightarrow> shared_inv a \<Longrightarrow> shared_inv a'"
proof (induction rule: shared_step.induct)
  case (shared_turn a t)
  then show ?case
  proof (cases t)
    case (BeginStart bound)
    then show ?thesis using shared_turn by (auto simp: shared_inv_def shared_held_def)
  next
    case TurnStart
    then show ?thesis using shared_turn shared_inv_turn_start by blast
  next
    case BeginStop
    then show ?thesis using shared_turn shared_inv_begin_stop by blast
  next
    case (TurnStop i)
    then show ?thesis using shared_turn shared_inv_turn_stop by blast
  qed
qed (auto simp: shared_inv_def shared_held_def accounted_abandoned_held abandoned_instance keeps_def)

lemma shared_inv_init: "shared_inv (shared_init deps w)"
  by (simp add: shared_inv_def shared_init_def shared_held_def accounted_initial index_wf_New
      NewEmbeddedCore_def accounted_def)

lemma shared_inv_reachable: "(shared_step deps b)\<^sup>*\<^sup>* (shared_init deps w) a \<Longrightarrow> shared_inv a"
  by (induction rule: rtranclp_induct) (auto intro: shared_inv_step shared_inv_init)

section \<open>Every request finishes\<close>

text \<open>
  A system in which every step of its own uses up some of the work that is left, and which is never
  stuck before the work is done.
\<close>

locale bounded_work =
  fixes step :: "'s \<Rightarrow> 's \<Rightarrow> bool" and work :: "'s \<Rightarrow> nat"
  assumes step_less: "step a b \<Longrightarrow> work b < work a"
    and not_stuck: "0 < work a \<Longrightarrow> \<exists>b. step a b"
begin

lemma steps_bound: "(step ^^ k) a b \<Longrightarrow> k + work b \<le> work a"
  by (induction k arbitrary: b) (use step_less in \<open>fastforce\<close>)+

lemma drains: "\<exists>b. step\<^sup>*\<^sup>* a b \<and> work b = 0"
proof (induction "work a" arbitrary: a rule: less_induct)
  case less
  show ?case
  proof (cases "work a")
    case (Suc n)
    then obtain b where b: "step a b" using not_stuck [of a] by auto
    with less step_less obtain c where "step\<^sup>*\<^sup>* b c" "work c = 0" by blast
    with b show ?thesis by (blast intro: converse_rtranclp_into_rtranclp)
  qed blast
qed

end

text \<open>The turns that are left, at most.\<close>

fun start_rank :: "start_pc \<Rightarrow> nat" where
  "start_rank StartIdle = 0"
| "start_rank (StartBind _) = 14"
| "start_rank (StartObserved _ _) = 13"
| "start_rank (StartHealth _) = 12"
| "start_rank StartHealthy = 2"
| "start_rank (StartUnhealthy _) = 11"
| "start_rank (StartBuild _) = 10"
| "start_rank (StartLoad _ _ _) = 9"
| "start_rank (StartCreated _ _ _) = 8"
| "start_rank (StartTaken _ _ _ _) = 7"
| "start_rank (StartClosed _ _ _) = 6"
| "start_rank (StartStarted _ _ _) = 5"
| "start_rank (StartSet _ _) = 4"
| "start_rank (StartVersioned _ _ _) = 3"
| "start_rank (StartRecorded _) = 2"
| "start_rank StartFailed = 4"
| "start_rank StartFailedUp = 3"
| "start_rank StartFailedCached = 2"
| "start_rank StartFailedDown = 2"
| "start_rank (StartEnding _) = 1"

fun stop_rank :: "stop_pc \<Rightarrow> nat" where
  "stop_rank (StopTaken _) = 2"
| "stop_rank StopClosed = 1"

definition shared_work :: "'w shared \<Rightarrow> nat" where
  "shared_work a = start_rank (sh_start a) + sum_list (map stop_rank (sh_stops a))"

inductive own_turn :: "('a, 'i, 'w) NodeDeps \<Rightarrow> ConfigBuilder \<Rightarrow> 'w shared \<Rightarrow> 'w shared \<Rightarrow> bool"
  for deps :: "('a, 'i, 'w) NodeDeps" and b :: ConfigBuilder where
  own_start: "sh_start a \<noteq> StartIdle \<Longrightarrow> own_turn deps b a (take_turn deps b TurnStart a)"
| own_stop: "i < length (sh_stops a) \<Longrightarrow> own_turn deps b a (take_turn deps b (TurnStop i) a)"

inductive_cases own_turnE: "own_turn deps b a a'"

lemma start_turn_less:
  assumes "pc \<noteq> StartIdle"
  shows "start_rank (fst (start_turn deps b pc n)) < start_rank pc"
proof -
  obtain s c where n: "n = (s, c)" by fastforce
  show ?thesis
  proof (cases pc)
    case (StartBind bound)
    then show ?thesis using n by (cases bound) auto
  qed (use assms n in \<open>auto simp: Let_def split: sum.split prod.split option.split\<close>)
qed

lemma own_turn_less: "own_turn deps b a a' \<Longrightarrow> shared_work a' < shared_work a"
proof (induction rule: own_turn.induct)
  case (own_start a)
  then show ?case
    using start_turn_less [of "sh_start a" deps b "sh_node a"]
    by (simp add: shared_work_def split_beta)
next
  case (own_stop i a)
  have split: "sum_list (map stop_rank (sh_stops a)) =
      sum_list (map stop_rank (take i (sh_stops a))) + stop_rank (sh_stops a ! i) +
      sum_list (map stop_rank (drop (Suc i) (sh_stops a)))"
    by (subst (1) id_take_nth_drop [OF own_stop]) simp
  obtain s c where n: "sh_node a = (s, c)" by fastforce
  show ?case
    using own_stop n split
    by (cases "sh_stops a ! i") (simp_all add: shared_work_def upd_conv_take_nth_drop)
qed

lemma shared_work_0: "shared_work a = 0 \<longleftrightarrow> quiescent a"
proof -
  have "start_rank pc = 0 \<longleftrightarrow> pc = StartIdle" for pc by (cases pc) simp_all
  moreover have "0 < stop_rank pc" for pc by (cases pc) simp_all
  ultimately show ?thesis
    by (cases "sh_stops a") (auto simp: shared_work_def quiescent_def)
qed

interpretation requests: bounded_work "own_turn deps b" shared_work for deps b
proof
  fix a :: "'c shared"
  assume "0 < shared_work a"
  then have "sh_start a \<noteq> StartIdle \<or> 0 < length (sh_stops a)"
    using shared_work_0 [of a] by (auto simp: quiescent_def)
  then show "\<exists>a'. own_turn deps b a a'" by (blast intro: own_turn.intros)
qed (rule own_turn_less)

lemma shared_work_bound: "shared_work a \<le> 14 + 2 * length (sh_stops a)"
proof -
  have two: "stop_rank pc \<le> 2" for pc by (cases pc) simp_all
  have "sum_list (map stop_rank pcs) \<le> 2 * length pcs" for pcs
  proof (induction pcs)
    case (Cons pc pcs)
    then show ?case using two [of pc] by simp
  qed simp
  moreover have "start_rank pc \<le> 14" for pc by (cases pc) simp_all
  ultimately show ?thesis by (simp add: shared_work_def add_mono)
qed

section \<open>A start on its own\<close>

fun start_answer :: "start_pc \<Rightarrow> bool option" where
  "start_answer (StartEnding answer) = Some answer"
| "start_answer StartIdle = Some False"
| "start_answer _ = None"

text \<open>The turns of a start without any other in between, up to its answer.\<close>

function start_alone :: "('a, 'i, 'w) NodeDeps \<Rightarrow> ConfigBuilder \<Rightarrow> start_pc \<times> RuntimeState \<times> 'w EmbeddedCore \<Rightarrow>
    bool \<times> RuntimeState \<times> 'w EmbeddedCore" where
  "start_alone deps b (pc, n) =
     (case start_answer pc of
        Some answer \<Rightarrow> (answer, n)
      | None \<Rightarrow> start_alone deps b (start_turn deps b pc n))"
  by pat_completeness auto
termination
  by (relation "measure (\<lambda>(deps, b, pc, n). start_rank pc)")
    (auto simp: split_beta intro!: start_turn_less)

declare start_alone.simps [simp del]

lemma start_alone_turn:
  "start_answer pc = None \<Longrightarrow> start_alone deps b (pc, n) = start_alone deps b (start_turn deps b pc n)"
  by (simp add: start_alone.simps)

lemma start_alone_ending [simp]: "start_alone deps b (StartEnding answer, n) = (answer, n)"
  by (simp add: start_alone.simps)

lemmas alone_simps = start_alone_turn xray_env_def embedded_core_def Let_def

text \<open>The ends of a failed start.\<close>

lemma start_alone_failed:
  "start_alone deps b (StartFailed, (s, c)) = (False, (syncStartFailureState (xray_env deps b) s c, c))"
  by (simp add: alone_simps syncStartFailureState_def)

text \<open>The part that talks to the core is \<open>Start\<close> of the core and what follows it.\<close>

lemma start_alone_load:
  "start_alone deps b (StartLoad full hashes configBytes, (s, c)) =
     (case Start (nd_lib deps) configBytes c of
        (Some err, c) \<Rightarrow> (False, (syncStartFailureState (xray_env deps b) s c, c))
      | (None, c) \<Rightarrow> (True, (SetInboundProtocolsFromConfig full
          (SetXrayStarted (case Version (nd_lib deps) c of
              Inl _ \<Rightarrow> None
            | Inr version \<Rightarrow> if version \<noteq> [] then Some version else None) (Some full) hashes s), c)))"
  by (simp add: start_alone_turn start_alone_failed Start_def Let_def
      split: sum.split prod.split option.split)

lemma start_alone_build:
  "start_alone deps b (StartBuild request, (s, c)) =
     (case start_core (xray_env deps b) (sxr_XrayConfig request) (request_hashes request) (s, c) of
        (r, n) \<Rightarrow> (is_started r, n))"
  by (simp add: start_alone_turn start_alone_failed start_alone_load start_core_def xray_env_def
      embedded_core_def Let_def split: sum.split prod.split option.split)

lemma start_alone_guarded:
  "start_alone deps b (StartBind bound, (s, c)) =
     (case start_guarded (xray_env deps b) bound (s, c) of (r, n) \<Rightarrow> (is_started r, n))"
proof (cases bound)
  case (Inl err)
  then show ?thesis by (simp add: start_alone_turn start_guarded_def)
next
  case (Inr request)
  then show ?thesis
    by (simp add: start_alone_turn start_alone_build start_guarded_request up_to_date_def ShouldRestart_iff
        xray_env_def embedded_core_def split: option.split)
qed

text \<open>The turns are turns of the whole, in a row.\<close>

lemma start_alone_turns:
  "\<exists>k. fold (take_turn deps b) (replicate k TurnStart) (a\<lparr>sh_start := pc, sh_node := n\<rparr>) =
     a\<lparr>sh_start := StartIdle, sh_node := snd (start_alone deps b (pc, n))\<rparr>"
proof (induction "start_rank pc" arbitrary: pc n rule: less_induct)
  case less
  show ?case
  proof (cases "start_answer pc")
    case None
    obtain pc' n' where turn: "start_turn deps b pc n = (pc', n')" by (metis surj_pair)
    have "pc \<noteq> StartIdle" using None by auto
    then have "start_rank pc' < start_rank pc" using start_turn_less [of pc deps b n] turn by simp
    from less [OF this] obtain k where
      "fold (take_turn deps b) (replicate k TurnStart) (a\<lparr>sh_start := pc', sh_node := n'\<rparr>) =
       a\<lparr>sh_start := StartIdle, sh_node := snd (start_alone deps b (pc', n'))\<rparr>"
      by blast
    then have "fold (take_turn deps b) (replicate (Suc k) TurnStart) (a\<lparr>sh_start := pc, sh_node := n\<rparr>) =
       a\<lparr>sh_start := StartIdle, sh_node := snd (start_alone deps b (pc, n))\<rparr>"
      using turn None by (simp add: start_alone_turn)
    then show ?thesis by blast
  next
    case (Some answer)
    then consider "pc = StartIdle" | "pc = StartEnding answer" by (cases pc) auto
    then show ?thesis
    proof cases
      case 1
      then show ?thesis by (intro exI [of _ 0]) (simp add: start_alone.simps)
    next
      case 2
      then show ?thesis by (intro exI [of _ 1]) simp
    qed
  qed
qed

section \<open>Properties\<close>

definition node_of :: "'w shared \<Rightarrow> 'w EmbeddedCore xnode" where
  "node_of a = \<lparr>startProcessing = (sh_start a \<noteq> StartIdle), rt = fst (sh_node a), world = snd (sh_node a)\<rparr>"

lemma fold_turns_steps: "(shared_step deps b)\<^sup>*\<^sup>* a (fold (take_turn deps b) ts a)"
proof (induction ts arbitrary: a)
  case (Cons t ts)
  have "shared_step deps b a (take_turn deps b t a)" by (rule shared_turn)
  then show ?case using Cons by (auto intro: converse_rtranclp_into_rtranclp)
qed simp

lemma start_to_idle:
  assumes "sh_start a = StartIdle"
  shows "\<exists>k. fold (take_turn deps b) (BeginStart bound # replicate k TurnStart) a =
    a\<lparr>sh_node := snd (start_guarded (xray_env deps b) bound (sh_node a))\<rparr>"
proof -
  obtain s c where n: "sh_node a = (s, c)" by fastforce
  obtain k where "fold (take_turn deps b) (replicate k TurnStart) (a\<lparr>sh_start := StartBind bound, sh_node := (s, c)\<rparr>) =
      a\<lparr>sh_start := StartIdle, sh_node := snd (start_alone deps b (StartBind bound, (s, c)))\<rparr>"
    using start_alone_turns by blast
  moreover have "a\<lparr>sh_start := StartIdle\<rparr> = a" "a\<lparr>sh_node := (s, c)\<rparr> = a" using assms n by simp_all
  moreover have "snd (start_alone deps b (StartBind bound, (s, c))) =
      snd (start_guarded (xray_env deps b) bound (s, c))"
    by (simp add: start_alone_guarded split_beta)
  ultimately have "fold (take_turn deps b) (BeginStart bound # replicate k TurnStart) a =
      a\<lparr>sh_node := snd (start_guarded (xray_env deps b) bound (s, c))\<rparr>"
    using assms n by (cases a) simp
  then show ?thesis using n by auto
qed

lemma stop_in_a_row:
  "fold (take_turn deps b) [BeginStop, TurnStop (length (sh_stops a)), TurnStop (length (sh_stops a))] a =
     a\<lparr>sh_node := (SetXrayRunning False (fst (sh_node a)),
                   snd (Stop (nd_lib deps) (snd (sh_node a))))\<rparr>"
  by (cases a) (auto simp: stop_first_def takeInstance_def Stop_def closeOld_def split: prod.split option.split)

text \<open>
  C3. The handlers are what the turns do when nothing comes between them: from every state, the turns
  of a start request in a row have the effect of the atomic \<open>Start\<close> handler, which refuses while
  another start is in progress, and the turns of a stop that of the \<open>Stop\<close> handler.
\<close>

theorem turns_implement_handlers:
  "(\<exists>k. node_of (fold (take_turn deps b) (BeginStart bound # replicate k TurnStart) a) =
      snd (Start_handler (xray_env deps b) bound (node_of a))) \<and>
   node_of (fold (take_turn deps b)
      [BeginStop, TurnStop (length (sh_stops a)), TurnStop (length (sh_stops a))] a) =
      snd (Stop_handler (xray_env deps b) (node_of a))"
proof (rule conjI)
  show "\<exists>k. node_of (fold (take_turn deps b) (BeginStart bound # replicate k TurnStart) a) =
      snd (Start_handler (xray_env deps b) bound (node_of a))"
  proof (cases "sh_start a = StartIdle")
    case True
    then obtain k where k: "fold (take_turn deps b) (BeginStart bound # replicate k TurnStart) a =
        a\<lparr>sh_node := snd (start_guarded (xray_env deps b) bound (sh_node a))\<rparr>"
      using start_to_idle by blast
    show ?thesis
      unfolding ex_simps
      by (rule exI [of _ k], subst k)
        (use True in \<open>simp add: node_of_def Start_handler_guarded\<close>)
  next
    case False
    then show ?thesis
      by (intro exI [of _ 0]) (simp add: node_of_def Start_handler_def tryBeginStart_def)
  qed
  show "node_of (fold (take_turn deps b)
      [BeginStop, TurnStop (length (sh_stops a)), TurnStop (length (sh_stops a))] a) =
      snd (Stop_handler (xray_env deps b) (node_of a))"
    unfolding stop_in_a_row
    by (simp add: node_of_def Stop_handler_def xray_env_def embedded_core_def split_beta)
qed

text \<open>
  C4. However starts and stops interleave, no instance is leaked and none is closed twice: an
  instance that was created has been closed exactly once unless it is the current one, waits for
  its abandoned start, or is held by a request in progress; when no request is in progress, it is one of
  the first two.
\<close>

theorem interleaved_instances_closed_once:
  assumes "(shared_step deps b)\<^sup>*\<^sup>* (shared_init deps w) a" "sh_node a = (s, c)"
  shows "count_list (closes (ec_calls c)) h =
      (if h < ec_next c \<and> ec_instance c \<noteq> Some h \<and> h \<notin> set (ec_pending c) \<and> h \<notin> set (shared_held a)
       then 1 else 0) \<and>
    (quiescent a \<longrightarrow> shared_held a = []) \<and> index_wf s"
proof -
  have inv: "shared_inv a" using shared_inv_reachable [OF assms(1)] .
  then have eq: "mset (held_opt (ec_instance c)) + mset (ec_pending c) + mset (shared_held a)
      + mset (closes (ec_calls c)) = mset [0..<ec_next c]"
    using assms(2) by (simp add: shared_inv_def accounted_def)
  have "count (mset [0..<ec_next c]) h = (if h < ec_next c then 1 else 0)"
    by (simp add: count_mset_set')
  with arg_cong [where f = "\<lambda>m. count m h", OF eq] count_list_0_iff [of "ec_pending c" h]
    count_list_0_iff [of "shared_held a" h]
  have "count_list (closes (ec_calls c)) h =
      (if h < ec_next c \<and> ec_instance c \<noteq> Some h \<and> h \<notin> set (ec_pending c) \<and> h \<notin> set (shared_held a)
       then 1 else 0)"
    by (auto simp: count_mset split: option.splits if_splits)
  moreover have "quiescent a \<longrightarrow> shared_held a = []" by (simp add: quiescent_def shared_held_def)
  moreover have "index_wf s" using inv assms(2) by (simp add: shared_inv_def)
  ultimately show ?thesis by blast
qed

text \<open>
  C5. Every request finishes: whatever has happened before, the requests in progress need together
  at most fourteen turns of the start and two of each stop, in any order, and while one of
  them has not returned some turn is possible, so that they all do.
\<close>

theorem requests_finish:
  "((own_turn deps b ^^ k) a a' \<longrightarrow> k \<le> 14 + 2 * length (sh_stops a)) \<and>
   (\<exists>a''. (own_turn deps b)\<^sup>*\<^sup>* a a'' \<and> quiescent a'')"
  using requests.steps_bound [of k deps b a a'] shared_work_bound [of a]
    requests.drains [of deps b a] shared_work_0 by fastforce

lemma stop_taken_and_closed:
  assumes "sh_stops a = []"
  shows "fold (take_turn deps b) [BeginStop, TurnStop 0] a =
    a\<lparr>sh_stops := [StopClosed], sh_node := (fst (sh_node a), snd (Stop (nd_lib deps) (snd (sh_node a))))\<rparr>"
  using assms
  by (cases a) (auto simp: stop_first_def takeInstance_def Stop_def closeOld_def split: prod.split option.split)

lemma Start_recorded_flags:
  "XrayRunning (SetInboundProtocolsFromConfig full (SetXrayStarted v cfg hashes s))"
  "XrayInternalStatusCached (SetInboundProtocolsFromConfig full (SetXrayStarted v cfg hashes s))"
proof -
  have "lifecycle (SetInboundProtocolsFromConfig full (SetXrayStarted v cfg hashes s)) =
      lifecycle (SetXrayStarted v cfg hashes s)"
    by (simp add: frame_simps)
  from lifecycle_eqD(1,2) [OF this]
  show "XrayRunning (SetInboundProtocolsFromConfig full (SetXrayStarted v cfg hashes s))"
    "XrayInternalStatusCached (SetInboundProtocolsFromConfig full (SetXrayStarted v cfg hashes s))"
    by (simp_all add: SetXrayStarted_def)
qed

text \<open>
  C26. What the missing exclusion of \<open>Stop\<close> costs: a stop that is served between a start's two last
  critical sections, the one that sets the instance and the one that records the start, leaves a
  node that calls Xray running, and answers health checks with it, while there is no instance.
\<close>

theorem stop_overtaken_by_start:
  assumes "(shared_step deps b)\<^sup>*\<^sup>* (shared_init deps w) a" "sh_start a = StartSet full hashes" "sh_stops a = []"
  shows "\<exists>a'. (shared_step deps b)\<^sup>*\<^sup>* (shared_init deps w) a' \<and> quiescent a' \<and>
    XrayRunning (fst (sh_node a')) \<and> XrayInternalStatusCached (fst (sh_node a')) \<and>
    \<not> IsRunning (snd (sh_node a'))"
proof -
  let ?ts = "[BeginStop, TurnStop 0] @ [TurnStop 0, TurnStart, TurnStart, TurnStart, TurnStart]"
  let ?a = "fold (take_turn deps b) ?ts a"
  obtain s c where n: "sh_node a = (s, c)" by fastforce
  let ?v = "case Version (nd_lib deps) (snd (Stop (nd_lib deps) c)) of
      Inl _ \<Rightarrow> None | Inr version \<Rightarrow> if version \<noteq> [] then Some version else None"
  have a': "?a = a\<lparr>sh_start := StartIdle, sh_stops := [],
      sh_node := (SetInboundProtocolsFromConfig full (SetXrayStarted ?v (Some full) hashes (SetXrayRunning False s)),
                  snd (Stop (nd_lib deps) c))\<rparr>"
    unfolding fold_append o_apply stop_taken_and_closed [OF assms(3)]
    using assms(2) n by (cases a) simp
  have "quiescent ?a \<and> XrayRunning (fst (sh_node ?a)) \<and> XrayInternalStatusCached (fst (sh_node ?a)) \<and>
      \<not> IsRunning (snd (sh_node ?a))"
    unfolding a' by (simp add: quiescent_def IsRunning_def Stop_instance Start_recorded_flags)
  moreover have "(shared_step deps b)\<^sup>*\<^sup>* (shared_init deps w) ?a"
    using assms(1) fold_turns_steps by (rule rtranclp_trans)
  ultimately show ?thesis by blast
qed

text \<open>
  The other way round: a stop whose last section comes after a whole start leaves a node that
  calls Xray stopped while the new instance runs.
\<close>

theorem start_overtaken_by_stop:
  assumes "(shared_step deps b)\<^sup>*\<^sup>* (shared_init deps w) a" "quiescent a"
    and "start_guarded (xray_env deps b) (Inr request) (fst (sh_node a), snd (Stop (nd_lib deps) (snd (sh_node a)))) = (r, n)"
    and "is_started r"
  shows "\<exists>a'. (shared_step deps b)\<^sup>*\<^sup>* (shared_init deps w) a' \<and> quiescent a' \<and>
    \<not> XrayRunning (fst (sh_node a')) \<and> \<not> XrayInternalStatusCached (fst (sh_node a')) \<and>
    IsRunning (snd (sh_node a'))"
proof -
  obtain s c where a: "sh_node a = (s, c)" by fastforce
  obtain s' c' where n: "n = (s', c')" by fastforce
  let ?b = "fold (take_turn deps b) [BeginStop, TurnStop 0] a"
  have b: "?b = a\<lparr>sh_stops := [StopClosed], sh_node := (s, snd (Stop (nd_lib deps) c))\<rparr>"
    using assms(2) a stop_taken_and_closed [of a deps b] by (simp only: quiescent_def fst_conv snd_conv)
  have idle: "sh_start ?b = StartIdle"
    unfolding b using assms(2) by (simp add: quiescent_def)
  obtain k where k: "fold (take_turn deps b) (BeginStart (Inr request) # replicate k TurnStart) ?b =
      ?b\<lparr>sh_node := snd (start_guarded (xray_env deps b) (Inr request) (sh_node ?b))\<rparr>"
    using start_to_idle [OF idle] by blast
  let ?m = "fold (take_turn deps b) (BeginStart (Inr request) # replicate k TurnStart) ?b"
  have m: "?m = a\<lparr>sh_stops := [StopClosed], sh_node := (s', c')\<rparr>"
    unfolding k unfolding b using assms(3) a n by (cases a) simp
  let ?ts = "[BeginStop, TurnStop 0] @ (BeginStart (Inr request) # replicate k TurnStart) @ [TurnStop 0]"
  have run: "fold (take_turn deps b) ?ts a = a\<lparr>sh_stops := [], sh_node := (SetXrayRunning False s', c')\<rparr>"
    unfolding fold_append o_apply m by (cases a) simp
  have "IsRunning c'"
    using started_records [OF assms(3) [unfolded a n fst_conv snd_conv] assms(4)] by blast
  then have "quiescent (fold (take_turn deps b) ?ts a) \<and> \<not> XrayRunning (fst (sh_node (fold (take_turn deps b) ?ts a))) \<and>
      \<not> XrayInternalStatusCached (fst (sh_node (fold (take_turn deps b) ?ts a))) \<and>
      IsRunning (snd (sh_node (fold (take_turn deps b) ?ts a)))"
    unfolding run using assms(2) by (simp add: quiescent_def SetXrayRunning_def)
  moreover have "(shared_step deps b)\<^sup>*\<^sup>* (shared_init deps w) (fold (take_turn deps b) ?ts a)"
    using assms(1) fold_turns_steps by (rule rtranclp_trans)
  ultimately show ?thesis by blast
qed

section \<open>Witnesses\<close>

abbreviation "example_turns ts \<equiv> fold (take_turn example_deps example_builder) ts (shared_init example_deps True)"

lemma example_full:
  obtains full where "Build example_builder None = Inr full"
    "\<And>os w. PrepareGeodata os (Some full) w = (w :: bool EmbeddedCore)"
proof -
  have "\<not> hasTag fmempty tag" for tag by (simp add: hasTag_def ensureArray_def)
  then obtain full where full: "Build example_builder None = Inr full"
    by (simp add: Build_def Let_def)
  then have "fmlookup full ''geodata'' = None"
    using Build_lookup_other [OF full, of "''geodata''"] by simp
  then have "PrepareGeodata os (Some full) w = w" for os and w :: "bool EmbeddedCore"
    by (simp add: PrepareGeodata_def)
  with full show ?thesis using that by blast
qed

lemma example_StartSet:
  "\<exists>full c. example_turns (BeginStart (Inr example_request) # replicate 8 TurnStart) =
     \<lparr>sh_node = (NewRuntimeState, c), sh_start = StartSet full (request_hashes example_request), sh_stops = []\<rparr> \<and>
     ec_instance c = Some 0 \<and> ec_next c = 1"
proof -
  obtain full where full: "Build example_builder None = Inr full"
    "\<And>os w. PrepareGeodata os (Some full) w = (w :: bool EmbeddedCore)"
    using example_full by blast
  have json: "json_Valid ''{}''" by code_simp
  have new: "\<not> HasLastHashes NewRuntimeState" "sxr_XrayConfig example_request = None"
      "nd_lib example_deps = example_lib" "nd_MarshalIndent example_deps full = Inr ''{}''"
    by (simp_all add: NewRuntimeState_def example_request_def example_deps_def)
  show ?thesis
    by (simp add: shared_init_def new full json ShouldRestart_iff numeral_eq_Suc IsRunning_def NewEmbeddedCore_def
        newXrayInstance_def takeInstance_def closeOld_def startInstanceWithContext_def setInstance_def
        example_lib_def Let_def)
qed

theorem interleaved_instances_closed_once_witness:
  "\<exists>(a :: bool shared) s c. sh_start a \<noteq> StartIdle \<and> sh_node a = (s, c) \<and> ec_instance c = Some 0 \<and>
     count_list (closes (ec_calls c)) 0 = 0 \<and> index_wf s"
proof -
  obtain full c where a: "example_turns (BeginStart (Inr example_request) # replicate 8 TurnStart) =
     \<lparr>sh_node = (NewRuntimeState, c), sh_start = StartSet full (request_hashes example_request), sh_stops = []\<rparr>"
    and c: "ec_instance c = Some 0" "ec_next c = 1"
    using example_StartSet by blast
  have "(shared_step example_deps example_builder)\<^sup>*\<^sup>* (shared_init example_deps True)
      \<lparr>sh_node = (NewRuntimeState, c), sh_start = StartSet full (request_hashes example_request), sh_stops = []\<rparr>"
    using fold_turns_steps [where ts = "BeginStart (Inr example_request) # replicate 8 TurnStart"] a by metis
  from interleaved_instances_closed_once [OF this, of NewRuntimeState c 0] c show ?thesis
    by (intro exI [of _ "\<lparr>sh_node = (NewRuntimeState, c), sh_start = StartSet full (request_hashes example_request),
        sh_stops = []\<rparr>"] exI [of _ NewRuntimeState] exI [of _ c]) simp
qed

theorem requests_finish_witness:
  "1 \<le> 14 + 2 * length (sh_stops (take_turn example_deps example_builder BeginStop (shared_init example_deps True)))"
proof -
  let ?a = "take_turn example_deps example_builder BeginStop (shared_init example_deps True)"
  have "own_turn example_deps example_builder ?a (take_turn example_deps example_builder (TurnStop 0) ?a)"
    by (rule own_stop) (simp add: stop_first_def takeInstance_def shared_init_def)
  then have "(own_turn example_deps example_builder ^^ 1) ?a (take_turn example_deps example_builder (TurnStop 0) ?a)"
    by (simp only: relpowp_1)
  with requests_finish [where deps = example_deps and b = example_builder and a = ?a and k = 1] show ?thesis by blast
qed

theorem stop_overtaken_by_start_witness:
  "\<exists>a. (shared_step example_deps example_builder)\<^sup>*\<^sup>* (shared_init example_deps True) a \<and>
     quiescent a \<and> XrayRunning (fst (sh_node a)) \<and> \<not> IsRunning (snd (sh_node a))"
proof -
  obtain full c where a: "example_turns (BeginStart (Inr example_request) # replicate 8 TurnStart) =
     \<lparr>sh_node = (NewRuntimeState, c), sh_start = StartSet full (request_hashes example_request), sh_stops = []\<rparr>"
    using example_StartSet by blast
  have "(shared_step example_deps example_builder)\<^sup>*\<^sup>* (shared_init example_deps True)
      \<lparr>sh_node = (NewRuntimeState, c), sh_start = StartSet full (request_hashes example_request), sh_stops = []\<rparr>"
    using fold_turns_steps [where ts = "BeginStart (Inr example_request) # replicate 8 TurnStart"] a by metis
  from stop_overtaken_by_start [OF this, of full "request_hashes example_request"] show ?thesis by auto
qed

theorem start_overtaken_by_stop_witness:
  "\<exists>a. (shared_step example_deps example_builder)\<^sup>*\<^sup>* (shared_init example_deps True) a \<and>
     quiescent a \<and> \<not> XrayRunning (fst (sh_node a)) \<and> IsRunning (snd (sh_node a))"
proof -
  let ?n = "NewRegistry example_deps True"
  obtain r n where run: "start_guarded (xray_env example_deps example_builder) (Inr example_request)
      (rt ?n, world ?n) = (r, n)" by (metis surj_pair)
  have "is_started r"
    using example_is_started run by (simp add: Start_handler_def tryBeginStart_def NewRegistry_def split_beta)
  moreover have "sh_node (shared_init example_deps True) = (rt ?n, world ?n)"
    "snd (Stop (nd_lib example_deps) (world ?n)) = world ?n" "quiescent (shared_init example_deps True)"
    by (simp_all add: shared_init_def NewRegistry_def Stop_def takeInstance_def NewEmbeddedCore_def quiescent_def)
  ultimately show ?thesis
    using start_overtaken_by_stop [OF rtranclp.rtrancl_refl, of example_deps True example_builder
        example_request r n] run by auto
qed

end
