(* ===== verification/NetIP.thy ===== *)
theory NetIP
  imports GoStrings
begin

text \<open>
  What the code uses of the package \<open>net\<close>: \<open>ParseIP\<close>, which is \<open>netip.ParseAddr\<close> without zones, and
  \<open>IP.To4\<close> and \<open>IP.To16\<close>. An address is its list of bytes, 16 of them or 4 of an IPv4 address.
\<close>

type_synonym IP = "8 word list"

section \<open>Parsing\<close>

text \<open>
  The dotted fields: whether the last byte was a dot (or there was none), the value and the number of
  digits of the current field, and the fields before it.
\<close>

fun ipv4_loop :: "bool \<Rightarrow> nat \<Rightarrow> nat \<Rightarrow> nat list \<Rightarrow> string \<Rightarrow> nat list option" where
  "ipv4_loop sep val digLen fields [] = (if length fields < 3 then None else Some (fields @ [val]))"
| "ipv4_loop sep val digLen fields (c # s) =
     (case digit_val c of
        Some d \<Rightarrow>
          if 10 \<le> d then None
          else if digLen = 1 \<and> val = 0 then None
          else if 255 < val * 10 + d then None
          else ipv4_loop False (val * 10 + d) (Suc digLen) fields s
      | None \<Rightarrow>
          if c \<noteq> CHR ''.'' then None
          else if sep \<or> s = [] then None
          else if length fields = 3 then None
          else ipv4_loop True 0 0 (fields @ [val]) s)"

definition parseIPv4Fields :: "string \<Rightarrow> nat list option" where
  "parseIPv4Fields s = ipv4_loop True 0 0 [] s"

text \<open>A group of at most four hexadecimal digits: their number, their value and the rest.\<close>

fun hex_group :: "nat \<Rightarrow> nat \<Rightarrow> string \<Rightarrow> (nat \<times> nat \<times> string) option" where
  "hex_group off acc [] = Some (off, acc, [])"
| "hex_group off acc (c # s) =
     (case digit_val c of
        Some d \<Rightarrow> if 16 \<le> d then Some (off, acc, c # s)
                  else if 3 < off then None else hex_group (Suc off) (16 * acc + d) s
      | None \<Rightarrow> Some (off, acc, c # s))"

lemma hex_group_length: "hex_group off acc s = Some (off', acc', s') \<Longrightarrow> length s' \<le> length s"
  by (induction off acc s rule: hex_group.induct) (auto split: option.splits if_splits)

text \<open>The groups: the bytes so far and where the ellipsis was; the bytes, the ellipsis and what is left.\<close>

function ipv6_loop :: "nat list \<Rightarrow> nat option \<Rightarrow> string \<Rightarrow> (nat list \<times> nat option \<times> string) option" where
  "ipv6_loop ip ellipsis s =
     (if 16 \<le> length ip then Some (ip, ellipsis, s)
      else (case hex_group 0 0 s of
        None \<Rightarrow> None
      | Some (off, acc, rest) \<Rightarrow>
          if off = 0 then None
          else if rest \<noteq> [] \<and> hd rest = CHR ''.'' then
            (if ellipsis = None \<and> length ip \<noteq> 12 then None
             else if 16 < length ip + 4 then None
             else map_option (\<lambda>fields. (ip @ fields, ellipsis, [])) (parseIPv4Fields s))
          else
            let ip = ip @ [acc div 256, acc mod 256]
            in (case rest of
              [] \<Rightarrow> Some (ip, ellipsis, [])
            | c # s \<Rightarrow>
                if c \<noteq> CHR '':'' then None
                else if s = [] then None
                else if hd s = CHR '':'' then
                  (if ellipsis \<noteq> None then None
                   else if tl s = [] then Some (ip, Some (length ip), [])
                   else ipv6_loop ip (Some (length ip)) (tl s))
                else ipv6_loop ip ellipsis s)))"
  by pat_completeness auto
termination
  by (relation "measure (\<lambda>(ip, e, s). length s)") (auto dest!: hex_group_length)

declare ipv6_loop.simps [simp del]

text \<open>The end: the ellipsis stands for the bytes that are missing, at least one of them.\<close>

definition expand_ellipsis :: "nat list \<times> nat option \<times> string \<Rightarrow> nat list option" where
  "expand_ellipsis r =
     (case r of (ip, ellipsis, s) \<Rightarrow>
        if s \<noteq> [] then None
        else if length ip < 16 then
          map_option (\<lambda>e. take e ip @ replicate (16 - length ip) 0 @ drop e ip) ellipsis
        else if ellipsis \<noteq> None then None else Some ip)"

definition parseIPv6 :: "string \<Rightarrow> nat list option" where
  "parseIPv6 s =
     (if prefix ''::'' s then
        (if drop 2 s = [] then Some (replicate 16 0)
         else Option.bind (ipv6_loop [] (Some 0) (drop 2 s)) expand_ellipsis)
      else Option.bind (ipv6_loop [] None s) expand_ellipsis)"

definition v4_mapped :: "nat list \<Rightarrow> nat list" where
  "v4_mapped fields = replicate 10 0 @ [255, 255] @ fields"

text \<open>An address with a zone is not an \<open>IP\<close>.\<close>

definition ParseIP :: "string \<Rightarrow> IP option" where
  "ParseIP s =
     (if CHR ''%'' \<in> set s then None
      else case find (\<lambda>c. c = CHR ''.'' \<or> c = CHR '':'') s of
        None \<Rightarrow> None
      | Some c \<Rightarrow>
          map_option (map word_of_nat)
            (if c = CHR ''.'' then map_option v4_mapped (parseIPv4Fields s) else parseIPv6 s))"

section \<open>The two sizes\<close>

definition To4 :: "IP \<Rightarrow> IP option" where
  "To4 ip =
     (if length ip = 4 then Some ip
      else if length ip = 16 \<and> take 12 ip = replicate 10 0 @ [255, 255] then Some (drop 12 ip)
      else None)"

definition To16 :: "IP \<Rightarrow> IP option" where
  "To16 ip =
     (if length ip = 4 then Some (replicate 10 0 @ [255, 255] @ ip)
      else if length ip = 16 then Some ip
      else None)"

section \<open>Lemmas\<close>

lemma ipv4_loop_length: "ipv4_loop sep v d fs s = Some r \<Longrightarrow> length fs \<le> 3 \<Longrightarrow> length r = 4"
  by (induction sep v d fs s rule: ipv4_loop.induct) (auto split: option.splits if_splits)

lemma parseIPv4Fields_length: "parseIPv4Fields s = Some r \<Longrightarrow> length r = 4"
  unfolding parseIPv4Fields_def by (drule ipv4_loop_length) simp_all

lemma ipv6_loop_ellipsis:
  "ipv6_loop ip e s = Some (ip', e', s') \<Longrightarrow> length ip \<le> 16 \<Longrightarrow> even (length ip) \<Longrightarrow>
   (\<forall>k. e = Some k \<longrightarrow> k \<le> length ip) \<Longrightarrow>
   length ip' \<le> 16 \<and> (\<forall>k. e' = Some k \<longrightarrow> k \<le> length ip')"
proof (induction "length s" arbitrary: ip e s rule: less_induct)
  case less
  note eq = less.prems(1) and ell = less.prems(4)
  show ?case
  proof (cases "16 \<le> length ip")
    case True
    then show ?thesis using less.prems by (simp add: ipv6_loop.simps [of ip])
  next
    case False
    with less.prems(3) have short: "length ip + 2 \<le> 16" by presburger
    obtain off acc rest where hex: "hex_group 0 0 s = Some (off, acc, rest)" "off \<noteq> 0"
      using eq False by (auto simp: ipv6_loop.simps [of ip] split: option.splits if_splits)
    let ?ip = "ip @ [acc div 256, acc mod 256]"
    have even: "even (length ?ip)" "length ?ip \<le> 16" using less.prems(3) short by simp_all
    consider (dot) "rest \<noteq> []" "hd rest = CHR ''.''" | (last) "rest = []"
      | (more) c t where "rest = c # t" "c \<noteq> CHR ''.''"
      by (cases rest) auto
    then show ?thesis
    proof cases
      case dot
      then show ?thesis
        using eq ell hex False parseIPv4Fields_length [of s]
        by (auto simp: ipv6_loop.simps [of ip] split: if_splits)
    next
      case last
      then show ?thesis
        using eq ell hex False short by (auto simp: ipv6_loop.simps [of ip] Let_def split: if_splits)
    next
      case more
      have shorter: "length t < length s" "length (tl t) < length s"
        using hex_group_length [OF hex(1)] more by auto
      from more eq hex False have
        "tl t = [] \<and> ip' = ?ip \<and> e' = Some (length ?ip) \<or>
         ipv6_loop ?ip (Some (length ?ip)) (tl t) = Some (ip', e', s') \<or>
         ipv6_loop ?ip e t = Some (ip', e', s')"
        by (auto simp: ipv6_loop.simps [of ip] Let_def split: if_splits)
      then show ?thesis
        using less.hyps [OF shorter(2) _ even(2,1)] less.hyps [OF shorter(1) _ even(2,1)] ell even
        by (elim disjE) fastforce+
    qed
  qed
qed

lemma ParseIP_length: "ParseIP s = Some ip \<Longrightarrow> length ip = 16"
proof -
  have loop: "length r = 16" if bound: "Option.bind (ipv6_loop [] e t) expand_ellipsis = Some r"
      and e: "e = None \<or> e = Some 0" for e t r
  proof -
    obtain x where x: "ipv6_loop [] e t = Some x" "expand_ellipsis x = Some r"
      using bound unfolding Option.bind_eq_Some_conv by blast
    obtain ip' e' t' where "x = (ip', e', t')" by (cases x)
    then show ?thesis
      using x ipv6_loop_ellipsis [of "[]" e t ip' e' t'] e
      by (auto simp: expand_ellipsis_def split: if_splits)
  qed
  assume "ParseIP s = Some ip"
  then show ?thesis
    using loop [of "Some 0" "drop 2 s"] loop [of None s] parseIPv4Fields_length [of s]
    by (auto simp: ParseIP_def parseIPv6_def v4_mapped_def split: if_splits option.splits)
qed

section \<open>Dotted addresses\<close>

text \<open>How \<open>IP.String\<close> writes an IPv4 address.\<close>

definition dotted :: "8 word list \<Rightarrow> string" where
  "dotted bs = Join (map (\<lambda>b. nat_digits (unat b)) bs) ''.''"

lemma digit_val_char: "k < 10 \<Longrightarrow> digit_val (digit_char k) = Some k"
  by (simp add: digit_val_def digit_char_def)

lemma nat_digits_byte:
  assumes "n < 256"
  obtains (one) "n < 10" "nat_digits n = [digit_char n]"
  | (two) d e where "n = 10 * d + e" "0 < d" "d < 10" "e < 10" "nat_digits n = [digit_char d, digit_char e]"
  | (three) d e f where "n = 100 * d + 10 * e + f" "0 < d" "d < 10" "e < 10" "f < 10"
      "nat_digits n = [digit_char d, digit_char e, digit_char f]"
proof -
  consider "n < 10" | "10 \<le> n" "n < 100" | "100 \<le> n" by linarith
  then show ?thesis
  proof cases
    case 1
    then show ?thesis by (intro one) (simp_all add: nat_digits.simps)
  next
    case 2
    have "nat_digits n = nat_digits (n div 10) @ [digit_char (n mod 10)]"
      using 2 by (subst nat_digits.simps) simp
    moreover have "n div 10 < 10" using 2 by presburger
    moreover from this have "nat_digits (n div 10) = [digit_char (n div 10)]"
      by (subst nat_digits.simps) simp
    ultimately show ?thesis using 2 by (intro two [of "n div 10" "n mod 10"]) simp_all
  next
    case 3
    let ?d = "n div 100" and ?e = "n div 10 mod 10"
    have a: "nat_digits n = nat_digits (n div 10) @ [digit_char (n mod 10)]"
      using 3 by (subst nat_digits.simps) simp
    have b: "nat_digits (n div 10) = nat_digits (n div 10 div 10) @ [digit_char ?e]"
      using 3 by (subst nat_digits.simps) simp
    have c: "n div 10 div 10 = ?d" by (simp add: div_mult2_eq [symmetric])
    have d: "?d < 10" "0 < ?d"
      using 3 assms by (simp_all add: div_less_iff_less_mult div_greater_zero_iff)
    then have e: "nat_digits ?d = [digit_char ?d]" by (subst nat_digits.simps) simp
    have digits: "nat_digits n = [digit_char ?d, digit_char ?e, digit_char (n mod 10)]"
      unfolding a unfolding b unfolding c e append.simps ..
    have "n = 100 * ?d + 10 * ?e + n mod 10"
      using div_mult_mod_eq [of n 10] div_mult_mod_eq [of "n div 10" 10] c by linarith
    from three [OF this d(2,1) _ _ digits] show ?thesis by simp
  qed
qed

lemma ipv4_loop_field:
  assumes "n < 256"
  shows "\<exists>k. ipv4_loop sep 0 0 fields (nat_digits n @ s) = ipv4_loop False n k fields s"
  using assms
proof (cases rule: nat_digits_byte)
  case one
  then show ?thesis by (simp add: digit_val_char) blast
next
  case (two d e)
  then show ?thesis by (simp add: digit_val_char mult.commute) blast
next
  case (three d e f)
  have "d * 10 + e \<le> 255" "(d * 10 + e) * 10 + f \<le> 255"
    using assms three(1) by (simp_all add: algebra_simps)
  with three show ?thesis by (simp add: digit_val_char add_mult_distrib mult.commute) blast
qed

lemma ipv4_loop_dot:
  "s \<noteq> [] \<Longrightarrow> length fields < 3 \<Longrightarrow>
   ipv4_loop False n k fields (CHR ''.'' # s) = ipv4_loop True 0 0 (fields @ [n]) s"
  by (simp add: digit_val_def)

lemma parseIPv4Fields_dotted:
  assumes "a < 256" "b < 256" "c < 256" "d < 256"
  shows "parseIPv4Fields (nat_digits a @ ''.'' @ nat_digits b @ ''.'' @ nat_digits c @ ''.'' @ nat_digits d) =
    Some [a, b, c, d]"
proof -
  have step: "ipv4_loop True 0 0 fields (nat_digits n @ CHR ''.'' # s) = ipv4_loop True 0 0 (fields @ [n]) s"
    if "n < 256" "s \<noteq> []" "length fields < 3" for n fields s
    using ipv4_loop_field [OF that(1), of True fields "CHR ''.'' # s"] ipv4_loop_dot [OF that(2,3)] by auto
  have last: "ipv4_loop True 0 0 fields (nat_digits n) = Some (fields @ [n])" if "n < 256" "length fields = 3" for n fields
    using ipv4_loop_field [OF that(1), of True fields "[]"] that(2) by auto
  show ?thesis
    using assms by (simp add: parseIPv4Fields_def step last nat_digits_nonempty)
qed

lemma nat_digits_chars:
  assumes "n < 256"
  shows "set (nat_digits n) \<inter> {CHR ''%'', CHR '':'', CHR ''.''} = {}"
proof -
  have "digit_char k \<notin> {CHR ''%'', CHR '':'', CHR ''.''}" if "k < 10" for k
    using that digit_val_char [OF that] by (auto simp: digit_val_def)
  with assms show ?thesis by (cases rule: nat_digits_byte) auto
qed

lemma find_first_dot:
  "set xs \<inter> {CHR '':'', CHR ''.''} = {} \<Longrightarrow>
   find (\<lambda>c. c = CHR ''.'' \<or> c = CHR '':'') (xs @ CHR ''.'' # ys) = Some CHR ''.''"
  by (induction xs) auto

lemma ParseIP_dotted: "ParseIP (dotted [a, b, c, d]) = Some (replicate 10 0 @ [255, 255, a, b, c, d])"
proof -
  let ?s = "nat_digits (unat a) @ ''.'' @ nat_digits (unat b) @ ''.'' @ nat_digits (unat c) @ ''.'' @ nat_digits (unat d)"
  have small: "unat x < 256" for x :: "8 word" using unsigned_less [of x] by simp
  note chars = nat_digits_chars [OF small]
  have s: "dotted [a, b, c, d] = ?s" by (simp add: dotted_def)
  have "CHR ''%'' \<notin> set ?s" using chars [of a] chars [of b] chars [of c] chars [of d] by auto
  moreover have "find (\<lambda>c. c = CHR ''.'' \<or> c = CHR '':'') ?s = Some CHR ''.''"
    using find_first_dot [of "nat_digits (unat a)"] chars [of a] by auto
  moreover have "parseIPv4Fields ?s = Some [unat a, unat b, unat c, unat d]"
    by (rule parseIPv4Fields_dotted) (rule small)+
  ultimately show ?thesis
    unfolding ParseIP_def s by (simp add: v4_mapped_def del: append.simps)
qed

end
