(* ===== verification/Routing.thy ===== *)
theory Routing
  imports EmbeddedCore NetIP
begin

text \<open>
  The routing client of the embedded core (\<open>internal/xray/routing.go\<close>): rules that send the
  traffic of one source address to an outbound, added to and removed from the running router.
\<close>

section \<open>Rules\<close>

text \<open>
  The part of \<open>router.RoutingRule\<close> that is filled in: the rule tag, the target tag, and the blocks
  of source addresses (\<open>router.CIDR\<close>: bytes and prefix length) of its one \<open>GeoIP\<close>.
\<close>

record CIDR =
  cidr_Ip :: IP
  cidr_Prefix :: "32 word"

record routing_rule =
  rr_RuleTag :: string
  rr_TargetTag :: string
  rr_SourceGeoip :: "CIDR list list"

text \<open>
  What the code calls of xray-core: the router feature of an instance (\<open>FeatureOther\<close> is one without
  the methods for rules), and the methods \<open>AddRule\<close>, with a config and whether to append, and \<open>RemoveRule\<close>.
\<close>

record 'w routing_lib =
  rl_RouterType :: "handle \<Rightarrow> 'w \<Rightarrow> feature"
  rl_AddRule :: "handle \<Rightarrow> routing_rule list \<Rightarrow> bool \<Rightarrow> 'w \<Rightarrow> gerror option \<times> 'w"
  rl_RemoveRule :: "handle \<Rightarrow> string \<Rightarrow> 'w \<Rightarrow> gerror option \<times> 'w"

section \<open>The client\<close>

definition routing_router :: "'w routing_lib \<Rightarrow> 'w EmbeddedCore \<Rightarrow> gerror + handle" where
  "routing_router lib c =
     (case Instance c of
        None \<Rightarrow> Inl (NewError ''xray is not running'')
      | Some instance \<Rightarrow>
     (case rl_RouterType lib instance (ec_world c) of
        FeatureNil \<Rightarrow> Inl (NewError ''xray routing feature is unavailable'')
      | FeatureOther \<Rightarrow> Inl (NewError ''xray routing feature does not support dynamic rules'')
      | Feature routerFeature \<Rightarrow> Inr routerFeature))"

definition routingCIDR :: "IP \<Rightarrow> IP \<times> 32 word" where
  "routingCIDR ip =
     (case To4 ip of
        Some ip4 \<Rightarrow> (ip4, 32)
      | None \<Rightarrow> (case To16 ip of Some ip16 \<Rightarrow> ip16 | None \<Rightarrow> [], 128))"

definition source_ip_rule :: "string \<Rightarrow> IP \<Rightarrow> string \<Rightarrow> routing_rule" where
  "source_ip_rule ruleTag ip outboundTag =
     (case routingCIDR ip of
        (ipBytes, pre) \<Rightarrow>
          \<lparr>rr_RuleTag = ruleTag, rr_TargetTag = outboundTag,
           rr_SourceGeoip = [[\<lparr>cidr_Ip = ipBytes, cidr_Prefix = pre\<rparr>]]\<rparr>)"

definition AddSourceIPRule :: "'w routing_lib \<Rightarrow> string \<Rightarrow> string \<Rightarrow> string \<Rightarrow> 'w EmbeddedCore \<Rightarrow>
    gerror option \<times> 'w EmbeddedCore" where
  "AddSourceIPRule lib ruleTag sourceIP outboundTag c =
     (case routing_router lib c of
        Inl err \<Rightarrow> (Some err, c)
      | Inr routerFeature \<Rightarrow>
     (case ParseIP sourceIP of
        None \<Rightarrow> (Some (NewError (''invalid IP address: '' @ sourceIP)), c)
      | Some ip \<Rightarrow>
     (case rl_AddRule lib routerFeature [source_ip_rule ruleTag ip outboundTag] True (ec_world c) of
        (Some err, w) \<Rightarrow> (Some (Errorf_w (''add xray routing rule '' @ Quote ruleTag) err), c\<lparr>ec_world := w\<rparr>)
      | (None, w) \<Rightarrow> (None, c\<lparr>ec_world := w\<rparr>))))"

text \<open>A rule that is not there counts as removed.\<close>

definition RemoveRule :: "'w routing_lib \<Rightarrow> string \<Rightarrow> 'w EmbeddedCore \<Rightarrow> gerror option \<times> 'w EmbeddedCore" where
  "RemoveRule lib ruleTag c =
     (case routing_router lib c of
        Inl err \<Rightarrow> (Some err, c)
      | Inr routerFeature \<Rightarrow>
     (case rl_RemoveRule lib routerFeature ruleTag (ec_world c) of
        (Some err, w) \<Rightarrow>
          if Contains (Error_msg err) ''not found'' \<or> Contains (Error_msg err) ''empty tag''
          then (None, c\<lparr>ec_world := w\<rparr>)
          else (Some (Errorf_w (''remove xray routing rule '' @ Quote ruleTag) err), c\<lparr>ec_world := w\<rparr>)
      | (None, w) \<Rightarrow> (None, c\<lparr>ec_world := w\<rparr>)))"

section \<open>What a block contains\<close>

text \<open>The first bits of an address; an address is in a block if as many of them agree as the prefix says.\<close>

definition address_bits :: "IP \<Rightarrow> bool list" where
  "address_bits ip = concat (map (\<lambda>b. map (bit b) (rev [0..<8])) ip)"

definition in_cidr :: "CIDR \<Rightarrow> IP \<Rightarrow> bool" where
  "in_cidr block ip \<longleftrightarrow>
     length ip = length (cidr_Ip block) \<and>
     take (unat (cidr_Prefix block)) (address_bits ip) = take (unat (cidr_Prefix block)) (address_bits (cidr_Ip block))"

text \<open>The form in which addresses are compared: the 4 bytes of an IPv4 address if it is one.\<close>

definition normal_ip :: "IP \<Rightarrow> IP" where
  "normal_ip ip = (case To4 ip of Some ip4 \<Rightarrow> ip4 | None \<Rightarrow> ip)"

lemma byte_bits_inject: "map (bit a) (rev [0..<8]) = map (bit b) (rev [0..<8]) \<longleftrightarrow> a = (b :: 8 word)"
proof
  assume "map (bit a) (rev [0..<8]) = map (bit b) (rev [0..<8])"
  then have "\<forall>n\<in>{0..<8}. bit a n = bit b n" by (simp only: map_eq_conv set_rev set_upt)
  then show "a = b" by (intro bit_word_eqI) simp
qed simp

lemma address_bits_length [simp]: "length (address_bits ip) = 8 * length ip"
  by (induction ip) (simp_all add: address_bits_def)

lemma address_bits_Cons: "address_bits (b # ip) = map (bit b) (rev [0..<8]) @ address_bits ip"
  by (simp add: address_bits_def)

lemma address_bits_inject: "length a = length b \<Longrightarrow> address_bits a = address_bits b \<longleftrightarrow> a = b"
proof (induction a b rule: list_induct2)
  case (Cons x xs y ys)
  then show ?case
    using byte_bits_inject [of x y] by (simp only: address_bits_Cons append_eq_append_conv length_map) simp
qed simp

lemma To4_length: "To4 ip = Some ip4 \<Longrightarrow> length ip4 = 4"
  by (auto simp: To4_def split: if_splits)

lemma full_cidr: "8 * length bs = unat pre \<Longrightarrow> in_cidr \<lparr>cidr_Ip = bs, cidr_Prefix = pre\<rparr> ip \<longleftrightarrow> ip = bs"
  by (auto simp: in_cidr_def address_bits_inject)

section \<open>Properties\<close>

text \<open>
  C35. A rule that is added matches exactly one source address: the one that was named, an IPv4 address as
  four bytes however it was written. The rule is appended under its tag and goes to its outbound; an address
  that does not parse is an error before the router is touched.
\<close>

theorem source_rule_exact:
  "AddSourceIPRule lib ruleTag sourceIP outboundTag c =
     (case routing_router lib c of
        Inl err \<Rightarrow> (Some err, c)
      | Inr r \<Rightarrow>
     (case ParseIP sourceIP of
        None \<Rightarrow> (Some (NewError (''invalid IP address: '' @ sourceIP)), c)
      | Some ip \<Rightarrow>
          (\<lambda>(err, w). (map_option (Errorf_w (''add xray routing rule '' @ Quote ruleTag)) err, c\<lparr>ec_world := w\<rparr>))
            (rl_AddRule lib r
               [\<lparr>rr_RuleTag = ruleTag, rr_TargetTag = outboundTag,
                 rr_SourceGeoip = [[\<lparr>cidr_Ip = normal_ip ip, cidr_Prefix = (if length (normal_ip ip) = 4 then 32 else 128)\<rparr>]]\<rparr>]
               True (ec_world c)))) \<and>
   (\<forall>ip. ParseIP sourceIP = Some ip \<longrightarrow>
      (\<forall>src. in_cidr \<lparr>cidr_Ip = fst (routingCIDR ip), cidr_Prefix = snd (routingCIDR ip)\<rparr> (normal_ip src) \<longleftrightarrow>
         normal_ip src = normal_ip ip))"
proof -
  have cidr: "routingCIDR ip = (normal_ip ip, if length (normal_ip ip) = 4 then 32 else 128)"
    if "ParseIP sourceIP = Some ip" for ip
    using ParseIP_length [OF that] To4_length [of ip]
    by (auto simp: routingCIDR_def normal_ip_def To16_def split: option.split)
  have "8 * length (normal_ip ip) = unat (if length (normal_ip ip) = 4 then 32 else 128 :: 32 word)"
    if "ParseIP sourceIP = Some ip" for ip
    using ParseIP_length [OF that] To4_length [of ip]
    by (auto simp: normal_ip_def split: option.split)
  with cidr show ?thesis
    by (auto simp: AddSourceIPRule_def source_ip_rule_def full_cidr split: sum.split option.split prod.split)
qed

theorem source_rule_exact_witness:
  "\<forall>src. in_cidr \<lparr>cidr_Ip = [10, 0, 0, 1], cidr_Prefix = 32\<rparr> (normal_ip src) \<longleftrightarrow> normal_ip src = [10, 0, 0, 1]"
proof -
  have ip: "ParseIP (dotted [10, 0, 0, 1]) = Some (replicate 10 0 @ [255, 255, 10, 0, 0, 1])"
    by (simp add: ParseIP_dotted)
  moreover have "routingCIDR (replicate 10 0 @ [255, 255, 10, 0, 0, 1]) = ([10, 0, 0, 1], 32)"
    "normal_ip (replicate 10 0 @ [255, 255, 10, 0, 0, 1]) = [10, 0, 0, 1]"
    by (simp_all add: routingCIDR_def normal_ip_def To4_def numeral_eq_Suc)
  ultimately show ?thesis
    using conjunct2 [OF source_rule_exact [where sourceIP = "dotted [10, 0, 0, 1]"]] by simp
qed

text \<open>For an address in dotted form, the rule has its four bytes.\<close>

theorem source_rule_dotted:
  "ParseIP (dotted [a, b, c, d]) = Some (replicate 10 0 @ [255, 255, a, b, c, d]) \<and>
   routingCIDR (replicate 10 0 @ [255, 255, a, b, c, d]) = ([a, b, c, d], 32)"
  by (simp add: ParseIP_dotted routingCIDR_def To4_def numeral_eq_Suc)

text \<open>The routing client leaves the instances alone.\<close>

lemma routing_instances:
  "ec_instance (snd (AddSourceIPRule lib t ip out c)) = ec_instance c"
  "ec_instance (snd (RemoveRule lib t c)) = ec_instance c"
  by (auto simp: AddSourceIPRule_def RemoveRule_def split: sum.split option.split prod.split)

end
