(* ===== verification/FilePath.thy ===== *)
theory FilePath
  imports GoStrings
begin

text \<open>
  What the code uses of \<open>path/filepath\<close>, on Unix: \<open>Clean\<close>, \<open>Join\<close>, \<open>Dir\<close>, \<open>Base\<close>, \<open>Ext\<close> and \<open>IsAbs\<close>. A path is
  worked on as its elements between slashes.
\<close>

section \<open>Cleaning\<close>

text \<open>One more element behind those kept so far.\<close>

definition clean_elem :: "bool \<Rightarrow> string \<Rightarrow> string list \<Rightarrow> string list" where
  "clean_elem rooted e out =
     (if e = [] \<or> e = ''.'' then out
      else if e = ''..'' then
        (if out \<noteq> [] \<and> last out \<noteq> ''..'' then butlast out
         else if rooted then out else out @ [''..''])
      else out @ [e])"

definition is_rooted :: "string \<Rightarrow> bool" where
  "is_rooted path \<longleftrightarrow> prefix ''/'' path"

definition clean_elems :: "string \<Rightarrow> string list" where
  "clean_elems path = fold (clean_elem (is_rooted path)) (Split path ''/'') []"

definition path_of :: "bool \<Rightarrow> string list \<Rightarrow> string" where
  "path_of rooted es = (if rooted then ''/'' @ Join es ''/'' else if es = [] then ''.'' else Join es ''/'')"

definition Clean :: "string \<Rightarrow> string" where
  "Clean path = (if path = [] then ''.'' else path_of (is_rooted path) (clean_elems path))"

section \<open>The other operations\<close>

definition IsAbs :: "string \<Rightarrow> bool" where
  "IsAbs path = is_rooted path"

definition path_Join :: "string \<Rightarrow> string \<Rightarrow> string" where
  "path_Join a b =
     (if a = [] then (if b = [] then [] else Clean b)
      else if b = [] then Clean a else Clean (a @ ''/'' @ b))"

text \<open>The part up to the last slash, and the part behind it.\<close>

definition last_elem :: "string \<Rightarrow> string" where
  "last_elem path = rev (takeWhile (\<lambda>c. c \<noteq> CHR ''/'') (rev path))"

definition path_Dir :: "string \<Rightarrow> string" where
  "path_Dir path = Clean (take (length path - length (last_elem path)) path)"

definition path_Base :: "string \<Rightarrow> string" where
  "path_Base path =
     (if path = [] then ''.''
      else let p = rev (dropWhile (\<lambda>c. c = CHR ''/'') (rev path))
           in if p = [] then ''/'' else last_elem p)"

text \<open>From the last dot of the last element on.\<close>

definition path_Ext :: "string \<Rightarrow> string" where
  "path_Ext path =
     (let e = last_elem path
      in if CHR ''.'' \<in> set e then CHR ''.'' # rev (takeWhile (\<lambda>c. c \<noteq> CHR ''.'') (rev e)) else [])"

section \<open>Lemmas\<close>

definition plain_elem :: "string \<Rightarrow> bool" where
  "plain_elem e \<longleftrightarrow> e \<noteq> [] \<and> e \<noteq> ''.'' \<and> e \<noteq> ''..'' \<and> CHR ''/'' \<notin> set e"

lemma clean_elem_plain: "plain_elem e \<Longrightarrow> clean_elem r e out = out @ [e]"
  by (simp add: clean_elem_def plain_elem_def)

lemma fold_clean_plain: "list_all plain_elem es \<Longrightarrow> fold (clean_elem r) es out = out @ es"
  by (induction es arbitrary: out) (simp_all add: clean_elem_plain)

text \<open>What is kept of a relative path: some \<open>..\<close> and then plain elements.\<close>

definition kept :: "string list \<Rightarrow> bool" where
  "kept out \<longleftrightarrow> (\<exists>k es. out = replicate k ''..'' @ es \<and> list_all plain_elem es)"

lemma kept_clean_elem:
  assumes "kept out" "CHR ''/'' \<notin> set e"
  shows "kept (clean_elem False e out)"
proof -
  obtain k es where out: "out = replicate k ''..'' @ es" "list_all plain_elem es"
    using assms(1) by (auto simp: kept_def)
  consider (skip) "e = [] \<or> e = ''.''" | (up) "e = ''..''" | (plain) "plain_elem e"
    using assms(2) by (auto simp: plain_elem_def)
  then show ?thesis
  proof cases
    case skip
    then show ?thesis using assms(1) by (simp add: clean_elem_def)
  next
    case up
    show ?thesis
    proof (cases "es = []")
      case True
      then have "clean_elem False e out = replicate (Suc k) ''..''"
        using up out by (cases k) (auto simp: clean_elem_def replicate_append_same)
      then show ?thesis unfolding kept_def by (intro exI [of _ "Suc k"] exI [of _ "[]"]) simp
    next
      case False
      then have "last es \<noteq> ''..''" using out(2) by (auto simp: list_all_iff plain_elem_def)
      then have "clean_elem False e out = replicate k ''..'' @ butlast es"
        using up out False by (simp add: clean_elem_def butlast_append)
      moreover have "list_all plain_elem (butlast es)"
        using out(2) by (auto simp: list_all_iff dest: in_set_butlastD)
      ultimately show ?thesis unfolding kept_def by blast
    qed
  next
    case plain
    then have "clean_elem False e out = replicate k ''..'' @ (es @ [e])" using out by (simp add: clean_elem_plain)
    then show ?thesis
      using out plain unfolding kept_def by (intro exI [of _ k] exI [of _ "es @ [e]"]) simp
  qed
qed

lemma kept_clean_elems:
  assumes "\<not> is_rooted path"
  shows "kept (clean_elems path)"
proof -
  have "kept (fold (clean_elem False) es out)" if "kept out" "\<forall>e\<in>set es. CHR ''/'' \<notin> set e" for es out
    using that by (induction es arbitrary: out) (simp_all add: kept_clean_elem)
  moreover have "kept []" by (simp add: kept_def)
  ultimately show ?thesis
    using assms Split_char [of _ path "CHR ''/''"] by (simp add: clean_elems_def)
qed

lemma is_rooted_Clean: "is_rooted (Clean path) = is_rooted path"
proof (cases "is_rooted path")
  case True
  then have "path \<noteq> []" by (auto simp: is_rooted_def)
  then show ?thesis using True by (simp add: Clean_def path_of_def is_rooted_def)
next
  case False
  obtain k es where c: "clean_elems path = replicate k ''..'' @ es" "list_all plain_elem es"
    using kept_clean_elems [OF False] by (auto simp: kept_def)
  have "\<not> prefix ''/'' (Join (e # fs) ''/'')" if "e \<noteq> []" "CHR ''/'' \<notin> set e" for e fs
    using that by (cases e; cases fs) auto
  then have "\<not> prefix ''/'' (Join (clean_elems path) ''/'')"
    using c by (cases k; cases es) (auto simp: plain_elem_def)
  then show ?thesis using False by (auto simp: Clean_def path_of_def is_rooted_def)
qed

text \<open>A relative path that stays below where it starts.\<close>

lemma Clean_below:
  assumes "\<not> IsAbs (Clean name)" "Clean name \<noteq> ''.''" "\<not> prefix ''../'' (Clean name)" "Clean name \<noteq> ''..''"
  shows "\<exists>es. es \<noteq> [] \<and> list_all plain_elem es \<and> Clean name = Join es ''/''"
proof -
  have rel: "\<not> is_rooted name" using assms(1) by (simp add: IsAbs_def is_rooted_Clean)
  have "name \<noteq> []" using assms(2) by (auto simp: Clean_def)
  then have c: "Clean name = path_of False (clean_elems name)" using rel by (simp add: Clean_def)
  obtain k es where ke: "clean_elems name = replicate k ''..'' @ es" "list_all plain_elem es"
    using kept_clean_elems [OF rel] by (auto simp: kept_def)
  have "k = 0"
  proof (rule ccontr)
    assume "k \<noteq> 0"
    then obtain fs where "clean_elems name = ''..'' # fs" using ke(1) by (cases k) auto
    then have "Clean name = ''..'' \<or> prefix ''../'' (Clean name)"
      by (cases fs) (simp_all add: c path_of_def)
    then show False using assms(3,4) by blast
  qed
  moreover have "clean_elems name \<noteq> []" using assms(2) c by (auto simp: path_of_def)
  ultimately show ?thesis using ke c by (auto simp: path_of_def)
qed

lemma path_Join_below:
  assumes "dest \<noteq> []" "es \<noteq> []" "list_all plain_elem es"
  shows "path_Join dest (Join es ''/'') = path_of (is_rooted dest) (clean_elems dest @ es)"
proof -
  have slash: "CHR ''/'' \<notin> set e" if "e \<in> set es" for e
    using that assms(3) by (auto simp: list_all_iff plain_elem_def)
  have ne: "Join es ''/'' \<noteq> []"
  proof (cases es)
    case (Cons e fs)
    then show ?thesis using assms(3) by (cases fs) (auto simp: plain_elem_def)
  qed (use assms(2) in simp)
  have rooted: "is_rooted (dest @ ''/'' @ Join es ''/'') = is_rooted dest"
    using assms(1) by (cases dest) (auto simp: is_rooted_def)
  have "Split (dest @ ''/'' @ Join es ''/'') ''/'' = Split dest ''/'' @ es"
    using Split_append_sep [of dest "CHR ''/''"] Split_Join_char [OF assms(2) slash] by simp
  then have "clean_elems (dest @ ''/'' @ Join es ''/'') = clean_elems dest @ es"
    unfolding clean_elems_def rooted by (simp add: fold_clean_plain [OF assms(3)])
  then show ?thesis
    using assms(1) ne rooted by (simp add: path_Join_def Clean_def)
qed

end
