(* ===== verification/GoFlag.thy ===== *)
theory GoFlag
  imports GoStrings
begin

text \<open>
  Command line flags: \<open>FlagSet.Parse\<close> of Go's package \<open>flag\<close> with \<open>ContinueOnError\<close>, for flags that are strings, booleans
  and durations, and \<open>time.ParseDuration\<close>. A flag set acts on a record \<open>'f\<close> of the flags' values. What \<open>Parse\<close> prints
  about an error is not modelled.
\<close>

section \<open>Flag sets\<close>

record 'f flag_value =
  fv_IsBool :: bool
  fv_Set :: "string \<Rightarrow> 'f \<Rightarrow> gerror + 'f"

type_synonym 'f flagset = "(string \<times> 'f flag_value) list"

definition errParse :: gerror where "errParse = NewError ''parse error''"
definition ErrHelp :: gerror where "ErrHelp = NewError ''flag: help requested''"

definition StringVar :: "(string \<Rightarrow> 'f \<Rightarrow> 'f) \<Rightarrow> 'f flag_value" where
  "StringVar upd = \<lparr>fv_IsBool = False, fv_Set = (\<lambda>value f. Inr (upd value f))\<rparr>"

definition BoolVar :: "(bool \<Rightarrow> 'f \<Rightarrow> 'f) \<Rightarrow> 'f flag_value" where
  "BoolVar upd =
     \<lparr>fv_IsBool = True, fv_Set = (\<lambda>value f. case ParseBool value of Inl _ \<Rightarrow> Inl errParse | Inr b \<Rightarrow> Inr (upd b f))\<rparr>"

text \<open>An argument: no flag, the end of the flags, a malformed one, or a name that may have a value behind an equals sign.\<close>

datatype flag_arg = NotFlag | Terminator | BadSyntax | FlagArg string "string option"

definition flag_name :: "string \<Rightarrow> flag_arg" where
  "flag_name name =
     (case name of
        [] \<Rightarrow> BadSyntax
      | c # rest \<Rightarrow>
          if c = CHR ''-'' \<or> c = CHR ''='' then BadSyntax
          else FlagArg (c # takeWhile (\<lambda>c. c \<noteq> CHR ''='') rest)
                 (if CHR ''='' \<in> set rest then Some (tl (dropWhile (\<lambda>c. c \<noteq> CHR ''='') rest)) else None))"

definition flag_arg :: "string \<Rightarrow> flag_arg" where
  "flag_arg s =
     (if length s < 2 \<or> hd s \<noteq> CHR ''-'' then NotFlag
      else if hd (tl s) = CHR ''-'' then (if length s = 2 then Terminator else flag_name (tl (tl s)))
      else flag_name (tl s))"

definition set_bool :: "'f flag_value \<Rightarrow> string \<Rightarrow> string option \<Rightarrow> 'f \<Rightarrow> gerror + 'f" where
  "set_bool fv name value f =
     (case value of
        Some v \<Rightarrow>
          (case fv_Set fv v f of
             Inl err \<Rightarrow> Inl (NewError (''invalid boolean value '' @ Quote v @ '' for -'' @ name @ '': '' @ Error_msg err))
           | Inr f \<Rightarrow> Inr f)
      | None \<Rightarrow>
          (case fv_Set fv ''true'' f of
             Inl err \<Rightarrow> Inl (NewError (''invalid boolean flag '' @ name @ '': '' @ Error_msg err))
           | Inr f \<Rightarrow> Inr f))"

definition set_flag :: "'f flag_value \<Rightarrow> string \<Rightarrow> string \<Rightarrow> 'f \<Rightarrow> gerror + 'f" where
  "set_flag fv name value f =
     (case fv_Set fv value f of
        Inl err \<Rightarrow> Inl (NewError (''invalid value '' @ Quote value @ '' for flag -'' @ name @ '': '' @ Error_msg err))
      | Inr f \<Rightarrow> Inr f)"

text \<open>\<open>Parse\<close>: the values, and the arguments behind the flags.\<close>

fun flag_Parse :: "'f flagset \<Rightarrow> string list \<Rightarrow> 'f \<Rightarrow> gerror + 'f \<times> string list" where
  "flag_Parse formal [] f = Inr (f, [])"
| "flag_Parse formal (s # args) f =
     (case flag_arg s of
        NotFlag \<Rightarrow> Inr (f, s # args)
      | Terminator \<Rightarrow> Inr (f, args)
      | BadSyntax \<Rightarrow> Inl (NewError (''bad flag syntax: '' @ s))
      | FlagArg name value \<Rightarrow>
     (case map_of formal name of
        None \<Rightarrow>
          if name = ''help'' \<or> name = ''h'' then Inl ErrHelp
          else Inl (NewError (''flag provided but not defined: -'' @ name))
      | Some fv \<Rightarrow>
          if fv_IsBool fv then
            (case set_bool fv name value f of Inl err \<Rightarrow> Inl err | Inr f \<Rightarrow> flag_Parse formal args f)
          else
            (case value of
               Some v \<Rightarrow> (case set_flag fv name v f of Inl err \<Rightarrow> Inl err | Inr f \<Rightarrow> flag_Parse formal args f)
             | None \<Rightarrow>
                 (case args of
                    [] \<Rightarrow> Inl (NewError (''flag needs an argument: -'' @ name))
                  | v # args \<Rightarrow>
                      (case set_flag fv name v f of Inl err \<Rightarrow> Inl err | Inr f \<Rightarrow> flag_Parse formal args f)))))"

section \<open>Durations\<close>

text \<open>\<open>leadingInt\<close>: the number that the digits make, unless it is above \<open>2 ^ 63\<close>, and the rest.\<close>

definition decimal :: "char \<Rightarrow> bool" where "decimal c \<longleftrightarrow> 48 \<le> byte c \<and> byte c \<le> 57"

fun leadingInt :: "nat \<Rightarrow> string \<Rightarrow> (nat \<times> string) option" where
  "leadingInt x [] = Some (x, [])"
| "leadingInt x (c # s) =
     (if \<not> decimal c then Some (x, c # s)
      else if x > 2 ^ 63 div 10 \<or> x * 10 + (byte c - 48) > 2 ^ 63 then None
      else leadingInt (x * 10 + (byte c - 48)) s)"

text \<open>
  \<open>leadingFraction\<close>: the digits as a number and its scale, a power of ten as a \<open>float64\<close>, where digits that do not fit are skipped.
  \<open>rnd\<close> rounds to a \<open>float64\<close>.
\<close>

fun leadingFraction :: "(rat \<Rightarrow> rat) \<Rightarrow> nat \<Rightarrow> rat \<Rightarrow> bool \<Rightarrow> string \<Rightarrow> nat \<times> rat \<times> string" where
  "leadingFraction rnd x scale overflow [] = (x, scale, [])"
| "leadingFraction rnd x scale overflow (c # s) =
     (if \<not> decimal c then (x, scale, c # s)
      else if overflow then leadingFraction rnd x scale True s
      else if x > (2 ^ 63 - 1) div 10 \<or> x * 10 + (byte c - 48) > 2 ^ 63 then leadingFraction rnd x scale True s
      else leadingFraction rnd (x * 10 + (byte c - 48)) (rnd (scale * 10)) False s)"

text \<open>The units in nanoseconds; the micro sign and the Greek letter are both accepted.\<close>

definition unitMap :: "(string \<times> nat) list" where
  "unitMap =
     [(''ns'', 1), (''us'', 1000), ([CHR 0xC2, CHR 0xB5, CHR ''s''], 1000), ([CHR 0xCE, CHR 0xBC, CHR ''s''], 1000),
      (''ms'', 10 ^ 6), (''s'', 10 ^ 9), (''m'', 60 * 10 ^ 9), (''h'', 3600 * 10 ^ 9)]"

text \<open>One number with its unit: the nanoseconds and the rest. The sums are taken modulo \<open>2 ^ 64\<close>.\<close>

definition duration_item :: "(rat \<Rightarrow> rat) \<Rightarrow> string \<Rightarrow> (nat \<times> string) option" where
  "duration_item rnd s =
     (if s = [] \<or> \<not> (hd s = CHR ''.'' \<or> decimal (hd s)) then None
      else case leadingInt 0 s of
        None \<Rightarrow> None
      | Some (v, s1) \<Rightarrow>
          let point = (s1 \<noteq> [] \<and> hd s1 = CHR ''.'');
              (f, scale, s2) = (if point then leadingFraction rnd 0 1 False (tl s1) else (0, 1, s1));
              pre = (length s1 \<noteq> length s); post = (point \<and> length s2 \<noteq> length (tl s1));
              u = takeWhile (\<lambda>c. c \<noteq> CHR ''.'' \<and> \<not> decimal c) s2
          in if \<not> pre \<and> \<not> post \<or> u = [] then None
             else case map_of unitMap u of
               None \<Rightarrow> None
             | Some unit \<Rightarrow>
                 if v > 2 ^ 63 div unit then None
                 else if f = 0 then Some (v * unit, drop (length u) s2)
                 else let v = (v * unit + nat \<lfloor>rnd (rnd (of_nat f) * rnd (of_nat unit / scale))\<rfloor>) mod 2 ^ 64
                      in if v > 2 ^ 63 then None else Some (v, drop (length u) s2))"

lemma leadingInt_rest: "leadingInt x s = Some (v, t) \<Longrightarrow> length t \<le> length s"
  by (induction x s rule: leadingInt.induct) (auto split: if_splits)

lemma leadingFraction_rest: "length (snd (snd (leadingFraction rnd x scale overflow s))) \<le> length s"
  by (induction s arbitrary: x scale overflow) (simp_all add: le_SucI)

lemma duration_item_rest: "duration_item rnd s = Some (v, t) \<Longrightarrow> length t < length s"
proof -
  assume item: "duration_item rnd s = Some (v, t)"
  then obtain w s1 where s1: "leadingInt 0 s = Some (w, s1)"
    by (auto simp: duration_item_def split: if_splits option.splits)
  define point where "point \<longleftrightarrow> s1 \<noteq> [] \<and> hd s1 = CHR ''.''"
  obtain f scale s2 where f: "(if point then leadingFraction rnd 0 1 False (tl s1) else (0, 1, s1)) = (f, scale, s2)"
    using prod_cases3 by blast
  then have "length s2 \<le> length s1"
    using leadingFraction_rest [of rnd 0 1 False "tl s1"] by (auto split: if_splits)
  moreover have "length s1 \<le> length s" by (rule leadingInt_rest [OF s1])
  moreover have "\<exists>u. u \<noteq> [] \<and> u = takeWhile (\<lambda>c. c \<noteq> CHR ''.'' \<and> \<not> decimal c) s2 \<and> t = drop (length u) s2"
    using item by (auto simp: duration_item_def s1 point_def [symmetric] f Let_def split: if_splits option.splits)
  then have "length t < length s2" by (cases s2) auto
  ultimately show "length t < length s" by simp
qed

function duration_sum :: "(rat \<Rightarrow> rat) \<Rightarrow> nat \<Rightarrow> string \<Rightarrow> nat option" where
  "duration_sum rnd d s =
     (if s = [] then Some d
      else case duration_item rnd s of
        None \<Rightarrow> None
      | Some (v, rest) \<Rightarrow>
          let d = (d + v) mod 2 ^ 64 in if d > 2 ^ 63 then None else duration_sum rnd d rest)"
  by pat_completeness auto
termination
  by (relation "measure (\<lambda>(rnd, d, s). length s)") (auto dest: duration_item_rest)

declare duration_sum.simps [simp del]

text \<open>\<open>ParseDuration\<close> without the texts of its errors, which a flag replaces.\<close>

definition ParseDuration :: "(rat \<Rightarrow> rat) \<Rightarrow> string \<Rightarrow> int option" where
  "ParseDuration rnd s =
     (let neg = prefix ''-'' s; s = (if neg \<or> prefix ''+'' s then tl s else s)
      in if s = ''0'' then Some 0
         else if s = [] then None
         else case duration_sum rnd 0 s of
           None \<Rightarrow> None
         | Some d \<Rightarrow> if neg then Some (- int d) else if d > 2 ^ 63 - 1 then None else Some (int d))"

definition DurationVar :: "(rat \<Rightarrow> rat) \<Rightarrow> (int \<Rightarrow> 'f \<Rightarrow> 'f) \<Rightarrow> 'f flag_value" where
  "DurationVar rnd upd =
     \<lparr>fv_IsBool = False,
      fv_Set = (\<lambda>value f. case ParseDuration rnd value of None \<Rightarrow> Inl errParse | Some d \<Rightarrow> Inr (upd d f))\<rparr>"

section \<open>What parsing does\<close>

text \<open>A duration that was parsed fits an \<open>int64\<close>.\<close>

lemma duration_sum_bound: "duration_sum rnd d s = Some n \<Longrightarrow> d \<le> 2 ^ 63 \<Longrightarrow> n \<le> 2 ^ 63"
proof (induction rnd d s rule: duration_sum.induct)
  case (1 rnd d s)
  then show ?case
    by (simp add: duration_sum.simps [of rnd d s] Let_def split: if_splits option.splits prod.splits)
qed

lemma ParseDuration_range: "ParseDuration rnd s = Some d \<Longrightarrow> - (2 ^ 63) \<le> d \<and> d < 2 ^ 63"
  using duration_sum_bound [of rnd 0] by (fastforce simp: ParseDuration_def Let_def split: if_splits option.splits)

text \<open>A flag in one of its forms, with its value in the same argument or in the next one.\<close>

definition plain_flag :: "string \<Rightarrow> bool" where
  "plain_flag name \<longleftrightarrow> name \<noteq> [] \<and> hd name \<noteq> CHR ''-'' \<and> CHR ''='' \<notin> set name"

lemma flag_name_plain:
  assumes "plain_flag name"
  shows "flag_name name = FlagArg name None" "flag_name (name @ ''='' @ v) = FlagArg name (Some v)"
proof -
  obtain c t where name: "name = c # t" using assms by (cases name) (auto simp: plain_flag_def)
  then have c: "c \<noteq> CHR ''-''" "c \<noteq> CHR ''=''" and t: "CHR ''='' \<notin> set t" using assms by (auto simp: plain_flag_def)
  have "takeWhile (\<lambda>c. c \<noteq> CHR ''='') t = t" "takeWhile (\<lambda>c. c \<noteq> CHR ''='') (t @ CHR ''='' # v) = t"
    "dropWhile (\<lambda>c. c \<noteq> CHR ''='') (t @ CHR ''='' # v) = CHR ''='' # v"
    using t by (auto simp: takeWhile_eq_all_conv takeWhile_append dropWhile_append dropWhile_eq_Nil_conv)
  with c t show "flag_name name = FlagArg name None" "flag_name (name @ ''='' @ v) = FlagArg name (Some v)"
    by (simp_all add: flag_name_def name)
qed

lemma flag_arg_plain:
  assumes "plain_flag name" "dash \<in> {''-'', ''--''}"
  shows "flag_arg (dash @ name) = FlagArg name None" "flag_arg (dash @ name @ CHR ''='' # v) = FlagArg name (Some v)"
proof -
  have "name \<noteq> []" "hd name \<noteq> CHR ''-''" using assms(1) by (auto simp: plain_flag_def)
  then have *: "flag_arg (dash @ name @ u) = flag_name (name @ u)" for u
    using assms(2) by (cases name) (auto simp: flag_arg_def)
  show "flag_arg (dash @ name) = FlagArg name None" "flag_arg (dash @ name @ CHR ''='' # v) = FlagArg name (Some v)"
    using * [of "[]"] * [of "''='' @ v"] flag_name_plain [OF assms(1)] by simp_all
qed

text \<open>The settings are made in the order they are given in, so that the last one for a flag counts.\<close>

lemma flag_Parse_step:
  assumes "plain_flag name" "dash \<in> {''-'', ''--''}" "map_of formal name = Some fv" "fv_Set fv v f = Inr g"
  shows "flag_Parse formal ((dash @ name @ ''='' @ v) # args) f = flag_Parse formal args g"
    "\<not> fv_IsBool fv \<Longrightarrow> flag_Parse formal ((dash @ name) # v # args) f = flag_Parse formal args g"
    "fv_IsBool fv \<Longrightarrow> v = ''true'' \<Longrightarrow> flag_Parse formal ((dash @ name) # args) f = flag_Parse formal args g"
  using assms(3,4) by (simp_all add: flag_arg_plain [OF assms(1,2)] set_bool_def set_flag_def)

end
