(* ===== verification/ContractDiff.thy ===== *)
theory ContractDiff
  imports FilePath Config GoFlag
begin

text \<open>
  The tool that compares the official contract files with the committed baseline
  (\<open>internal/contractdiff\<close> and \<open>cmd/contract-diff\<close>): the manifest of hashes, its comparison, the scan of
  a checkout, and the download and unpacking of a tarball. Files, HTTP, the archive formats, SHA-256 and
  \<open>encoding/json\<close> are parameters over a world \<open>'w\<close>.
\<close>

section \<open>Manifests and their comparison (diff.go)\<close>

record FileHash =
  fh_Path :: string
  fh_SHA256 :: string

record Manifest =
  mf_Source :: string
  mf_Tag :: string
  mf_GeneratedAt :: int
  mf_Files :: "FileHash list"

record ChangedFile =
  cf_Path :: string
  cf_Baseline :: string
  cf_Current :: string

record Diff =
  df_Added :: "FileHash list"
  df_Deleted :: "FileHash list"
  df_Changed :: "ChangedFile list"

text \<open>The map from paths to hashes; a later entry of a path replaces an earlier one.\<close>

definition file_map :: "FileHash list \<Rightarrow> (string, string) fmap" where
  "file_map files = fold (\<lambda>file m. fmupd (fh_Path file) (fh_SHA256 file) m) files fmempty"

text \<open>The two loops over maps, and the sorting of what they collect by path.\<close>

definition added_file :: "(string, string) fmap \<Rightarrow> (string, string) fmap \<Rightarrow> string \<Rightarrow> FileHash list" where
  "added_file base current path =
     (case (fmlookup current path, fmlookup base path) of
        (Some hash, None) \<Rightarrow> [\<lparr>fh_Path = path, fh_SHA256 = hash\<rparr>] | _ \<Rightarrow> [])"

definition changed_file :: "(string, string) fmap \<Rightarrow> (string, string) fmap \<Rightarrow> string \<Rightarrow> ChangedFile list" where
  "changed_file base current path =
     (case (fmlookup current path, fmlookup base path) of
        (Some hash, Some baseHash) \<Rightarrow>
          if baseHash \<noteq> hash then [\<lparr>cf_Path = path, cf_Baseline = baseHash, cf_Current = hash\<rparr>] else []
      | _ \<Rightarrow> [])"

definition Compare :: "Manifest \<Rightarrow> Manifest \<Rightarrow> Diff" where
  "Compare baseline current =
     (let baseFiles = file_map (mf_Files baseline);
          currentFiles = file_map (mf_Files current)
      in \<lparr>df_Added = sort_key fh_Path (concat (map (added_file baseFiles currentFiles) (range_keys (fmdom currentFiles)))),
          df_Deleted = sort_key fh_Path (concat (map (added_file currentFiles baseFiles) (range_keys (fmdom baseFiles)))),
          df_Changed = sort_key cf_Path (concat (map (changed_file baseFiles currentFiles) (range_keys (fmdom currentFiles))))\<rparr>)"

definition HasChanges :: "Diff \<Rightarrow> bool" where
  "HasChanges d \<longleftrightarrow> 0 < length (df_Added d) \<or> 0 < length (df_Deleted d) \<or> 0 < length (df_Changed d)"

section \<open>Scanning a checkout (manifest.go)\<close>

datatype dir_stat = DirMissing | DirError gerror | NotDir | IsDir

text \<open>
  \<open>co_WalkDir\<close> is what \<open>filepath.WalkDir\<close> visits in order: a path, its error, and whether it is a directory.
  \<open>co_Copy\<close> is the reading of an open file.
\<close>

record 'w contract_os =
  co_ReadFile :: "string \<Rightarrow> 'w \<Rightarrow> gerror + string"
  co_WriteFile :: "string \<Rightarrow> string \<Rightarrow> 'w \<Rightarrow> gerror option \<times> 'w"
  co_Unmarshal :: "string \<Rightarrow> gerror + Manifest"
  co_MarshalIndent :: "Manifest \<Rightarrow> gerror + string"
  co_Stat :: "string \<Rightarrow> 'w \<Rightarrow> dir_stat"
  co_WalkDir :: "string \<Rightarrow> 'w \<Rightarrow> (string \<times> gerror option \<times> bool) list"
  co_Open :: "string \<Rightarrow> 'w \<Rightarrow> gerror option"
  co_Copy :: "string \<Rightarrow> 'w \<Rightarrow> gerror + string"
  co_sha256 :: "string \<Rightarrow> string"
  co_Rel :: "string \<Rightarrow> string \<Rightarrow> gerror + string"

definition DefaultSource :: string where
  "DefaultSource = ''github.com/remnawave/node''"

definition scanDirs :: "string list" where
  "scanDirs =
     [''libs/contract/api'', ''libs/contract/commands'', ''libs/contract/constants/errors'',
      ''libs/contract/constants/xray'', ''libs/contract/models'']"

definition LoadManifest :: "'w contract_os \<Rightarrow> string \<Rightarrow> 'w \<Rightarrow> gerror + Manifest" where
  "LoadManifest os path w =
     (case co_ReadFile os path w of
        Inl err \<Rightarrow> Inl (Errorf_w ''read baseline manifest'' err)
      | Inr data \<Rightarrow>
     (case co_Unmarshal os data of
        Inl err \<Rightarrow> Inl (Errorf_w ''decode baseline manifest'' err)
      | Inr manifest \<Rightarrow>
          if mf_Source manifest = [] then Inl (NewError ''baseline manifest source is empty'')
          else if mf_Tag manifest = [] then Inl (NewError ''baseline manifest tag is empty'')
          else if mf_Files manifest = [] then Inl (NewError ''baseline manifest has no files'')
          else Inr manifest))"

definition SaveManifest :: "'w contract_os \<Rightarrow> string \<Rightarrow> Manifest \<Rightarrow> 'w \<Rightarrow> gerror option \<times> 'w" where
  "SaveManifest os path manifest w =
     (case co_MarshalIndent os manifest of
        Inl err \<Rightarrow> (Some (Errorf_w ''encode baseline manifest'' err), w)
      | Inr data \<Rightarrow>
          (case co_WriteFile os path (data @ LF) w of
             (err, w) \<Rightarrow> (map_option (Errorf_w ''write baseline manifest'') err, w)))"

definition isContractFile :: "string \<Rightarrow> bool" where
  "isContractFile path =
     (let name = path_Base path
      in name \<noteq> ''index.ts'' \<and> EqualFold (path_Ext name) ''.ts'')"

definition hashFile :: "'w contract_os \<Rightarrow> string \<Rightarrow> 'w \<Rightarrow> gerror + string" where
  "hashFile os path w =
     (case co_Open os path w of
        Some err \<Rightarrow> Inl (Errorf_w (''open '' @ Quote path) err)
      | None \<Rightarrow>
     (case co_Copy os path w of
        Inl err \<Rightarrow> Inl (Errorf_w (''hash '' @ Quote path) err)
      | Inr content \<Rightarrow> Inr (hex_EncodeToString (co_sha256 os content))))"

text \<open>The visits of one walk; the first error ends it.\<close>

fun scan_visits :: "'w contract_os \<Rightarrow> string \<Rightarrow> (string \<times> gerror option \<times> bool) list \<Rightarrow> FileHash list \<Rightarrow> 'w \<Rightarrow>
    gerror + FileHash list" where
  "scan_visits os root [] files w = Inr files"
| "scan_visits os root ((path, walkErr, isDir) # visits) files w =
     (case walkErr of
        Some err \<Rightarrow> Inl err
      | None \<Rightarrow>
          if isDir \<or> \<not> isContractFile path then scan_visits os root visits files w
          else on_ok (hashFile os path w) (\<lambda>hash.
               on_ok (co_Rel os root path) (\<lambda>rel.
                 scan_visits os root visits (files @ [\<lparr>fh_Path = rel, fh_SHA256 = hash\<rparr>]) w)))"

fun scan_dirs :: "'w contract_os \<Rightarrow> string \<Rightarrow> string list \<Rightarrow> FileHash list \<Rightarrow> 'w \<Rightarrow> gerror + FileHash list" where
  "scan_dirs os root [] files w = Inr files"
| "scan_dirs os root (dir # dirs) files w =
     (case co_Stat os (path_Join root dir) w of
        DirMissing \<Rightarrow>
          Inl (NewError (''official contract scan path '' @ Quote dir @
                 '' is missing; inspect upstream contract structure manually''))
      | DirError err \<Rightarrow> Inl (Errorf_w (''stat contract scan path '' @ Quote dir) err)
      | NotDir \<Rightarrow>
          Inl (NewError (''official contract scan path '' @ Quote dir @
                 '' is not a directory; inspect upstream contract structure manually''))
      | IsDir \<Rightarrow>
          (case scan_visits os root (co_WalkDir os (path_Join root dir) w) files w of
             Inl err \<Rightarrow> Inl (Errorf_w (''scan contract path '' @ Quote dir) err)
           | Inr files \<Rightarrow> scan_dirs os root dirs files w))"

definition ScanRepository :: "'w contract_os \<Rightarrow> string \<Rightarrow> string \<Rightarrow> string \<Rightarrow> int \<Rightarrow> 'w \<Rightarrow> gerror + Manifest" where
  "ScanRepository os root source tag generatedAt w =
     on_ok (scan_dirs os root scanDirs [] w) (\<lambda>files.
       Inr \<lparr>mf_Source = (if source = [] then DefaultSource else source), mf_Tag = tag,
            mf_GeneratedAt = generatedAt, mf_Files = sort_key fh_Path files\<rparr>)"

section \<open>Unpacking a tarball (cmd/contract-diff/main.go)\<close>

datatype tar_type = TypeDir | TypeReg | TypeOther

record tar_entry =
  te_Name :: string
  te_Type :: tar_type
  te_Mode :: nat
  te_Data :: string

text \<open>
  \<open>dl_Tar\<close> opens the gzip stream of a body and yields its entries up to the end or an error of the reader.
  \<open>dl_Write\<close> is the creation, the copy and the close of a file, with the first error of them.
\<close>

record 'w download_os =
  dl_MkdirTemp :: "'w \<Rightarrow> (gerror + string) \<times> 'w"
  dl_RemoveAll :: "string \<Rightarrow> 'w \<Rightarrow> 'w"
  dl_Get :: "string \<Rightarrow> 'w \<Rightarrow> (gerror + nat \<times> string) \<times> 'w"
  dl_Tar :: "string \<Rightarrow> gerror + tar_entry list \<times> gerror option"
  dl_MkdirAll :: "string \<Rightarrow> 'w \<Rightarrow> gerror option \<times> 'w"
  dl_Write :: "string \<Rightarrow> nat \<Rightarrow> string \<Rightarrow> 'w \<Rightarrow> gerror option \<times> 'w"
  dl_ReadDir :: "string \<Rightarrow> 'w \<Rightarrow> gerror + (string \<times> bool) list"
  dl_Exists :: "string \<Rightarrow> 'w \<Rightarrow> bool"

text \<open>The permission bits, as \<open>FileMode.Perm\<close> takes them.\<close>

definition fsMode :: "nat \<Rightarrow> nat" where
  "fsMode mode = (if mode = 0 then 0x1A4 else mode mod 512)"

text \<open>Where an entry goes, or the refusal of its name.\<close>

definition tar_target :: "string \<Rightarrow> string \<Rightarrow> gerror + string" where
  "tar_target dest name =
     (let cleanName = Clean name
      in if cleanName = ''.'' \<or> prefix ''../'' cleanName \<or> IsAbs cleanName
         then Inl (NewError (''unsafe tar path '' @ Quote name))
         else Inr (path_Join dest cleanName))"

definition extract_entry :: "'w download_os \<Rightarrow> string \<Rightarrow> tar_entry \<Rightarrow> 'w \<Rightarrow> gerror option \<times> 'w" where
  "extract_entry os dest header w =
     (case tar_target dest (te_Name header) of
        Inl err \<Rightarrow> (Some err, w)
      | Inr target \<Rightarrow>
     (case te_Type header of
        TypeDir \<Rightarrow> dl_MkdirAll os target w
      | TypeReg \<Rightarrow>
          (case dl_MkdirAll os (path_Dir target) w of
             (Some err, w) \<Rightarrow> (Some err, w)
           | (None, w) \<Rightarrow> dl_Write os target (fsMode (te_Mode header)) (te_Data header) w)
      | TypeOther \<Rightarrow> (None, w)))"

fun extract_entries :: "'w download_os \<Rightarrow> string \<Rightarrow> tar_entry list \<Rightarrow> gerror option \<Rightarrow> 'w \<Rightarrow> gerror option \<times> 'w" where
  "extract_entries os dest [] readErr w = (readErr, w)"
| "extract_entries os dest (header # headers) readErr w =
     (case extract_entry os dest header w of
        (Some err, w) \<Rightarrow> (Some err, w)
      | (None, w) \<Rightarrow> extract_entries os dest headers readErr w)"

text \<open>The first directory with the contract files, or else the only directory.\<close>

definition findExtractedRoot :: "'w download_os \<Rightarrow> string \<Rightarrow> 'w \<Rightarrow> gerror + string" where
  "findExtractedRoot os dest w =
     on_ok (dl_ReadDir os dest w) (\<lambda>entries.
       let dirs = map (\<lambda>e. path_Join dest (fst e)) (filter snd entries)
       in case find (\<lambda>path. dl_Exists os (path_Join (path_Join (path_Join path ''libs'') ''contract'') ''api'') w) dirs of
            Some path \<Rightarrow> Inr path
          | None \<Rightarrow> if length dirs = 1 then Inr (hd dirs)
                     else Inl (NewError ''tarball did not contain a recognizable repository root''))"

definition extractTarGzip :: "'w download_os \<Rightarrow> string \<Rightarrow> string \<Rightarrow> 'w \<Rightarrow> (gerror + string) \<times> 'w" where
  "extractTarGzip os dest input w =
     (case dl_Tar os input of
        Inl err \<Rightarrow> (Inl err, w)
      | Inr (headers, readErr) \<Rightarrow>
          (case extract_entries os dest headers readErr w of
             (Some err, w) \<Rightarrow> (Inl err, w)
           | (None, w) \<Rightarrow> (findExtractedRoot os dest w, w)))"

text \<open>The first archive with status 200, or none; a failing request ends the search.\<close>

fun try_archives :: "'w download_os \<Rightarrow> string list \<Rightarrow> 'w \<Rightarrow> (gerror + string option) \<times> 'w" where
  "try_archives os [] w = (Inr None, w)"
| "try_archives os (candidate # candidates) w =
     (case dl_Get os candidate w of
        (Inl err, w) \<Rightarrow> (Inl (Errorf_w (''download GitHub tarball '' @ candidate) err), w)
      | (Inr (status, body), w) \<Rightarrow>
          if status = 200 then (Inr (Some body), w) else try_archives os candidates w)"

definition downloadRepository :: "'w download_os \<Rightarrow> string \<Rightarrow> string \<Rightarrow> 'w \<Rightarrow> (gerror + string \<times> string) \<times> 'w" where
  "downloadRepository os tag repo w =
     (case dl_MkdirTemp os w of
        (Inl err, w) \<Rightarrow> (Inl (Errorf_w ''create temp directory'' err), w)
      | (Inr tmp, w) \<Rightarrow>
          let repo = TrimPrefix repo ''github.com/'';
              urls = [''https://github.com/'' @ repo @ ''/archive/refs/tags/'' @ tag @ ''.tar.gz'',
                      ''https://github.com/'' @ repo @ ''/archive/refs/heads/'' @ tag @ ''.tar.gz'']
          in case try_archives os urls w of
               (Inl err, w) \<Rightarrow> (Inl err, dl_RemoveAll os tmp w)
             | (Inr None, w) \<Rightarrow>
                 (Inl (NewError (''download GitHub tarball for '' @ repo @ '' ref '' @ tag @
                         '': no tag or branch archive returned HTTP 200'')), dl_RemoveAll os tmp w)
             | (Inr (Some body), w) \<Rightarrow>
                 (case extractTarGzip os tmp body w of
                    (Inl err, w) \<Rightarrow>
                      (Inl (Errorf_w (''extract GitHub tarball for '' @ repo @ '' '' @ tag) err), dl_RemoveAll os tmp w)
                  | (Inr root, w) \<Rightarrow> (Inr (root, tmp), w)))"

section \<open>The command\<close>

record contract_flags =
  fl_tag :: string
  fl_baseline :: string
  fl_repo :: string
  fl_sourceDir :: string
  fl_writeBaseline :: bool

definition getenvDefault :: "(string \<Rightarrow> string) \<Rightarrow> string \<Rightarrow> string \<Rightarrow> string" where
  "getenvDefault getenv name fallback = (if getenv name \<noteq> [] then getenv name else fallback)"

definition default_flags :: "(string \<Rightarrow> string) \<Rightarrow> contract_flags" where
  "default_flags getenv =
     \<lparr>fl_tag = getenvDefault getenv ''CONTRACT_TAG'' [],
      fl_baseline = ''testdata/contracts/official-3.4.1/upstream-contract.sha256.json'',
      fl_repo = ''remnawave/node'',
      fl_sourceDir = getenvDefault getenv ''CONTRACT_SOURCE_DIR'' [],
      fl_writeBaseline = False\<rparr>"

text \<open>The lines of the report.\<close>

definition drift_report :: "string \<Rightarrow> string \<Rightarrow> Diff \<Rightarrow> string list" where
  "drift_report baselineTag tag diff =
     [''official contract drift detected: baseline '' @ baselineTag @ '', checked '' @ tag] @
     (if df_Added diff = [] then [] else ''added files:'' #
        map (\<lambda>f. ''  + '' @ fh_Path f @ '' '' @ fh_SHA256 f) (df_Added diff)) @
     (if df_Deleted diff = [] then [] else ''deleted files:'' #
        map (\<lambda>f. ''  - '' @ fh_Path f @ '' '' @ fh_SHA256 f) (df_Deleted diff)) @
     (if df_Changed diff = [] then [] else ''changed files:'' #
        map (\<lambda>f. ''  * '' @ cf_Path f @ '' '' @ cf_Baseline f @ '' -> '' @ cf_Current f) (df_Changed diff))"

text \<open>The checkout: a local one, or a downloaded one that is removed at the end.\<close>

definition checkout :: "'w download_os \<Rightarrow> contract_flags \<Rightarrow> string \<Rightarrow> 'w \<Rightarrow>
    (gerror + string \<times> string option) \<times> 'w" where
  "checkout os flags tag w =
     (if fl_sourceDir flags \<noteq> [] then (Inr (fl_sourceDir flags, None), w)
      else case downloadRepository os tag (fl_repo flags) w of
             (Inl err, w) \<Rightarrow> (Inl err, w)
           | (Inr (root, tmp), w) \<Rightarrow> (Inr (root, Some tmp), w))"

text \<open>What is done with a scanned manifest: write it, or compare it.\<close>

definition settle :: "'w contract_os \<Rightarrow> contract_flags \<Rightarrow> Manifest \<Rightarrow> string \<Rightarrow> string \<Rightarrow> Manifest \<Rightarrow> 'w \<Rightarrow>
    (gerror option \<times> string list) \<times> 'w" where
  "settle os flags baseline source tag current w =
     (if fl_writeBaseline flags then
        (case SaveManifest os (fl_baseline flags) current w of
           (Some err, w) \<Rightarrow> ((Some err, []), w)
         | (None, w) \<Rightarrow>
             ((None, [''wrote contract baseline '' @ fl_baseline flags @ '' for '' @ source @ '' '' @ tag @
                      '' ('' @ Itoa (int (length (mf_Files current))) @ '' files)'']), w))
      else
        let diff = Compare baseline current
        in if \<not> HasChanges diff then
             ((None, [''contract unchanged: baseline '' @ mf_Tag baseline @ '', checked '' @ tag @ '', scanned '' @
                      Itoa (int (length (mf_Files current))) @ '' files'']), w)
           else
             ((Some (NewError (''official contract changed; update Go contracts, routes, golden fixtures, '' @
                               ''and baseline after review'')),
               drift_report (mf_Tag baseline) tag diff), w))"

text \<open>\<open>run\<close> after its flags were parsed: the error, and the lines on standard output.\<close>

definition contract_run :: "'w contract_os \<Rightarrow> 'w download_os \<Rightarrow> int \<Rightarrow> contract_flags \<Rightarrow> 'w \<Rightarrow>
    (gerror option \<times> string list) \<times> 'w" where
  "contract_run os dl now flags w =
     (if fl_baseline flags = [] then ((Some (NewError ''-baseline must not be empty''), []), w)
      else if fl_repo flags = [] then ((Some (NewError ''-repo must not be empty''), []), w)
      else case (if fl_writeBaseline flags
                 then Inr (\<lparr>mf_Source = [], mf_Tag = [], mf_GeneratedAt = 0, mf_Files = []\<rparr>)
                 else LoadManifest os (fl_baseline flags) w) of
        Inl err \<Rightarrow> ((Some err, []), w)
      | Inr baseline \<Rightarrow>
          let tag = (if fl_tag flags = [] \<and> \<not> fl_writeBaseline flags then mf_Tag baseline else fl_tag flags);
              tag = (if tag = [] then ''dev'' else tag)
          in case checkout dl flags tag w of
               (Inl err, w) \<Rightarrow> ((Some err, []), w)
             | (Inr (root, tmp), w) \<Rightarrow>
                 let source = ''github.com/'' @ TrimPrefix (fl_repo flags) ''github.com/'';
                     cleanup = (case tmp of None \<Rightarrow> id | Some dir \<Rightarrow> dl_RemoveAll dl dir)
                 in case ScanRepository os root source tag now w of
                      Inl err \<Rightarrow> ((Some err, []), cleanup w)
                    | Inr current \<Rightarrow>
                        (case settle os flags baseline source tag current w of (r, w) \<Rightarrow> (r, cleanup w)))"

definition contract_flagset :: "contract_flags flagset" where
  "contract_flagset =
     [(''tag'', StringVar (\<lambda>v f. f\<lparr>fl_tag := v\<rparr>)), (''baseline'', StringVar (\<lambda>v f. f\<lparr>fl_baseline := v\<rparr>)),
      (''repo'', StringVar (\<lambda>v f. f\<lparr>fl_repo := v\<rparr>)), (''source-dir'', StringVar (\<lambda>v f. f\<lparr>fl_sourceDir := v\<rparr>)),
      (''write-baseline'', BoolVar (\<lambda>v f. f\<lparr>fl_writeBaseline := v\<rparr>))]"

text \<open>\<open>run\<close> with its arguments, and \<open>main\<close>: the exit code and the lines on the two outputs.\<close>

definition contract_command :: "'w contract_os \<Rightarrow> 'w download_os \<Rightarrow> (string \<Rightarrow> string) \<Rightarrow> int \<Rightarrow> string list \<Rightarrow> 'w \<Rightarrow>
    (gerror option \<times> string list) \<times> 'w" where
  "contract_command os dl getenv now args w =
     (case flag_Parse contract_flagset args (default_flags getenv) of
        Inl err \<Rightarrow> ((Some err, []), w)
      | Inr (flags, _) \<Rightarrow> contract_run os dl now flags w)"

definition contract_main :: "'w contract_os \<Rightarrow> 'w download_os \<Rightarrow> (string \<Rightarrow> string) \<Rightarrow> int \<Rightarrow> string list \<Rightarrow> 'w \<Rightarrow>
    (int \<times> string list \<times> string list) \<times> 'w" where
  "contract_main os dl getenv now args w =
     (case contract_command os dl getenv now args w of
        ((Some err, out), w) \<Rightarrow> ((1, out, [''contract diff failed: '' @ Error_msg err]), w)
      | ((None, out), w) \<Rightarrow> ((0, out, []), w))"

section \<open>Lemmas\<close>

lemma fmlookup_file_map: "fmlookup (file_map files) p = map_of (rev (map (\<lambda>f. (fh_Path f, fh_SHA256 f)) files)) p"
proof -
  have "fmlookup (fold (\<lambda>f m. fmupd (fh_Path f) (fh_SHA256 f) m) files m) p =
      (case map_of (rev (map (\<lambda>f. (fh_Path f, fh_SHA256 f)) files)) p of None \<Rightarrow> fmlookup m p | Some h \<Rightarrow> Some h)" for m
    by (induction files arbitrary: m) (auto simp: map_add_def split: option.splits)
  then show ?thesis by (simp add: file_map_def split: option.split)
qed

lemma set_added: "set (concat (map (added_file base current) (range_keys (fmdom current)))) =
    {f. fmlookup current (fh_Path f) = Some (fh_SHA256 f) \<and> fmlookup base (fh_Path f) = None}"
proof -
  have "f \<in> set (concat (map (added_file base current) (range_keys (fmdom current)))) \<longleftrightarrow>
      fmlookup current (fh_Path f) = Some (fh_SHA256 f) \<and> fmlookup base (fh_Path f) = None" for f :: FileHash
    by (cases f) (auto simp: added_file_def fmdomI split: option.splits)
  then show ?thesis by blast
qed

lemma set_changed: "set (concat (map (changed_file base current) (range_keys (fmdom current)))) =
    {f. fmlookup current (cf_Path f) = Some (cf_Current f) \<and> fmlookup base (cf_Path f) = Some (cf_Baseline f) \<and>
        cf_Baseline f \<noteq> cf_Current f}"
proof -
  have "f \<in> set (concat (map (changed_file base current) (range_keys (fmdom current)))) \<longleftrightarrow>
      fmlookup current (cf_Path f) = Some (cf_Current f) \<and> fmlookup base (cf_Path f) = Some (cf_Baseline f) \<and>
      cf_Baseline f \<noteq> cf_Current f" for f :: ChangedFile
    by (cases f) (auto simp: changed_file_def fmdomI split: option.splits)
  then show ?thesis by blast
qed

lemma distinct_concat_keys:
  assumes "distinct ks" "\<And>k x. x \<in> set (g k) \<Longrightarrow> key x = k" "\<And>k. length (g k) \<le> 1"
  shows "distinct (map key (concat (map g ks)))"
  using assms(1)
proof (induction ks)
  case (Cons k ks)
  have "distinct (map key (g k))" using assms(3) [of k] by (cases "g k") auto
  moreover have "k \<notin> key ` set (concat (map g ks))" using Cons.prems assms(2) by auto
  moreover have "key ` set (g k) \<subseteq> {k}" using assms(2) by blast
  ultimately show ?case using Cons by auto
qed simp

lemma sorted_wrt_strict: "distinct (map key xs) \<Longrightarrow> sorted_wrt (<) (map key (sort_key key xs))"
  by (simp add: strict_sorted_iff distinct_map)

lemma added_distinct: "distinct (map fh_Path (concat (map (added_file base current) (range_keys A))))"
  by (rule distinct_concat_keys) (auto simp: added_file_def split: option.splits)

lemma changed_distinct: "distinct (map cf_Path (concat (map (changed_file base current) (range_keys A))))"
  by (rule distinct_concat_keys) (auto simp: changed_file_def split: option.splits)

text \<open>There are changes if and only if the two manifests differ as maps.\<close>

definition added_files :: "Manifest \<Rightarrow> Manifest \<Rightarrow> FileHash set" where
  "added_files old new =
     {f. fmlookup (file_map (mf_Files new)) (fh_Path f) = Some (fh_SHA256 f) \<and> fmlookup (file_map (mf_Files old)) (fh_Path f) = None}"

definition changed_files :: "Manifest \<Rightarrow> Manifest \<Rightarrow> ChangedFile set" where
  "changed_files old new =
     {f. fmlookup (file_map (mf_Files new)) (cf_Path f) = Some (cf_Current f) \<and>
         fmlookup (file_map (mf_Files old)) (cf_Path f) = Some (cf_Baseline f) \<and> cf_Baseline f \<noteq> cf_Current f}"

lemma Compare_sets:
  "set (df_Added (Compare old new)) = added_files old new"
  "set (df_Deleted (Compare old new)) = added_files new old"
  "set (df_Changed (Compare old new)) = changed_files old new"
  by (simp_all only: Compare_def Let_def Diff.simps set_sort set_added set_changed added_files_def changed_files_def)

lemma HasChanges_Compare:
  "HasChanges (Compare old new) \<longleftrightarrow> fmlookup (file_map (mf_Files old)) \<noteq> fmlookup (file_map (mf_Files new))"
proof -
  let ?b = "file_map (mf_Files old)" and ?c = "file_map (mf_Files new)"
  have empty: "\<not> HasChanges (Compare old new) \<longleftrightarrow> added_files old new = {} \<and> added_files new old = {} \<and> changed_files old new = {}"
    using Compare_sets [of old new] by (auto simp: HasChanges_def)
  have "fmlookup ?b p = fmlookup ?c p"
    if none: "added_files old new = {}" "added_files new old = {}" "changed_files old new = {}" for p
  proof -
    note at = Collect_empty_eq [THEN iffD1, THEN spec]
    have "\<not> (fmlookup ?c p = Some h \<and> fmlookup ?b p = None)" for h
      using at [OF none(1) [unfolded added_files_def], of "\<lparr>fh_Path = p, fh_SHA256 = h\<rparr>"] by simp
    moreover have "\<not> (fmlookup ?b p = Some h \<and> fmlookup ?c p = None)" for h
      using at [OF none(2) [unfolded added_files_def], of "\<lparr>fh_Path = p, fh_SHA256 = h\<rparr>"] by simp
    moreover have "\<not> (fmlookup ?c p = Some h \<and> fmlookup ?b p = Some h' \<and> h' \<noteq> h)" for h h'
      using at [OF none(3) [unfolded changed_files_def], of "\<lparr>cf_Path = p, cf_Baseline = h', cf_Current = h\<rparr>"] by simp
    ultimately show ?thesis by (metis option.exhaust)
  qed
  moreover have "added_files old new = {} \<and> added_files new old = {} \<and> changed_files old new = {}"
    if "fmlookup ?b = fmlookup ?c"
    using that by (auto simp: added_files_def changed_files_def)
  ultimately show ?thesis using empty by blast
qed

section \<open>Properties\<close>

text \<open>
  C33. The comparison is exact: the three lists are sorted by path without repetition, hold precisely the
  files that were added, deleted or changed with their hashes, and there are changes if and only if the two
  manifests differ as maps from paths to hashes, whatever the order of their entries.
\<close>

theorem Compare_exact:
  "let d = Compare old new
   in set (df_Added d) = added_files old new \<and> set (df_Deleted d) = added_files new old \<and>
      set (df_Changed d) = changed_files old new \<and>
      sorted_wrt (<) (map fh_Path (df_Added d)) \<and> sorted_wrt (<) (map fh_Path (df_Deleted d)) \<and>
      sorted_wrt (<) (map cf_Path (df_Changed d)) \<and>
      (HasChanges d \<longleftrightarrow> fmlookup (file_map (mf_Files old)) \<noteq> fmlookup (file_map (mf_Files new)))"
proof -
  let ?d = "Compare old new"
  have sorted: "sorted_wrt (<) (map fh_Path (df_Added ?d))" "sorted_wrt (<) (map fh_Path (df_Deleted ?d))"
    "sorted_wrt (<) (map cf_Path (df_Changed ?d))"
    unfolding Compare_def Let_def Diff.simps
    by (intro sorted_wrt_strict added_distinct changed_distinct)+
  show ?thesis
    unfolding Let_def by (intro conjI Compare_sets HasChanges_Compare sorted)
qed

text \<open>
  C34. An entry of the archive is unpacked below the destination, at plain elements behind its own, or it is
  refused; the one name that gets through the check without that is \<open>..\<close>, the parent directory.
\<close>

theorem tar_target_confined:
  assumes "dest \<noteq> []" "tar_target dest name = Inr target" "Clean name \<noteq> ''..''"
  shows "\<exists>es. es \<noteq> [] \<and> list_all plain_elem es \<and> Clean name = Join es ''/'' \<and>
    target = path_of (is_rooted dest) (clean_elems dest @ es)"
proof -
  have ok: "\<not> IsAbs (Clean name)" "Clean name \<noteq> ''.''" "\<not> prefix ''../'' (Clean name)"
    and t: "target = path_Join dest (Clean name)"
    using assms(2) by (auto simp: tar_target_def Let_def split: if_splits)
  from Clean_below [OF ok assms(3)] obtain es where es: "es \<noteq> []" "list_all plain_elem es" "Clean name = Join es ''/''"
    by blast
  with path_Join_below [OF assms(1) es(1,2)] t show ?thesis by auto
qed

theorem tar_target_parent: "tar_target ''/tmp/x'' ''a/../..'' = Inr ''/tmp''"
  by code_simp

theorem tar_target_confined_witness:
  "\<exists>es. list_all plain_elem es \<and> Join es ''/'' = ''repo/libs'' \<and>
     ''/tmp/x/repo/libs'' = path_of True (clean_elems ''/tmp/x'' @ es)"
proof -
  have "tar_target ''/tmp/x'' ''./repo//a/../libs'' = Inr ''/tmp/x/repo/libs''"
    "Clean ''./repo//a/../libs'' = ''repo/libs''" "is_rooted ''/tmp/x''"
    by code_simp+
  from tar_target_confined [OF _ this(1)] this(2,3) show ?thesis by auto
qed

text \<open>
  The check of the committed baseline succeeds if and only if nothing failed on the way and the scanned
  files are those of the baseline, and a temporary checkout is removed whatever happened.
\<close>

theorem contract_check_verdict:
  assumes "\<not> fl_writeBaseline flags" "fl_baseline flags \<noteq> []" "fl_repo flags \<noteq> []"
    "LoadManifest os (fl_baseline flags) w = Inr baseline"
    "tag = (if fl_tag flags = [] then mf_Tag baseline else fl_tag flags)" "tag \<noteq> []"
    "checkout dl flags tag w = (Inr (root, tmp), w1)"
    "ScanRepository os root (''github.com/'' @ TrimPrefix (fl_repo flags) ''github.com/'') tag now w1 = Inr current"
  shows "(fst (fst (contract_run os dl now flags w)) = None \<longleftrightarrow>
      fmlookup (file_map (mf_Files baseline)) = fmlookup (file_map (mf_Files current))) \<and>
    snd (contract_run os dl now flags w) = (case tmp of None \<Rightarrow> w1 | Some dir \<Rightarrow> dl_RemoveAll dl dir w1)"
proof -
  have "HasChanges (Compare baseline current) \<longleftrightarrow>
      fmlookup (file_map (mf_Files baseline)) \<noteq> fmlookup (file_map (mf_Files current))"
    by (rule HasChanges_Compare)
  then show ?thesis
    using assms by (auto simp: contract_run_def settle_def Let_def split: option.split)
qed

text \<open>Every setting of the flags can be given on the command line, whatever its values look like.\<close>

definition contract_args :: "contract_flags \<Rightarrow> string list" where
  "contract_args flags =
     [''-tag'', fl_tag flags, ''--baseline='' @ fl_baseline flags, ''-repo='' @ fl_repo flags, ''--source-dir'', fl_sourceDir flags,
      ''-write-baseline='' @ (if fl_writeBaseline flags then ''true'' else ''false'')]"

lemma contract_flags_given:
  "flag_Parse contract_flagset (contract_args flags @ rest) (default_flags getenv) = flag_Parse contract_flagset rest flags"
  by (cases flags) (simp add: contract_args_def default_flags_def contract_flagset_def flag_arg_def flag_name_def set_flag_def set_bool_def StringVar_def BoolVar_def
      ParseBool_def)

lemma contract_command_given:
  "contract_command os dl getenv now (contract_args flags) w = contract_run os dl now flags w"
  using contract_flags_given [of flags "[]" getenv] by (simp add: contract_command_def)

lemma contract_command_unparsed:
  "flag_Parse contract_flagset args (default_flags getenv) = Inl err \<Longrightarrow>
     contract_command os dl getenv now args w = ((Some err, []), w)"
  by (simp add: contract_command_def)

end
