(* ===== verification/Regexp.thy ===== *)
theory Regexp
  imports GoStrings
begin

text \<open>
  The part of Go's \<open>regexp\<close> that the code uses: patterns over bytes with the preference of the leftmost match and,
  among those, of the first one that a backtracking search finds, and \<open>ReplaceAllString\<close>. The
  classes that exclude some ASCII characters match a multi-byte rune byte by byte, which gives the same
  matches since they only occur under a repetition.
\<close>

section \<open>Patterns\<close>

datatype regex =
    Eps
  | Cls "char \<Rightarrow> bool"
  | Seq regex regex
  | Alt regex regex
  | Star regex
  | LazyStar regex
  | WordBoundary

text \<open>A position: the byte before it, if there is one, and the bytes from it on.\<close>

type_synonym position = "char option \<times> string"

definition regex_word :: "char \<Rightarrow> bool" where
  "regex_word c \<longleftrightarrow>
     (let n = byte c in 48 \<le> n \<and> n \<le> 57 \<or> 65 \<le> n \<and> n \<le> 90 \<or> 97 \<le> n \<and> n \<le> 122 \<or> n = 95)"

definition at_boundary :: "position \<Rightarrow> bool" where
  "at_boundary p =
     ((case fst p of None \<Rightarrow> False | Some c \<Rightarrow> regex_word c) \<noteq>
      (case snd p of [] \<Rightarrow> False | c # _ \<Rightarrow> regex_word c))"

text \<open>The ends of the repetitions of a match, each repetition consuming something, greedy or lazy.\<close>

function repeats :: "bool \<Rightarrow> (position \<Rightarrow> position list) \<Rightarrow> position \<Rightarrow> position list" where
  "repeats greedy f p =
     (let more = concat (map (repeats greedy f) (filter (\<lambda>q. length (snd q) < length (snd p)) (f p)))
      in if greedy then more @ [p] else p # more)"
  by pat_completeness auto
termination
  by (relation "measure (\<lambda>(greedy, f, p). length (snd p))") auto

declare repeats.simps [simp del]

text \<open>The ends of all matches that start at a position, in the order of preference.\<close>

primrec ends :: "regex \<Rightarrow> position \<Rightarrow> position list" where
  "ends Eps = (\<lambda>p. [p])"
| "ends (Cls cls) = (\<lambda>p. case snd p of [] \<Rightarrow> [] | c # s \<Rightarrow> if cls c then [(Some c, s)] else [])"
| "ends (Seq r q) = (\<lambda>p. concat (map (ends q) (ends r p)))"
| "ends (Alt r q) = (\<lambda>p. ends r p @ ends q p)"
| "ends (Star r) = repeats True (ends r)"
| "ends (LazyStar r) = repeats False (ends r)"
| "ends WordBoundary = (\<lambda>p. if at_boundary p then [p] else [])"

text \<open>A pattern that is anchored at both ends.\<close>

definition full_match :: "regex \<Rightarrow> string \<Rightarrow> bool" where
  "full_match r s = list_ex (\<lambda>p. snd p = []) (ends r (None, s))"

section \<open>Building patterns\<close>

definition Plus :: "regex \<Rightarrow> regex" where
  "Plus r = Seq r (Star r)"

definition Opt :: "regex \<Rightarrow> regex" where
  "Opt r = Alt r Eps"

fun Times :: "nat \<Rightarrow> regex \<Rightarrow> regex" where
  "Times 0 r = Eps"
| "Times (Suc n) r = Seq r (Times n r)"

definition AtLeast :: "nat \<Rightarrow> regex \<Rightarrow> regex" where
  "AtLeast n r = Seq (Times n r) (Star r)"

definition Chr :: "char \<Rightarrow> regex" where
  "Chr c = Cls (\<lambda>d. d = c)"

fun Lit :: "string \<Rightarrow> regex" where
  "Lit [] = Eps"
| "Lit (c # s) = Seq (Chr c) (Lit s)"

fun Alts :: "regex list \<Rightarrow> regex" where
  "Alts [] = Cls (\<lambda>c. False)"
| "Alts [r] = r"
| "Alts (r # q # rs) = Alt r (Alts (q # rs))"

definition OneOf :: "string \<Rightarrow> regex" where
  "OneOf cs = Cls (\<lambda>c. c \<in> set cs)"

definition NoneOf :: "string \<Rightarrow> regex" where
  "NoneOf cs = Cls (\<lambda>c. c \<notin> set cs)"

text \<open>\<open>\s\<close>, and the ASCII letters and digits.\<close>

definition regex_space :: string where
  "regex_space = [CHR 0x09, CHR 0x0A, CHR 0x0C, CHR 0x0D, CHR '' '']"

definition regex_alnum :: "char \<Rightarrow> bool" where
  "regex_alnum c \<longleftrightarrow> (let n = byte c in 48 \<le> n \<and> n \<le> 57 \<or> 65 \<le> n \<and> n \<le> 90 \<or> 97 \<le> n \<and> n \<le> 122)"

text \<open>
  Under \<open>(?i)\<close>: a letter matches both of its cases, and \<open>k\<close> and \<open>s\<close> also the Kelvin sign and the long s, which fold
  to them.
\<close>

definition fold_runes :: "char \<Rightarrow> regex" where
  "fold_runes c =
     (if lower_char c = CHR ''k'' then Lit [CHR 0xE2, CHR 0x84, CHR 0xAA]
      else if lower_char c = CHR ''s'' then Lit [CHR 0xC5, CHR 0xBF]
      else Cls (\<lambda>d. False))"

definition ChrI :: "char \<Rightarrow> regex" where
  "ChrI c = Alt (Cls (\<lambda>d. lower_char d = lower_char c)) (fold_runes c)"

fun LitI :: "string \<Rightarrow> regex" where
  "LitI [] = Eps"
| "LitI (c # s) = Seq (ChrI c) (LitI s)"

text \<open>
  Under \<open>(?i)\<close> a class that has k and s matches the Kelvin sign and the long s too.
\<close>

definition ClsI :: "(char \<Rightarrow> bool) \<Rightarrow> regex" where
  "ClsI cls = Alts [Cls cls, fold_runes (CHR ''k''), fold_runes (CHR ''s'')]"

definition any_char :: regex where
  "any_char = Cls (\<lambda>c. True)"

definition upper_digit_space :: "char \<Rightarrow> bool" where
  "upper_digit_space c \<longleftrightarrow> (let n = byte c in 65 \<le> n \<and> n \<le> 90 \<or> 48 \<le> n \<and> n \<le> 57 \<or> n = 32)"

text \<open>Pieces of the patterns for secrets.\<close>

definition jwt_part :: regex where
  "jwt_part = AtLeast 10 (Cls (\<lambda>c. regex_alnum c \<or> c \<in> set ''_-''))"

definition two_words :: "string \<Rightarrow> string \<Rightarrow> regex" where
  "two_words a b = Seq (LitI a) (Seq (Opt (OneOf ''_-'')) (LitI b))"

definition quoted :: "char \<Rightarrow> regex" where
  "quoted q = Seq (Chr q) (Seq (Star (NoneOf [q])) (Chr q))"

definition value_pattern :: regex where
  "value_pattern =
     Alts [quoted (CHR 0x22), quoted (CHR 0x27), Plus (NoneOf (regex_space @ [CHR 0x22, CHR 0x27] @ '',;}&''))]"

section \<open>Replacing\<close>

text \<open>
  A replacement pattern: what is kept before the replaced text, the replaced text, what is kept behind it, and the
  replacement (\<open>${1}..${3}\<close> in the templates of the code).
\<close>

record redaction =
  red_Before :: regex
  red_Secret :: regex
  red_After :: regex
  red_Text :: string

text \<open>The first match at a position: the position where the secret starts, where it ends, and the end.\<close>

definition redaction_at :: "redaction \<Rightarrow> position \<Rightarrow> (position \<times> position \<times> position) option" where
  "redaction_at d p =
     (case concat (map (\<lambda>a. concat (map (\<lambda>b. map (\<lambda>c. (a, b, c)) (ends (red_After d) b)) (ends (red_Secret d) a)))
             (ends (red_Before d) p)) of
        [] \<Rightarrow> None | m # _ \<Rightarrow> Some m)"

text \<open>The text between two positions.\<close>

definition between :: "position \<Rightarrow> position \<Rightarrow> string" where
  "between p q = take (length (snd p) - length (snd q)) (snd p)"

text \<open>\<open>ReplaceAllString\<close>: match, or copy a byte, and go on. The patterns of the code match no empty text.\<close>

function replace_all :: "redaction \<Rightarrow> position \<Rightarrow> string" where
  "replace_all d p =
     (case redaction_at d p of
        Some (a, b, q) \<Rightarrow>
          if length (snd q) < length (snd p)
          then between p a @ red_Text d @ between b q @ replace_all d q
          else (case snd p of [] \<Rightarrow> [] | c # s \<Rightarrow> c # replace_all d (Some c, s))
      | None \<Rightarrow> (case snd p of [] \<Rightarrow> [] | c # s \<Rightarrow> c # replace_all d (Some c, s)))"
  by pat_completeness auto
termination
  by (relation "measure (\<lambda>(d, p). length (snd p))") auto

declare replace_all.simps [simp del]

definition ReplaceAllString :: "redaction \<Rightarrow> string \<Rightarrow> string" where
  "ReplaceAllString d s = replace_all d (None, s)"

section \<open>Lemmas\<close>

text \<open>A match ends behind its start: what is left is a suffix of the text.\<close>

lemma repeats_suffix:
  assumes "\<And>p q. q \<in> set (f p) \<Longrightarrow> suffix (snd q) (snd p)" "q \<in> set (repeats g f p)"
  shows "suffix (snd q) (snd p)"
  using assms
proof (induction g f p rule: repeats.induct)
  case (1 g f p)
  from 1(3) consider "q = p" | m where "m \<in> set (f p)" "length (snd m) < length (snd p)" "q \<in> set (repeats g f m)"
    unfolding repeats.simps [of g f p] by (auto simp: Let_def split: if_splits)
  then show ?case
  proof cases
    case 2
    then have "suffix (snd q) (snd m)" using 1(1) [of m] 1(2) by simp
    with 1(2) [OF 2(1)] show ?thesis by (meson suffix_order.trans)
  qed simp
qed

lemma ends_suffix: "q \<in> set (ends r p) \<Longrightarrow> suffix (snd q) (snd p)"
proof (induction r arbitrary: p q)
  case (Seq r1 r2)
  from Seq.prems obtain m where m: "m \<in> set (ends r1 p)" "q \<in> set (ends r2 m)" by auto
  show ?case using Seq.IH(1) [OF m(1)] Seq.IH(2) [OF m(2)] by (meson suffix_order.trans)
next
  case (Star r)
  then show ?case by (metis ends.simps(5) repeats_suffix)
next
  case (LazyStar r)
  then show ?case by (metis ends.simps(6) repeats_suffix)
qed (auto split: list.splits if_splits simp: suffix_Cons)

text \<open>A pattern that matches no text without a byte of a set.\<close>

primrec needs :: "char set \<Rightarrow> regex \<Rightarrow> bool" where
  "needs C Eps \<longleftrightarrow> False"
| "needs C (Cls cls) \<longleftrightarrow> {c. cls c} \<subseteq> C"
| "needs C (Seq r q) \<longleftrightarrow> needs C r \<or> needs C q"
| "needs C (Alt r q) \<longleftrightarrow> needs C r \<and> needs C q"
| "needs C (Star r) \<longleftrightarrow> False"
| "needs C (LazyStar r) \<longleftrightarrow> False"
| "needs C WordBoundary \<longleftrightarrow> False"

lemma needs_ends: "needs C r \<Longrightarrow> q \<in> set (ends r p) \<Longrightarrow> set (snd p) \<inter> C \<noteq> {}"
proof (induction r arbitrary: p q)
  case (Seq r1 r2)
  from Seq.prems(2) obtain m where m: "m \<in> set (ends r1 p)" "q \<in> set (ends r2 m)" by auto
  have "set (snd m) \<subseteq> set (snd p)" using ends_suffix [OF m(1)] by (rule set_mono_suffix)
  with Seq m show ?case by (cases "needs C r1") fastforce+
next
  case (Cls cls)
  then show ?case by (cases "snd p") (auto split: if_splits)
qed auto

lemma redaction_at_None:
  assumes "needs C (red_Before d) \<or> needs C (red_Secret d)" "set (snd p) \<inter> C = {}"
  shows "redaction_at d p = None"
proof -
  have "ends (red_Before d) p = [] \<or> (\<forall>a\<in>set (ends (red_Before d) p). ends (red_Secret d) a = [])"
  proof (cases "needs C (red_Before d)")
    case True
    have "ends (red_Before d) p = []"
    proof (rule ccontr)
      assume "ends (red_Before d) p \<noteq> []"
      then show False using needs_ends [OF True, of "hd (ends (red_Before d) p)" p] assms(2) by simp
    qed
    then show ?thesis by simp
  next
    case False
    have "ends (red_Secret d) a = []" if "a \<in> set (ends (red_Before d) p)" for a
    proof -
      have "set (snd a) \<subseteq> set (snd p)" using ends_suffix [OF that] by (rule set_mono_suffix)
      then have none: "set (snd a) \<inter> C = {}" using assms(2) by blast
      show ?thesis
      proof (rule ccontr)
        assume "ends (red_Secret d) a \<noteq> []"
        then show False
          using False assms(1) none needs_ends [of C "red_Secret d" "hd (ends (red_Secret d) a)" a] by simp
      qed
    qed
    then show ?thesis by blast
  qed
  then have "concat (map (\<lambda>a. concat (map (\<lambda>b. map (\<lambda>c. (a, b, c)) (ends (red_After d) b)) (ends (red_Secret d) a)))
      (ends (red_Before d) p)) = []" by auto
  then show ?thesis unfolding redaction_at_def by (simp only: list.case)
qed

text \<open>A text without the bytes that a pattern needs is left as it is.\<close>

lemma ReplaceAllString_id:
  assumes "needs C (red_Before d) \<or> needs C (red_Secret d)" "set s \<inter> C = {}"
  shows "ReplaceAllString d s = s"
proof -
  have "replace_all d (b, s) = s" for b
    using assms(2)
  proof (induction s arbitrary: b)
    case (Cons c s)
    then have "redaction_at d (b, c # s) = None"
      using redaction_at_None [OF assms(1), of "(b, c # s)"] by simp
    with Cons show ?case by (subst replace_all.simps) simp
  qed (use redaction_at_None [OF assms(1)] in \<open>subst replace_all.simps, simp\<close>)
  then show ?thesis by (simp add: ReplaceAllString_def)
qed

text \<open>A fixed number of bytes of a class.\<close>

lemma ends_Times_Cls:
  "ends (Times n (Cls cls)) p =
     (if n \<le> length (snd p) \<and> list_all cls (take n (snd p))
      then [(if n = 0 then fst p else Some (snd p ! (n - 1)), drop n (snd p))] else [])"
proof (induction n arbitrary: p)
  case (Suc n)
  show ?case
  proof (cases "snd p")
    case (Cons c s)
    have "ends (Times (Suc n) (Cls cls)) p = (if cls c then ends (Times n (Cls cls)) (Some c, s) else [])"
      using Cons by simp
    with Suc [of "(Some c, s)"] Cons show ?thesis by (cases n) (simp_all del: Times.simps ends.simps)
  qed simp
qed simp

lemma in_ends_Times_last:
  "q \<in> set (ends (Times n (Cls cls)) (b, s)) \<longleftrightarrow>
     (\<exists>a t. s = a @ t \<and> length a = n \<and> list_all cls a \<and> q = (if n = 0 then b else Some (last a), t))"
proof
  assume "q \<in> set (ends (Times n (Cls cls)) (b, s))"
  then have n: "n \<le> length s" "list_all cls (take n s)"
    and q: "q = (if n = 0 then b else Some (s ! (n - 1)), drop n s)"
    by (auto simp: ends_Times_Cls split: if_splits)
  have "last (take n s) = s ! (n - 1)" if "n \<noteq> 0"
    using that n(1) by (subst last_conv_nth) (auto simp: min_def)
  with n q show "\<exists>a t. s = a @ t \<and> length a = n \<and> list_all cls a \<and> q = (if n = 0 then b else Some (last a), t)"
    by (intro exI [where x = "take n s"] exI [where x = "drop n s"]) auto
next
  assume "\<exists>a t. s = a @ t \<and> length a = n \<and> list_all cls a \<and> q = (if n = 0 then b else Some (last a), t)"
  then obtain a t where "s = a @ t" "length a = n" "list_all cls a" "q = (if n = 0 then b else Some (last a), t)"
    by blast
  then show "q \<in> set (ends (Times n (Cls cls)) (b, s))"
    by (cases a rule: rev_cases) (auto simp: ends_Times_Cls nth_append)
qed

lemma in_ends_Times:
  "q \<in> set (ends (Seq (Times n (Cls cls)) r) (b, s)) \<longleftrightarrow>
     (\<exists>a t. s = a @ t \<and> length a = n \<and> list_all cls a \<and> q \<in> set (ends r (if n = 0 then b else Some (last a), t)))"
proof -
  have "q \<in> set (ends (Seq (Times n (Cls cls)) r) (b, s)) \<longleftrightarrow>
      (\<exists>m. m \<in> set (ends (Times n (Cls cls)) (b, s)) \<and> q \<in> set (ends r m))"
    by (auto simp del: Times.simps)
  also have "\<dots> \<longleftrightarrow> (\<exists>a t. s = a @ t \<and> length a = n \<and> list_all cls a \<and>
      q \<in> set (ends r (if n = 0 then b else Some (last a), t)))"
    unfolding in_ends_Times_last by blast
  finally show ?thesis .
qed

lemma in_ends_Chr:
  "q \<in> set (ends (Seq (Chr c) r) (b, s)) \<longleftrightarrow> (\<exists>t. s = c # t \<and> q \<in> set (ends r (Some c, t)))"
  by (auto simp: Chr_def split: list.splits)

lemma TimesI: "length a = n \<Longrightarrow> list_all cls a \<Longrightarrow> q \<in> set (ends r (if n = 0 then b else Some (last a), t)) \<Longrightarrow>
    q \<in> set (ends (Seq (Times n (Cls cls)) r) (b, a @ t))"
  unfolding in_ends_Times by blast

lemma Chr_ends: "q \<in> set (ends r (Some c, t)) \<Longrightarrow> q \<in> set (ends (Seq (Chr c) r) (b, [c] @ t))"
  unfolding in_ends_Chr by simp

lemma TimesI_last: "length a = n \<Longrightarrow> list_all cls a \<Longrightarrow> 0 < n \<Longrightarrow> (Some (last a), []) \<in> set (ends (Times n (Cls cls)) (b, a))"
  unfolding in_ends_Times_last by simp

text \<open>A greedy repetition of a class takes all of a text in the class first, and nothing of one that starts outside.\<close>

lemma Star_Cls_all:
  "list_all cls v \<Longrightarrow> \<exists>rest. ends (Star (Cls cls)) (b, v) = (if v = [] then b else Some (last v), []) # rest"
proof (induction v arbitrary: b)
  case Nil
  show ?case by (simp add: repeats.simps)
next
  case (Cons c v)
  then obtain rest where "repeats True (ends (Cls cls)) (Some c, v) = (if v = [] then Some c else Some (last v), []) # rest"
    by auto
  with Cons.prems show ?case by (simp add: repeats.simps [of True _ "(b, c # v)"])
qed

lemma Star_Cls_none: "s = [] \<or> \<not> cls (hd s) \<Longrightarrow> ends (Star (Cls cls)) (b, s) = [(b, s)]"
  by (cases s) (simp_all add: repeats.simps)

lemma redaction_at_first:
  assumes "ends (red_Before d) p = a # as" "ends (red_Secret d) a = b # bs" "ends (red_After d) b = c # cs"
  shows "redaction_at d p = Some (a, b, c)"
  using assms by (simp add: redaction_at_def)

text \<open>A pattern that matches nothing but bytes of a set.\<close>

primrec only :: "char set \<Rightarrow> regex \<Rightarrow> bool" where
  "only C Eps \<longleftrightarrow> True"
| "only C (Cls cls) \<longleftrightarrow> {c. cls c} \<subseteq> C"
| "only C (Seq r q) \<longleftrightarrow> only C r \<and> only C q"
| "only C (Alt r q) \<longleftrightarrow> only C r \<and> only C q"
| "only C (Star r) \<longleftrightarrow> only C r"
| "only C (LazyStar r) \<longleftrightarrow> only C r"
| "only C WordBoundary \<longleftrightarrow> True"

definition consumes :: "char set \<Rightarrow> position \<Rightarrow> position \<Rightarrow> bool" where
  "consumes C p q \<longleftrightarrow> (\<exists>w. snd p = w @ snd q \<and> set w \<subseteq> C)"

lemma consumes_refl: "consumes C p p"
  by (auto simp: consumes_def)

lemma consumes_trans: "consumes C p q \<Longrightarrow> consumes C q r \<Longrightarrow> consumes C p r"
  by (auto simp: consumes_def)

lemma repeats_consumes:
  assumes "\<And>p q. q \<in> set (f p) \<Longrightarrow> consumes C p q" "q \<in> set (repeats g f p)"
  shows "consumes C p q"
  using assms
proof (induction g f p rule: repeats.induct)
  case (1 g f p)
  from 1(3) consider "q = p" | m where "m \<in> set (f p)" "length (snd m) < length (snd p)" "q \<in> set (repeats g f m)"
    unfolding repeats.simps [of g f p] by (auto simp: Let_def split: if_splits)
  then show ?case
  proof cases
    case 2
    then have "consumes C m q" using 1(1) [of m] 1(2) by simp
    with 1(2) [OF 2(1)] show ?thesis by (rule consumes_trans)
  qed (simp add: consumes_refl)
qed

lemma only_consumes: "only C r \<Longrightarrow> q \<in> set (ends r p) \<Longrightarrow> consumes C p q"
proof (induction r arbitrary: p q)
  case (Cls cls)
  then show ?case by (cases "snd p") (auto simp: consumes_def split: if_splits)
next
  case (Seq r1 r2)
  then obtain m where m: "m \<in> set (ends r1 p)" "q \<in> set (ends r2 m)" by auto
  from Seq.prems(1) have "only C r1" "only C r2" by simp_all
  from consumes_trans [OF Seq.IH(1) [OF this(1) m(1)] Seq.IH(2) [OF this(2) m(2)]] show ?case .
next
  case (Star r)
  then show ?case using repeats_consumes [of "ends r" C q True p] by simp
next
  case (LazyStar r)
  then show ?case using repeats_consumes [of "ends r" C q False p] by simp
qed (auto simp: consumes_refl split: if_splits)

lemma full_match_only: "full_match r s \<Longrightarrow> only C r \<Longrightarrow> set s \<subseteq> C"
  using only_consumes [of C r _ "(None, s)"] by (fastforce simp: full_match_def list_ex_iff consumes_def)

end
