(* ===== verification/NetURL.thy ===== *)
theory NetURL
  imports GoStrings
begin

text \<open>
  What the code uses of \<open>net/url\<close>: the escaping of path segments and query components, and the two directions
  between a query string and \<open>url.Values\<close>. The limit that newer releases put on the number of parameters
  (10000) is left out.
\<close>

section \<open>Escaping\<close>

definition upper_hex :: "nat \<Rightarrow> char" where
  "upper_hex n = (if n < 10 then char_of (48 + n) else char_of (55 + n))"

definition unhex :: "char \<Rightarrow> nat option" where
  "unhex c =
     (let n = byte c
      in if 48 \<le> n \<and> n \<le> 57 then Some (n - 48)
         else if 97 \<le> n \<and> n \<le> 102 then Some (n - 87)
         else if 65 \<le> n \<and> n \<le> 70 then Some (n - 55)
         else None)"

definition unreserved :: "char \<Rightarrow> bool" where
  "unreserved c \<longleftrightarrow>
     (let n = byte c in 48 \<le> n \<and> n \<le> 57 \<or> 65 \<le> n \<and> n \<le> 90 \<or> 97 \<le> n \<and> n \<le> 122) \<or> c \<in> set ''-_.~''"

definition percent :: "char \<Rightarrow> string" where
  "percent c = [CHR ''%'', upper_hex (byte c div 16), upper_hex (byte c mod 16)]"

definition PathEscape :: "string \<Rightarrow> string" where
  "PathEscape s = concat (map (\<lambda>c. if unreserved c \<or> c \<in> set ''$&+=:@'' then [c] else percent c) s)"

definition query_char :: "char \<Rightarrow> string" where
  "query_char c = (if unreserved c then [c] else if c = CHR '' '' then ''+'' else percent c)"

definition QueryEscape :: "string \<Rightarrow> string" where
  "QueryEscape s = concat (map query_char s)"

fun QueryUnescape :: "string \<Rightarrow> string option" where
  "QueryUnescape [] = Some []"
| "QueryUnescape (c # s) =
     (if c = CHR ''%'' then
        (case s of
           a # b # t \<Rightarrow>
             (case (unhex a, unhex b) of
                (Some x, Some y) \<Rightarrow> map_option ((#) (char_of (16 * x + y))) (QueryUnescape t)
              | _ \<Rightarrow> None)
         | _ \<Rightarrow> None)
      else map_option ((#) (if c = CHR ''+'' then CHR '' '' else c)) (QueryUnescape s))"

section \<open>Queries\<close>

type_synonym Values = "(string, string list) fmap"

definition values_of :: "Values \<Rightarrow> string \<Rightarrow> string list" where
  "values_of m k = (case fmlookup m k of None \<Rightarrow> [] | Some vs \<Rightarrow> vs)"

text \<open>The parameters that one field gives: none if it is empty or cannot be read.\<close>

definition parse_field :: "string \<Rightarrow> (string \<times> string) list" where
  "parse_field field =
     (if CHR '';'' \<in> set field \<or> field = [] then []
      else case Cut field (CHR ''='') of
        (key, value, _) \<Rightarrow>
          (case (QueryUnescape key, QueryUnescape value) of
             (Some k, Some v) \<Rightarrow> [(k, v)] | _ \<Rightarrow> []))"

definition add_value :: "string \<times> string \<Rightarrow> Values \<Rightarrow> Values" where
  "add_value p m = fmupd (fst p) (values_of m (fst p) @ [snd p]) m"

definition ParseQuery :: "string \<Rightarrow> Values" where
  "ParseQuery query = fold add_value (concat (map parse_field (Split query ''&''))) fmempty"

definition encode_field :: "string \<times> string \<Rightarrow> string" where
  "encode_field p = QueryEscape (fst p) @ ''='' @ QueryEscape (snd p)"

text \<open>\<open>Values.Encode\<close>: sorted by key, the values of a key in their order.\<close>

definition value_pairs :: "Values \<Rightarrow> string list \<Rightarrow> (string \<times> string) list" where
  "value_pairs m ks = concat (map (\<lambda>k. map (Pair k) (values_of m k)) ks)"

definition Encode :: "Values \<Rightarrow> string" where
  "Encode m = Join (map encode_field (value_pairs m (range_keys (fmdom m)))) ''&''"

section \<open>Round trips\<close>

lemma unhex_upper_hex: "n < 16 \<Longrightarrow> unhex (upper_hex n) = Some n"
  by (auto simp: unhex_def upper_hex_def Let_def)

lemma upper_hex_not: "n < 16 \<Longrightarrow> upper_hex n \<notin> set ''&=;''"
  by (auto simp: upper_hex_def dest!: arg_cong [where f = "of_char :: char \<Rightarrow> nat"] split: if_splits)

lemma query_char_unescape: "QueryUnescape (query_char c @ s) = map_option ((#) c) (QueryUnescape s)"
proof (cases "unreserved c")
  case True
  moreover have "\<not> unreserved (CHR ''%'')" "\<not> unreserved (CHR ''+'')" by code_simp+
  ultimately show ?thesis by (auto simp: query_char_def)
next
  case False
  have "byte c div 16 < 16" "byte c mod 16 < 16"
    using nat_of_char_less_256 [of c] by (simp_all add: less_mult_imp_div_less)
  with False show ?thesis
    by (simp add: query_char_def percent_def unhex_upper_hex)
qed

lemma QueryUnescape_QueryEscape: "QueryUnescape (QueryEscape s) = Some s"
  by (induction s) (simp_all add: QueryEscape_def query_char_unescape)

lemma query_char_not: "set (query_char c) \<inter> set ''&=;'' = {}"
proof -
  have "byte c div 16 < 16" "byte c mod 16 < 16"
    using nat_of_char_less_256 [of c] by (simp_all add: less_mult_imp_div_less)
  then have "upper_hex (byte c div 16) \<notin> set ''&=;''" "upper_hex (byte c mod 16) \<notin> set ''&=;''"
    by (simp_all only: upper_hex_not not_False_eq_True)
  then show ?thesis by (auto simp: query_char_def percent_def unreserved_def)
qed

lemma QueryEscape_not: "c \<in> set ''&=;'' \<Longrightarrow> c \<notin> set (QueryEscape s)"
  using query_char_not by (fastforce simp: QueryEscape_def)

lemma Cut_at: "c \<notin> set a \<Longrightarrow> Cut (a @ c # b) c = (a, b, True)"
  by (induction a) (auto simp: Cut_def split: list.splits)

lemma parse_encode_field: "parse_field (encode_field p) = [p]"
  using QueryEscape_not [of "CHR '';''"]
  by (simp add: parse_field_def encode_field_def Cut_at QueryEscape_not QueryUnescape_QueryEscape)

lemma encode_field_no_amp: "CHR ''&'' \<notin> set (encode_field p)"
  using QueryEscape_not [of "CHR ''&''"] by (simp add: encode_field_def)

lemma fold_add_key: "vs \<noteq> [] \<Longrightarrow> fold add_value (map (Pair k) vs) m = fmupd k (values_of m k @ vs) m"
proof (induction vs arbitrary: m)
  case (Cons v vs)
  then show ?case by (cases "vs = []") (simp_all add: add_value_def values_of_def)
qed simp

lemma fold_add_pairs:
  assumes "distinct ks" "\<And>k. k \<in> set ks \<Longrightarrow> values_of m k \<noteq> [] \<and> k |\<notin>| fmdom acc"
  shows "fmlookup (fold add_value (value_pairs m ks) acc) k =
    (if k \<in> set ks then Some (values_of m k) else fmlookup acc k)"
  using assms
proof (induction ks arbitrary: acc)
  case (Cons x ks)
  have "fold add_value (value_pairs m (x # ks)) acc = fold add_value (value_pairs m ks) (fmupd x (values_of m x) acc)"
    using Cons.prems by (simp add: value_pairs_def fold_add_key values_of_def fmdom_notD)
  moreover have "k \<in> set ks \<Longrightarrow> values_of m k \<noteq> [] \<and> k |\<notin>| fmdom (fmupd x (values_of m x) acc)" for k
    using Cons.prems by auto
  ultimately show ?case using Cons by auto
qed (simp add: value_pairs_def)

text \<open>A query is read back as it was, if no key is without values.\<close>

lemma ParseQuery_Encode:
  assumes "[] |\<notin>| fmran m"
  shows "ParseQuery (Encode m) = m"
proof (rule fmap_ext)
  fix k
  let ?ps = "value_pairs m (range_keys (fmdom m))"
  have fields: "concat (map parse_field (Split (Encode m) ''&'')) = ?ps"
  proof (cases "?ps = []")
    case True
    then show ?thesis by (simp add: Encode_def parse_field_def)
  next
    case False
    then have "Split (Encode m) ''&'' = map encode_field ?ps"
      unfolding Encode_def by (intro Split_Join_char) (auto simp: encode_field_no_amp)
    then show ?thesis by (simp add: comp_def parse_encode_field)
  qed
  have "values_of m k \<noteq> []" if "k |\<in>| fmdom m" for k
    using that assms by (metis fmdom_notI fmranI option.simps(5) values_of_def option.exhaust)
  then have "fmlookup (fold add_value ?ps fmempty) k =
      (if k |\<in>| fmdom m then Some (values_of m k) else None)"
    by (subst fold_add_pairs) auto
  then show "fmlookup (ParseQuery (Encode m)) k = fmlookup m k"
    unfolding ParseQuery_def fields by (auto simp: values_of_def fmdom_notD split: option.split)
qed

lemma fold_add_nonempty: "[] |\<notin>| fmran m \<Longrightarrow> [] |\<notin>| fmran (fold add_value ps m)"
proof (induction ps arbitrary: m)
  case (Cons p ps)
  then have "[] |\<notin>| fmran (add_value p m)"
    by (auto simp: add_value_def elim!: fmranE split: if_splits dest: fmranI)
  with Cons show ?case by simp
qed simp

lemma ParseQuery_nonempty: "[] |\<notin>| fmran (ParseQuery query)"
  by (simp add: ParseQuery_def fold_add_nonempty)

lemma QueryEscape_example: "QueryEscape ''a b&c=d'' = ''a+b%26c%3Dd''"
  by code_simp

end
