(* ===== verification/PanelClient.thy ===== *)
theory PanelClient
  imports Contracts Regexp NetURL Config
begin

text \<open>
  The client of the Panel that the integration tool uses (\<open>internal/testkit/panel_client.go\<close>): its
  configuration, its requests and their errors, and the redaction of what it logs. \<open>encoding/json\<close>,
  \<open>url.Parse\<close>, the HTTP client and the clock are parameters; the lines of the logger are part of the state.
\<close>

section \<open>Redaction\<close>

subsection \<open>Patterns\<close>

definition pemBlockPattern :: redaction where
  "pemBlockPattern =
     \<lparr>red_Before = Eps,
      red_Secret = Seq (Lit ''-----BEGIN '') (Seq (Plus (Cls upper_digit_space)) (Seq (Lit ''-----'')
        (Seq (LazyStar any_char) (Seq (Lit ''-----END '') (Seq (Plus (Cls upper_digit_space)) (Lit ''-----'')))))),
      red_After = Eps, red_Text = ''[REDACTED_PEM]''\<rparr>"

definition bearerPattern :: redaction where
  "bearerPattern =
     \<lparr>red_Before = Eps,
      red_Secret = Seq WordBoundary (Seq (LitI ''Bearer'') (Seq (Plus (OneOf regex_space))
        (Seq (Plus (ClsI (\<lambda>c. regex_alnum c \<or> c \<in> set ''._~+/-''))) (Star (Chr (CHR ''=''))))))  ,
      red_After = Eps, red_Text = ''Bearer [REDACTED]''\<rparr>"

definition jwtPattern :: redaction where
  "jwtPattern =
     \<lparr>red_Before = Eps,
      red_Secret = Seq WordBoundary (Seq jwt_part (Seq (Chr (CHR ''.'')) (Seq jwt_part (Seq (Chr (CHR ''.''))
        (Seq jwt_part WordBoundary))))),
      red_After = Eps, red_Text = ''[REDACTED_JWT]''\<rparr>"

definition sensitive_words :: "regex list" where
  "sensitive_words =
     [two_words ''secret'' ''key'', two_words ''api'' ''key'', LitI ''apikey'', LitI ''token'', LitI ''password'',
      two_words ''private'' ''key'', two_words ''node'' ''key'', two_words ''cert'' ''pem'', LitI ''authorization'']"

definition keyValuePattern :: redaction where
  "keyValuePattern =
     \<lparr>red_Before = Seq WordBoundary (Seq (Alts sensitive_words)
        (Seq (Star (OneOf regex_space)) (Seq (OneOf '':='') (Star (OneOf regex_space))))),
      red_Secret = value_pattern,
      red_After = Eps, red_Text = ''[REDACTED]''\<rparr>"

definition uuid_digit :: "char \<Rightarrow> bool" where
  "uuid_digit c \<longleftrightarrow> (let n = byte c in 48 \<le> n \<and> n \<le> 57 \<or> 97 \<le> n \<and> n \<le> 102 \<or> 65 \<le> n \<and> n \<le> 70)"

definition uuidPattern :: regex where
  "uuidPattern =
     (let h = Cls uuid_digit;
          dash = Chr (CHR ''-'')
      in Seq (Times 8 h) (Seq dash (Seq (Times 4 h) (Seq dash (Seq (Times 4 h) (Seq dash (Seq (Times 4 h)
           (Seq dash (Times 12 h)))))))))"

definition RedactText :: "string \<Rightarrow> string" where
  "RedactText value =
     (let value = TrimSpace value
      in if value = [] then []
         else fold ReplaceAllString [pemBlockPattern, bearerPattern, jwtPattern, keyValuePattern] value)"

definition RedactSecret :: "string \<Rightarrow> string" where
  "RedactSecret value =
     (let value = TrimSpace value
      in if value = [] then []
         else if length value \<le> 8 then ''[REDACTED]''
         else take 4 value @ ''...'' @ drop (length value - 4) value)"

subsection \<open>JSON values and URLs\<close>

definition isSensitiveKey :: "string \<Rightarrow> bool" where
  "isSensitiveKey key =
     (let normalized = ToLower (ReplaceAll (ReplaceAll key ''-'' ''_'') ''.'' ''_'')
      in list_ex (Contains normalized)
           [''secret'', ''token'', ''api_key'', ''apikey'', ''password'', ''private_key'', ''node_key'', ''cert_pem''])"

text \<open>An entry of a map: its key, its value, and its value redacted.\<close>

definition redact_entry :: "string \<Rightarrow> json option \<Rightarrow> json \<Rightarrow> json" where
  "redact_entry key item redacted =
     (if isSensitiveKey key then
        (case as_string item of
           Some text \<Rightarrow> JStr (RedactSecret text) | None \<Rightarrow> JStr ''[REDACTED]'')
      else redacted)"

primrec RedactJSON :: "json \<Rightarrow> json" where
  "RedactJSON JNull = JNull"
| "RedactJSON (JBool b) = JBool b"
| "RedactJSON (JFloat d) = JFloat d"
| "RedactJSON (JInt i) = JInt i"
| "RedactJSON (JStr s) = JStr (RedactText s)"
| "RedactJSON (JArr items) = JArr (map RedactJSON items)"
| "RedactJSON (JObj m) = JObj (fmmap_keys (\<lambda>key. redact_entry key (fmlookup m key)) (fmmap RedactJSON m))"

text \<open>\<open>url.Userinfo\<close>: the user name and the password, when one is set; the fields of \<open>url.URL\<close>.\<close>

record Userinfo =
  ui_Username :: string
  ui_Password :: "string option"

record URL =
  u_Scheme :: string
  u_Opaque :: string
  u_User :: "Userinfo option"
  u_Host :: string
  u_Path :: string
  u_RawPath :: string
  u_OmitHost :: bool
  u_ForceQuery :: bool
  u_RawQuery :: string
  u_Fragment :: string
  u_RawFragment :: string

text \<open>\<open>url.User\<close>: a name without a password.\<close>

definition User :: "string \<Rightarrow> Userinfo" where
  "User username = \<lparr>ui_Username = username, ui_Password = None\<rparr>"

definition redact_query :: "Values \<Rightarrow> Values" where
  "redact_query query = fmmap_keys (\<lambda>key vs. if isSensitiveKey key then [''[REDACTED]''] else vs) query"

definition RedactURL :: "(string \<Rightarrow> gerror + URL) \<Rightarrow> (URL \<Rightarrow> string) \<Rightarrow> string \<Rightarrow> string" where
  "RedactURL url_Parse url_String raw =
     (case url_Parse raw of
        Inl err \<Rightarrow> RedactText raw
      | Inr parsed \<Rightarrow>
          url_String (parsed\<lparr>u_RawQuery := Encode (redact_query (ParseQuery (u_RawQuery parsed))),
                             u_User := map_option (\<lambda>_. User ''[REDACTED]'') (u_User parsed)\<rparr>))"

section \<open>The client\<close>

definition PanelBaseURLEnv :: string where "PanelBaseURLEnv = ''PANEL_BASE_URL''"
definition PanelAPIKeyEnv :: string where "PanelAPIKeyEnv = ''PANEL_API_KEY''"
definition PanelNodeIDEnv :: string where "PanelNodeIDEnv = ''PANEL_NODE_ID''"

text \<open>An HTTP client is its time limit in nanoseconds; a logger that is there writes lines.\<close>

record PanelClientConfig =
  pcc_BaseURL :: string
  pcc_APIKey :: string
  pcc_NodeID :: string
  pcc_HTTPClient :: "int option"
  pcc_Logger :: bool

record PanelClient =
  pc_baseURL :: URL
  pc_apiKey :: string
  pc_nodeID :: string
  pc_httpClient :: int
  pc_logger :: bool

record PanelRequest =
  pr_Method :: string
  pr_Path :: string
  pr_Query :: "Values option"
  pr_Body :: "json option"

record PanelResponse =
  ps_Method :: string
  ps_URL :: string
  ps_StatusCode :: int
  ps_Duration :: int
  ps_Body :: string
  ps_PrettyBody :: string
  ps_ContentType :: string
  ps_ErrorCategory :: string

record NodeStatusSummary =
  ns_UUID :: string
  ns_Name :: string
  ns_Address :: string
  ns_Port :: json
  ns_IsConnected :: bool
  ns_IsConnecting :: bool
  ns_IsDisabled :: bool
  ns_LastStatusChange :: json
  ns_LastStatusMessage :: json
  ns_CountryCode :: string

text \<open>A request on the wire, and its response: the body up to its end or an error of the reader.\<close>

record http_call =
  hc_Method :: string
  hc_URL :: string
  hc_Accept :: string
  hc_Authorization :: string
  hc_ContentType :: "string option"
  hc_Body :: "string option"

record http_answer =
  ha_Status :: int
  ha_ContentType :: string
  ha_Body :: string
  ha_ReadErr :: "gerror option"

text \<open>
  What the client uses of its surroundings; \<open>pl_Nodes\<close> and \<open>pl_Node\<close> decode the two payloads of the Panel,
  \<open>pl_TimedOut\<close> tells an error that is a deadline or reports a timeout. \<open>pl_ToLower\<close> and \<open>pl_EqualFold\<close> are
  those of \<open>strings\<close> on all of Unicode.
\<close>

record 'w panel_lib =
  pl_Getenv :: "string \<Rightarrow> string"
  pl_Parse :: "string \<Rightarrow> gerror + URL"
  pl_String :: "URL \<Rightarrow> string"
  pl_Marshal :: "json \<Rightarrow> gerror + string"
  pl_MarshalIndent :: "json \<Rightarrow> gerror + string"
  pl_Unmarshal :: "string \<Rightarrow> gerror + json"
  pl_Nodes :: "string \<Rightarrow> gerror + json_map list"
  pl_Node :: "string \<Rightarrow> gerror + json_map"
  pl_NewRequest :: "string \<Rightarrow> string \<Rightarrow> gerror option"
  pl_Send :: "int \<Rightarrow> http_call \<Rightarrow> 'w \<Rightarrow> (gerror + http_answer) \<times> 'w"
  pl_Now :: "'w \<Rightarrow> int"
  pl_TimedOut :: "gerror \<Rightarrow> bool"
  pl_Sha256 :: "string \<Rightarrow> string"
  pl_ToLower :: "string \<Rightarrow> string"
  pl_EqualFold :: "string \<Rightarrow> string \<Rightarrow> bool"

text \<open>A line of the log: level, message, attributes.\<close>

record log_line =
  ll_Level :: Level
  ll_Message :: string
  ll_Attrs :: "(string \<times> json) list"

type_synonym 'w logged = "log_line list \<times> 'w"

definition write_log :: "PanelClient \<Rightarrow> log_line \<Rightarrow> 'w logged \<Rightarrow> 'w logged" where
  "write_log c line s = (if pc_logger c then (fst s @ [line], snd s) else s)"

definition Milliseconds :: "int \<Rightarrow> int" where
  "Milliseconds d = (if d < 0 then - (- d div 1000000) else d div 1000000)"

definition TrimLeft :: "char \<Rightarrow> string \<Rightarrow> string" where
  "TrimLeft c s = dropWhile (\<lambda>d. d = c) s"

definition TrimRight :: "char \<Rightarrow> string \<Rightarrow> string" where
  "TrimRight c s = rev (dropWhile (\<lambda>d. d = c) (rev s))"

definition NewPanelClient :: "'w panel_lib \<Rightarrow> PanelClientConfig \<Rightarrow> gerror + PanelClient" where
  "NewPanelClient lib cfg =
     (let baseURL = TrimSpace (pcc_BaseURL cfg)
      in if baseURL = [] then Inl (NewError (PanelBaseURLEnv @ '' is required''))
      else case pl_Parse lib baseURL of
        Inl err \<Rightarrow> Inl (Errorf_w (''parse '' @ PanelBaseURLEnv) err)
      | Inr parsed \<Rightarrow>
          if u_Scheme parsed \<noteq> ''http'' \<and> u_Scheme parsed \<noteq> ''https''
          then Inl (NewError (PanelBaseURLEnv @ '' must use http or https''))
          else if u_Host parsed = [] then Inl (NewError (PanelBaseURLEnv @ '' must include a host''))
          else let apiKey = TrimSpace (pcc_APIKey cfg)
          in if apiKey = [] then Inl (NewError (PanelAPIKeyEnv @ '' is required''))
             else Inr \<lparr>pc_baseURL = parsed, pc_apiKey = apiKey, pc_nodeID = TrimSpace (pcc_NodeID cfg),
                       pc_httpClient = (case pcc_HTTPClient cfg of Some h \<Rightarrow> h | None \<Rightarrow> 30 * 10 ^ 9),
                       pc_logger = pcc_Logger cfg\<rparr>)"

definition NewPanelClientFromEnv :: "'w panel_lib \<Rightarrow> bool \<Rightarrow> gerror + PanelClient" where
  "NewPanelClientFromEnv lib logger =
     NewPanelClient lib
       \<lparr>pcc_BaseURL = pl_Getenv lib PanelBaseURLEnv, pcc_APIKey = pl_Getenv lib PanelAPIKeyEnv,
        pcc_NodeID = pl_Getenv lib PanelNodeIDEnv, pcc_HTTPClient = None, pcc_Logger = logger\<rparr>"

definition emptyAsNull :: "string \<Rightarrow> json" where
  "emptyAsNull value = (if value = [] then JNull else JStr value)"

definition ConfigSummary :: "'w panel_lib \<Rightarrow> PanelClient \<Rightarrow> json" where
  "ConfigSummary lib c =
     JObj (fmap_of_list
       [(''panel_base_url'', JStr (pl_String lib (pc_baseURL c))),
        (''panel_api_key'', JStr (RedactSecret (pc_apiKey c))),
        (''panel_node_id'', emptyAsNull (pc_nodeID c))])"

definition resolveURL :: "PanelClient \<Rightarrow> string \<Rightarrow> Values option \<Rightarrow> gerror + URL" where
  "resolveURL c path query =
     (if TrimSpace path = [] then Inl (NewError ''panel request path is required'')
      else let base = pc_baseURL c;
               resolved = base\<lparr>u_Path := TrimRight (CHR ''/'') (u_Path base) @ ''/'' @ TrimLeft (CHR ''/'') path\<rparr>
           in Inr (case query of None \<Rightarrow> resolved | Some q \<Rightarrow> resolved\<lparr>u_RawQuery := Encode q\<rparr>))"

definition ClassifyHTTPError :: "'w panel_lib \<Rightarrow> gerror option \<Rightarrow> int \<Rightarrow> string" where
  "ClassifyHTTPError lib err status =
     (case err of
        Some e \<Rightarrow> if pl_TimedOut lib e then ''timeout'' else ''network_error''
      | None \<Rightarrow>
          if status = 0 then ''not_sent''
          else if status = 401 \<or> status = 403 then ''auth_error''
          else if status = 404 then ''not_found''
          else if 500 \<le> status then ''panel_server_error''
          else if 400 \<le> status then ''panel_client_error''
          else ''ok'')"

definition PrettyJSON :: "'w panel_lib \<Rightarrow> string \<Rightarrow> string" where
  "PrettyJSON lib data =
     (if TrimSpace data = [] then []
      else case pl_Unmarshal lib data of
        Inl _ \<Rightarrow> RedactText (TrimSpace data)
      | Inr decoded \<Rightarrow>
          (case pl_MarshalIndent lib (RedactJSON decoded) of
             Inl _ \<Rightarrow> RedactText (TrimSpace data) | Inr out \<Rightarrow> out))"

definition logRequest :: "'w panel_lib \<Rightarrow> PanelClient \<Rightarrow> string \<Rightarrow> URL \<Rightarrow> int \<Rightarrow> int \<Rightarrow> string \<Rightarrow> string \<Rightarrow>
    'w logged \<Rightarrow> 'w logged" where
  "logRequest lib c meth target status duration category body =
     write_log c
       \<lparr>ll_Level = LevelInfo, ll_Message = ''panel request'',
        ll_Attrs =
          [(''method'', JStr meth), (''url'', JStr (RedactURL (pl_Parse lib) (pl_String lib) (pl_String lib target))),
           (''status'', JInt status), (''duration_ms'', JInt (Milliseconds duration)), (''category'', JStr category),
           (''response_bytes'', JInt (int (length body))),
           (''response_sha256_8'',
            JStr (if body = [] then [] else hex_EncodeToString (take 8 (pl_Sha256 lib body))))]\<rparr>"

text \<open>The first MiB of a body; the end of the limit hides an error behind it.\<close>

definition read_limited :: "nat \<Rightarrow> http_answer \<Rightarrow> string \<times> gerror option" where
  "read_limited limit a =
     (if limit \<le> length (ha_Body a) then (take limit (ha_Body a), None) else (ha_Body a, ha_ReadErr a))"

section \<open>Requests\<close>

text \<open>What is sent, or why nothing is.\<close>

definition panel_call :: "'w panel_lib \<Rightarrow> PanelClient \<Rightarrow> PanelRequest \<Rightarrow> gerror + URL \<times> http_call" where
  "panel_call lib c req =
     (if TrimSpace (pr_Method req) = [] then Inl (NewError ''panel request method is required'')
      else on_ok (resolveURL c (pr_Path req) (pr_Query req)) (\<lambda>target.
        case (case pr_Body req of None \<Rightarrow> Inr None | Some b \<Rightarrow> map_sum id Some (pl_Marshal lib b)) of
          Inl err \<Rightarrow> Inl (Errorf_w ''marshal panel request body'' err)
        | Inr data \<Rightarrow>
            (case pl_NewRequest lib (pr_Method req) (pl_String lib target) of
               Some err \<Rightarrow> Inl (Errorf_w ''create panel request'' err)
             | None \<Rightarrow>
                 Inr (target,
                   \<lparr>hc_Method = pr_Method req, hc_URL = pl_String lib target, hc_Accept = ''application/json'',
                    hc_Authorization = ''Bearer '' @ pc_apiKey c,
                    hc_ContentType = map_option (\<lambda>_. ''application/json'') (pr_Body req), hc_Body = data\<rparr>))))"

definition panel_response :: "'w panel_lib \<Rightarrow> PanelRequest \<Rightarrow> URL \<Rightarrow> int \<Rightarrow> http_answer \<Rightarrow>
    PanelResponse \<times> gerror option" where
  "panel_response lib req target duration a =
     (case read_limited (2 ^ 20) a of
        (data, readErr) \<Rightarrow>
          let resp = \<lparr>ps_Method = pr_Method req, ps_URL = pl_String lib target, ps_StatusCode = ha_Status a,
                      ps_Duration = duration, ps_Body = data, ps_PrettyBody = PrettyJSON lib data,
                      ps_ContentType = ha_ContentType a,
                      ps_ErrorCategory = ClassifyHTTPError lib readErr (ha_Status a)\<rparr>
          in (resp,
              case readErr of
                Some err \<Rightarrow> Some (Errorf_w ''read panel response'' err)
              | None \<Rightarrow>
                  if ha_Status a < 200 \<or> 300 \<le> ha_Status a
                  then Some (NewError (''panel request failed: status='' @ Itoa (ha_Status a) @ '' category='' @
                         ps_ErrorCategory resp))
                  else None))"

definition Do :: "'w panel_lib \<Rightarrow> PanelClient \<Rightarrow> PanelRequest \<Rightarrow> 'w logged \<Rightarrow>
    (PanelResponse option \<times> gerror option) \<times> 'w logged" where
  "Do lib c req s =
     (case panel_call lib c req of
        Inl err \<Rightarrow> ((None, Some err), s)
      | Inr (target, call) \<Rightarrow>
     (let started = pl_Now lib (snd s)
      in case pl_Send lib (pc_httpClient c) call (snd s) of
        (Inl err, w) \<Rightarrow>
          (let category = ClassifyHTTPError lib (Some err) 0
           in ((None, Some (Errorf_w category err)),
               logRequest lib c (pr_Method req) target 0 (pl_Now lib w - started) category [] (fst s, w)))
      | (Inr a, w) \<Rightarrow>
          (case panel_response lib req target (pl_Now lib w - started) a of
             (resp, err) \<Rightarrow>
               ((Some resp, err),
                logRequest lib c (pr_Method req) target (ps_StatusCode resp) (ps_Duration resp)
                  (ps_ErrorCategory resp) (ps_Body resp) (fst s, w)))))"

definition Get :: "'w panel_lib \<Rightarrow> PanelClient \<Rightarrow> string \<Rightarrow> 'w logged \<Rightarrow>
    (PanelResponse option \<times> gerror option) \<times> 'w logged" where
  "Get lib c path = Do lib c \<lparr>pr_Method = ''GET'', pr_Path = path, pr_Query = None, pr_Body = None\<rparr>"

definition Post :: "'w panel_lib \<Rightarrow> PanelClient \<Rightarrow> string \<Rightarrow> json option \<Rightarrow> 'w logged \<Rightarrow>
    (PanelResponse option \<times> gerror option) \<times> 'w logged" where
  "Post lib c path body = Do lib c \<lparr>pr_Method = ''POST'', pr_Path = path, pr_Query = None, pr_Body = body\<rparr>"

section \<open>Nodes\<close>

definition isUUID :: "string \<Rightarrow> bool" where
  "isUUID value = full_match uuidPattern value"

definition IsUUID :: "string \<Rightarrow> bool" where
  "IsUUID value = isUUID (TrimSpace value)"

text \<open>An entry of a map that may be nil; a missing one reads as nil.\<close>

definition item_at :: "json_map \<Rightarrow> string \<Rightarrow> json" where
  "item_at item key =
     (case Option.bind item (\<lambda>m. fmlookup m key) of Some v \<Rightarrow> v | None \<Rightarrow> JNull)"

definition stringValue :: "json \<Rightarrow> string" where
  "stringValue value = (case as_string (Some value) of Some s \<Rightarrow> s | None \<Rightarrow> [])"

definition boolValue :: "json \<Rightarrow> bool" where
  "boolValue value = (case as_bool (Some value) of Some b \<Rightarrow> b | None \<Rightarrow> False)"

definition nodeStatusSummaryFromMap :: "json_map \<Rightarrow> NodeStatusSummary" where
  "nodeStatusSummaryFromMap item =
     \<lparr>ns_UUID = stringValue (item_at item ''uuid''), ns_Name = stringValue (item_at item ''name''),
      ns_Address = stringValue (item_at item ''address''), ns_Port = item_at item ''port'',
      ns_IsConnected = boolValue (item_at item ''isConnected''),
      ns_IsConnecting = boolValue (item_at item ''isConnecting''),
      ns_IsDisabled = boolValue (item_at item ''isDisabled''),
      ns_LastStatusChange = item_at item ''lastStatusChange'',
      ns_LastStatusMessage = item_at item ''lastStatusMessage'',
      ns_CountryCode = stringValue (item_at item ''countryCode'')\<rparr>"

type_synonym 'a answer = "'a option \<times> PanelResponse option \<times> gerror option"

definition resp_body :: "PanelResponse option \<Rightarrow> string" where
  "resp_body resp = (case resp of Some r \<Rightarrow> ps_Body r | None \<Rightarrow> [])"

definition GetNodeStatusSummary :: "'w panel_lib \<Rightarrow> PanelClient \<Rightarrow> 'w logged \<Rightarrow>
    NodeStatusSummary list answer \<times> 'w logged" where
  "GetNodeStatusSummary lib c s =
     (case Get lib c ''/api/nodes'' s of
        ((resp, Some err), s) \<Rightarrow> ((None, resp, Some err), s)
      | ((resp, None), s) \<Rightarrow>
          (case pl_Nodes lib (resp_body resp) of
             Inl err \<Rightarrow> ((None, resp, Some (Errorf_w ''decode panel nodes response'' err)), s)
           | Inr payload \<Rightarrow> ((Some (map nodeStatusSummaryFromMap payload), resp, None), s)))"

text \<open>The one node of a payload; \<open>what\<close> names the response in the errors.\<close>

definition node_summary :: "'w panel_lib \<Rightarrow> string \<Rightarrow> PanelResponse option \<Rightarrow> NodeStatusSummary answer" where
  "node_summary lib what resp =
     (case pl_Node lib (resp_body resp) of
        Inl err \<Rightarrow> (None, resp, Some (Errorf_w (''decode panel node '' @ what) err))
      | Inr payload \<Rightarrow>
          let summary = nodeStatusSummaryFromMap payload
          in if ns_UUID summary = [] \<and> ns_Name summary = [] \<and> ns_Address summary = []
             then (None, resp, Some (NewError (''panel node '' @ what @ '' missing expected fields'')))
             else (Some summary, resp, None))"

definition checked_uuid :: "string \<Rightarrow> gerror + string" where
  "checked_uuid nodeUUID =
     (let nodeUUID = TrimSpace nodeUUID
      in if nodeUUID = [] then Inl (NewError ''panel node uuid is required'')
         else if \<not> isUUID nodeUUID
         then Inl (NewError (''panel node uuid must be a valid uuid: '' @ Quote nodeUUID))
         else Inr nodeUUID)"

definition GetNodeStatusSummaryByUUID :: "'w panel_lib \<Rightarrow> PanelClient \<Rightarrow> string \<Rightarrow> 'w logged \<Rightarrow>
    NodeStatusSummary answer \<times> 'w logged" where
  "GetNodeStatusSummaryByUUID lib c nodeUUID s =
     (case checked_uuid nodeUUID of
        Inl err \<Rightarrow> ((None, None, Some err), s)
      | Inr nodeUUID \<Rightarrow>
          (case Get lib c (''/api/nodes/'' @ PathEscape nodeUUID) s of
             ((resp, Some err), s) \<Rightarrow> ((None, resp, Some err), s)
           | ((resp, None), s) \<Rightarrow> (node_summary lib ''response'' resp, s)))"

definition nodeSummaryMatchesHint :: "'w panel_lib \<Rightarrow> NodeStatusSummary \<Rightarrow> string \<Rightarrow> bool" where
  "nodeSummaryMatchesHint lib summary hintLower \<longleftrightarrow>
     (let fields = [ns_UUID summary, ns_Name summary, ns_Address summary]
      in hintLower \<noteq> [] \<and>
         (list_ex (\<lambda>f. pl_EqualFold lib f hintLower) fields \<or>
          list_ex (\<lambda>f. Contains (pl_ToLower lib f) hintLower) fields))"

definition GetNodeStatusSummaryByHint :: "'w panel_lib \<Rightarrow> PanelClient \<Rightarrow> string \<Rightarrow> 'w logged \<Rightarrow>
    NodeStatusSummary answer \<times> 'w logged" where
  "GetNodeStatusSummaryByHint lib c nodeHint s =
     (let nodeHint = TrimSpace nodeHint
      in if nodeHint = [] then ((None, None, Some (NewError ''panel node hint is required'')), s)
         else if isUUID nodeHint then GetNodeStatusSummaryByUUID lib c nodeHint s
         else case GetNodeStatusSummary lib c s of
           ((_, resp, Some err), s) \<Rightarrow> ((None, resp, Some err), s)
         | ((summaries, resp, None), s) \<Rightarrow>
             (case filter (\<lambda>summary. nodeSummaryMatchesHint lib summary (pl_ToLower lib nodeHint))
                     (case summaries of Some xs \<Rightarrow> xs | None \<Rightarrow> []) of
                [] \<Rightarrow> ((None, resp, Some (NewError (''no panel node matched hint '' @ Quote nodeHint))), s)
              | [summary] \<Rightarrow> ((Some summary, resp, None), s)
              | _ \<Rightarrow> ((None, resp, Some (NewError (''multiple panel nodes matched hint '' @ Quote nodeHint))), s)))"

definition nodeAction :: "'w panel_lib \<Rightarrow> PanelClient \<Rightarrow> string \<Rightarrow> string \<Rightarrow> 'w logged \<Rightarrow>
    NodeStatusSummary answer \<times> 'w logged" where
  "nodeAction lib c nodeUUID action s =
     (case checked_uuid nodeUUID of
        Inl err \<Rightarrow> ((None, None, Some err), s)
      | Inr nodeUUID \<Rightarrow>
          (case Post lib c (''/api/nodes/'' @ PathEscape nodeUUID @ ''/actions/'' @ action) None s of
             ((resp, Some err), s) \<Rightarrow> ((None, resp, Some err), s)
           | ((resp, None), s) \<Rightarrow> (node_summary lib (action @ '' response'') resp, s)))"

definition EnableNode :: "'w panel_lib \<Rightarrow> PanelClient \<Rightarrow> string \<Rightarrow> 'w logged \<Rightarrow> NodeStatusSummary answer \<times> 'w logged" where
  "EnableNode lib c nodeUUID = nodeAction lib c nodeUUID ''enable''"

definition DisableNode :: "'w panel_lib \<Rightarrow> PanelClient \<Rightarrow> string \<Rightarrow> 'w logged \<Rightarrow> NodeStatusSummary answer \<times> 'w logged" where
  "DisableNode lib c nodeUUID = nodeAction lib c nodeUUID ''disable''"

section \<open>What a redacted value tells\<close>

text \<open>Secrets that look alike: both empty, both short, or with the same first and last four bytes.\<close>

definition same_glimpse :: "string \<Rightarrow> string \<Rightarrow> bool" where
  "same_glimpse a b \<longleftrightarrow>
     (let a = TrimSpace a; b = TrimSpace b
      in a = [] \<and> b = [] \<or>
         length a \<in> {1..8} \<and> length b \<in> {1..8} \<or>
         8 < length a \<and> 8 < length b \<and> take 4 a = take 4 b \<and> rev (take 4 (rev a)) = rev (take 4 (rev b)))"

definition alike :: "json \<Rightarrow> json \<Rightarrow> bool" where
  "alike a b \<longleftrightarrow>
     (case (as_string (Some a), as_string (Some b)) of
        (Some s, Some t) \<Rightarrow> same_glimpse s t | (None, None) \<Rightarrow> True | _ \<Rightarrow> False)"

text \<open>Values that differ only below sensitive keys, where the differing values look alike.\<close>

inductive same_public :: "json \<Rightarrow> json \<Rightarrow> bool" where
  same: "same_public v v"
| array: "list_all2 same_public xs ys \<Longrightarrow> same_public (JArr xs) (JArr ys)"
| object: "fmdom m = fmdom m' \<Longrightarrow>
    \<forall>k a b. fmlookup m k = Some a \<longrightarrow> fmlookup m' k = Some b \<longrightarrow>
      isSensitiveKey k \<and> alike a b \<or> \<not> isSensitiveKey k \<and> same_public a b \<Longrightarrow>
    same_public (JObj m) (JObj m')"

lemma RedactSecret_alike: "same_glimpse a b \<Longrightarrow> RedactSecret a = RedactSecret b"
  by (auto simp: same_glimpse_def RedactSecret_def Let_def rev_take)

lemma redact_entry_alike: "isSensitiveKey k \<Longrightarrow> alike a b \<Longrightarrow> redact_entry k (Some a) x = redact_entry k (Some b) y"
  by (auto simp: redact_entry_def alike_def RedactSecret_alike split: option.splits)

text \<open>
  C31. Redaction hides what is below a sensitive key: values that differ only there, in nothing but what the
  redacted text shows of a string (its first and last four bytes when it is longer than eight), are redacted to
  the same value. Nothing else of a secret, not even its length, is in the output.
\<close>

theorem RedactJSON_hides_secrets:
  assumes "same_public v v'"
  shows "RedactJSON v = RedactJSON v'"
  using assms
proof (induction rule: same_public.induct)
  case (array xs ys)
  then have "list_all2 (\<lambda>x y. RedactJSON x = RedactJSON y) xs ys"
    by (rule list_all2_mono) blast
  then show ?case by (simp add: list_all2_conv_all_nth list_eq_iff_nth_eq)
next
  case (object m m')
  have "map_option (redact_entry k (fmlookup m k)) (map_option RedactJSON (fmlookup m k)) =
      map_option (redact_entry k (fmlookup m' k)) (map_option RedactJSON (fmlookup m' k))" for k
  proof (cases "fmlookup m k")
    case None
    then have "fmlookup m' k = None" using object(1) by (metis fmdom_notD fmdom_notI)
    with None show ?thesis by simp
  next
    case (Some a)
    then obtain b where b: "fmlookup m' k = Some b" using object(1) by (metis fmdomI fmlookup_dom_iff)
    with object(2) Some consider "isSensitiveKey k" "alike a b" | "\<not> isSensitiveKey k" "RedactJSON a = RedactJSON b"
      by blast
    then show ?thesis
      using Some b redact_entry_alike by cases (simp_all add: redact_entry_def)
  qed
  then have "fmmap_keys (\<lambda>k. redact_entry k (fmlookup m k)) (fmmap RedactJSON m) =
      fmmap_keys (\<lambda>k. redact_entry k (fmlookup m' k)) (fmmap RedactJSON m')"
    by (intro fmap_ext) simp
  then show ?case by simp
qed simp

theorem RedactJSON_hides_secrets_witness:
  "RedactJSON (JArr [JObj (fmap_of_list [(''api-key'', JStr ''abcdefghijkl''), (''port'', JInt 1)])]) =
   RedactJSON (JArr [JObj (fmap_of_list [(''api-key'', JStr ''abcdXYZijkl''), (''port'', JInt 1)])])"
proof (rule RedactJSON_hides_secrets)
  have "isSensitiveKey ''api-key''" "\<not> isSensitiveKey ''port''"
    "alike (JStr ''abcdefghijkl'') (JStr ''abcdXYZijkl'')"
    by code_simp+
  then show "same_public (JArr [JObj (fmap_of_list [(''api-key'', JStr ''abcdefghijkl''), (''port'', JInt 1)])])
      (JArr [JObj (fmap_of_list [(''api-key'', JStr ''abcdXYZijkl''), (''port'', JInt 1)])])"
    by (auto intro!: same_public.intros split: if_splits)
qed

text \<open>Two URLs with the same parameters, user part and rest, but for the values that are secret.\<close>

definition same_but_secrets :: "URL \<Rightarrow> URL \<Rightarrow> bool" where
  "same_but_secrets u v \<longleftrightarrow>
     u\<lparr>u_RawQuery := [], u_User := None\<rparr> = v\<lparr>u_RawQuery := [], u_User := None\<rparr> \<and>
     (u_User u = None \<longleftrightarrow> u_User v = None) \<and>
     fmdom (ParseQuery (u_RawQuery u)) = fmdom (ParseQuery (u_RawQuery v)) \<and>
     (\<forall>key. isSensitiveKey key \<or>
        fmlookup (ParseQuery (u_RawQuery u)) key = fmlookup (ParseQuery (u_RawQuery v)) key)"

lemma redact_query_lookup:
  "fmlookup (redact_query q) key =
     (if isSensitiveKey key \<and> key |\<in>| fmdom q then Some [''[REDACTED]''] else fmlookup q key)"
  by (cases "fmlookup q key") (auto simp: redact_query_def intro: fmdomI dest: fmdom_notI)

lemma redact_query_same:
  assumes "fmdom q = fmdom q'" "\<forall>key. isSensitiveKey key \<or> fmlookup q key = fmlookup q' key"
  shows "redact_query q = redact_query q'"
proof (rule fmap_ext)
  fix key
  show "fmlookup (redact_query q) key = fmlookup (redact_query q') key"
    using assms fmdom_notD [of key q] fmdom_notD [of key q'] by (auto simp: redact_query_lookup)
qed

text \<open>
  C36. A URL that can be read is logged without its secrets. Read back, its query has the parameters of the
  original one, each with its values, but a single placeholder in place of those of a sensitive name; its user part,
  name and password, is replaced by a placeholder without a password; the rest is as it was. And two URLs that
  differ in nothing but the user part and the values of sensitive parameters are logged as the same text.
\<close>

theorem RedactURL_query:
  assumes "url_Parse raw = Inr u"
  shows "(\<exists>u'. RedactURL url_Parse url_String raw = url_String u' \<and>
      u_User u' =
        (if u_User u = None then None else Some \<lparr>ui_Username = ''[REDACTED]'', ui_Password = None\<rparr>) \<and>
      (\<forall>key. fmlookup (ParseQuery (u_RawQuery u')) key =
        (if isSensitiveKey key \<and> key |\<in>| fmdom (ParseQuery (u_RawQuery u)) then Some [''[REDACTED]'']
         else fmlookup (ParseQuery (u_RawQuery u)) key)) \<and>
      u'\<lparr>u_RawQuery := [], u_User := None\<rparr> = u\<lparr>u_RawQuery := [], u_User := None\<rparr>) \<and>
    (\<forall>other v. url_Parse other = Inr v \<longrightarrow> same_but_secrets u v \<longrightarrow>
      RedactURL url_Parse url_String other = RedactURL url_Parse url_String raw)"
proof (intro conjI allI impI)
  let ?q = "redact_query (ParseQuery (u_RawQuery u))"
  have "[] |\<notin>| fmran ?q"
    using ParseQuery_nonempty [of "u_RawQuery u"]
    by (auto simp: redact_query_def elim!: fmranE split: if_splits dest: fmranI)
  from ParseQuery_Encode [OF this] assms
  show "\<exists>u'. RedactURL url_Parse url_String raw = url_String u' \<and>
      u_User u' =
        (if u_User u = None then None else Some \<lparr>ui_Username = ''[REDACTED]'', ui_Password = None\<rparr>) \<and>
      (\<forall>key. fmlookup (ParseQuery (u_RawQuery u')) key =
        (if isSensitiveKey key \<and> key |\<in>| fmdom (ParseQuery (u_RawQuery u)) then Some [''[REDACTED]'']
         else fmlookup (ParseQuery (u_RawQuery u)) key)) \<and>
      u'\<lparr>u_RawQuery := [], u_User := None\<rparr> = u\<lparr>u_RawQuery := [], u_User := None\<rparr>"
    by (intro exI [where x = "u\<lparr>u_RawQuery := Encode ?q, u_User := map_option (\<lambda>_. User ''[REDACTED]'') (u_User u)\<rparr>"])
      (auto simp: RedactURL_def User_def redact_query_lookup)
next
  fix other v
  assume v: "url_Parse other = Inr v" "same_but_secrets u v"
  then have "redact_query (ParseQuery (u_RawQuery u)) = redact_query (ParseQuery (u_RawQuery v))"
    by (intro redact_query_same) (simp_all add: same_but_secrets_def)
  moreover have "map_option (\<lambda>_. User ''[REDACTED]'') (u_User u) = map_option (\<lambda>_. User ''[REDACTED]'') (u_User v)"
    using v(2) by (cases "u_User u"; cases "u_User v") (simp_all add: same_but_secrets_def)
  ultimately show "RedactURL url_Parse url_String other = RedactURL url_Parse url_String raw"
    using assms v by (cases u, cases v) (simp add: RedactURL_def same_but_secrets_def)
qed

definition example_url :: "string \<Rightarrow> string \<Rightarrow> URL" where
  "example_url password query =
     \<lparr>u_Scheme = ''https'', u_Opaque = [], u_User = Some \<lparr>ui_Username = ''me'', ui_Password = Some password\<rparr>,
      u_Host = ''h'', u_Path = ''/'', u_RawPath = [], u_OmitHost = False, u_ForceQuery = False, u_RawQuery = query,
      u_Fragment = [], u_RawFragment = []\<rparr>"

theorem RedactURL_query_witness:
  "RedactURL (\<lambda>raw. Inr (example_url raw (''api_key='' @ raw @ ''&x=1''))) u_RawQuery ''abc'' =
   RedactURL (\<lambda>raw. Inr (example_url raw (''api_key='' @ raw @ ''&x=1''))) u_RawQuery ''xyz''"
proof -
  have q: "ParseQuery ''api_key=abc&x=1'' = fmap_of_list [(''api_key'', [''abc'']), (''x'', [''1''])]"
      "ParseQuery ''api_key=xyz&x=1'' = fmap_of_list [(''api_key'', [''xyz'']), (''x'', [''1''])]"
    by code_simp+
  have key: "isSensitiveKey ''api_key''" by code_simp
  have "same_but_secrets (example_url ''xyz'' ''api_key=xyz&x=1'') (example_url ''abc'' ''api_key=abc&x=1'')"
    using key by (auto simp: same_but_secrets_def example_url_def q)
  then show ?thesis
    using RedactURL_query [where url_Parse = "\<lambda>raw. Inr (example_url raw (''api_key='' @ raw @ ''&x=1''))" and
        url_String = u_RawQuery and raw = "''xyz''", OF refl] by simp
qed

section \<open>Requests and nodes\<close>

text \<open>The form of a UUID: 36 bytes, dashes at four places and hexadecimal digits elsewhere.\<close>

definition uuid_form :: "string \<Rightarrow> bool" where
  "uuid_form s \<longleftrightarrow>
     (\<exists>a b c d e. s = a @ ''-'' @ b @ ''-'' @ c @ ''-'' @ d @ ''-'' @ e \<and>
        map length [a, b, c, d, e] = [8, 4, 4, 4, 12] \<and> list_all uuid_digit (a @ b @ c @ d @ e))"

lemma isUUID_iff: "isUUID s \<longleftrightarrow> uuid_form s"
proof -
  have "isUUID s \<longleftrightarrow> (\<exists>q. q \<in> set (ends uuidPattern (None, s)) \<and> snd q = [])"
    unfolding isUUID_def full_match_def list_ex_iff by blast
  also have "\<dots> \<longleftrightarrow> uuid_form s"
  proof
    assume "\<exists>q. q \<in> set (ends uuidPattern (None, s)) \<and> snd q = []"
    then obtain q where q: "q \<in> set (ends uuidPattern (None, s))" "snd q = []" by blast
    from q(1) [unfolded uuidPattern_def Let_def in_ends_Times in_ends_Chr in_ends_Times_last]
    obtain a b c d e t1 t2 t3 t4 t5 u1 u2 u3 u4 where
      "s = a @ t1" "t1 = CHR ''-'' # u1" "u1 = b @ t2" "t2 = CHR ''-'' # u2" "u2 = c @ t3" "t3 = CHR ''-'' # u3"
      "u3 = d @ t4" "t4 = CHR ''-'' # u4" "u4 = e @ t5" "snd q = t5"
      "length a = 8" "length b = 4" "length c = 4" "length d = 4" "length e = 12"
      "list_all uuid_digit a" "list_all uuid_digit b" "list_all uuid_digit c" "list_all uuid_digit d"
      "list_all uuid_digit e"
      by (elim exE conjE) (rule that, assumption+, simp, assumption+)
    with q(2) show "uuid_form s"
      unfolding uuid_form_def
      by (intro exI [where x = a] exI [where x = b] exI [where x = c] exI [where x = d] exI [where x = e]) simp
  next
    assume "uuid_form s"
    then obtain a b c d e where s: "s = a @ ''-'' @ b @ ''-'' @ c @ ''-'' @ d @ ''-'' @ e"
      "length a = 8" "length b = 4" "length c = 4" "length d = 4" "length e = 12"
      "list_all uuid_digit a" "list_all uuid_digit b" "list_all uuid_digit c" "list_all uuid_digit d"
      "list_all uuid_digit e"
      by (auto simp: uuid_form_def)
    show "\<exists>q. q \<in> set (ends uuidPattern (None, s)) \<and> snd q = []"
      unfolding uuidPattern_def Let_def s(1)
      by (intro exI [where x = "(Some (last e), [])"] conjI TimesI Chr_ends TimesI_last s(2-)) simp_all
  qed
  finally show ?thesis .
qed

lemma PathEscape_id: "list_all (\<lambda>c. unreserved c \<or> c \<in> set ''$&+=:@'') s \<Longrightarrow> PathEscape s = s"
  by (induction s) (auto simp: PathEscape_def)

lemma uuid_digit_unreserved: "uuid_digit c \<Longrightarrow> unreserved c"
  by (auto simp: uuid_digit_def unreserved_def Let_def)

lemma PathEscape_uuid: "isUUID s \<Longrightarrow> PathEscape s = s"
proof -
  assume "isUUID s"
  then have "list_all (\<lambda>c. uuid_digit c \<or> c = CHR ''-'') s"
    by (auto simp: isUUID_iff uuid_form_def list_all_iff)
  moreover have "unreserved (CHR ''-'')" by code_simp
  ultimately show ?thesis
    by (intro PathEscape_id) (auto simp: list_all_iff uuid_digit_unreserved)
qed

text \<open>The body that is read, and what is decoded of it, is at most one MiB.\<close>

lemma panel_response_body: "panel_response lib req target d a = (resp, err) \<Longrightarrow> length (ps_Body resp) \<le> 2 ^ 20"
  by (auto simp: panel_response_def read_limited_def Let_def split: if_splits)

text \<open>A request answers without an error if and only if it was sent and a response with a status of 200 to 299 was read.\<close>

theorem Do_succeeds_iff:
  "fst (Do lib c req s) = (Some resp, None) \<longleftrightarrow>
     (\<exists>target call a w. panel_call lib c req = Inr (target, call) \<and>
        pl_Send lib (pc_httpClient c) call (snd s) = (Inr a, w) \<and>
        200 \<le> ha_Status a \<and> ha_Status a < 300 \<and> snd (read_limited (2 ^ 20) a) = None \<and>
        resp = fst (panel_response lib req target (pl_Now lib w - pl_Now lib (snd s)) a))"
proof (cases "panel_call lib c req")
  case (Inr tc)
  obtain target call where tc: "tc = (target, call)" by (cases tc)
  obtain r w where send: "pl_Send lib (pc_httpClient c) call (snd s) = (r, w)" by (cases "pl_Send lib (pc_httpClient c) call (snd s)")
  show ?thesis
  proof (cases r)
    case (Inr a)
    obtain data readErr where read: "read_limited (2 ^ 20) a = (data, readErr)" by (cases "read_limited (2 ^ 20) a")
    show ?thesis
      using \<open>panel_call lib c req = Inr tc\<close> tc send Inr read
      by (cases readErr) (auto simp: Do_def panel_response_def Let_def split: prod.split)
  qed (use \<open>panel_call lib c req = Inr tc\<close> tc send in \<open>simp add: Do_def Let_def\<close>)
qed (simp add: Do_def)

text \<open>
  A hint that is no UUID finds a node if and only if exactly one node of the list matches it; with several, none
  of them is chosen.
\<close>

theorem hint_finds_unique_node:
  assumes "TrimSpace hint \<noteq> []" "\<not> isUUID (TrimSpace hint)"
    "fst (GetNodeStatusSummary lib c s) = (Some summaries, resp, None)"
  shows "fst (GetNodeStatusSummaryByHint lib c hint s) = (Some x, resp, None) \<longleftrightarrow>
    filter (\<lambda>n. nodeSummaryMatchesHint lib n (pl_ToLower lib (TrimSpace hint))) summaries = [x]"
  using assms
  by (cases "GetNodeStatusSummary lib c s")
    (auto simp: GetNodeStatusSummaryByHint_def Let_def split: list.splits)

section \<open>What the patterns let through\<close>

lemma pattern_needs:
  "needs {CHR ''-''} (red_Secret pemBlockPattern)" "needs (set regex_space) (red_Secret bearerPattern)"
  "needs {CHR ''.''} (red_Secret jwtPattern)"
  by (simp_all add: pemBlockPattern_def bearerPattern_def jwtPattern_def jwt_part_def Plus_def AtLeast_def OneOf_def Chr_def)

text \<open>
  A JSON text that is not decoded, like one that was cut off at the limit, is redacted as plain text. There the quote
  behind a sensitive key hides it from the pattern: the secret stays.
\<close>

lemma RedactText_keeps_json_secret: "RedactText ''\"token\":\"abc'' = ''\"token\":\"abc''"
proof -
  let ?s = "''\"token\":\"abc''"
  have "ReplaceAllString pemBlockPattern ?s = ?s" "ReplaceAllString bearerPattern ?s = ?s"
    "ReplaceAllString jwtPattern ?s = ?s"
    by (rule ReplaceAllString_id [OF disjI2 [OF pattern_needs(1)]], simp)
      (rule ReplaceAllString_id [OF disjI2 [OF pattern_needs(2)]], simp add: regex_space_def,
       rule ReplaceAllString_id [OF disjI2 [OF pattern_needs(3)]], simp)
  moreover have "ReplaceAllString keyValuePattern ?s = ?s" "TrimSpace ?s = ?s" by code_simp+
  ultimately show ?thesis by (simp add: RedactText_def Let_def)
qed

lemma isSensitiveKey_examples:
  "isSensitiveKey ''SECRET-KEY''" "isSensitiveKey ''api.key''" "\<not> isSensitiveKey ''apiName''"
  by code_simp+

end
