(* ===== verification/PanelIntegration.thy ===== *)
theory PanelIntegration
  imports PanelClient GoFlag
begin

text \<open>
  The command that drives a live Panel (\<open>cmd/panel-integration/main.go\<close>): its commands, the polling of a node
  until a condition holds or a deadline has passed, and what it logs. A result \<open>None\<close> of a command is one that
  never returns.
\<close>

section \<open>Surroundings\<close>

text \<open>
  Besides those of the client: \<open>pi_Wait\<close> is the \<open>select\<close> between the end of the context, with its error, and a
  timer; \<open>pi_WithTimeout\<close> puts a limit on the context, \<open>pi_Round\<close> rounds to a \<open>float64\<close>,
  \<open>pi_Sprint\<close> the verb \<open>%v\<close>.
\<close>

record 'w panel_io =
  pi_lib :: "'w panel_lib"
  pi_Wait :: "int \<Rightarrow> 'w \<Rightarrow> gerror option \<times> 'w"
  pi_WithTimeout :: "int \<Rightarrow> 'w \<Rightarrow> 'w"
  pi_Round :: "rat \<Rightarrow> rat"
  pi_Sprint :: "json \<Rightarrow> string"

definition scriptGateEnv :: string where "scriptGateEnv = ''RW_PANEL_INTEGRATION_SCRIPT''"
definition panelSmokePathEnv :: string where "panelSmokePathEnv = ''PANEL_SMOKE_PATH''"
definition extendedSmokeEnv :: string where "extendedSmokeEnv = ''PANEL_EXTENDED_SMOKE''"
definition defaultPanelSmokeAPI :: string where "defaultPanelSmokeAPI = ''/api/system/metadata''"

abbreviation env_at :: "'w panel_io \<Rightarrow> string \<Rightarrow> string" where
  "env_at io name \<equiv> TrimSpace (pl_Getenv (pi_lib io) name)"

definition Second :: int where "Second = 10 ^ 9"

definition commandTimeout :: "string \<Rightarrow> int \<Rightarrow> int \<Rightarrow> int" where
  "commandTimeout command enableTimeout disableTimeout =
     (if command = ''enable'' then enableTimeout + 30 * Second
      else if command = ''disable'' then disableTimeout + 30 * Second
      else if command = ''extended-smoke'' then 120 * Second
      else 30 * Second)"

section \<open>Logging\<close>

definition add_line :: "Level \<Rightarrow> string \<Rightarrow> (string \<times> json) list \<Rightarrow> 'w logged \<Rightarrow> 'w logged" where
  "add_line level message attrs s =
     (fst s @ [\<lparr>ll_Level = level, ll_Message = message, ll_Attrs = attrs\<rparr>], snd s)"

definition redactAny :: "json \<Rightarrow> json" where
  "redactAny value = (case as_string (Some value) of Some text \<Rightarrow> JStr (RedactText text) | None \<Rightarrow> value)"

definition logEvent :: "string \<Rightarrow> string \<Rightarrow> string \<Rightarrow> 'w logged \<Rightarrow> 'w logged" where
  "logEvent level event message =
     add_line (if level = ''error'' then LevelError else if level = ''warn'' then LevelWarn else LevelInfo)
       (RedactText message) [(''event'', JStr event)]"

definition response_attrs :: "PanelResponse \<Rightarrow> (string \<times> json) list" where
  "response_attrs resp =
     [(''status'', JInt (ps_StatusCode resp)), (''category'', JStr (ps_ErrorCategory resp)),
      (''duration_ms'', JInt (Milliseconds (ps_Duration resp)))]"

definition logPanelResponse :: "string \<Rightarrow> PanelResponse option \<Rightarrow> 'w logged \<Rightarrow> 'w logged" where
  "logPanelResponse event resp s =
     (case resp of
        None \<Rightarrow> s
      | Some r \<Rightarrow>
          add_line LevelInfo ''panel response''
            ((''event'', JStr event) # response_attrs r @ [(''body'', JStr (RedactText (ps_PrettyBody r)))]) s)"

definition logNodeSummary :: "string \<Rightarrow> NodeStatusSummary option \<Rightarrow> 'w logged \<Rightarrow> 'w logged" where
  "logNodeSummary event summary s =
     (case summary of
        None \<Rightarrow> s
      | Some n \<Rightarrow>
          add_line LevelInfo ''panel node''
            [(''event'', JStr event), (''uuid'', JStr (ns_UUID n)), (''name'', JStr (ns_Name n)),
             (''address'', JStr (ns_Address n)), (''port'', ns_Port n), (''connected'', JBool (ns_IsConnected n)),
             (''connecting'', JBool (ns_IsConnecting n)), (''disabled'', JBool (ns_IsDisabled n)),
             (''last_status_change'', ns_LastStatusChange n),
             (''last_status_message'', redactAny (ns_LastStatusMessage n)), (''country'', JStr (ns_CountryCode n))] s)"

section \<open>Smoke requests\<close>

text \<open>The fields between commas, semicolons and line ends, trimmed, without the empty ones.\<close>

fun fields_at :: "char set \<Rightarrow> string \<Rightarrow> string \<Rightarrow> string list" where
  "fields_at seps acc [] = (if acc = [] then [] else [rev acc])"
| "fields_at seps acc (c # s) =
     (if c \<in> seps then (if acc = [] then [] else [rev acc]) @ fields_at seps [] s else fields_at seps (c # acc) s)"

definition splitSmokePaths :: "string \<Rightarrow> string list" where
  "splitSmokePaths raw =
     filter (\<lambda>path. path \<noteq> []) (map TrimSpace (fields_at {CHR '','', CHR 0x0A, CHR '';''} [] raw))"

definition runSmoke :: "'w panel_io \<Rightarrow> PanelClient \<Rightarrow> 'w logged \<Rightarrow> gerror option \<times> 'w logged" where
  "runSmoke io c s =
     (case pl_Marshal (pi_lib io) (ConfigSummary (pi_lib io) c) of
        Inl err \<Rightarrow> (Some (Errorf_w ''marshal panel config summary'' err), s)
      | Inr summary \<Rightarrow>
          let s = logEvent ''info'' ''panel_config'' summary s;
              path = env_at io panelSmokePathEnv
          in case Get (pi_lib io) c (if path = [] then defaultPanelSmokeAPI else path) s of
               ((resp, Some err), s) \<Rightarrow>
                 (Some (Errorf_w ''panel smoke request failed'' err), logPanelResponse ''panel_smoke_response'' resp s)
             | ((resp, None), s) \<Rightarrow>
                 (None,
                  case resp of None \<Rightarrow> s | Some r \<Rightarrow>
                    (let s = add_line LevelInfo ''panel smoke'' ((''event'', JStr ''panel_smoke'') # response_attrs r) s
                     in if ps_PrettyBody r = [] then s
                        else add_line LevelInfo ''panel smoke body''
                               [(''event'', JStr ''panel_smoke_body''), (''body'', JStr (ps_PrettyBody r))] s)))"

fun smoke_paths :: "'w panel_io \<Rightarrow> PanelClient \<Rightarrow> string list \<Rightarrow> 'w logged \<Rightarrow> gerror option \<times> 'w logged" where
  "smoke_paths io c [] s = (None, s)"
| "smoke_paths io c (path # paths) s =
     (case Get (pi_lib io) c path s of
        ((resp, Some err), s) \<Rightarrow>
          (Some (Errorf_w (''panel extended smoke request '' @ path @ '' failed'') err),
           logPanelResponse ''panel_extended_smoke_response'' resp s)
      | ((resp, None), s) \<Rightarrow>
          smoke_paths io c paths
            (case resp of None \<Rightarrow> s | Some r \<Rightarrow>
               add_line LevelInfo ''panel extended smoke''
                 ([(''event'', JStr ''panel_extended_smoke''), (''path'', JStr path)] @ response_attrs r) s))"

definition runExtendedSmoke :: "'w panel_io \<Rightarrow> PanelClient \<Rightarrow> 'w logged \<Rightarrow> gerror option \<times> 'w logged" where
  "runExtendedSmoke io c s =
     (let rawPaths = env_at io extendedSmokeEnv; paths = splitSmokePaths rawPaths
      in if rawPaths = [] then (None, logEvent ''info'' ''panel_extended_smoke_skipped'' (extendedSmokeEnv @ '' is empty'') s)
         else if paths = []
         then (None, logEvent ''info'' ''panel_extended_smoke_skipped'' (extendedSmokeEnv @ '' has no usable paths'') s)
         else smoke_paths io c paths s)"

definition runNode :: "'w panel_io \<Rightarrow> PanelClient \<Rightarrow> 'w logged \<Rightarrow> gerror option \<times> 'w logged" where
  "runNode io c s =
     (let nodeHint = env_at io PanelNodeIDEnv
      in if nodeHint = [] then (Some (NewError (PanelNodeIDEnv @ '' is required for node status lookup'')), s)
         else case GetNodeStatusSummaryByHint (pi_lib io) c nodeHint s of
           ((_, resp, Some err), s) \<Rightarrow>
             (Some (Errorf_w ''panel node status lookup failed'' err), logPanelResponse ''panel_node_response'' resp s)
         | ((summary, resp, None), s) \<Rightarrow>
             (None,
              logNodeSummary ''panel_node'' summary
                (case resp of None \<Rightarrow> s | Some r \<Rightarrow>
                   add_line LevelInfo ''panel node status'' ((''event'', JStr ''panel_node_status'') # response_attrs r) s)))"

lemma splitSmokePaths_example: "splitSmokePaths ''/a, /b;;/c,'' = [''/a'', ''/b'', ''/c'']"
  by code_simp

section \<open>Waiting for a node\<close>

text \<open>
  One turn of the loop: go on with the node that was polled and the state, or return. A poll without an error
  has a node (\<open>polled_node\<close>).
\<close>

type_synonym 'w wait_result = "(NodeStatusSummary option \<times> gerror option) \<times> 'w logged"

definition poll_turn :: "'w panel_io \<Rightarrow> PanelClient \<Rightarrow> string \<Rightarrow> int \<Rightarrow> int \<Rightarrow>
    (NodeStatusSummary option \<Rightarrow> 'w logged \<Rightarrow> bool \<times> 'w logged) \<Rightarrow> NodeStatusSummary option \<times> 'w logged \<Rightarrow>
    NodeStatusSummary option \<times> 'w logged + 'w wait_result" where
  "poll_turn io c nodeUUID pollInterval deadline matches ls =
     (case GetNodeStatusSummaryByUUID (pi_lib io) c nodeUUID (snd ls) of
        ((_, _, Some err), s) \<Rightarrow> Inr ((fst ls, Some (Errorf_w (''poll panel node '' @ nodeUUID) err)), s)
      | ((current, _, None), s) \<Rightarrow>
     (case matches current s of
        (True, s) \<Rightarrow> Inr ((current, None), s)
      | (False, s) \<Rightarrow>
          if deadline < pl_Now (pi_lib io) (snd s)
          then Inr ((current, Some (NewError ''timed out waiting for panel node status'')), s)
          else case pi_Wait io pollInterval (snd s) of
                 (Some err, w) \<Rightarrow> Inr ((current, Some err), (fst s, w))
               | (None, w) \<Rightarrow> Inl (current, (fst s, w))))"

text \<open>The loop has no bound of its own: it ends with a failing poll, a match, the deadline or the end of the context.\<close>

partial_function (option) poll_loop :: "('a \<Rightarrow> 'a + 'r) \<Rightarrow> 'a \<Rightarrow> 'r option" where
  "poll_loop turn a = (case turn a of Inl a \<Rightarrow> poll_loop turn a | Inr r \<Rightarrow> Some r)"

definition waitForNode :: "'w panel_io \<Rightarrow> PanelClient \<Rightarrow> string \<Rightarrow> int \<Rightarrow> int \<Rightarrow>
    (NodeStatusSummary option \<Rightarrow> 'w logged \<Rightarrow> bool \<times> 'w logged) \<Rightarrow> 'w logged \<Rightarrow> 'w wait_result option" where
  "waitForNode io c nodeUUID pollInterval deadline matches s =
     poll_loop (poll_turn io c nodeUUID pollInterval deadline matches) (None, s)"

definition poll_matches :: "string \<Rightarrow> (NodeStatusSummary \<Rightarrow> bool) \<Rightarrow> NodeStatusSummary option \<Rightarrow> 'w logged \<Rightarrow>
    bool \<times> 'w logged" where
  "poll_matches event P current s = (P (the current), logNodeSummary event current s)"

definition show_bool :: "bool \<Rightarrow> string" where
  "show_bool b = (if b then ''true'' else ''false'')"

definition not_reached :: "'w panel_io \<Rightarrow> string \<Rightarrow> NodeStatusSummary option \<Rightarrow> gerror \<Rightarrow> gerror" where
  "not_reached io what current err =
     (case current of
        None \<Rightarrow> err
      | Some n \<Rightarrow>
          Errorf_w (''panel node did not become '' @ what @ '': uuid='' @ ns_UUID n @ '' name='' @ ns_Name n @
            '' connected='' @ show_bool (ns_IsConnected n) @ '' connecting='' @ show_bool (ns_IsConnecting n) @
            '' disabled='' @ show_bool (ns_IsDisabled n) @ '' last_status_message='' @
            pi_Sprint io (ns_LastStatusMessage n)) err)"

text \<open>The node that a modifying command works on: a full UUID is asked for before anything is sent.\<close>

definition full_node_uuid :: "'w panel_io \<Rightarrow> string \<Rightarrow> int \<Rightarrow> gerror + string" where
  "full_node_uuid io purpose pollInterval =
     (let nodeUUID = env_at io PanelNodeIDEnv
      in if nodeUUID = [] then Inl (NewError (PanelNodeIDEnv @ '' is required for '' @ purpose))
         else if \<not> IsUUID nodeUUID
         then Inl (NewError (PanelNodeIDEnv @
                '' must be a full node UUID for enable/disable commands because they modify real Panel node state''))
         else if pollInterval \<le> 0 then Inl (NewError ''poll interval must be positive'')
         else Inr nodeUUID)"

text \<open>
  The two modifying commands differ in the action, the condition that is waited for, and the names in their log lines
  and errors.
\<close>

record modification =
  md_Purpose :: string
  md_Action :: string
  md_ResponseEvent :: string
  md_AppliedEvent :: string
  md_PollEvent :: string
  md_DoneEvent :: string
  md_Reached :: string
  md_Matches :: "NodeStatusSummary \<Rightarrow> bool"

definition run_modify :: "modification \<Rightarrow> 'w panel_io \<Rightarrow> PanelClient \<Rightarrow> int \<Rightarrow> int \<Rightarrow> 'w logged \<Rightarrow>
    (gerror option \<times> 'w logged) option" where
  "run_modify m io c timeout pollInterval s =
     (case full_node_uuid io (md_Purpose m) pollInterval of
        Inl err \<Rightarrow> Some (Some err, s)
      | Inr nodeUUID \<Rightarrow>
     (case GetNodeStatusSummaryByUUID (pi_lib io) c nodeUUID s of
        ((_, _, Some err), s) \<Rightarrow> Some (Some (Errorf_w ''resolve panel node'' err), s)
      | ((summary, _, None), s) \<Rightarrow>
     (let uuid = ns_UUID (the summary)
      in case nodeAction (pi_lib io) c uuid (md_Action m) s of
        ((_, resp, Some err), s) \<Rightarrow>
          Some (Some (Errorf_w (md_Action m @ '' panel node '' @ uuid) err), logPanelResponse (md_ResponseEvent m) resp s)
      | ((applied, _, None), s) \<Rightarrow>
          let s = logNodeSummary (md_AppliedEvent m) applied s
          in case waitForNode io c uuid pollInterval (pl_Now (pi_lib io) (snd s) + timeout)
                    (poll_matches (md_PollEvent m) (md_Matches m)) s of
               None \<Rightarrow> None
             | Some ((current, Some err), s) \<Rightarrow> Some (Some (not_reached io (md_Reached m) current err), s)
             | Some ((current, None), s) \<Rightarrow> Some (None, logNodeSummary (md_DoneEvent m) current s))))"

definition runEnable :: "'w panel_io \<Rightarrow> PanelClient \<Rightarrow> int \<Rightarrow> int \<Rightarrow> 'w logged \<Rightarrow>
    (gerror option \<times> 'w logged) option" where
  "runEnable =
     run_modify
       \<lparr>md_Purpose = ''node enable/connect lookup'', md_Action = ''enable'',
        md_ResponseEvent = ''panel_node_enable_response'', md_AppliedEvent = ''panel_node_enabled'',
        md_PollEvent = ''panel_node_poll'', md_DoneEvent = ''panel_node_connected'', md_Reached = ''connected'',
        md_Matches = (\<lambda>n. ns_IsConnected n \<and> \<not> ns_IsDisabled n)\<rparr>"

definition runDisable :: "'w panel_io \<Rightarrow> PanelClient \<Rightarrow> int \<Rightarrow> int \<Rightarrow> 'w logged \<Rightarrow>
    (gerror option \<times> 'w logged) option" where
  "runDisable =
     run_modify
       \<lparr>md_Purpose = ''node disable lookup'', md_Action = ''disable'',
        md_ResponseEvent = ''panel_node_disable_response'', md_AppliedEvent = ''panel_node_disabled_response'',
        md_PollEvent = ''panel_node_disable_poll'', md_DoneEvent = ''panel_node_disabled'', md_Reached = ''disabled'',
        md_Matches = ns_IsDisabled\<rparr>"

section \<open>The command line\<close>

datatype printed = Usage | Printed string

definition printUsage :: "string list" where
  "printUsage =
     [''Usage: panel-integration <command>'', [],
      ''Internal script-only Remnawave Panel live harness.'',
      ''Use bash scripts/panel-integration.sh <command> instead of running this command directly.'', [],
      ''Commands:'',
      ''  smoke           Run the live Panel smoke request.'',
      ''  extended-smoke  Run optional read-only Panel smoke requests configured by environment.'',
      ''  node            Query Panel for the configured node status summary.'',
      ''  enable          Enable the configured Panel node and wait for isConnected=true.'',
      ''  disable         Disable the configured Panel node and wait for isDisabled=true.'']"

definition printed_lines :: "printed \<Rightarrow> string list" where
  "printed_lines p = (case p of Usage \<Rightarrow> printUsage | Printed s \<Rightarrow> [s])"

text \<open>The exit code, what is printed besides the log, and the state; \<open>None\<close> if the command never returns.\<close>

definition run_command :: "'w panel_io \<Rightarrow> PanelClient \<Rightarrow> string \<Rightarrow> int \<Rightarrow> int \<Rightarrow> int \<Rightarrow> 'w logged \<Rightarrow>
    (gerror option \<times> 'w logged) option option" where
  "run_command io c command enableTimeout disableTimeout pollInterval s =
     (if command = ''smoke'' then Some (Some (runSmoke io c s))
      else if command = ''extended-smoke'' then Some (Some (runExtendedSmoke io c s))
      else if command = ''node'' then Some (Some (runNode io c s))
      else if command = ''enable'' then Some (runEnable io c enableTimeout pollInterval s)
      else if command = ''disable'' then Some (runDisable io c disableTimeout pollInterval s)
      else None)"

text \<open>The two timeouts and the interval of the polls.\<close>

definition default_panel_flags :: "int \<times> int \<times> int" where
  "default_panel_flags = (75 * Second, 45 * Second, 5 * Second)"

definition panel_flagset :: "(rat \<Rightarrow> rat) \<Rightarrow> (int \<times> int \<times> int) flagset" where
  "panel_flagset rnd =
     [(''enable-timeout'', DurationVar rnd (\<lambda>v (e, d, p). (v, d, p))),
      (''disable-timeout'', DurationVar rnd (\<lambda>v (e, d, p). (e, v, p))),
      (''poll-interval'', DurationVar rnd (\<lambda>v (e, d, p). (e, d, v)))]"

definition panel_run :: "'w panel_io \<Rightarrow> string list \<Rightarrow> 'w logged \<Rightarrow> (int \<times> printed list \<times> 'w logged) option" where
  "panel_run io args s =
     (case args of
        [] \<Rightarrow> Some (2, [Usage], s)
      | command # rest \<Rightarrow>
     (if command \<in> {''help'', ''-h'', ''--help''} then Some (0, [Usage], s)
      else if env_at io scriptGateEnv \<noteq> ''1''
      then Some (2, [Printed (scriptGateEnv @ ''=1 is required; use bash scripts/panel-integration.sh '' @ command)], s)
      else case flag_Parse (panel_flagset (pi_Round io)) rest default_panel_flags of
        Inl _ \<Rightarrow> Some (2, [], s)
      | Inr ((enableTimeout, disableTimeout, pollInterval), _) \<Rightarrow>
     (case NewPanelClientFromEnv (pi_lib io) True of
        Inl err \<Rightarrow> Some (2, [], logEvent ''error'' ''panel_config'' (Error_msg err) s)
      | Inr client \<Rightarrow>
          let s = (fst s, pi_WithTimeout io (commandTimeout command enableTimeout disableTimeout) (snd s))
          in case run_command io client command enableTimeout disableTimeout pollInterval s of
               None \<Rightarrow> Some (2, [Usage], logEvent ''error'' ''unknown_command'' command s)
             | Some None \<Rightarrow> None
             | Some (Some (Some err, s)) \<Rightarrow>
                 Some (1, [], logEvent ''error'' ''panel_integration_failed'' (Error_msg err) s)
             | Some (Some (None, s)) \<Rightarrow> Some (0, [], s))))"


section \<open>The loop returns\<close>

lemma poll_loop_returns:
  fixes d :: "'a \<Rightarrow> nat"
  assumes "\<And>a b. I a \<Longrightarrow> turn a = Inl b \<Longrightarrow> I b \<and> d b < d a" "I a"
  shows "\<exists>r. poll_loop turn a = Some r"
  using assms(2)
proof (induction "d a" arbitrary: a rule: less_induct)
  case less
  show ?case
  proof (cases "turn a")
    case (Inl b)
    with assms(1) less show ?thesis by (subst poll_loop.simps) simp
  qed (subst poll_loop.simps, simp)
qed

text \<open>What the loop returns is what the turn returned that its first turns lead to, and nothing else.\<close>

lemma poll_loop_reaches:
  assumes "poll_loop turn a = Some r"
  shows "\<exists>b. (\<lambda>x y. turn x = Inl y)\<^sup>*\<^sup>* a b \<and> turn b = Inr r"
proof (rule poll_loop.raw_induct [where P = "\<lambda>turn a r. \<exists>b. (\<lambda>x y. turn x = Inl y)\<^sup>*\<^sup>* a b \<and> turn b = Inr r",
      OF _ assms])
  fix f turn a r
  assume f: "\<And>turn a r. f turn a = Some r \<Longrightarrow> \<exists>b. (\<lambda>x y. turn x = Inl y)\<^sup>*\<^sup>* a b \<and> turn b = Inr r"
    and r: "(case turn a of Inl a \<Rightarrow> f turn a | Inr r \<Rightarrow> Some r) = Some r"
  show "\<exists>b. (\<lambda>x y. turn x = Inl y)\<^sup>*\<^sup>* a b \<and> turn b = Inr r"
  proof (cases "turn a")
    case (Inl a')
    then have "f turn a' = Some r" using r by simp
    from f [OF this] Inl show ?thesis by (meson converse_rtranclp_into_rtranclp)
  next
    case (Inr r')
    then show ?thesis using r by auto
  qed
qed

lemma poll_loop_returned:
  "(\<lambda>x y. turn x = Inl y)\<^sup>*\<^sup>* a b \<Longrightarrow> turn b = Inr r \<Longrightarrow> poll_loop turn a = Some r"
  by (induction rule: converse_rtranclp_induct) (simp_all add: poll_loop.simps)

text \<open>A clock that requests do not turn back, and that a wait to its end moves on by the time waited.\<close>

definition clock_runs :: "'w panel_io \<Rightarrow> bool" where
  "clock_runs io \<longleftrightarrow>
     (\<forall>t call w. pl_Now (pi_lib io) w \<le> pl_Now (pi_lib io) (snd (pl_Send (pi_lib io) t call w))) \<and>
     (\<forall>d w w'. pi_Wait io d w = (None, w') \<longrightarrow> pl_Now (pi_lib io) w + d \<le> pl_Now (pi_lib io) w')"

lemma Do_clock: "clock_runs io \<Longrightarrow> pl_Now (pi_lib io) (snd s) \<le> pl_Now (pi_lib io) (snd (snd (Do (pi_lib io) c req s)))"
proof -
  assume "clock_runs io"
  then have "pl_Now (pi_lib io) (snd s) \<le> pl_Now (pi_lib io) w" if "pl_Send (pi_lib io) t call (snd s) = (r, w)" for t call r w
    using that unfolding clock_runs_def by (metis snd_conv)
  then show ?thesis
    by (auto simp: Do_def Let_def logRequest_def write_log_def split: sum.split prod.split)
qed

lemma poll_clock:
  assumes "clock_runs io"
  shows "pl_Now (pi_lib io) (snd s) \<le> pl_Now (pi_lib io) (snd (snd (GetNodeStatusSummaryByUUID (pi_lib io) c u s)))"
proof -
  have "pl_Now (pi_lib io) (snd s) \<le> pl_Now (pi_lib io) (snd s')" if "Get (pi_lib io) c path s = (r, s')" for path r s'
    using Do_clock [OF assms, of s] that unfolding Get_def by (metis snd_conv)
  then show ?thesis
    by (auto simp: GetNodeStatusSummaryByUUID_def split: sum.split prod.split option.split)
qed

lemma polled_node:
  "GetNodeStatusSummaryByUUID lib c u s = ((current, resp, None), s') \<Longrightarrow> \<exists>n. current = Some n"
  by (auto simp: GetNodeStatusSummaryByUUID_def node_summary_def Let_def split: sum.splits prod.splits option.splits if_splits)

lemma snd_logNodeSummary [simp]: "snd (logNodeSummary event n s) = snd s"
  by (simp add: logNodeSummary_def add_line_def split: option.split)

lemma poll_matches_eq: "poll_matches event P current s = (b, s') \<longleftrightarrow> b = P (the current) \<and> s' = logNodeSummary event current s"
  by (auto simp: poll_matches_def)

lemma poll_turn_clock:
  assumes "clock_runs io" "poll_turn io c u p deadline (poll_matches event P) ls = Inl ls'"
  shows "pl_Now (pi_lib io) (snd (snd ls)) \<le> deadline \<and>
    pl_Now (pi_lib io) (snd (snd ls)) + p \<le> pl_Now (pi_lib io) (snd (snd ls'))"
proof -
  obtain cur resp s where get: "GetNodeStatusSummaryByUUID (pi_lib io) c u (snd ls) = ((cur, resp, None), s)"
    and late: "\<not> deadline < pl_Now (pi_lib io) (snd s)"
    and wait: "pi_Wait io p (snd s) = (None, snd (snd ls'))"
    using assms(2)
    by (auto simp: poll_turn_def poll_matches_eq split: prod.splits option.splits bool.splits if_splits)
  have "pl_Now (pi_lib io) (snd (snd ls)) \<le> pl_Now (pi_lib io) (snd s)"
    using poll_clock [OF assms(1), of "snd ls" c u] get by simp
  moreover have "pl_Now (pi_lib io) (snd s) + p \<le> pl_Now (pi_lib io) (snd (snd ls'))"
    using assms(1) wait unfolding clock_runs_def by blast
  ultimately show ?thesis using late by simp
qed

lemma waitForNode_returns:
  assumes "clock_runs io" "0 < p"
  shows "\<exists>r. waitForNode io c u p deadline (poll_matches event P) s = Some r"
  unfolding waitForNode_def
proof (rule poll_loop_returns [where I = "\<lambda>_. True" and
      d = "\<lambda>ls. nat (deadline + 1 - pl_Now (pi_lib io) (snd (snd ls)))"])
  fix a b
  assume "poll_turn io c u p deadline (poll_matches event P) a = Inl b"
  from poll_turn_clock [OF assms(1) this] assms(2)
  show "True \<and> nat (deadline + 1 - pl_Now (pi_lib io) (snd (snd b)))
      < nat (deadline + 1 - pl_Now (pi_lib io) (snd (snd a)))" by simp
qed simp

text \<open>
  A poll that did not find the node as asked for, before the deadline, and the wait after it that ended with its
  timer.
\<close>

definition fruitless_poll :: "'w panel_io \<Rightarrow> PanelClient \<Rightarrow> string \<Rightarrow> int \<Rightarrow> int \<Rightarrow> string \<Rightarrow>
    (NodeStatusSummary \<Rightarrow> bool) \<Rightarrow> 'w logged \<Rightarrow> 'w logged \<Rightarrow> bool" where
  "fruitless_poll io c uuid interval deadline event P s s' \<longleftrightarrow>
     (\<exists>n resp s1 w. GetNodeStatusSummaryByUUID (pi_lib io) c uuid s = ((Some n, resp, None), s1) \<and> \<not> P n \<and>
        pl_Now (pi_lib io) (snd s1) \<le> deadline \<and> pi_Wait io interval (snd s1) = (None, w) \<and>
        s' = (fst (logNodeSummary event (Some n) s1), w))"

lemma poll_turn_Inl:
  "poll_turn io c u p deadline (poll_matches event P) ls = Inl ls' \<Longrightarrow>
     fruitless_poll io c u p deadline event P (snd ls) (snd ls')"
  by (auto simp: poll_turn_def poll_matches_eq fruitless_poll_def dest: polled_node
      split: prod.splits option.splits bool.splits if_splits)

lemma fruitless_poll_turn:
  assumes "fruitless_poll io c u p deadline event P s s'"
  shows "\<exists>l'. poll_turn io c u p deadline (poll_matches event P) (l, s) = Inl (l', s')"
proof -
  from assms obtain n resp s1 w where
    "GetNodeStatusSummaryByUUID (pi_lib io) c u s = ((Some n, resp, None), s1)" "\<not> P n"
    "pl_Now (pi_lib io) (snd s1) \<le> deadline" "pi_Wait io p (snd s1) = (None, w)"
    "s' = (fst (logNodeSummary event (Some n) s1), w)"
    unfolding fruitless_poll_def by blast
  then show ?thesis by (simp add: poll_turn_def poll_matches_def)
qed

lemma poll_turn_match:
  "poll_turn io c u p deadline (poll_matches event P) ls = Inr ((current, None), s') \<longleftrightarrow>
     (\<exists>n resp s1. GetNodeStatusSummaryByUUID (pi_lib io) c u (snd ls) = ((Some n, resp, None), s1) \<and> P n \<and>
        current = Some n \<and> s' = logNodeSummary event (Some n) s1)"
  by (auto simp: poll_turn_def poll_matches_eq dest: polled_node
      split: prod.splits option.splits bool.splits if_splits)

lemma turns_fruitless:
  "(\<lambda>x y. poll_turn io c u p deadline (poll_matches event P) x = Inl y)\<^sup>*\<^sup>* a b \<Longrightarrow>
     (fruitless_poll io c u p deadline event P)\<^sup>*\<^sup>* (snd a) (snd b)"
  by (induction rule: rtranclp_induct) (auto dest: poll_turn_Inl intro: rtranclp.rtrancl_into_rtrancl)

lemma fruitless_turns:
  "(fruitless_poll io c u p deadline event P)\<^sup>*\<^sup>* s s' \<Longrightarrow>
     \<exists>l'. (\<lambda>x y. poll_turn io c u p deadline (poll_matches event P) x = Inl y)\<^sup>*\<^sup>* (l, s) (l', s')"
proof (induction rule: rtranclp_induct)
  case (step s1 s2)
  then show ?case by (meson fruitless_poll_turn rtranclp.rtrancl_into_rtrancl)
qed blast

text \<open>A wait ends well exactly after fruitless polls and one that found a matching node.\<close>

lemma waitForNode_match:
  "waitForNode io c u p deadline (poll_matches event P) s = Some ((current, None), s') \<longleftrightarrow>
     (\<exists>s3 n resp s4. (fruitless_poll io c u p deadline event P)\<^sup>*\<^sup>* s s3 \<and>
        GetNodeStatusSummaryByUUID (pi_lib io) c u s3 = ((Some n, resp, None), s4) \<and> P n \<and>
        current = Some n \<and> s' = logNodeSummary event (Some n) s4)"
    (is "?wait = ?polls")
proof
  assume ?wait
  from poll_loop_reaches [OF this [unfolded waitForNode_def]] obtain b where
    b: "(fruitless_poll io c u p deadline event P)\<^sup>*\<^sup>* s (snd b)"
      "poll_turn io c u p deadline (poll_matches event P) b = Inr ((current, None), s')"
    by (auto dest!: turns_fruitless)
  then show ?polls unfolding poll_turn_match by blast
next
  assume ?polls
  then obtain s3 l' n resp s4 where
    "(\<lambda>x y. poll_turn io c u p deadline (poll_matches event P) x = Inl y)\<^sup>*\<^sup>* (None, s) (l', s3)"
    "GetNodeStatusSummaryByUUID (pi_lib io) c u s3 = ((Some n, resp, None), s4)" "P n"
    "current = Some n" "s' = logNodeSummary event (Some n) s4"
    using fruitless_turns [of io c u p deadline event P s _ None] by blast
  then show ?wait
    unfolding waitForNode_def by (intro poll_loop_returned) (auto simp: poll_turn_match simp del: split_paired_Ex)
qed

section \<open>Properties of the commands\<close>

text \<open>
  A run that ends well, as its requests and polls: the node of the environment is looked up, the action is applied to
  the node found, and that same node is polled, with fruitless polls until the deadline and one that finds it as asked
  for. Nothing is sent after that poll.
\<close>

definition modified :: "'w panel_io \<Rightarrow> PanelClient \<Rightarrow> string \<Rightarrow> string list \<Rightarrow> (NodeStatusSummary \<Rightarrow> bool) \<Rightarrow>
    int \<Rightarrow> int \<Rightarrow> 'w logged \<Rightarrow> 'w logged \<Rightarrow> bool" where
  "modified io c action events P timeout interval s s' \<longleftrightarrow>
     (\<exists>n0 resp0 s1 applied resp1 s2 s3 n resp2 s4.
        GetNodeStatusSummaryByUUID (pi_lib io) c (env_at io ''PANEL_NODE_ID'') s = ((Some n0, resp0, None), s1) \<and>
        nodeAction (pi_lib io) c (ns_UUID n0) action s1 = ((applied, resp1, None), s2) \<and>
        (fruitless_poll io c (ns_UUID n0) interval (pl_Now (pi_lib io) (snd s2) + timeout) (events ! 1) P)\<^sup>*\<^sup>*
          (logNodeSummary (events ! 0) applied s2) s3 \<and>
        GetNodeStatusSummaryByUUID (pi_lib io) c (ns_UUID n0) s3 = ((Some n, resp2, None), s4) \<and> P n \<and>
        s' = logNodeSummary (events ! 2) (Some n) (logNodeSummary (events ! 1) (Some n) s4))"

lemma run_modify_ends:
  assumes "clock_runs io"
  shows "\<exists>err s'. run_modify m io c timeout p s = Some (err, s') \<and>
    (\<not> IsUUID (env_at io ''PANEL_NODE_ID'') \<or> p \<le> 0 \<longrightarrow> err \<noteq> None \<and> s' = s) \<and>
    (IsUUID (env_at io ''PANEL_NODE_ID'') \<and> 0 < p \<longrightarrow>
      (\<forall>s''. err = None \<and> s'' = s' \<longleftrightarrow>
        modified io c (md_Action m) [md_AppliedEvent m, md_PollEvent m, md_DoneEvent m] (md_Matches m) timeout p s s''))"
proof (cases "full_node_uuid io (md_Purpose m) p")
  case (Inl e)
  moreover have "\<not> IsUUID []" by code_simp
  ultimately show ?thesis
    by (auto simp: run_modify_def full_node_uuid_def Let_def PanelNodeIDEnv_def split: if_splits)
next
  case (Inr nodeUUID)
  then have ok: "IsUUID (env_at io ''PANEL_NODE_ID'')" "0 < p" and uuid: "nodeUUID = env_at io ''PANEL_NODE_ID''"
    by (auto simp: full_node_uuid_def Let_def PanelNodeIDEnv_def split: if_splits)
  let ?mod = "modified io c (md_Action m) [md_AppliedEvent m, md_PollEvent m, md_DoneEvent m] (md_Matches m) timeout p s"
  obtain summary resp e1 s1 where get: "GetNodeStatusSummaryByUUID (pi_lib io) c nodeUUID s = ((summary, resp, e1), s1)"
    by (metis prod.exhaust)
  show ?thesis
  proof (cases e1)
    case (Some e)
    then have "\<not> ?mod s''" for s'' using get uuid by (simp add: modified_def)
    with Some ok show ?thesis by (simp add: run_modify_def Inr get)
  next
    case e1: None
    then obtain n0 where n0: "summary = Some n0" using polled_node get by blast
    obtain en resp2 e2 s2 where act: "nodeAction (pi_lib io) c (ns_UUID n0) (md_Action m) s1 = ((en, resp2, e2), s2)"
      by (metis prod.exhaust)
    show ?thesis
    proof (cases e2)
      case (Some e)
      then have "\<not> ?mod s''" for s'' using get uuid e1 n0 act by (simp add: modified_def)
      with Some e1 n0 ok act show ?thesis by (simp add: run_modify_def Inr get)
    next
      case e2: None
      let ?s = "logNodeSummary (md_AppliedEvent m) en s2"
      obtain cur e3 s3 where wait: "waitForNode io c (ns_UUID n0) p (pl_Now (pi_lib io) (snd ?s) + timeout)
          (poll_matches (md_PollEvent m) (md_Matches m)) ?s = Some ((cur, e3), s3)"
        using waitForNode_returns [OF assms ok(2)] by (metis prod.exhaust)
      have mod: "?mod s'' \<longleftrightarrow> (\<exists>n s4. waitForNode io c (ns_UUID n0) p (pl_Now (pi_lib io) (snd ?s) + timeout)
          (poll_matches (md_PollEvent m) (md_Matches m)) ?s = Some ((Some n, None), s4) \<and>
          s'' = logNodeSummary (md_DoneEvent m) (Some n) s4)" for s''
      proof -
        have "?mod s'' \<longleftrightarrow> (\<exists>s3 n resp s4. (fruitless_poll io c (ns_UUID n0) p (pl_Now (pi_lib io) (snd s2) + timeout)
              (md_PollEvent m) (md_Matches m))\<^sup>*\<^sup>* ?s s3 \<and>
            GetNodeStatusSummaryByUUID (pi_lib io) c (ns_UUID n0) s3 = ((Some n, resp, None), s4) \<and> md_Matches m n \<and>
            s'' = logNodeSummary (md_DoneEvent m) (Some n) (logNodeSummary (md_PollEvent m) (Some n) s4))"
          using get uuid e1 n0 act e2 by (simp add: modified_def del: split_paired_Ex)
        then show ?thesis unfolding waitForNode_match snd_logNodeSummary by blast
      qed
      have "?mod s'' \<longleftrightarrow> e3 = None \<and> s'' = logNodeSummary (md_DoneEvent m) cur s3" for s''
        unfolding mod wait using wait waitForNode_match [THEN iffD1] by (cases e3) fastforce+
      with e1 n0 e2 ok act wait show ?thesis by (cases e3) (auto simp add: run_modify_def Inr get Let_def)
    qed
  qed
qed

text \<open>
  C30. Enabling and disabling a node always returns, whatever the Panel answers, on a clock that runs. Without a full UUID
  or with an interval that is not positive it fails before anything is sent. Otherwise it succeeds exactly if the node of
  the environment could be looked up, the action was accepted for the node found, and of the polls of that node, made
  after it and each followed by a wait while the deadline has not passed, the last one found it as it was asked for:
  connected and not disabled, or disabled. Nothing is sent after that poll.
\<close>

theorem modifying_commands_end:
  assumes "clock_runs io"
  shows "(\<exists>err s'. runEnable io c timeout p s = Some (err, s') \<and>
      (\<not> IsUUID (env_at io ''PANEL_NODE_ID'') \<or> p \<le> 0 \<longrightarrow> err \<noteq> None \<and> s' = s) \<and>
      (IsUUID (env_at io ''PANEL_NODE_ID'') \<and> 0 < p \<longrightarrow>
        (\<forall>s''. err = None \<and> s'' = s' \<longleftrightarrow>
          modified io c ''enable'' [''panel_node_enabled'', ''panel_node_poll'', ''panel_node_connected'']
            (\<lambda>n. ns_IsConnected n \<and> \<not> ns_IsDisabled n) timeout p s s''))) \<and>
    (\<exists>err s'. runDisable io c timeout p s = Some (err, s') \<and>
      (\<not> IsUUID (env_at io ''PANEL_NODE_ID'') \<or> p \<le> 0 \<longrightarrow> err \<noteq> None \<and> s' = s) \<and>
      (IsUUID (env_at io ''PANEL_NODE_ID'') \<and> 0 < p \<longrightarrow>
        (\<forall>s''. err = None \<and> s'' = s' \<longleftrightarrow>
          modified io c ''disable''
            [''panel_node_disabled_response'', ''panel_node_disable_poll'', ''panel_node_disabled'']
            ns_IsDisabled timeout p s s'')))"
  using run_modify_ends [OF assms, of "\<lparr>md_Purpose = ''node enable/connect lookup'', md_Action = ''enable'',
        md_ResponseEvent = ''panel_node_enable_response'', md_AppliedEvent = ''panel_node_enabled'',
        md_PollEvent = ''panel_node_poll'', md_DoneEvent = ''panel_node_connected'', md_Reached = ''connected'',
        md_Matches = (\<lambda>n. ns_IsConnected n \<and> \<not> ns_IsDisabled n)\<rparr>" c timeout p s]
    run_modify_ends [OF assms, of "\<lparr>md_Purpose = ''node disable lookup'', md_Action = ''disable'',
        md_ResponseEvent = ''panel_node_disable_response'', md_AppliedEvent = ''panel_node_disabled_response'',
        md_PollEvent = ''panel_node_disable_poll'', md_DoneEvent = ''panel_node_disabled'', md_Reached = ''disabled'',
        md_Matches = ns_IsDisabled\<rparr>" c timeout p s]
  unfolding runEnable_def runDisable_def modification.simps by (rule conjI)

text \<open>A Panel that is never reached, seen by a client whose every request takes a second.\<close>

definition silent_panel :: "int panel_io" where
  "silent_panel =
     \<lparr>pi_lib =
        \<lparr>pl_Getenv = (\<lambda>_. ''0b2f6a1c-5d3e-4f70-8a91-b2c3d4e5f607''), pl_Parse = (\<lambda>_. Inl (NewError ''no url'')), pl_String = u_Path,
         pl_Marshal = (\<lambda>_. Inr ''{}''), pl_MarshalIndent = (\<lambda>_. Inr ''{}''), pl_Unmarshal = (\<lambda>_. Inr JNull),
         pl_Nodes = (\<lambda>_. Inr []), pl_Node = (\<lambda>_. Inr None), pl_NewRequest = (\<lambda>_ _. None),
         pl_Send = (\<lambda>_ _ w. (Inl (NewError ''refused''), w + Second)), pl_Now = (\<lambda>w. w), pl_TimedOut = (\<lambda>_. False),
         pl_Sha256 = (\<lambda>_. []), pl_ToLower = ToLower, pl_EqualFold = EqualFold\<rparr>,
      pi_Wait = (\<lambda>d w. (None, w + d)), pi_WithTimeout = (\<lambda>_ w. w), pi_Round = (\<lambda>r. r), pi_Sprint = (\<lambda>_. [])\<rparr>"

theorem modifying_commands_end_witness:
  "\<forall>c. \<exists>err s'. runEnable silent_panel c (75 * Second) (5 * Second) ([], 0) = Some (err, s')"
proof
  fix c
  have "clock_runs silent_panel" by (simp add: clock_runs_def silent_panel_def Second_def)
  from modifying_commands_end [OF this, of c "75 * Second" "5 * Second" "([], 0)"]
  show "\<exists>err s'. runEnable silent_panel c (75 * Second) (5 * Second) ([], 0) = Some (err, s')" by blast
qed

text \<open>Without the gate of the script, or with flags that cannot be read, a command neither reads the Panel's key nor sends anything.\<close>

lemma panel_run_refused:
  assumes "command \<notin> {''help'', ''-h'', ''--help''}"
    "env_at io scriptGateEnv \<noteq> ''1'' \<or> (\<exists>err. flag_Parse (panel_flagset (pi_Round io)) rest default_panel_flags = Inl err)"
  shows "\<exists>out. panel_run io (command # rest) s = Some (2, out, s)"
  using assms by (auto simp: panel_run_def)

lemma panel_flags_given:
  "flag_Parse (panel_flagset rnd) [''--poll-interval=2s'', ''-enable-timeout'', ''1m30s''] default_panel_flags =
     Inr ((90 * Second, 45 * Second, 2 * Second), [])"
proof -
  have "ParseDuration rnd ''2s'' = Some (2 * Second)" "ParseDuration rnd ''1m30s'' = Some (90 * Second)"
    by (simp_all add: ParseDuration_def duration_sum.simps duration_item_def decimal_def unitMap_def Second_def)
  then show ?thesis
    by (simp add: panel_flagset_def default_panel_flags_def flag_arg_def flag_name_def set_flag_def DurationVar_def)
qed

end
