(* ===== verification/LogView.thy ===== *)
theory LogView
  imports Regexp System Config
begin

text \<open>
  The tables and lines of the log (\<open>internal/logview\<close>): the layout of a table, the texts of values, their
  redaction, the handler that writes tables as they are and colours lines, and the summaries of the start.
  What \<open>log/slog\<close> prints of a record is a parameter; how its text handler names attributes is modelled.
\<close>

section \<open>Texts of values (table.go)\<close>

definition DefaultMaxValueLength :: int where "DefaultMaxValueLength = 96"
definition EmptyValue :: string where "EmptyValue = ''-''"

text \<open>A length that is not positive is no limit.\<close>

definition Truncate :: "string \<Rightarrow> int \<Rightarrow> string" where
  "Truncate value maxLength =
     (let value = TrimSpace value
      in if value = [] then EmptyValue
         else if maxLength \<le> 0 \<or> int (length value) \<le> maxLength then value
         else if maxLength \<le> 1 then take (nat maxLength) value
         else if maxLength \<le> 3 then take (nat maxLength) value
         else take (nat maxLength - 3) value @ ''...'')"

definition ShortHash :: "string \<Rightarrow> string" where
  "ShortHash value =
     (let value = TrimSpace value
      in if value = [] then EmptyValue else if length value \<le> 12 then value else take 12 value)"

definition FormatBool :: "bool \<Rightarrow> string" where
  "FormatBool b = (if b then ''true'' else ''false'')"

text \<open>\<open>Duration.Round\<close> to milliseconds, halves up, of a duration that is not negative.\<close>

definition Round_ms :: "int \<Rightarrow> int" where
  "Round_ms d = (let r = d mod 1000000 in if r + r < 1000000 then d - r else min (2 ^ 63 - 1) (d + 1000000 - r))"

text \<open>\<open>Duration.String\<close> from one second on: hours and minutes if there are any, seconds with their fraction.\<close>

definition fraction :: "int \<Rightarrow> string" where
  "fraction ns =
     (let ds = nat_digits (nat ns);
          digits = rev (dropWhile (\<lambda>c. c = CHR ''0'') (rev (replicate (9 - length ds) (CHR ''0'') @ ds)))
      in if digits = [] then [] else ''.'' @ digits)"

definition duration_String :: "int \<Rightarrow> string" where
  "duration_String d =
     (let secs = d div 10 ^ 9; mins = secs div 60; hours = mins div 60
      in (if 0 < hours then Itoa hours @ ''h'' else []) @
         (if 0 < mins then Itoa (mins mod 60) @ ''m'' else []) @
         Itoa (secs mod 60) @ fraction (d mod 10 ^ 9) @ ''s'')"

definition log_Duration :: "int \<Rightarrow> string" where
  "log_Duration duration =
     (let duration = (if duration < 0 then 0 else duration)
      in if duration < 10 ^ 9 then Itoa (duration div 1000000) @ ''ms''
         else duration_String (Round_ms duration))"

text \<open>The types that \<open>Value\<close> tells apart; for any other, what \<open>fmt.Sprint\<close> makes of it.\<close>

datatype log_value =
    VNil
  | VString string
  | VStringPtr "string option"
  | VBool bool
  | VInt int
  | VInt64 int
  | VUint64 nat
  | VDuration int
  | VOther string

fun log_Value :: "log_value \<Rightarrow> string" where
  "log_Value VNil = EmptyValue"
| "log_Value (VString s) = Truncate s DefaultMaxValueLength"
| "log_Value (VStringPtr None) = EmptyValue"
| "log_Value (VStringPtr (Some s)) = Truncate s DefaultMaxValueLength"
| "log_Value (VBool b) = FormatBool b"
| "log_Value (VInt i) = Itoa i"
| "log_Value (VInt64 i) = Itoa i"
| "log_Value (VUint64 n) = nat_digits n"
| "log_Value (VDuration d) = log_Duration d"
| "log_Value (VOther s) = Truncate s DefaultMaxValueLength"

section \<open>Tables\<close>

record Row =
  row_Key :: string
  row_Value :: string

definition Field :: "string \<Rightarrow> log_value \<Rightarrow> Row" where
  "Field key value = \<lparr>row_Key = key, row_Value = log_Value value\<rparr>"

definition center :: "string \<Rightarrow> nat \<Rightarrow> string" where
  "center value width =
     (if width \<le> length value then value
      else let left = (width - length value) div 2; right = width - length value - left
           in Repeat '' '' left @ value @ Repeat '' '' right)"

definition padRight :: "string \<Rightarrow> nat \<Rightarrow> string" where
  "padRight value width =
     (if width \<le> length value then value else value @ Repeat '' '' (width - length value))"

text \<open>The rows with a key, trimmed, and the widths of the two columns.\<close>

definition normalized_rows :: "Row list \<Rightarrow> Row list" where
  "normalized_rows rows =
     map (\<lambda>r. \<lparr>row_Key = TrimSpace (row_Key r),
               row_Value = (if TrimSpace (row_Value r) = [] then EmptyValue else TrimSpace (row_Value r))\<rparr>)
       (filter (\<lambda>r. TrimSpace (row_Key r) \<noteq> []) rows)"

definition keyWidth :: "Row list \<Rightarrow> nat" where
  "keyWidth rows = fold (\<lambda>r w. max w (length (row_Key r))) (normalized_rows rows) (length ''Field'')"

definition valueWidth :: "Row list \<Rightarrow> nat" where
  "valueWidth rows = fold (\<lambda>r w. max w (length (row_Value r))) (normalized_rows rows) (length ''Value'')"

definition table_row :: "nat \<Rightarrow> nat \<Rightarrow> string \<Rightarrow> string \<Rightarrow> string" where
  "table_row kw vw key value = ''| '' @ padRight key kw @ '' | '' @ padRight value vw @ '' |''"

definition contentWidth :: "string \<Rightarrow> Row list \<Rightarrow> nat" where
  "contentWidth title rows =
     (let width = keyWidth rows + valueWidth rows + 5
      in if title \<noteq> [] then max width (length title + 2) else width)"

definition Table :: "string \<Rightarrow> Row list \<Rightarrow> string" where
  "Table title rows =
     (let title = TrimSpace title; kw = keyWidth rows; vw = valueWidth rows;
          width = contentWidth title rows;
          border = ''+'' @ Repeat ''-'' width @ ''+''
      in LF @ border @ LF @
         (if title \<noteq> [] then ''|'' @ center title width @ ''|'' @ LF @ border @ LF else []) @
         table_row kw vw ''Field'' ''Value'' @ LF @ border @
         concat (map (\<lambda>r. LF @ table_row kw vw (row_Key r) (row_Value r)) (normalized_rows rows)) @
         LF @ border)"

record InboundRow =
  ir_Tag :: string
  ir_UsersCount :: int
  ir_Hash :: string

definition InboundTable :: "string \<Rightarrow> InboundRow list \<Rightarrow> string" where
  "InboundTable title inbounds =
     (let rows = map (\<lambda>i. \<lparr>row_Key = (if TrimSpace (ir_Tag i) = [] then ''untagged'' else ir_Tag i),
                          row_Value = ''users='' @ Itoa (ir_UsersCount i) @ '' hash='' @ ShortHash (ir_Hash i)\<rparr>) inbounds
      in Table title (if rows = [] then [Field ''Inbounds'' (VString ''none'')] else rows))"

definition ensureLeadingNewline :: "string \<Rightarrow> string" where
  "ensureLeadingNewline value = (if prefix LF value then value else LF @ value)"

section \<open>The summaries of the start (startup.go)\<close>

text \<open>The version variables that the build sets, and the process id.\<close>

record build_info =
  bi_ProjectVersion :: string
  bi_Commit :: string
  bi_BuildDate :: string
  bi_Pid :: int

definition StartupSummary :: "build_info \<Rightarrow> go_env \<Rightarrow> env \<Rightarrow> Config \<Rightarrow> string \<Rightarrow> string" where
  "StartupSummary build go getenv cfg nodeVersion =
     Table ''rw-node-go starting''
       ([Field ''Project Version'' (VString (bi_ProjectVersion build)),
         Field ''Panel Node Version'' (VString nodeVersion),
         Field ''Commit'' (VString (bi_Commit build)),
         Field ''Build Date'' (VString (bi_BuildDate build)),
         Field ''Go Version'' (VString (go_Version go)),
         Field ''OS/Arch'' (VString (go_GOOS go @ ''/'' @ go_GOARCH go)),
         Field ''PID'' (VInt (bi_Pid build)),
         Field ''Runtime Mode'' (VString ''embedded xray-core''),
         Field ''Main Listen'' (VString (ListenAddress cfg)),
         Field ''Internal Listen'' (VString (InternalListenAddress cfg)),
         Field ''TLS Enabled'' (VBool (cfg_SecretKey cfg \<noteq> [])),
         Field ''TLS Client Auth'' (VString (TLSClientAuthMode cfg)),
         Field ''JWT Enabled'' (VBool (cfg_SecretKey cfg \<noteq> [])),
         Field ''Request Body Limit'' (VInt64 (cfg_RequestBodyLimitBytes cfg)),
         Field ''XRAY_LOCATION_ASSET'' (VString (XrayAssetDir getenv))] @
        (if 0 < cfg_HysteriaListenPort cfg
         then [Field ''Hysteria Listen Port''
                 (VString (Itoa (cfg_HysteriaListenPort cfg) @ '' (overrides panel inbound)''))]
         else []))"

definition ListenSummary :: "string \<Rightarrow> string \<Rightarrow> string \<Rightarrow> string" where
  "ListenSummary title addr protocol =
     Table title [Field ''Address'' (VString addr), Field ''Protocol'' (VString protocol)]"

section \<open>Redaction\<close>

definition pemBlockPattern :: redaction where
  "pemBlockPattern =
     \<lparr>red_Before = Eps,
      red_Secret = Seq (Lit ''-----BEGIN '') (Seq (Plus (Cls upper_digit_space)) (Seq (Lit ''-----'')
        (Seq (LazyStar any_char) (Seq (Lit ''-----END '') (Seq (Plus (Cls upper_digit_space)) (Lit ''-----'')))))),
      red_After = Eps, red_Text = ''[REDACTED_PEM]''\<rparr>"

definition bearerPattern :: redaction where
  "bearerPattern =
     \<lparr>red_Before = Eps,
      red_Secret = Seq WordBoundary (Seq (LitI ''Bearer'') (Seq (Plus (OneOf regex_space))
        (Seq (Plus (ClsI (\<lambda>c. regex_alnum c \<or> c \<in> set ''._~+/-''))) (Star (Chr (CHR ''='')))))),
      red_After = Eps, red_Text = ''Bearer [REDACTED]''\<rparr>"

definition jwtPattern :: redaction where
  "jwtPattern =
     \<lparr>red_Before = Eps,
      red_Secret = Seq WordBoundary (Seq jwt_part (Seq (Chr (CHR ''.'')) (Seq jwt_part (Seq (Chr (CHR ''.''))
        (Seq jwt_part WordBoundary))))),
      red_After = Eps, red_Text = ''[REDACTED_JWT]''\<rparr>"

definition sensitive_words :: "regex list" where
  "sensitive_words =
     [two_words ''secret'' ''key'', two_words ''api'' ''key'', LitI ''apikey'', LitI ''token'', LitI ''password'',
      two_words ''private'' ''key'', two_words ''node'' ''key'', two_words ''cert'' ''pem'', LitI ''authorization'',
      two_words ''short'' ''id'', LitI ''id'', LitI ''uuid'']"

definition keyValuePattern :: redaction where
  "keyValuePattern =
     \<lparr>red_Before = Seq WordBoundary (Seq (Alts sensitive_words)
        (Seq (Star (OneOf regex_space)) (Seq (OneOf '':='') (Star (OneOf regex_space))))),
      red_Secret = value_pattern,
      red_After = Eps, red_Text = ''[REDACTED]''\<rparr>"

definition jsonSensitivePattern :: redaction where
  "jsonSensitivePattern =
     \<lparr>red_Before = Seq (Opt (Chr (CHR 0x22)))
        (Seq (Alts (map LitI [''id'', ''uuid'', ''password'', ''privateKey'', ''private_key'', ''shortId'', ''short_id'',
                              ''secretKey'', ''secret_key'', ''token'', ''authorization'']))
        (Seq (Opt (Chr (CHR 0x22))) (Seq (Star (OneOf regex_space)) (Seq (Chr (CHR '':''))
        (Seq (Star (OneOf regex_space)) (Chr (CHR 0x22))))))),
      red_Secret = Star (NoneOf [CHR 0x22]),
      red_After = Chr (CHR 0x22), red_Text = ''[REDACTED]''\<rparr>"

definition RedactText :: "string \<Rightarrow> string" where
  "RedactText value =
     (let value = TrimSpace value
      in if value = [] then []
         else fold ReplaceAllString
                [pemBlockPattern, bearerPattern, jwtPattern, keyValuePattern, jsonSensitivePattern] value)"

section \<open>The text handler (handler.go)\<close>

text \<open>Levels are the integers of \<open>slog\<close>.\<close>

definition level_Debug :: int where "level_Debug = - 4"
definition level_Info :: int where "level_Info = 0"
definition level_Warn :: int where "level_Warn = 4"
definition level_Error :: int where "level_Error = 8"

datatype attr_value = ABool bool | AText string

record log_record =
  lr_Level :: int
  lr_Message :: string
  lr_Attrs :: "(string \<times> attr_value) list"

text \<open>
  The text handler of \<open>slog\<close>: the attributes added to it, under the names they had when they were added, and the open
  groups, which prefix the names of what comes later.
\<close>

record slog_handler =
  sh_Attrs :: "(string \<times> attr_value) list"
  sh_Groups :: "string list"

definition qualify :: "string list \<Rightarrow> (string \<times> attr_value) list \<Rightarrow> (string \<times> attr_value) list" where
  "qualify groups attrs = map (\<lambda>(k, v). (concat (map (\<lambda>g. g @ ''.'') groups) @ k, v)) attrs"

definition slog_New :: slog_handler where
  "slog_New = \<lparr>sh_Attrs = [], sh_Groups = []\<rparr>"

definition slog_WithAttrs :: "(string \<times> attr_value) list \<Rightarrow> slog_handler \<Rightarrow> slog_handler" where
  "slog_WithAttrs attrs h = h\<lparr>sh_Attrs := sh_Attrs h @ qualify (sh_Groups h) attrs\<rparr>"

definition slog_WithGroup :: "string \<Rightarrow> slog_handler \<Rightarrow> slog_handler" where
  "slog_WithGroup name h = h\<lparr>sh_Groups := sh_Groups h @ [name]\<rparr>"

text \<open>The attributes of a line; \<open>fmt\<close> is how the line is printed.\<close>

definition slog_text :: "(int \<Rightarrow> string \<Rightarrow> (string \<times> attr_value) list \<Rightarrow> string) \<Rightarrow> slog_handler \<Rightarrow> log_record \<Rightarrow> string" where
  "slog_text fmt h r = fmt (lr_Level r) (lr_Message r) (sh_Attrs h @ qualify (sh_Groups h) (lr_Attrs r))"

definition tableRecordAttr :: string where "tableRecordAttr = ''__logview_table''"

definition ansi :: "string \<Rightarrow> string" where
  "ansi code = [CHR 0x1B] @ ''['' @ code @ ''m''"

definition ansiReset :: string where "ansiReset = ansi ''0''"
definition ansiGray :: string where "ansiGray = ansi ''90''"
definition ansiGreen :: string where "ansiGreen = ansi ''32''"
definition ansiYellow :: string where "ansiYellow = ansi ''33''"
definition ansiRed :: string where "ansiRed = ansi ''31''"

definition levelColor :: "int \<Rightarrow> string" where
  "levelColor level =
     (if level_Error \<le> level then ansiRed
      else if level_Warn \<le> level then ansiYellow
      else if level \<le> level_Debug then ansiGray
      else ansiGreen)"

definition colorize :: "int \<Rightarrow> string \<Rightarrow> string" where
  "colorize level value =
     (let color = levelColor level
      in if color = [] \<or> value = [] then value
         else if suffix LF value then color @ take (length value - 1) value @ ansiReset @ LF
         else color @ value @ ansiReset)"

definition isTableRecord :: "log_record \<Rightarrow> bool" where
  "isTableRecord record = list_ex (\<lambda>(k, v). k = tableRecordAttr \<and> v = ABool True) (lr_Attrs record)"

record textHandler =
  th_inner :: slog_handler
  th_attrs :: "(string \<times> attr_value) list"
  th_groups :: "string list"
  th_color :: bool

definition newTextHandler :: "bool \<Rightarrow> textHandler" where
  "newTextHandler color = \<lparr>th_inner = slog_New, th_attrs = [], th_groups = [], th_color = color\<rparr>"

definition NewTextHandler :: textHandler where "NewTextHandler = newTextHandler False"

definition NewColorTextHandler :: "bool \<Rightarrow> textHandler" where "NewColorTextHandler color = newTextHandler color"

text \<open>Which levels are printed: those from the level of the options on.\<close>

definition handler_Enabled :: "int \<Rightarrow> int \<Rightarrow> bool" where "handler_Enabled least level = (least \<le> level)"

definition appendAttrs :: "'a list \<Rightarrow> 'a list \<Rightarrow> 'a list" where
  "appendAttrs existing attrs = existing @ attrs"

definition appendGroup :: "string list \<Rightarrow> string \<Rightarrow> string list" where
  "appendGroup existing name = existing @ [name]"

definition WithAttrs :: "(string \<times> attr_value) list \<Rightarrow> textHandler \<Rightarrow> textHandler" where
  "WithAttrs attrs h =
     \<lparr>th_inner = slog_WithAttrs attrs (th_inner h), th_attrs = appendAttrs (th_attrs h) attrs,
      th_groups = th_groups h, th_color = th_color h\<rparr>"

definition WithGroup :: "string \<Rightarrow> textHandler \<Rightarrow> textHandler" where
  "WithGroup name h =
     \<lparr>th_inner = slog_WithGroup name (th_inner h), th_attrs = th_attrs h,
      th_groups = appendGroup (th_groups h) name, th_color = th_color h\<rparr>"

text \<open>The handler that a coloured line is printed with: made anew from the attributes and the groups.\<close>

definition replayed :: "textHandler \<Rightarrow> slog_handler" where
  "replayed h =
     fold slog_WithGroup (th_groups h)
       (if th_attrs h \<noteq> [] then slog_WithAttrs (th_attrs h) slog_New else slog_New)"

text \<open>\<open>put\<close> writes to the output; the mutex makes a call one step.\<close>

definition Handle :: "(int \<Rightarrow> string \<Rightarrow> (string \<times> attr_value) list \<Rightarrow> string) \<Rightarrow>
    (string \<Rightarrow> 'w \<Rightarrow> gerror option \<times> 'w) \<Rightarrow> textHandler \<Rightarrow> log_record \<Rightarrow> 'w \<Rightarrow> gerror option \<times> 'w" where
  "Handle fmt put h record w =
     (if isTableRecord record then
        (let message = (if th_color h then colorize (lr_Level record) (lr_Message record) else lr_Message record)
         in case put message w of
              (Some err, w) \<Rightarrow> (Some err, w)
            | (None, w) \<Rightarrow> if \<not> suffix LF message then put LF w else (None, w))
      else if \<not> th_color h then put (slog_text fmt (th_inner h) record) w
      else put (colorize (lr_Level record) (slog_text fmt (replayed h) record)) w)"

section \<open>Tables in the log\<close>

text \<open>A logger is a handler with the least level that it prints, or nil.\<close>

definition logger_Log :: "(int \<Rightarrow> string \<Rightarrow> (string \<times> attr_value) list \<Rightarrow> string) \<Rightarrow>
    (string \<Rightarrow> 'w \<Rightarrow> gerror option \<times> 'w) \<Rightarrow> textHandler \<times> int \<Rightarrow> log_record \<Rightarrow> 'w \<Rightarrow> 'w" where
  "logger_Log fmt put logger record w =
     (if handler_Enabled (snd logger) (lr_Level record) then snd (Handle fmt put (fst logger) record w) else w)"

definition LogTable :: "(int \<Rightarrow> string \<Rightarrow> (string \<times> attr_value) list \<Rightarrow> string) \<Rightarrow>
    (string \<Rightarrow> 'w \<Rightarrow> gerror option \<times> 'w) \<Rightarrow> (textHandler \<times> int) option \<Rightarrow> int \<Rightarrow> string \<Rightarrow> string \<Rightarrow>
    (string \<times> attr_value) list \<Rightarrow> 'w \<Rightarrow> 'w" where
  "LogTable fmt put logger level message table args w =
     (case logger of
        None \<Rightarrow> w
      | Some l \<Rightarrow>
          (let w = logger_Log fmt put l \<lparr>lr_Level = level, lr_Message = message, lr_Attrs = args\<rparr> w
           in if TrimSpace table = [] then w
              else logger_Log fmt put l
                     \<lparr>lr_Level = level, lr_Message = ensureLeadingNewline table,
                      lr_Attrs = [(tableRecordAttr, ABool True)]\<rparr> w))"

definition InfoTable :: "(int \<Rightarrow> string \<Rightarrow> (string \<times> attr_value) list \<Rightarrow> string) \<Rightarrow>
    (string \<Rightarrow> 'w \<Rightarrow> gerror option \<times> 'w) \<Rightarrow> (textHandler \<times> int) option \<Rightarrow> string \<Rightarrow> string \<Rightarrow>
    (string \<times> attr_value) list \<Rightarrow> 'w \<Rightarrow> 'w" where
  "InfoTable fmt put logger = LogTable fmt put logger level_Info"

definition WarnTable :: "(int \<Rightarrow> string \<Rightarrow> (string \<times> attr_value) list \<Rightarrow> string) \<Rightarrow>
    (string \<Rightarrow> 'w \<Rightarrow> gerror option \<times> 'w) \<Rightarrow> (textHandler \<times> int) option \<Rightarrow> string \<Rightarrow> string \<Rightarrow>
    (string \<times> attr_value) list \<Rightarrow> 'w \<Rightarrow> 'w" where
  "WarnTable fmt put logger = LogTable fmt put logger level_Warn"

definition ErrorTable :: "(int \<Rightarrow> string \<Rightarrow> (string \<times> attr_value) list \<Rightarrow> string) \<Rightarrow>
    (string \<Rightarrow> 'w \<Rightarrow> gerror option \<times> 'w) \<Rightarrow> (textHandler \<times> int) option \<Rightarrow> string \<Rightarrow> string \<Rightarrow>
    (string \<times> attr_value) list \<Rightarrow> 'w \<Rightarrow> 'w" where
  "ErrorTable fmt put logger = LogTable fmt put logger level_Error"


section \<open>The shape of a table\<close>

lemma length_padRight: "length (padRight v w) = max w (length v)"
  by (simp add: padRight_def)

lemma length_center: "length (center v w) = max w (length v)"
  by (auto simp: center_def Let_def)

lemma fold_max_bounds:
  "n \<le> fold (\<lambda>r w. max w (f r)) rs n" "r \<in> set rs \<Longrightarrow> f r \<le> fold (\<lambda>r w. max w (f r)) rs (n :: nat)"
proof -
  show mono: "n \<le> fold (\<lambda>r w. max w (f r)) rs n" for n rs
  proof (induction rs arbitrary: n)
    case (Cons r rs)
    show ?case using Cons [of "max n (f r)"] by simp
  qed simp
  show "r \<in> set rs \<Longrightarrow> f r \<le> fold (\<lambda>r w. max w (f r)) rs n"
  proof (induction rs arbitrary: n)
    case (Cons q rs)
    show ?case
    proof (cases "r = q")
      case True
      then show ?thesis using mono [of "max n (f r)" rs] by simp
    qed (use Cons in simp)
  qed simp
qed

lemma width_bounds:
  "length ''Field'' \<le> keyWidth rows" "length ''Value'' \<le> valueWidth rows"
  "r \<in> set (normalized_rows rows) \<Longrightarrow> length (row_Key r) \<le> keyWidth rows"
  "r \<in> set (normalized_rows rows) \<Longrightarrow> length (row_Value r) \<le> valueWidth rows"
  unfolding keyWidth_def valueWidth_def
  using fold_max_bounds(1) [where f = "\<lambda>r. length (row_Key r)"] fold_max_bounds(1) [where f = "\<lambda>r. length (row_Value r)"]
    fold_max_bounds(2) [where f = "\<lambda>r. length (row_Key r)"] fold_max_bounds(2) [where f = "\<lambda>r. length (row_Value r)"]
  by blast+

definition table_lines :: "string \<Rightarrow> Row list \<Rightarrow> string list" where
  "table_lines title rows =
     (let width = contentWidth title rows; border = ''+'' @ Repeat ''-'' width @ ''+'';
          line = (\<lambda>k v. table_row (keyWidth rows) (valueWidth rows) k v)
      in [border] @ (if title \<noteq> [] then [''|'' @ center title width @ ''|'', border] else []) @
         [line ''Field'' ''Value'', border] @ map (\<lambda>r. line (row_Key r) (row_Value r)) (normalized_rows rows) @ [border])"

lemma Join_LF: "Join (x # xs) LF = x @ concat (map (\<lambda>y. LF @ y) xs)"
  by (induction xs arbitrary: x) simp_all

lemma Table_Join: "Table title rows = Join ([] # table_lines (TrimSpace title) rows) LF"
  unfolding Table_def table_lines_def Join_LF Let_def by (simp add: comp_def)

lemma set_Repeat: "set (Repeat [c] n) \<subseteq> {c}"
  by (induction n) (auto simp: Repeat_def)

lemma set_padRight: "set (padRight v w) \<subseteq> set v \<union> {CHR '' ''}"
  using set_Repeat [of "CHR '' ''" "w - length v"] by (auto simp: padRight_def)

lemma set_center: "set (center v w) \<subseteq> set v \<union> {CHR '' ''}"
  using set_Repeat [of "CHR '' ''" "(w - length v) div 2"] set_Repeat [of "CHR '' ''" "w - length v - (w - length v) div 2"]
  by (auto simp: center_def Let_def)

definition one_line_rows :: "Row list \<Rightarrow> bool" where
  "one_line_rows rows \<longleftrightarrow>
     list_all (\<lambda>r. CHR 0x0A \<notin> set (row_Key r) \<and> CHR 0x0A \<notin> set (row_Value r)) (normalized_rows rows)"

lemma set_table_row: "set (table_row kw vw k v) \<subseteq> set k \<union> set v \<union> set ''| ''"
  using set_padRight [of k kw] set_padRight [of v vw] by (auto simp: table_row_def)

lemma table_lines_no_LF:
  assumes "CHR 0x0A \<notin> set title" "one_line_rows rows" "l \<in> set (table_lines title rows)"
  shows "CHR 0x0A \<notin> set l"
proof -
  have "CHR 0x0A \<notin> set (table_row (keyWidth rows) (valueWidth rows) (row_Key r) (row_Value r))"
    if "r \<in> set (normalized_rows rows)" for r
    using set_table_row [of "keyWidth rows" "valueWidth rows" "row_Key r" "row_Value r"] assms(2) that
    by (auto simp: one_line_rows_def list_all_iff)
  moreover have "CHR 0x0A \<notin> set (table_row (keyWidth rows) (valueWidth rows) ''Field'' ''Value'')"
    using set_table_row [of "keyWidth rows" "valueWidth rows" "''Field''" "''Value''"] by auto
  moreover have "CHR 0x0A \<notin> set (center title w)" for w
    using set_center [of title w] assms(1) by auto
  moreover have "CHR 0x0A \<notin> set (Repeat ''-'' w)" for w
    using set_Repeat [of "CHR ''-''" w] by auto
  ultimately show ?thesis
    using assms(3) by (auto simp: table_lines_def Let_def split: if_splits)
qed

lemma length_table_row:
  "length k \<le> kw \<Longrightarrow> length v \<le> vw \<Longrightarrow> length (table_row kw vw k v) = kw + vw + 7"
  by (simp add: table_row_def length_padRight)

text \<open>
  All lines of a table have the same length if and only if the title fits above the two columns: a longer
  title widens the border but not the rows.
\<close>

theorem Table_aligned_iff:
  assumes "CHR 0x0A \<notin> set (TrimSpace title)" "one_line_rows rows"
  shows "(\<exists>n. \<forall>l\<in>set (tl (Split (Table title rows) LF)). length l = n) \<longleftrightarrow>
    length (TrimSpace title) \<le> keyWidth rows + valueWidth rows + 3"
proof -
  let ?t = "TrimSpace title"
  let ?w = "contentWidth ?t rows"
  have split: "tl (Split (Table title rows) LF) = table_lines ?t rows"
    unfolding Table_Join LF_def
    by (subst Split_Join_char) (use table_lines_no_LF [OF assms] in auto)
  have fields: "length ''Field'' \<le> keyWidth rows" "length ''Value'' \<le> valueWidth rows"
    and cells: "r \<in> set (normalized_rows rows) \<Longrightarrow> length (row_Key r) \<le> keyWidth rows \<and> length (row_Value r) \<le> valueWidth rows" for r
    using width_bounds [where rows = rows] by simp_all
  have width: "?w = (if keyWidth rows + valueWidth rows + 5 < length ?t + 2 then length ?t + 2
      else keyWidth rows + valueWidth rows + 5)"
    by (auto simp: contentWidth_def Let_def)
  have header: "length (table_row (keyWidth rows) (valueWidth rows) ''Field'' ''Value'') = keyWidth rows + valueWidth rows + 7"
    using fields by (rule length_table_row)
  have two: "length l = ?w + 2 \<or> length l = keyWidth rows + valueWidth rows + 7" if "l \<in> set (table_lines ?t rows)" for l
    using that header cells width
    by (auto simp: table_lines_def Let_def length_center length_table_row split: if_splits)
  have border: "''+'' @ Repeat ''-'' ?w @ ''+'' \<in> set (table_lines ?t rows)"
    and head: "table_row (keyWidth rows) (valueWidth rows) ''Field'' ''Value'' \<in> set (table_lines ?t rows)"
    by (simp_all add: table_lines_def Let_def)
  have "(\<exists>n. \<forall>l\<in>set (table_lines ?t rows). length l = n) \<longleftrightarrow> ?w + 2 = keyWidth rows + valueWidth rows + 7"
  proof
    assume "\<exists>n. \<forall>l\<in>set (table_lines ?t rows). length l = n"
    then obtain n where n: "\<forall>l\<in>set (table_lines ?t rows). length l = n" by blast
    from bspec [OF n border] bspec [OF n head] header show "?w + 2 = keyWidth rows + valueWidth rows + 7" by simp
  next
    assume "?w + 2 = keyWidth rows + valueWidth rows + 7"
    with two show "\<exists>n. \<forall>l\<in>set (table_lines ?t rows). length l = n" by metis
  qed
  with split width show ?thesis by auto
qed


theorem Table_aligned_iff_witness:
  "\<not> (\<exists>n. \<forall>l\<in>set (tl (Split (Table ''Xray is stopped'' []) LF)). length l = n)"
proof -
  have "TrimSpace ''Xray is stopped'' = ''Xray is stopped''" by code_simp
  with Table_aligned_iff [of "''Xray is stopped''" "[]"] show ?thesis
    by (simp add: one_line_rows_def normalized_rows_def keyWidth_def valueWidth_def)
qed

text \<open>A value in a table is never empty, and longer texts are cut to the limit.\<close>

lemma Truncate_bounds: "Truncate value n \<noteq> [] \<and> (0 < n \<longrightarrow> int (length (Truncate value n)) \<le> n)"
  by (auto simp: Truncate_def Let_def EmptyValue_def)

section \<open>Coloured and plain lines\<close>

text \<open>A handler is made by adding attributes and opening groups, in some order.\<close>

datatype handler_op = OpAttrs "(string \<times> attr_value) list" | OpGroup string

fun apply_op :: "handler_op \<Rightarrow> textHandler \<Rightarrow> textHandler" where
  "apply_op (OpAttrs attrs) h = WithAttrs attrs h"
| "apply_op (OpGroup name) h = WithGroup name h"

definition handler_of :: "bool \<Rightarrow> handler_op list \<Rightarrow> textHandler" where
  "handler_of color ops = fold apply_op ops (newTextHandler color)"

lemma handler_of_snoc: "handler_of color (ops @ [p]) = apply_op p (handler_of color ops)"
  by (simp add: handler_of_def)

lemma qualify_Nil [simp]: "qualify [] attrs = attrs"
  by (induction attrs) (auto simp: qualify_def)

lemma qualify_id: "qualify gs attrs = attrs \<longleftrightarrow> gs = [] \<or> attrs = []"
proof
  assume eq: "qualify gs attrs = attrs"
  show "gs = [] \<or> attrs = []"
  proof (cases attrs)
    case (Cons a as)
    obtain k v where "a = (k, v)" by (cases a)
    with eq Cons have "concat (map (\<lambda>g. g @ ''.'') gs) @ k = k" by (simp add: qualify_def)
    then show ?thesis by (cases gs) auto
  qed simp
qed (auto simp: qualify_def)

lemma length_qualify [simp]: "length (qualify gs attrs) = length attrs"
  by (simp add: qualify_def)

lemma replayed_eq: "replayed h = \<lparr>sh_Attrs = th_attrs h, sh_Groups = th_groups h\<rparr>"
proof -
  have "fold slog_WithGroup gs s = s\<lparr>sh_Groups := sh_Groups s @ gs\<rparr>" for gs s
    by (induction gs arbitrary: s) (simp_all add: slog_WithGroup_def)
  then show ?thesis by (simp add: replayed_def slog_WithAttrs_def slog_New_def)
qed

lemma handler_of_groups:
  "sh_Groups (th_inner (handler_of color ops)) = th_groups (handler_of color ops)"
  "length (sh_Attrs (th_inner (handler_of color ops))) = length (th_attrs (handler_of color ops))"
  "th_color (handler_of color ops) = color"
  "th_groups (handler_of color ops) = [] \<longleftrightarrow> (\<forall>name. OpGroup name \<notin> set ops)"
proof (induction ops rule: rev_induct)
  case (snoc p ops)
  case 1 show ?case using snoc by (cases p)
      (simp_all add: handler_of_snoc WithAttrs_def WithGroup_def slog_WithAttrs_def slog_WithGroup_def appendGroup_def)
  case 2 show ?case using snoc by (cases p)
      (simp_all add: handler_of_snoc WithAttrs_def WithGroup_def slog_WithAttrs_def slog_WithGroup_def appendAttrs_def)
  case 3 show ?case using snoc by (cases p) (simp_all add: handler_of_snoc WithAttrs_def WithGroup_def)
  case 4 show ?case using snoc by (cases p) (auto simp: handler_of_snoc WithAttrs_def WithGroup_def appendGroup_def)
qed (simp_all add: handler_of_def newTextHandler_def slog_New_def)

lemma late_snoc:
  "(\<forall>before attrs after. ops @ [p] = before @ OpAttrs attrs # after \<longrightarrow> attrs = [] \<or> (\<forall>name. OpGroup name \<notin> set before)) \<longleftrightarrow>
   (\<forall>before attrs after. ops = before @ OpAttrs attrs # after \<longrightarrow> attrs = [] \<or> (\<forall>name. OpGroup name \<notin> set before)) \<and>
   (\<forall>attrs. p = OpAttrs attrs \<longrightarrow> attrs = [] \<or> (\<forall>name. OpGroup name \<notin> set ops))"
proof -
  have "ops @ [p] = before @ OpAttrs attrs # after \<longleftrightarrow>
      (after = [] \<and> before = ops \<and> p = OpAttrs attrs) \<or> (\<exists>as. after = as @ [p] \<and> ops = before @ OpAttrs attrs # as)"
    for before attrs after
    by (cases after rule: rev_cases) auto
  note eq = this
  show ?thesis unfolding eq by blast
qed

lemma replayed_iff:
  "replayed (handler_of True ops) = th_inner (handler_of False ops) \<longleftrightarrow>
     (\<forall>before attrs after. ops = before @ OpAttrs attrs # after \<longrightarrow> attrs = [] \<or> (\<forall>name. OpGroup name \<notin> set before))"
proof -
  have inner: "th_inner (handler_of True ops) = th_inner (handler_of False ops)" for ops
  proof (induction ops rule: rev_induct)
    case (snoc p ops)
    then show ?case by (cases p) (simp_all add: handler_of_snoc WithAttrs_def WithGroup_def)
  qed (simp add: handler_of_def newTextHandler_def)
  have "replayed (handler_of True ops) = th_inner (handler_of True ops) \<longleftrightarrow>
      th_attrs (handler_of True ops) = sh_Attrs (th_inner (handler_of True ops))" for ops
    using handler_of_groups(1) [of True ops] by (cases "th_inner (handler_of True ops)") (auto simp: replayed_eq)
  moreover have "th_attrs (handler_of True ops) = sh_Attrs (th_inner (handler_of True ops)) \<longleftrightarrow>
     (\<forall>before attrs after. ops = before @ OpAttrs attrs # after \<longrightarrow> attrs = [] \<or> (\<forall>name. OpGroup name \<notin> set before))"
  proof (induction ops rule: rev_induct)
    case Nil
    show ?case by (simp add: handler_of_def newTextHandler_def slog_New_def)
  next
    case (snoc p ops)
    note len = handler_of_groups(2) [of True ops]
    show ?case
    proof (cases p)
      case (OpAttrs attrs)
      then show ?thesis
        unfolding late_snoc snoc [symmetric]
        using len handler_of_groups(1,4) [of True ops] qualify_id [of "th_groups (handler_of True ops)" attrs]
        by (auto simp: handler_of_snoc WithAttrs_def slog_WithAttrs_def appendAttrs_def)
    next
      case (OpGroup name)
      then show ?thesis
        unfolding late_snoc snoc [symmetric]
        by (simp add: handler_of_snoc WithGroup_def slog_WithGroup_def)
    qed
  qed
  ultimately show ?thesis by (simp add: inner)
qed


text \<open>
  C37. A coloured line has the attributes of the plain one, under the same names, if and only if no attributes were
  added to the handler after a group was opened: the coloured line is printed by a handler to which all attributes are
  added first.
\<close>

theorem colored_line_iff:
  "replayed (handler_of True ops) = th_inner (handler_of False ops) \<longleftrightarrow>
     \<not> (\<exists>before attrs after name. ops = before @ OpAttrs attrs # after \<and> attrs \<noteq> [] \<and> OpGroup name \<in> set before)"
  unfolding replayed_iff by blast

section \<open>What the patterns let through\<close>

text \<open>
  The value of a key ends at white space: of an authorization header with another scheme than Bearer the scheme is
  redacted, and the credentials stay.
\<close>

lemma RedactText_keeps_basic_credentials:
  "RedactText ''authorization: Basic ab'' = ''authorization: [REDACTED] ab''"
proof -
  let ?s = "''authorization: Basic ab''" and ?t = "''authorization: [REDACTED] ab''"
  have "ReplaceAllString pemBlockPattern ?s = ?s"
    by (rule ReplaceAllString_id [where C = "{CHR ''-''}"]) (simp_all add: pemBlockPattern_def Plus_def Chr_def)
  moreover have "ReplaceAllString jwtPattern ?s = ?s"
    by (rule ReplaceAllString_id [where C = "{CHR ''.''}"]) (simp_all add: jwtPattern_def Chr_def)
  moreover have "ReplaceAllString jsonSensitivePattern ?t = ?t"
    by (rule ReplaceAllString_id [where C = "{CHR 0x22}"]) (simp_all add: jsonSensitivePattern_def Chr_def)
  moreover have "ReplaceAllString bearerPattern ?s = ?s" "ReplaceAllString keyValuePattern ?s = ?t" "TrimSpace ?s = ?s"
    by code_simp+
  ultimately show ?thesis by (simp add: RedactText_def Let_def)
qed


end
