(* ===== verification/StartLog.thy ===== *)
theory StartLog
  imports XrayController LogView
begin

text \<open>
  What a start request logs (\<open>internal/controller/xray_controller.go\<close>): the tables and lines of each step, and the
  start handler with its log. The handler of \<open>XrayController\<close> is this one without the log.
\<close>

section \<open>Log calls\<close>

text \<open>A line with its attributes, or a table behind its message.\<close>

datatype log_call =
    LogLine int string "(string \<times> string) list"
  | LogTab int string string

definition inbound_rows :: "Hashes \<Rightarrow> InboundRow list" where
  "inbound_rows hashes =
     map (\<lambda>(tag, count, hash). \<lparr>ir_Tag = tag, ir_UsersCount = sint count, ir_Hash = hash\<rparr>) (inboundRows hashes)"

definition logStartRequest :: "string \<Rightarrow> bool \<Rightarrow> bool \<Rightarrow> Hashes \<Rightarrow> log_call list" where
  "logStartRequest masterIP forceRestart coreRunning hashes =
     [LogTab level_Info ''Xray start request''
        (Table ''Xray start request''
           [Field ''Master IP'' (VString masterIP),
            Field ''Force Restart'' (VBool forceRestart),
            Field ''Core Running'' (VBool coreRunning),
            Field ''Incoming Inbounds'' (VInt (int (length (Inbounds hashes)))),
            Field ''Incoming Users'' (VInt (sint (totalInboundUsers hashes))),
            Field ''Empty Config Hash'' (VString (ShortHash (EmptyConfig hashes)))]),
      LogTab level_Info ''Xray start inbound hashes'' (InboundTable ''Xray start inbound hashes'' (inbound_rows hashes))]"

definition logConfigReceived :: "json_obj \<Rightarrow> log_call list" where
  "logConfigReceived config =
     [LogTab level_Info ''Xray config received''
        (Table ''Xray config received''
           [Field ''Inbounds'' (VInt (int (arrayLen (fmlookup config ''inbounds'')))),
            Field ''Outbounds'' (VInt (int (arrayLen (fmlookup config ''outbounds'')))),
            Field ''Routing Rules'' (VInt (int (routingRulesLen config))),
            Field ''Stats Enabled'' (VBool (hasMap (fmlookup config ''stats''))),
            Field ''Policy Enabled'' (VBool (hasMap (fmlookup config ''policy''))),
            Field ''Stats User Online Enabled'' (VBool (statsUserOnlineEnabled config))])]"

definition took_line :: "string \<Rightarrow> int \<Rightarrow> log_call" where
  "took_line masterIP duration =
     LogLine level_Info ''Attempt to start XTLS took'' [(''duration'', log_Duration duration), (''ip'', masterIP)]"

definition logStartFailure :: "RuntimeState \<Rightarrow> string \<Rightarrow> string option \<Rightarrow> gerror option \<Rightarrow> int \<Rightarrow> log_call list" where
  "logStartFailure s masterIP previousVersion err duration =
     (case err of
        None \<Rightarrow> []
      | Some e \<Rightarrow>
          [LogTab level_Error ''Xray failed to start''
             (Table ''Xray failed to start''
                [Field ''Previous Version'' (VStringPtr previousVersion),
                 Field ''Master IP'' (VString masterIP),
                 Field ''Internal Status'' (VBool (snap_XrayInternalStatusCached (Snapshot_of s))),
                 Field ''Error'' (VString (RedactText (Error_msg e))),
                 Field ''Duration'' (VDuration duration),
                 Field ''Diagnostics'' (VString ''previous config/hash/version preserved'')]),
           took_line masterIP duration])"

definition logRestartDecision :: "RestartDecision \<Rightarrow> log_call list" where
  "logRestartDecision dec =
     (case Reason dec of
        RestartReasonForce \<Rightarrow> [LogLine level_Warn ''Force restart requested'' []]
      | RestartReasonCoreNotRunning \<Rightarrow> [LogLine level_Info ''Xray core is not running - start required'' []]
      | RestartReasonNoPreviousHashes \<Rightarrow>
          [LogLine level_Info ''Xray Core previous configuration hash is empty - start required'' []]
      | RestartReasonEmptyConfigHashChange \<Rightarrow>
          [LogLine level_Warn ''Detected changes in Xray Core base configuration''
             [(''previous_hash'', ShortHash (PreviousHash dec)), (''incoming_hash'', ShortHash (IncomingHash dec))]]
      | RestartReasonInboundCountChange \<Rightarrow> [LogLine level_Warn ''Number of Xray Core inbounds has changed'' []]
      | RestartReasonInboundRemoved \<Rightarrow>
          [LogLine level_Warn ''Inbound no longer exists in Xray Core configuration''
             [(''tag'', InboundTag dec), (''previous_hash'', ShortHash (PreviousHash dec))]]
      | RestartReasonInboundHashChange \<Rightarrow>
          [LogLine level_Warn ''User configuration changed for inbound''
             [(''tag'', InboundTag dec), (''previous_hash'', ShortHash (PreviousHash dec)),
              (''incoming_hash'', ShortHash (IncomingHash dec))]]
      | RestartReasonNoRestart \<Rightarrow> [])"

definition logStartSuccess :: "string \<Rightarrow> string option \<Rightarrow> RestartDecision \<Rightarrow> Hashes \<Rightarrow> int \<Rightarrow> log_call list" where
  "logStartSuccess masterIP version dec hashes duration =
     [LogTab level_Info ''Xray started''
        (Table ''Xray started''
           [Field ''Version'' (VStringPtr version),
            Field ''Master IP'' (VString masterIP),
            Field ''Action''
              (VString (if Reason dec \<noteq> RestartReasonCoreNotRunning \<and> Reason dec \<noteq> RestartReasonNoPreviousHashes
                        then ''Restarted'' else ''Started'')),
            Field ''Internal Status'' (VBool True),
            Field ''Inbounds'' (VInt (int (length (Inbounds hashes)))),
            Field ''Users'' (VInt (sint (totalInboundUsers hashes))),
            Field ''Duration'' (VDuration duration)])]"

definition logHealthFailed :: "string \<Rightarrow> gerror \<Rightarrow> log_call list" where
  "logHealthFailed masterIP err =
     [LogLine level_Warn ''xray internal health check failed, restarting'' [(''error'', RedactText (Error_msg err))],
      LogTab level_Warn ''Xray health check failed - restart required''
        (Table ''Xray restart required''
           [Field ''Master IP'' (VString masterIP),
            Field ''Reason'' (VString ''health_check_failed''),
            Field ''Error'' (VString (RedactText (Error_msg err)))])]"

section \<open>The start handler with its log\<close>

definition with_log :: "log_call list \<Rightarrow> 'r \<times> log_call list \<Rightarrow> 'r \<times> log_call list" where
  "with_log before r = (fst r, before @ snd r)"

text \<open>\<open>took\<close> is the time since the request came in, in a given world.\<close>

definition start_core_logged :: "'w XrayEnv \<Rightarrow> string \<Rightarrow> ('w \<Rightarrow> int) \<Rightarrow> RestartDecision \<Rightarrow> json_map \<Rightarrow> Hashes \<Rightarrow>
    RuntimeState \<times> 'w \<Rightarrow> (StartXrayResponse response \<times> RuntimeState \<times> 'w) \<times> log_call list" where
  "start_core_logged env masterIP took dec panelConfig hashes n =
     (case n of (s, w) \<Rightarrow>
      let failed = (\<lambda>err s w. let s = syncStartFailureState env s w
                              in ((startError env err s w, (s, w)),
                                  logStartFailure s masterIP (snap_XrayVersion (Snapshot_of s)) (Some err) (took w)))
      in case Build (xe_builder env) panelConfig of
        Inl err \<Rightarrow> failed err s w
      | Inr fullConfig \<Rightarrow>
      (let w = PrepareGeodata (xe_geodata env) (Some fullConfig) w;
           received = logConfigReceived fullConfig
       in case xe_MarshalIndent env fullConfig of
         Inl err \<Rightarrow> with_log received (failed err s w)
       | Inr configBytes \<Rightarrow>
      (case core_Start (xe_core env) configBytes w of
         (Some err, w) \<Rightarrow> with_log received (failed err s w)
       | (None, w) \<Rightarrow>
           let versionPtr = (case core_Version (xe_core env) w of
                               Inl _ \<Rightarrow> None
                             | Inr version \<Rightarrow> if version \<noteq> [] then Some version else None);
               s = SetXrayStarted versionPtr (Some fullConfig) hashes s;
               s = SetInboundProtocolsFromConfig fullConfig s
           in ((Envelope StatusOK
                 \<lparr>sres_IsStarted = True, sres_Version = versionPtr, sres_Error = None,
                  sres_NodeInformation = \<lparr>nin_Version = Some (NodeVersion s)\<rparr>,
                  sres_System = systemStats env w\<rparr>, (s, w)),
               received @ logStartSuccess masterIP versionPtr dec hashes (took w) @ [took_line masterIP (took w)]))))"

definition start_guarded_logged :: "'w XrayEnv \<Rightarrow> string \<Rightarrow> ('w \<Rightarrow> int) \<Rightarrow> gerror + StartXrayRequest \<Rightarrow>
    RuntimeState \<times> 'w \<Rightarrow> (StartXrayResponse response \<times> RuntimeState \<times> 'w) \<times> log_call list" where
  "start_guarded_logged env masterIP took bound n =
     (case n of (s, w) \<Rightarrow>
      case bound of
        Inl err \<Rightarrow> ((startError env err s w, (s, w)), logStartFailure s masterIP None (Some err) (took w))
      | Inr request \<Rightarrow>
      (let hashes = HashesFromContract (si_Hashes (sxr_Internals request));
           coreRunning = core_IsRunning (xe_core env) w;
           force = si_ForceRestart (sxr_Internals request);
           dec = RestartDecision force hashes coreRunning s;
           asked = logStartRequest masterIP force coreRunning hashes @ logRestartDecision dec
       in if \<not> ShouldRestart dec then
            (case core_Health (xe_core env) w of
               None \<Rightarrow>
                 (let s = SetXrayInternalStatusCached True s;
                      snapshot = Snapshot_of s
                  in ((Envelope StatusOK
                        \<lparr>sres_IsStarted = True, sres_Version = snap_XrayVersion snapshot,
                         sres_Error = None,
                         sres_NodeInformation = \<lparr>nin_Version = Some (snap_NodeVersion snapshot)\<rparr>,
                         sres_System = systemStats env w\<rparr>, (s, w)),
                      asked @ [LogLine level_Info ''Xray Core configuration is up-to-date - no restart required''
                                 [(''duration'', log_Duration (took w))]]))
             | Some err \<Rightarrow>
                 with_log (asked @ logHealthFailed masterIP err)
                   (start_core_logged env masterIP took dec (sxr_XrayConfig request) hashes
                      (SetXrayInternalStatusCached False s, w)))
          else
            with_log asked (start_core_logged env masterIP took dec (sxr_XrayConfig request) hashes (s, w))))"

definition Start_logged :: "'w XrayEnv \<Rightarrow> string \<Rightarrow> ('w \<Rightarrow> int) \<Rightarrow> gerror + StartXrayRequest \<Rightarrow> 'w xnode \<Rightarrow>
    (StartXrayResponse response \<times> 'w xnode) \<times> log_call list" where
  "Start_logged env masterIP took bound n =
     (case tryBeginStart (startProcessing n) of
        (False, processing) \<Rightarrow>
          ((startError env (NewError ''Request already in progress'') (rt n) (world n), n),
           [LogLine level_Warn ''Request already in progress'' []])
      | (True, processing) \<Rightarrow>
          (case start_guarded_logged env masterIP took bound (rt n, world n) of
             ((response, (s, w)), log) \<Rightarrow>
               ((response, n\<lparr>startProcessing := endStart processing, rt := s, world := w\<rparr>), log)))"

definition stop_log :: "RuntimeState \<Rightarrow> gerror option \<Rightarrow> int \<Rightarrow> log_call list" where
  "stop_log s err duration =
     [LogLine level_Info ''Remnawave requested to stop Xray'' []] @
     (let snapshot = Snapshot_of s;
          running = Field ''Was Running'' (VBool (snap_XrayRunning snapshot));
          version = Field ''Version'' (VStringPtr (snap_XrayVersion snapshot))
      in (case err of
            None \<Rightarrow> []
          | Some e \<Rightarrow>
              [LogLine level_Warn ''stop xray'' [(''error'', RedactText (Error_msg e))],
               LogTab level_Warn ''Xray stop returned error''
                 (Table ''Xray stop error''
                    [running, version, Field ''Error'' (VString (RedactText (Error_msg e))),
                     Field ''Duration'' (VDuration duration)])]) @
         [LogTab level_Info ''Xray stopped''
            (Table ''Xray stopped'' [running, version, Field ''Duration'' (VDuration duration)])])"

text \<open>The snapshot that a stop reports is the one from before it.\<close>

definition Stop_logged :: "'w XrayEnv \<Rightarrow> ('w \<Rightarrow> int) \<Rightarrow> 'w xnode \<Rightarrow> (StopXrayResponse response \<times> 'w xnode) \<times> log_call list" where
  "Stop_logged env took n =
     (case core_Stop (xe_core env) (world n) of
        (err, w) \<Rightarrow>
          ((Envelope StatusOK \<lparr>stop_IsStopped = True\<rparr>, n\<lparr>rt := SetXrayRunning False (rt n), world := w\<rparr>),
           stop_log (rt n) err (took w)))"

section \<open>Properties\<close>

text \<open>An error in the log: a table of the level of errors.\<close>

definition error_logged :: "log_call list \<Rightarrow> bool" where
  "error_logged log = list_ex (\<lambda>call. case call of LogTab level _ _ \<Rightarrow> level = level_Error | LogLine level _ _ \<Rightarrow> level = level_Error) log"

lemma error_logged_append [simp]: "error_logged (a @ b) \<longleftrightarrow> error_logged a \<or> error_logged b"
  by (simp add: error_logged_def)

lemma error_logged_simps [simp]:
  "\<not> error_logged []" "\<not> error_logged (logStartRequest ip f c h)" "\<not> error_logged (logConfigReceived config)"
  "\<not> error_logged (logRestartDecision dec)" "\<not> error_logged (logStartSuccess ip v dec h d)"
  "\<not> error_logged (logHealthFailed ip e)" "error_logged (logStartFailure s ip v (Some e) d)"
  "\<not> error_logged [took_line ip d]" "error_logged [LogLine l m a] \<longleftrightarrow> l = level_Error"
  by (simp_all add: error_logged_def logStartRequest_def logConfigReceived_def logRestartDecision_def logStartSuccess_def
      logHealthFailed_def logStartFailure_def took_line_def level_Info_def level_Warn_def level_Error_def
      split: RestartReason.split)

lemma start_core_logged_eq:
  "fst (start_core_logged env ip took dec c h n) = start_core env c h n \<and>
   (error_logged (snd (start_core_logged env ip took dec c h n)) \<longleftrightarrow> \<not> is_started (fst (start_core env c h n)))"
  by (auto simp: start_core_logged_def start_core_def Let_def with_log_def split: prod.split sum.split option.split)

text \<open>
  C29. Logging changes nothing of a start, and every start that fails once it was let in is logged as an error, no
  other one: the answer and the log agree.
\<close>

theorem Start_logged_agrees:
  "fst (Start_logged env masterIP took bound n) = Start_handler env bound n \<and>
   (error_logged (snd (Start_logged env masterIP took bound n)) \<longleftrightarrow>
      \<not> startProcessing n \<and> \<not> is_started (fst (Start_handler env bound n)))"
proof -
  have guarded: "fst (start_guarded_logged env masterIP took bound m) = start_guarded env bound m \<and>
      (error_logged (snd (start_guarded_logged env masterIP took bound m)) \<longleftrightarrow>
       \<not> is_started (fst (start_guarded env bound m)))" for m
    by (auto simp: start_guarded_logged_def start_guarded_def Let_def start_core_logged_eq with_log_def
        level_Info_def level_Error_def split: prod.split sum.split option.split)
  show ?thesis
    using guarded [of "(rt n, world n)"]
    by (auto simp: Start_logged_def Start_handler_def tryBeginStart_def level_Warn_def level_Error_def split: prod.split)
qed


lemma Stop_logged_agrees: "fst (Stop_logged env took n) = Stop_handler env n"
  by (simp add: Stop_logged_def Stop_handler_def split: prod.split)

end
