(* ===== verification/Build.thy ===== *)
theory Build
  imports Regexp FilePath GoTime GoFlag
begin

text \<open>
  The build helper (\<open>cmd/rw-build\<close> and \<open>internal/buildmeta\<close>): the version file, the linker flags, and the
  call of the Go tool with its environment; and the search for the root of the project that the test kit does
  (\<open>internal/testkit/golden.go\<close>). Files, the environment and processes are parameters.
\<close>

section \<open>Version and linker flags (buildmeta.go)\<close>

definition VersionFileName :: string where "VersionFileName = ''VERSION''"

definition ascii_digit :: "char \<Rightarrow> bool" where
  "ascii_digit c \<longleftrightarrow> 48 \<le> byte c \<and> byte c \<le> 57"

definition semverPattern :: regex where
  "semverPattern =
     (let num = Plus (Cls ascii_digit); dot = Chr (CHR ''.'')
      in Seq num (Seq dot (Seq num (Seq dot (Seq num
           (Opt (Seq (OneOf ''-+'') (Plus (Cls (\<lambda>c. regex_alnum c \<or> c \<in> set ''.-''))))))))))"

record 'w build_os =
  bo_ReadFile :: "string \<Rightarrow> 'w \<Rightarrow> gerror + string"
  bo_MkdirAll :: "string \<Rightarrow> 'w \<Rightarrow> gerror option \<times> 'w"
  bo_Output :: "string list \<Rightarrow> 'w \<Rightarrow> gerror + string"
  bo_Run :: "string list \<Rightarrow> string list \<Rightarrow> 'w \<Rightarrow> gerror option \<times> 'w"
  bo_Environ :: "string list"
  bo_Getenv :: "string \<Rightarrow> string"
  bo_Now :: int
  bo_GOOS :: string
  bo_GOARCH :: string

definition ReadProjectVersion :: "'w build_os \<Rightarrow> string \<Rightarrow> 'w \<Rightarrow> gerror + string" where
  "ReadProjectVersion os repoRoot w =
     (let versionPath = path_Join repoRoot VersionFileName
      in case bo_ReadFile os versionPath w of
           Inl err \<Rightarrow> Inl (Errorf_w (''read '' @ versionPath) err)
         | Inr raw \<Rightarrow>
             (let projectVersion = TrimSpace raw
              in if projectVersion = [] then Inl (NewError (versionPath @ '' is empty''))
                 else if \<not> full_match semverPattern projectVersion
                 then Inl (NewError (versionPath @ '' must be a semver value, got: '' @ projectVersion))
                 else Inr projectVersion))"

definition version_package :: string where
  "version_package = ''github.com/x-dora/rw-node-go/internal/version.''"

definition ComposeLdflags :: "string \<Rightarrow> string \<Rightarrow> string \<Rightarrow> string" where
  "ComposeLdflags projectVersion commit buildDate =
     Join [''-s'', ''-w'', ''-buildid='',
           ''-X'', version_package @ ''ProjectVersion='' @ projectVersion,
           ''-X'', version_package @ ''Commit='' @ commit,
           ''-X'', version_package @ ''BuildDate='' @ buildDate] '' ''"

section \<open>The command (rw-build/main.go)\<close>

definition envOrFallback :: "'w build_os \<Rightarrow> string \<Rightarrow> string \<Rightarrow> string" where
  "envOrFallback os key fallback =
     (let value = TrimSpace (bo_Getenv os key) in if value \<noteq> [] then value else fallback)"

definition normalizeOutputPath :: "string \<Rightarrow> string \<Rightarrow> string" where
  "normalizeOutputPath path goOS = (if goOS = ''windows'' \<and> path_Ext path = [] then path @ ''.exe'' else path)"

definition gitCommit :: "'w build_os \<Rightarrow> string \<Rightarrow> 'w \<Rightarrow> string" where
  "gitCommit os repoRoot w =
     (case bo_Output os [''git'', ''-C'', repoRoot, ''rev-parse'', ''--short'', ''HEAD''] w of
        Inl _ \<Rightarrow> ''unknown''
      | Inr output \<Rightarrow> (let commit = TrimSpace output in if commit = [] then ''unknown'' else commit))"

text \<open>An item without an equals sign, or with one of the names, is left out.\<close>

definition env_key :: "string \<Rightarrow> string option" where
  "env_key item = (case Cut item (CHR ''='') of (key, _, found) \<Rightarrow> if found then Some key else None)"

definition filterEnv :: "string list \<Rightarrow> string list \<Rightarrow> string list" where
  "filterEnv env names =
     filter (\<lambda>item. case env_key item of None \<Rightarrow> False | Some key \<Rightarrow> key \<notin> set names) env"

record build_flags =
  bf_output :: string
  bf_package :: string
  bf_repoRoot :: string
  bf_commit :: string
  bf_buildDate :: string
  bf_goos :: string
  bf_goarch :: string

definition default_build_flags :: "'w build_os \<Rightarrow> build_flags" where
  "default_build_flags os =
     \<lparr>bf_output = ''bin/rw-node-go'', bf_package = ''./cmd/rw-node-go'', bf_repoRoot = ''.'',
      bf_commit = envOrFallback os ''COMMIT'' [],
      bf_buildDate = envOrFallback os ''BUILD_DATE'' (format_RFC3339 (bo_Now os)),
      bf_goos = bo_GOOS os, bf_goarch = bo_GOARCH os\<rparr>"

definition build_env :: "'w build_os \<Rightarrow> build_flags \<Rightarrow> string list" where
  "build_env os flags =
     filterEnv (bo_Environ os) [''CGO_ENABLED'', ''GOOS'', ''GOARCH''] @
     [''CGO_ENABLED=0'', ''GOOS='' @ bf_goos flags, ''GOARCH='' @ bf_goarch flags]"

text \<open>\<open>run\<close> behind the parsing of the flags.\<close>

definition build_run :: "'w build_os \<Rightarrow> build_flags \<Rightarrow> 'w \<Rightarrow> gerror option \<times> 'w" where
  "build_run os flags w =
     (if bf_output flags = [] then (Some (NewError ''-o must not be empty''), w)
      else let outputPath = normalizeOutputPath (bf_output flags) (bf_goos flags)
      in if bf_package flags = [] then (Some (NewError ''-package must not be empty''), w)
      else case ReadProjectVersion os (bf_repoRoot flags) w of
        Inl err \<Rightarrow> (Some err, w)
      | Inr projectVersion \<Rightarrow>
     (let commit = (if bf_commit flags = [] then gitCommit os (bf_repoRoot flags) w else bf_commit flags)
      in case bo_MkdirAll os (path_Dir outputPath) w of
        (Some err, w) \<Rightarrow> (Some (Errorf_w ''create output directory'' err), w)
      | (None, w) \<Rightarrow>
          (case bo_Run os
             [''go'', ''build'', ''-trimpath'', ''-buildvcs=false'', ''-o'', outputPath, ''-ldflags'',
              ComposeLdflags projectVersion commit (bf_buildDate flags), bf_package flags]
             (build_env os flags) w of
             (err, w) \<Rightarrow> (map_option (Errorf_w ''go build'') err, w))))"

definition build_flagset :: "build_flags flagset" where
  "build_flagset =
     [(''o'', StringVar (\<lambda>v f. f\<lparr>bf_output := v\<rparr>)), (''package'', StringVar (\<lambda>v f. f\<lparr>bf_package := v\<rparr>)),
      (''repo-root'', StringVar (\<lambda>v f. f\<lparr>bf_repoRoot := v\<rparr>)), (''commit'', StringVar (\<lambda>v f. f\<lparr>bf_commit := v\<rparr>)),
      (''build-date'', StringVar (\<lambda>v f. f\<lparr>bf_buildDate := v\<rparr>)), (''goos'', StringVar (\<lambda>v f. f\<lparr>bf_goos := v\<rparr>)),
      (''goarch'', StringVar (\<lambda>v f. f\<lparr>bf_goarch := v\<rparr>))]"

definition build_command :: "'w build_os \<Rightarrow> string list \<Rightarrow> 'w \<Rightarrow> gerror option \<times> 'w" where
  "build_command os args w =
     (case flag_Parse build_flagset args (default_build_flags os) of
        Inl err \<Rightarrow> (Some err, w) | Inr (flags, _) \<Rightarrow> build_run os flags w)"

text \<open>\<open>main\<close>: the exit code and the line on standard error.\<close>

definition build_main :: "'w build_os \<Rightarrow> string list \<Rightarrow> 'w \<Rightarrow> (int \<times> string list) \<times> 'w" where
  "build_main os args w =
     (case build_command os args w of
        (Some err, w) \<Rightarrow> ((1, [''rw-build failed: '' @ Error_msg err]), w)
      | (None, w) \<Rightarrow> ((0, []), w))"

section \<open>The root of the project (golden.go)\<close>

text \<open>
  The nearest directory upwards that has a \<open>go.mod\<close>, or \<open>Some None\<close> when the test is failed at the top; \<open>None\<close> would be a
  search that goes on for ever.
\<close>

partial_function (option) ProjectRoot :: "(string \<Rightarrow> bool) \<Rightarrow> string \<Rightarrow> string option option" where
  "ProjectRoot exists dir =
     (if exists (path_Join dir ''go.mod'') then Some (Some dir)
      else if path_Dir dir = dir then Some None
      else ProjectRoot exists (path_Dir dir))"

section \<open>Properties\<close>

text \<open>A version that was read consists of one word, which cannot add flags to the line of the linker.\<close>

definition version_chars :: "char set" where
  "version_chars = {c. regex_alnum c} \<union> set ''.-+''"

lemma ReadProjectVersion_chars: "ReadProjectVersion os root w = Inr v \<Longrightarrow> v \<noteq> [] \<and> set v \<subseteq> version_chars"
proof -
  assume "ReadProjectVersion os root w = Inr v"
  then have v: "v \<noteq> []" "full_match semverPattern v"
    by (auto simp: ReadProjectVersion_def Let_def split: sum.splits if_splits)
  have "{c. ascii_digit c} \<subseteq> version_chars"
    by (auto simp: version_chars_def ascii_digit_def regex_alnum_def Let_def)
  then have "only version_chars semverPattern"
    by (auto simp: semverPattern_def Plus_def Opt_def Chr_def OneOf_def version_chars_def Let_def)
  with v full_match_only show ?thesis by blast
qed

lemma ComposeLdflags_fields:
  assumes "CHR '' '' \<notin> set v" "CHR '' '' \<notin> set commit" "CHR '' '' \<notin> set date"
  shows "Split (ComposeLdflags v commit date) '' '' =
    [''-s'', ''-w'', ''-buildid='', ''-X'', version_package @ ''ProjectVersion='' @ v,
     ''-X'', version_package @ ''Commit='' @ commit, ''-X'', version_package @ ''BuildDate='' @ date]"
  unfolding ComposeLdflags_def
  by (rule Split_Join_char) (use assms in \<open>auto simp: version_package_def\<close>)

text \<open>
  The Go tool is run for the target that was asked for: each of the three variables is set exactly once, to
  its value, and every other variable of the environment is passed on.
\<close>

definition items_of :: "string \<Rightarrow> string list \<Rightarrow> string list" where
  "items_of key env = filter (\<lambda>item. env_key item = Some key) env"

lemma env_key_at: "CHR ''='' \<notin> set k \<Longrightarrow> env_key (k @ CHR ''='' # v) = Some k"
  by (induction k) (auto simp: env_key_def Cut_def split: list.splits)

lemma items_of_append: "items_of key (a @ b) = items_of key a @ items_of key b"
  by (simp add: items_of_def)

lemma items_of_filterEnv: "items_of key (filterEnv env names) = (if key \<in> set names then [] else items_of key env)"
  by (induction env) (auto simp: items_of_def filterEnv_def split: option.splits)

theorem build_env_target:
  "items_of ''CGO_ENABLED'' (build_env os flags) = [''CGO_ENABLED=0''] \<and>
   items_of ''GOOS'' (build_env os flags) = [''GOOS='' @ bf_goos flags] \<and>
   items_of ''GOARCH'' (build_env os flags) = [''GOARCH='' @ bf_goarch flags] \<and>
   {key. items_of key (build_env os flags) \<noteq> items_of key (bo_Environ os)} \<subseteq> {''CGO_ENABLED'', ''GOOS'', ''GOARCH''}"
proof -
  have keys: "env_key ''CGO_ENABLED=0'' = Some ''CGO_ENABLED''" "env_key (''GOOS='' @ x) = Some ''GOOS''"
    "env_key (''GOARCH='' @ x) = Some ''GOARCH''" for x
    using env_key_at [of "''CGO_ENABLED''" "''0''"] env_key_at [of "''GOOS''" x] env_key_at [of "''GOARCH''" x]
    by simp_all
  have "items_of key (build_env os flags) =
      (if key \<in> {''CGO_ENABLED'', ''GOOS'', ''GOARCH''} then [] else items_of key (bo_Environ os)) @
      items_of key [''CGO_ENABLED=0'', ''GOOS='' @ bf_goos flags, ''GOARCH='' @ bf_goarch flags]" for key
    unfolding build_env_def items_of_append items_of_filterEnv by simp
  with keys show ?thesis by (auto simp: items_of_def)
qed

lemma path_Dir_snoc:
  assumes "list_all plain_elem (es @ [e])"
  shows "path_Dir (path_of True (es @ [e])) = path_of True es"
proof -
  have e: "CHR ''/'' \<notin> set e" and es: "list_all plain_elem es" using assms by (auto simp: plain_elem_def)
  let ?pre = "''/'' @ Join es ''/'' @ (if es = [] then [] else ''/'')"
  have path: "path_of True (es @ [e]) = ?pre @ e"
  proof -
    have "Join (es @ [e]) ''/'' = Join es ''/'' @ (if es = [] then [] else ''/'') @ e"
      by (induction es rule: induct_list012) auto
    then show ?thesis by (simp add: path_of_def)
  qed
  have "takeWhile (\<lambda>c. c \<noteq> CHR ''/'') (rev (?pre @ e)) = rev e"
    using e by (cases "es = []") (auto simp: takeWhile_append)
  then have last: "last_elem (?pre @ e) = e" by (simp only: last_elem_def rev_rev_ident)
  have "Join (es @ [[]]) ''/'' = Join es ''/'' @ (if es = [] then [] else ''/'')"
    by (induction es rule: induct_list012) auto
  then have pre: "?pre = Join ([] # es @ [[]]) ''/''" by (simp add: Join_Cons)
  have "CHR ''/'' \<notin> set x" if "x \<in> set ([] # es @ [[]])" for x
  proof (cases "x = []")
    case False
    then have "x \<in> set es" using that by auto
    with es have "plain_elem x" unfolding list_all_iff by (rule bspec)
    then show ?thesis unfolding plain_elem_def by blast
  qed simp
  then have "Split ?pre ''/'' = [] # es @ [[]]"
    unfolding pre by (intro Split_Join_char) simp
  then have "clean_elems ?pre = es"
    using es by (simp add: clean_elems_def is_rooted_def clean_elem_def fold_clean_plain)
  then show ?thesis
    unfolding path path_Dir_def last by (simp add: Clean_def is_rooted_def)
qed

text \<open>
  The search for the root of the project ends, from every clean absolute directory: it finds the nearest directory
  upwards with a \<open>go.mod\<close>, or comes to the top and fails the test.
\<close>

theorem ProjectRoot_nearest:
  assumes "list_all plain_elem es"
  shows "ProjectRoot exists (path_of True es) =
    Some (find (\<lambda>dir. exists (path_Join dir ''go.mod'')) (map (path_of True) (rev (prefixes es))))"
  using assms
proof (induction es rule: rev_induct)
  case Nil
  have "path_Dir ''/'' = ''/''" by code_simp
  then show ?case by (subst ProjectRoot.simps) (simp add: path_of_def)
next
  case (snoc e es)
  have "path_of True (es @ [e]) \<noteq> path_of True es"
  proof -
    have "length (Join (es @ [e]) ''/'') > length (Join es ''/'')"
      using snoc.prems by (induction es rule: induct_list012) (auto simp: plain_elem_def)
    then show ?thesis by (auto simp: path_of_def)
  qed
  with snoc path_Dir_snoc [OF snoc.prems] show ?case by (subst ProjectRoot.simps) simp
qed

theorem ProjectRoot_nearest_witness:
  "ProjectRoot (\<lambda>p. p = ''/src/go.mod'') ''/src/internal/testkit'' = Some (Some ''/src'')"
proof -
  have "list_all plain_elem [''src'', ''internal'', ''testkit'']"
    "find (\<lambda>dir. path_Join dir ''go.mod'' = ''/src/go.mod'')
       (map (path_of True) (rev (prefixes [''src'', ''internal'', ''testkit'']))) = Some ''/src''"
    "path_of True [''src'', ''internal'', ''testkit''] = ''/src/internal/testkit''"
    by code_simp+
  with ProjectRoot_nearest [of "[''src'', ''internal'', ''testkit'']" "\<lambda>p. p = ''/src/go.mod''"] show ?thesis by simp
qed

lemma ProjectRoot_returns: "list_all plain_elem es \<Longrightarrow> \<exists>r. ProjectRoot exists (path_of True es) = Some r"
  by (simp add: ProjectRoot_nearest)

text \<open>Without a version that can be read, or with flags that cannot, nothing is built.\<close>

lemma build_command_refused:
  "flag_Parse build_flagset args (default_build_flags os) = Inl err \<Longrightarrow> build_command os args w = (Some err, w)"
  "flag_Parse build_flagset args (default_build_flags os) = Inr (flags, rest) \<Longrightarrow>
     ReadProjectVersion os (bf_repoRoot flags) w = Inl err \<Longrightarrow>
     \<exists>err. build_command os args w = (Some err, w)"
  by (auto simp: build_command_def build_run_def Let_def)

end
