(* ===== verification/Program.thy ===== *)
theory Program
  imports Api LogView
begin

text \<open>
  The main program of the node (\<open>cmd/rw-node-go/main.go\<close>): load the configuration, build the node and its
  servers, serve until a signal or an error, and end with an exit code.
\<close>

datatype program_log = LoadFailed gerror | CreateFailed gerror | ShutdownFailed gerror | ServerFailed gerror | CloseFailed gerror

text \<open>
  What ends the wait: a signal, by when the serving goroutine has brought the world to \<open>pg_Serving\<close>, or the return of
  \<open>ListenAndServe\<close>. \<open>pg_CloseSnapshot\<close> is the deferred close of the system snapshotter, which \<open>os.Exit\<close> skips.
\<close>

record 'w program_os =
  pg_Signalled :: "'w \<Rightarrow> bool"
  pg_Serving :: "'w \<Rightarrow> 'w"
  pg_CloseSnapshot :: "'w \<Rightarrow> gerror option \<times> 'w"
  pg_Now :: int

definition main_return :: "'w program_os \<Rightarrow> 'w \<Rightarrow> int \<times> program_log list \<times> 'w" where
  "main_return os w =
     (case pg_CloseSnapshot os w of
        (Some err, w) \<Rightarrow> (0, [CloseFailed err], w) | (None, w) \<Rightarrow> (0, [], w))"

definition main_wait :: "'w program_os \<Rightarrow> 'w net_os \<Rightarrow> ('k, 'pool, 'p) Server \<Rightarrow> 'w \<Rightarrow> int \<times> program_log list \<times> 'w" where
  "main_wait os net server w =
     (if pg_Signalled os w then
        (case server_Shutdown net (pg_Serving os w) of
           (Some err, w) \<Rightarrow> (1, [ShutdownFailed err], w)
         | (None, w) \<Rightarrow> main_return os w)
      else
        (case ListenAndServe net server w of
           (Some err, w) \<Rightarrow>
             if \<not> errors_Is err ErrServerClosed then (1, [ServerFailed err], w) else main_return os w
         | (None, w) \<Rightarrow> main_return os w))"

definition main_program :: "'w program_os \<Rightarrow> ('c, 'p, 'k, 'pool) server_libs \<Rightarrow> 'w net_os \<Rightarrow>
    (gerror \<times> bool) option \<Rightarrow> env \<Rightarrow> 'w \<Rightarrow> int \<times> program_log list \<times> 'w" where
  "main_program os libs net dotenv getenv w =
     (case Load dotenv getenv of
        Inl err \<Rightarrow> (1, [LoadFailed err], w)
      | Inr cfg \<Rightarrow>
     (case NewServer libs (pg_Now os) cfg of
        Inl err \<Rightarrow> (1, [CreateFailed err], w)
      | Inr server \<Rightarrow> main_wait os net server w))"

text \<open>
  The program ends with code 0 exactly after a clean shutdown or when the servers were closed; without a valid
  configuration and server it ends with code 1 before anything is opened.
\<close>

lemma main_return_code: "fst (main_return os w) = 0"
  by (simp add: main_return_def split: prod.split option.split)

lemma main_wait_code:
  "fst (main_wait os net server w) = 0 \<longleftrightarrow>
     (if pg_Signalled os w then fst (server_Shutdown net (pg_Serving os w)) = None
      else fst (ListenAndServe net server w) = None \<or>
           (\<exists>err. fst (ListenAndServe net server w) = Some err \<and> errors_Is err ErrServerClosed))"
  by (cases "server_Shutdown net (pg_Serving os w)"; cases "ListenAndServe net server w")
    (auto simp: main_wait_def main_return_code split: option.split)

lemma main_program_code:
  "fst (main_program os libs net dotenv getenv w) = 0 \<longleftrightarrow>
     (\<exists>cfg server. Load dotenv getenv = Inr cfg \<and> NewServer libs (pg_Now os) cfg = Inr server \<and>
        (if pg_Signalled os w then fst (server_Shutdown net (pg_Serving os w)) = None
         else fst (ListenAndServe net server w) = None \<or>
              (\<exists>err. fst (ListenAndServe net server w) = Some err \<and> errors_Is err ErrServerClosed)))"
  by (auto simp: main_program_def main_wait_code split: sum.split)

lemma main_program_refused:
  "Load dotenv getenv = Inl err \<Longrightarrow> main_program os libs net dotenv getenv w = (1, [LoadFailed err], w)"
  "Load dotenv getenv = Inr cfg \<Longrightarrow> NewServer libs (pg_Now os) cfg = Inl err \<Longrightarrow>
     main_program os libs net dotenv getenv w = (1, [CreateFailed err], w)"
  by (simp_all add: main_program_def)

end
