(* ===== verification/Pem.thy ===== *)
theory Pem
  imports Tls
begin

text \<open>
  PEM texts: \<open>encoding/pem\<close> of Go's standard library as the code uses it (blocks without headers are
  written, the first block of a text is read), and the round trip through the normalisation that the secret
  key gets in \<open>DecodeSecretKey\<close>.
\<close>

section \<open>Writing a block\<close>

text \<open>The base64 text in lines of 64 characters.\<close>

function pem_lines :: "string \<Rightarrow> string list" where
  "pem_lines s = (if s = [] then [] else take 64 s # pem_lines (drop 64 s))"
  by pat_completeness auto
termination by (relation "measure length") auto

declare pem_lines.simps [simp del]

definition dashes :: string where "dashes = ''-----''"

text \<open>\<open>encodePEM\<close> of the test kit: \<open>pem.EncodeToMemory\<close> of a block with a type and bytes only.\<close>

definition encodePEM :: "string \<Rightarrow> string \<Rightarrow> string" where
  "encodePEM blockType data =
     ''-----BEGIN '' @ blockType @ dashes @ LF @
     concat (map (\<lambda>line. line @ LF) (pem_lines (EncodeToString data))) @
     ''-----END '' @ blockType @ dashes @ LF"

section \<open>Reading a block\<close>

text \<open>\<open>bytes.Cut\<close>: what is before and after the first occurrence.\<close>

fun bytes_Cut :: "string \<Rightarrow> string \<Rightarrow> (string \<times> string) option" where
  "bytes_Cut [] sep = (if sep = [] then Some ([], []) else None)"
| "bytes_Cut (c # s) sep =
     (if prefix sep (c # s) then Some ([], drop (length sep) (c # s))
      else map_option (\<lambda>(before, after). (c # before, after)) (bytes_Cut s sep))"

definition trim_blanks :: "string \<Rightarrow> string" where
  "trim_blanks s = rev (dropWhile (\<lambda>c. c = CHR '' '' \<or> c = CHR 0x09) (rev s))"

text \<open>The first line, without its line end and the blanks before it, and the rest.\<close>

definition getLine :: "string \<Rightarrow> string \<times> string" where
  "getLine data =
     (let line = takeWhile (\<lambda>c. c \<noteq> CHR 0x0A) data;
          rest = drop (length line) data
      in (trim_blanks (if rest \<noteq> [] \<and> line \<noteq> [] \<and> last line = CHR 0x0D then butlast line else line), tl rest))"

lemma getLine_rest: "length (snd (getLine data)) \<le> length data - 1"
  by (simp add: getLine_def Let_def)

text \<open>The lines with a colon at the start are headers: whether there are any, and what follows; \<open>None\<close> at the end.\<close>

function pem_headers :: "bool \<Rightarrow> string \<Rightarrow> (bool \<times> string) option" where
  "pem_headers found rest =
     (if rest = [] then None
      else case getLine rest of (line, next) \<Rightarrow>
        if CHR '':'' \<in> set line then pem_headers True next else Some (found, rest))"
  by pat_completeness auto
termination
proof (relation "measure (\<lambda>(found, rest). length rest)")
  fix rest line "next" :: string and found
  assume "rest \<noteq> []" "(line, next) = getLine rest"
  then show "((True, next), (found, rest)) \<in> measure (\<lambda>(found, rest). length rest)"
    using getLine_rest [of rest] by (cases rest) (auto dest: arg_cong [of _ _ snd])
qed auto

declare pem_headers.simps [simp del]

lemma pem_headers_rest: "pem_headers found rest = Some (h, body) \<Longrightarrow> length body \<le> length rest"
proof (induction found rest rule: pem_headers.induct)
  case (1 found rest)
  obtain line "next" where l: "getLine rest = (line, next)" by fastforce
  then have "length next \<le> length rest" using getLine_rest [of rest] by simp
  with 1 l show ?case
    by (simp add: pem_headers.simps [of found rest] split: if_splits)
qed

text \<open>The body up to the end line, and what follows that line's marker.\<close>

definition pem_body :: "bool \<Rightarrow> string \<Rightarrow> (string \<times> string) option" where
  "pem_body headers rest =
     (if \<not> headers \<and> prefix ''-----END '' rest then Some ([], drop 9 rest)
      else bytes_Cut rest (CHR 0x0A # ''-----END ''))"

definition pem_block :: "string \<Rightarrow> (string \<times> string) option \<Rightarrow> string option" where
  "pem_block typeLine found =
     (case found of
        None \<Rightarrow> None
      | Some (body, trailer) \<Rightarrow>
          let n = length typeLine + 5
          in if length trailer < n \<or> \<not> prefix typeLine trailer \<or> \<not> suffix dashes (take n trailer) \<or>
                fst (getLine (drop n trailer)) \<noteq> []
             then None
             else DecodeString (filter (\<lambda>c. c \<noteq> CHR '' '' \<and> c \<noteq> CHR 0x09) body))"

text \<open>The text after the next begin marker, which starts a line.\<close>

definition pem_start :: "string \<Rightarrow> string option" where
  "pem_start rest =
     (if prefix ''-----BEGIN '' rest then Some (drop 11 rest)
      else map_option snd (bytes_Cut rest (CHR 0x0A # ''-----BEGIN '')))"

lemma bytes_Cut_rest: "bytes_Cut s sep = Some (a, b) \<Longrightarrow> length b + length sep \<le> length s"
  by (induction s sep arbitrary: a b rule: bytes_Cut.induct) (auto dest: prefix_length_le split: if_splits)

lemma pem_start_rest: "pem_start rest = Some after \<Longrightarrow> length after < length rest"
  by (auto simp: pem_start_def dest!: prefix_length_le bytes_Cut_rest split: if_splits)

lemma pem_next_rest:
  "pem_start rest = Some after \<Longrightarrow> (typeLine, next) = getLine after \<Longrightarrow> length next < length rest"
  using pem_start_rest [of rest after] getLine_rest [of after] by (auto dest: arg_cong [of _ _ snd])

text \<open>\<open>pem.Decode\<close>: the type and the bytes of the first block that is well-formed.\<close>

function pem_Decode :: "string \<Rightarrow> (string \<times> string) option" where
  "pem_Decode rest =
     (case pem_start rest of
        None \<Rightarrow> None
      | Some after \<Rightarrow>
     (case getLine after of (typeLine, next) \<Rightarrow>
        if \<not> suffix dashes typeLine then pem_Decode next
        else case pem_headers False next of
          None \<Rightarrow> None
        | Some (headers, body) \<Rightarrow>
            (let blockType = take (length typeLine - 5) typeLine
             in case pem_block blockType (pem_body headers body) of
                  None \<Rightarrow> pem_Decode body
                | Some data \<Rightarrow> Some (blockType, data))))"
  by pat_completeness auto
termination
  by (relation "measure length")
    (auto dest: pem_next_rest pem_headers_rest [THEN le_less_trans, OF _ pem_next_rest])

declare pem_Decode.simps [simp del]

section \<open>The lines of a block\<close>

lemma concat_pem_lines: "concat (pem_lines s) = s"
  by (induction s rule: pem_lines.induct) (subst pem_lines.simps, simp)

lemma pem_lines_mem: "l \<in> set (pem_lines s) \<Longrightarrow> l \<noteq> [] \<and> set l \<subseteq> set s"
proof (induction s rule: pem_lines.induct)
  case (1 s)
  then show ?case
    by (subst (asm) (2) pem_lines.simps) (auto split: if_splits dest: in_set_takeD in_set_dropD)
qed

lemma pem_lines_Nil: "pem_lines s = [] \<longleftrightarrow> s = []"
  by (subst pem_lines.simps) simp

lemma b64_char_base64: "base64_char (b64_char n)"
proof (cases "n < 64")
  case True
  then show ?thesis by (auto simp: b64_char_def base64_char_def less_eq_char_def)
qed (simp add: b64_char_def base64_char_def)

lemma EncodeToString_base64: "c \<in> set (EncodeToString s) \<Longrightarrow> base64_char c"
  by (induction s rule: EncodeToString.induct)
    (auto simp: Let_def b64_char_base64 base64_char_def [of "CHR ''=''"])

definition pem_text :: "string \<Rightarrow> string \<Rightarrow> string list" where
  "pem_text blockType data =
     (''-----BEGIN '' @ blockType @ dashes) # pem_lines (EncodeToString data) @ [''-----END '' @ blockType @ dashes]"

lemma concat_LF: "concat (map (\<lambda>line. line @ LF) ls) @ x = Join (ls @ [x]) LF"
  by (induction ls rule: induct_list012) simp_all

lemma encodePEM_Join: "encodePEM blockType data = Join (pem_text blockType data) LF @ LF"
proof -
  have "encodePEM blockType data =
      (''-----BEGIN '' @ blockType @ dashes) @ LF @ (concat (map (\<lambda>line. line @ LF) (pem_lines (EncodeToString data))) @
        (''-----END '' @ blockType @ dashes)) @ LF"
    by (simp add: encodePEM_def)
  then show ?thesis unfolding concat_LF by (simp add: pem_text_def Join_Cons)
qed

section \<open>A block survives normalisation\<close>

lemma rune_at_solid:
  assumes "rs = space_runes \<or> rs = map rev space_runes" "c \<notin> space_bytes"
  shows "rune_at rs (c # s) = 0"
proof -
  have "\<not> prefix r (c # s)" if "r \<in> set rs" for r
  proof
    assume "prefix r (c # s)"
    moreover have "r \<noteq> []" "set r \<subseteq> space_bytes"
      using that assms(1) space_runes_nonempty unfolding space_bytes_def by (auto, blast)
    ultimately show False using assms(2) by (cases r) auto
  qed
  then show ?thesis using assms(1) rune_at_0_iff by (metis space_runes_nonempty)
qed

lemma trimmed_solid:
  assumes "s \<noteq> []" "hd s \<notin> space_bytes" "last s \<notin> space_bytes"
  shows "trimmed s"
proof -
  obtain c t where "s = c # t" using assms(1) by (cases s) auto
  moreover obtain d u where "rev s = d # u" "d = last s" using assms(1) by (cases s rule: rev_cases) auto
  ultimately show ?thesis using assms(2,3) rune_at_solid by (metis trimmed_def list.sel(1))
qed

lemma TrimSpace_snoc_LF:
  assumes "s \<noteq> []" "trimmed s" "hd s \<notin> space_bytes"
  shows "TrimSpace (s @ LF) = s"
proof -
  obtain c t where s: "s = c # t" using assms(1) by (cases s) auto
  then have "rune_at space_runes (s @ LF) = 0" using assms(3) rune_at_solid by simp
  then have "TrimSpace (s @ LF) = rev (strip (map rev space_runes) (CHR 0x0A # rev s))"
    by (simp add: TrimSpace_def strip_id LF_def)
  also have "rune_at (map rev space_runes) (CHR 0x0A # rev s) = 1"
    by (simp add: rune_at_def space_runes_def)
  then have "strip (map rev space_runes) (CHR 0x0A # rev s) = strip (map rev space_runes) (rev s)"
    by (subst strip.simps) simp
  also have "\<dots> = rev s" using assms(2) by (simp add: trimmed_def strip_id)
  finally show ?thesis by simp
qed

lemma base64_solid: "base64_char c \<Longrightarrow> c \<notin> space_bytes" "CHR ''-'' \<notin> space_bytes"
  using space_bytes_junk by blast+

text \<open>A type as the code uses them: upper case letters and spaces.\<close>

definition plain_type :: "string \<Rightarrow> bool" where
  "plain_type t \<longleftrightarrow> (\<forall>c\<in>set t. (65 \<le> byte c \<and> byte c \<le> 90) \<or> c = CHR '' '')"

lemma plain_type_chars:
  "plain_type t \<Longrightarrow> c \<in> set t \<Longrightarrow> c \<noteq> CHR 0x0A \<and> c \<noteq> CHR 0x0D \<and> c \<noteq> CHR 0x5C \<and> c \<noteq> CHR '':''"
  by (auto simp: plain_type_def)

lemma base64_chars:
  "base64_char c \<Longrightarrow> c \<noteq> CHR 0x0A \<and> c \<noteq> CHR 0x0D \<and> c \<noteq> CHR 0x5C \<and> c \<noteq> CHR '':'' \<and> c \<noteq> CHR ''-'' \<and>
     c \<noteq> CHR '' '' \<and> c \<noteq> CHR 0x09"
  by (auto simp: base64_char_def less_eq_char_def)

lemma pem_line_cases:
  assumes "l \<in> set (pem_text t data)"
  obtains "l = ''-----BEGIN '' @ t @ dashes" | "l = ''-----END '' @ t @ dashes"
    | "l \<noteq> []" "\<forall>c\<in>set l. base64_char c"
  using assms pem_lines_mem EncodeToString_base64 unfolding pem_text_def by fastforce

definition line_char :: "char \<Rightarrow> bool" where
  "line_char c \<longleftrightarrow> c \<noteq> CHR 0x0A \<and> c \<noteq> CHR 0x0D \<and> c \<noteq> CHR 0x5C"

lemma line_chars:
  "list_all line_char l \<Longrightarrow> CHR 0x0A \<notin> set l \<and> CHR 0x0D \<notin> set l \<and> CHR 0x5C \<notin> set l"
  by (auto simp: list_all_iff line_char_def)

lemma pem_text_line:
  assumes "plain_type t" "l \<in> set (pem_text t data)"
  shows "l \<noteq> [] \<and> trimmed l \<and> list_all line_char l"
proof -
  have t: "list_all line_char t"
    unfolding list_all_iff line_char_def using plain_type_chars [OF assms(1)] by blast
  have marker: "list_all line_char ''-----BEGIN ''" "list_all line_char ''-----END ''" "list_all line_char ''-----''"
    by (simp_all add: line_char_def)
  from assms(2) show ?thesis
  proof (cases rule: pem_line_cases)
    case 1
    have "trimmed l" by (rule trimmed_solid) (simp_all add: 1 dashes_def base64_solid(2))
    with 1 t marker show ?thesis by (simp only: list_all_append dashes_def) simp
  next
    case 2
    have "trimmed l" by (rule trimmed_solid) (simp_all add: 2 dashes_def base64_solid(2))
    with 2 t marker show ?thesis by (simp only: list_all_append dashes_def) simp
  next
    case 3
    then have "trimmed l" using base64_solid(1) by (intro trimmed_solid) (auto dest: hd_in_set last_in_set)
    moreover have "list_all line_char l"
      unfolding list_all_iff line_char_def using 3 base64_chars by blast
    ultimately show ?thesis using 3 by blast
  qed
qed

lemma pem_text_lines:
  assumes "plain_type t" "l \<in> set (pem_text t data)"
  shows "l \<noteq> []" "trimmed l" "CHR 0x0A \<notin> set l" "CHR 0x0D \<notin> set l" "CHR 0x5C \<notin> set l"
  using pem_text_line [OF assms] line_chars by blast+

lemma squeeze_id: "(\<And>l. l \<in> set ls \<Longrightarrow> l \<noteq> [] \<and> trimmed l) \<Longrightarrow> squeeze ls b = ls"
  by (induction ls b rule: squeeze.induct) (auto simp: TrimSpace_trimmed Let_def)

lemma set_Join: "set (Join ls LF) \<subseteq> insert (CHR 0x0A) (\<Union>l\<in>set ls. set l)"
  by (induction ls rule: induct_list012) (auto simp: LF_def)

lemma pem_text_solid:
  "Join (pem_text t data) LF \<noteq> []" "hd (Join (pem_text t data) LF) = CHR ''-''"
  "last (Join (pem_text t data) LF) = CHR ''-''"
proof -
  have "Join (pem_text t data) LF = ''-'' @ (''----BEGIN '' @ t @ dashes @ LF @
      concat (map (\<lambda>line. line @ LF) (pem_lines (EncodeToString data))) @ ''-----END '' @ t @ ''----'') @ ''-''"
    using concat_LF [of "pem_lines (EncodeToString data)" "''-----END '' @ t @ dashes"]
    by (simp add: pem_text_def Join_Cons dashes_def)
  then show "Join (pem_text t data) LF \<noteq> []" "hd (Join (pem_text t data) LF) = CHR ''-''"
    "last (Join (pem_text t data) LF) = CHR ''-''" by simp_all
qed

lemma NormalizePEM_text:
  assumes "plain_type t" "s \<in> {Join (pem_text t data) LF, encodePEM t data}"
  shows "NormalizePEM s = Join (pem_text t data) LF"
proof -
  let ?t = "Join (pem_text t data) LF"
  note lines = pem_text_lines [OF assms(1)]
  have s: "s = ?t \<or> s = ?t @ LF" using assms(2) by (auto simp: encodePEM_Join)
  then have "CHR 0x5C \<notin> set s" "CHR 0x0D \<notin> set s"
    using set_Join [of "pem_text t data"] lines(4,5) by (auto simp: LF_def)
  then have "ReplaceAll (ReplaceAll s [CHR 0x5C, CHR ''n''] LF) [CHR 0x0D, CHR 0x0A] LF = s"
    by (simp add: ReplaceAll_def Split_no_char)
  moreover have "trimmed ?t" using base64_solid(2) pem_text_solid [of t data] by (simp add: trimmed_solid)
  moreover from this have "TrimSpace s = ?t"
    using s base64_solid(2) pem_text_solid [of t data] by (auto simp: TrimSpace_trimmed TrimSpace_snoc_LF)
  moreover have "Split ?t LF = pem_text t data"
    unfolding LF_def using lines(3) by (intro Split_Join_char) (simp_all add: pem_text_def)
  moreover have "squeeze (pem_text t data) False = pem_text t data" using lines(1,2) by (intro squeeze_id) blast
  ultimately show ?thesis by (simp add: NormalizePEM_def Let_def TrimSpace_trimmed)
qed

section \<open>A block is read back\<close>

lemma bytes_Cut_dash:
  "CHR ''-'' \<notin> set a \<Longrightarrow> bytes_Cut (a @ CHR 0x0A # CHR ''-'' # sep @ b) (CHR 0x0A # CHR ''-'' # sep) = Some (a, b)"
proof (induction a)
  case (Cons c a)
  then show ?case by (cases a) auto
qed simp

lemma trim_blanks_id: "l = [] \<or> last l \<noteq> CHR '' '' \<and> last l \<noteq> CHR 0x09 \<Longrightarrow> trim_blanks l = l"
  by (cases l rule: rev_cases) (auto simp: trim_blanks_def)

lemma getLine_LF:
  assumes "CHR 0x0A \<notin> set l" "l = [] \<or> last l \<notin> {CHR '' '', CHR 0x09, CHR 0x0D}"
  shows "getLine (l @ CHR 0x0A # s) = (l, s)" "getLine l = (l, [])"
proof -
  have l: "takeWhile (\<lambda>c. c \<noteq> CHR 0x0A) (l @ CHR 0x0A # s) = l" "takeWhile (\<lambda>c. c \<noteq> CHR 0x0A) l = l"
    using assms(1) by (auto simp: takeWhile_append takeWhile_eq_all_conv)
  have trim: "trim_blanks l = l" by (rule trim_blanks_id) (use assms(2) in blast)
  have cr: "\<not> (r \<noteq> [] \<and> l \<noteq> [] \<and> last l = CHR 0x0D)" for r :: string using assms(2) by blast
  show "getLine (l @ CHR 0x0A # s) = (l, s)" "getLine l = (l, [])"
    unfolding getLine_def Let_def l if_not_P [OF cr] trim by simp_all
qed

lemma solid_last: "last l \<notin> space_bytes \<Longrightarrow> last l \<notin> {CHR '' '', CHR 0x09, CHR 0x0D}"
  by (auto simp: space_bytes_def space_runes_def)

lemma pem_block_plain:
  assumes "fst (getLine t) = []" "DecodeString (filter (\<lambda>c. c \<noteq> CHR '' '' \<and> c \<noteq> CHR 0x09) body) = Some data"
  shows "pem_block ty (Some (body, ty @ dashes @ t)) = Some data"
  using assms by (simp add: pem_block_def dashes_def suffix_def)

lemma DecodeString_lines: "DecodeString (Join (pem_lines (EncodeToString data)) LF) = Some data"
proof -
  have "filter (\<lambda>c. c \<noteq> CHR 0x0A \<and> c \<noteq> CHR 0x0D) (Join ls LF) = concat ls"
    if "\<And>c. c \<in> set (concat ls) \<Longrightarrow> c \<noteq> CHR 0x0A \<and> c \<noteq> CHR 0x0D" for ls
    using that by (induction ls rule: induct_list012) (auto simp: LF_def intro: filter_True)
  moreover have "\<And>c. c \<in> set (concat (pem_lines (EncodeToString data))) \<Longrightarrow> c \<noteq> CHR 0x0A \<and> c \<noteq> CHR 0x0D"
    unfolding concat_pem_lines using EncodeToString_clean by blast
  ultimately have "filter (\<lambda>c. c \<noteq> CHR 0x0A \<and> c \<noteq> CHR 0x0D) (Join (pem_lines (EncodeToString data)) LF) =
      concat (pem_lines (EncodeToString data))" by blast
  then have "filter (\<lambda>c. c \<noteq> CHR 0x0A \<and> c \<noteq> CHR 0x0D) (Join (pem_lines (EncodeToString data)) LF) = EncodeToString data"
    unfolding concat_pem_lines .
  then show ?thesis by (simp add: DecodeString_def decode_groups_Encode)
qed

text \<open>The rest of the text after the line of the type.\<close>

lemma Join_snoc: "ls \<noteq> [] \<Longrightarrow> Join (ls @ [l]) sep = Join ls sep @ sep @ l"
  by (induction ls rule: induct_list012) simp_all

lemma pem_lines_base64: "l \<in> set (pem_lines (EncodeToString data)) \<Longrightarrow> l \<noteq> [] \<and> (\<forall>c\<in>set l. base64_char c)"
  using pem_lines_mem EncodeToString_base64 by blast

lemma Join_lines_chars:
  assumes "c \<in> set (Join (pem_lines (EncodeToString data)) LF)"
  shows "c = CHR 0x0A \<or> base64_char c"
  using set_Join [of "pem_lines (EncodeToString data)"] pem_lines_base64 [of _ data] assms by blast

definition end_line :: "string \<Rightarrow> string" where
  "end_line t = ''-----END '' @ t @ dashes"

lemma end_line_getLine:
  assumes "plain_type t" "u \<in> {[], LF}"
  shows "getLine (end_line t @ u) = (end_line t, [])"
proof -
  have "CHR 0x0A \<notin> set (end_line t)"
    using pem_text_lines(3) [OF assms(1), of "end_line t" "[]"] by (simp add: pem_text_def end_line_def)
  moreover have "last (end_line t) \<notin> {CHR '' '', CHR 0x09, CHR 0x0D}" by (simp add: end_line_def dashes_def)
  ultimately show ?thesis
    using assms(2) getLine_LF(1) [of "end_line t" "[]"] getLine_LF(2) [of "end_line t"] by (auto simp: LF_def)
qed

text \<open>What follows the line of the type: the lines, the end line and what is behind it.\<close>

lemma pem_body_read:
  fixes data :: string
  assumes "plain_type t" "u \<in> {[], LF}"
  and r: "r = Join (pem_lines (EncodeToString data) @ [end_line t]) LF @ u"
  shows "pem_headers False r = Some (False, r)"
    "pem_body False r = Some (Join (pem_lines (EncodeToString data)) LF, t @ dashes @ u)"
proof -
  let ?L = "pem_lines (EncodeToString data)"
  have colon: "CHR '':'' \<notin> set (fst (getLine r)) \<and> r \<noteq> []"
  proof (cases ?L)
    case Nil
    have "list_all (\<lambda>c. c \<noteq> CHR '':'') (end_line t)"
      unfolding end_line_def dashes_def list_all_append
      using plain_type_chars [OF assms(1)] by (simp add: list_all_iff)
    with Nil show ?thesis
      using end_line_getLine [OF assms(1,2)] by (simp add: r list_all_iff) (auto simp: end_line_def)
  next
    case (Cons l ls)
    then have l: "l \<noteq> []" "\<And>c. c \<in> set l \<Longrightarrow> base64_char c" using pem_lines_base64 [of l data] by auto
    have "r = l @ CHR 0x0A # Join (ls @ [end_line t]) LF @ u" by (simp add: r Cons Join_Cons LF_def)
    moreover have "CHR 0x0A \<notin> set l" "CHR '':'' \<notin> set l" "last l \<notin> {CHR '' '', CHR 0x09, CHR 0x0D}"
      using l base64_chars [of "CHR 0x0A"] base64_chars [of "CHR '':''"] base64_chars [OF l(2) [OF last_in_set [OF l(1)]]]
      by blast+
    ultimately show ?thesis using getLine_LF(1) [of l] by simp
  qed
  then show "pem_headers False r = Some (False, r)"
    by (subst pem_headers.simps) (simp add: case_prod_unfold)
  show "pem_body False r = Some (Join ?L LF, t @ dashes @ u)"
  proof (cases "?L = []")
    case True
    then show ?thesis by (simp add: r pem_body_def end_line_def)
  next
    case False
    have r': "r = Join ?L LF @ CHR 0x0A # CHR ''-'' # ''----END '' @ t @ dashes @ u"
      using Join_snoc [OF False, of "end_line t"] by (simp add: r end_line_def LF_def)
    have dash: "CHR ''-'' \<notin> set (Join ?L LF)"
      using Join_lines_chars [of "CHR ''-''" data] base64_chars by auto
    obtain l ls where L: "?L = l # ls" using False by (cases ?L) auto
    then have "l \<noteq> []" "set l \<subseteq> set (Join ?L LF)" using pem_lines_base64 [of l data] by (cases ls, auto)+
    then have "hd r \<noteq> CHR ''-''" "r \<noteq> []" using dash L by (cases l; cases ls; auto simp: r')+
    then have "\<not> prefix ''-----END '' r" by (cases r) auto
    then show ?thesis using bytes_Cut_dash [OF dash, of "''----END ''" "t @ dashes @ u"] by (simp add: pem_body_def r')
  qed
qed

lemma base64_no_blanks:
  "filter (\<lambda>c. c \<noteq> CHR '' '' \<and> c \<noteq> CHR 0x09) (Join (pem_lines (EncodeToString data)) LF) = Join (pem_lines (EncodeToString data)) LF"
  using Join_lines_chars [of _ data] base64_chars by (intro filter_True) fastforce

text \<open>Both the text as it is written and its normalised form are read.\<close>

lemma pem_Decode_text:
  assumes "plain_type t" "u \<in> {[], LF}"
  shows "pem_Decode (Join (pem_text t data) LF @ u) = Some (t, data)"
proof -
  let ?r = "Join (pem_lines (EncodeToString data) @ [end_line t]) LF @ u"
  have all: "Join (pem_text t data) LF @ u = ''-----BEGIN '' @ (t @ dashes) @ CHR 0x0A # ?r"
    by (simp add: pem_text_def Join_Cons LF_def end_line_def)
  have "CHR 0x0A \<notin> set (t @ dashes)"
    using plain_type_chars [OF assms(1)] by (auto simp: dashes_def)
  then have line: "getLine ((t @ dashes) @ CHR 0x0A # ?r) = (t @ dashes, ?r)"
    by (rule getLine_LF(1)) (simp add: dashes_def)
  have "fst (getLine u) = []" using assms(2) by (auto simp: getLine_def LF_def trim_blanks_def)
  then have block: "pem_block t (pem_body False ?r) = Some data"
    unfolding pem_body_read(2) [OF assms refl]
    by (rule pem_block_plain) (simp only: base64_no_blanks DecodeString_lines)
  have start: "pem_start (''-----BEGIN '' @ (t @ dashes) @ CHR 0x0A # ?r) = Some ((t @ dashes) @ CHR 0x0A # ?r)"
    by (simp add: pem_start_def)
  have ty: "suffix dashes (t @ dashes)" "take (length (t @ dashes) - 5) (t @ dashes) = t"
    by (simp_all add: suffix_def dashes_def)
  show ?thesis
    unfolding all
    by (subst pem_Decode.simps) (simp only: start option.case line prod.case ty not_True_eq_False if_False
        pem_body_read(1) [OF assms refl] Let_def block)
qed

text \<open>
  C40. A PEM text that the test kit writes is read back to the type and the bytes it was written from, as it is and after the
  normalisation of the secret key, which does nothing to it but take off the last newline.
\<close>

theorem PEM_survives_normalisation:
  assumes "plain_type t"
  shows "pem_Decode (encodePEM t data) = Some (t, data) \<and>
    pem_Decode (NormalizePEM (encodePEM t data)) = Some (t, data) \<and>
    NormalizePEM (encodePEM t data) @ LF = encodePEM t data \<and>
    NormalizePEM (NormalizePEM (encodePEM t data)) = NormalizePEM (encodePEM t data)"
  using pem_Decode_text [OF assms, of "[]" data] pem_Decode_text [OF assms, of LF data]
    NormalizePEM_text [OF assms, of "encodePEM t data" data]
    NormalizePEM_text [OF assms, of "Join (pem_text t data) LF" data]
  by (simp add: encodePEM_Join)

theorem PEM_survives_normalisation_witness:
  "pem_Decode (NormalizePEM (encodePEM ''PUBLIC KEY'' ''ab'')) = Some (''PUBLIC KEY'', ''ab'')"
  using PEM_survives_normalisation [of "''PUBLIC KEY''" "''ab''"] by (simp add: plain_type_def)

text \<open>The server name is derived from the bytes of the certificate and the key alone.\<close>

lemma canonBase64_encodePEM:
  assumes "plain_type t" shows "canonBase64 (encodePEM t data) = EncodeToString data"
proof -
  have marker: "canon_line l = []" if "l = ''-----'' @ k" "trimmed l" for l k
    using that by (simp add: canon_line_def TrimSpace_trimmed)
  have line: "canon_line l = l" if "trimmed l" "l \<noteq> []" "\<forall>c\<in>set l. base64_char c" for l
  proof -
    have "\<not> prefix ''-----'' l" using that base64_chars [of "CHR ''-''"] by (cases l) auto
    then show ?thesis using that by (simp add: canon_line_def TrimSpace_trimmed)
  qed
  have ls: "map canon_line (pem_lines (EncodeToString data)) = pem_lines (EncodeToString data)"
    using pem_lines_base64 [of _ data] pem_text_lines(2) [OF assms, of _ data] line
    by (intro map_idI) (auto simp: pem_text_def)
  have "canonBase64 (encodePEM t data) = canonBase64 (Join (pem_text t data) LF)"
    unfolding encodePEM_Join by (rule canon_append_space) (simp add: LF_def LF_space)
  also have "\<dots> = concat (map canon_line (pem_text t data))"
    unfolding canonBase64_def LF_def using pem_text_lines(3) [OF assms]
    by (subst Split_Join_char) (auto simp: pem_text_def)
  also have "\<dots> = EncodeToString data"
    using marker [of "''-----BEGIN '' @ t @ dashes" "''BEGIN '' @ t @ dashes"]
      marker [of "''-----END '' @ t @ dashes" "''END '' @ t @ dashes"] pem_text_lines(2) [OF assms, of _ data]
    by (simp add: pem_text_def ls concat_pem_lines)
  finally show ?thesis .
qed

end
