(* ===== verification/TestKit.thy ===== *)
theory TestKit
  imports Pem HttpServer NetIP Contracts
begin

unbundle bit_operations_syntax

text \<open>
  The keys, certificates and tokens that the test kit makes (\<open>internal/testkit/certs.go\<close>, \<open>jwt.go\<close>), and
  that a node which is configured with them accepts itself and the Panel. The generation of keys, the
  making of certificates and signatures are parameters; \<open>t.Fatalf\<close> is an error that ends the run.
\<close>

section \<open>Surroundings\<close>

text \<open>The fields of \<open>x509.Certificate\<close> that the templates set; times are nanoseconds.\<close>

datatype ExtKeyUsage = ExtKeyUsageServerAuth | ExtKeyUsageClientAuth

definition KeyUsageDigitalSignature :: int where "KeyUsageDigitalSignature = 1"
definition KeyUsageKeyEncipherment :: int where "KeyUsageKeyEncipherment = 4"
definition KeyUsageCertSign :: int where "KeyUsageCertSign = 32"

record Certificate =
  ct_SerialNumber :: int
  ct_CommonName :: string
  ct_NotBefore :: int
  ct_NotAfter :: int
  ct_KeyUsage :: int
  ct_BasicConstraintsValid :: bool
  ct_IsCA :: bool
  ct_ExtKeyUsage :: "ExtKeyUsage list"
  ct_IPAddresses :: "IP option list"

text \<open>
  Randomness and the clock are in the world. \<open>cl_CreateCertificate\<close> has the template, the parent, the public
  key of the subject and the private key that signs; \<open>cl_Sign\<close> makes a token with a method and claims.
\<close>

record ('w, 'k, 'p) cert_lib =
  cl_Now :: "'w \<Rightarrow> int \<times> 'w"
  cl_Int :: "int \<Rightarrow> 'w \<Rightarrow> (gerror + int) \<times> 'w"
  cl_GenerateKey :: "nat \<Rightarrow> 'w \<Rightarrow> (gerror + 'k) \<times> 'w"
  cl_CreateCertificate :: "Certificate \<Rightarrow> Certificate \<Rightarrow> 'p \<Rightarrow> 'k \<Rightarrow> 'w \<Rightarrow> (gerror + string) \<times> 'w"
  cl_PublicKey :: "'k \<Rightarrow> 'p"
  cl_MarshalPKCS1 :: "'k \<Rightarrow> string"
  cl_Sign :: "string \<Rightarrow> json_obj \<Rightarrow> 'k \<Rightarrow> gerror + string"

text \<open>A call that fails the test with a message, and one that has failed it already.\<close>

definition must :: "string \<Rightarrow> (gerror + 'a) \<times> 'w \<Rightarrow> ('a \<Rightarrow> 'w \<Rightarrow> (gerror + 'b) \<times> 'w) \<Rightarrow> (gerror + 'b) \<times> 'w" where
  "must what r f =
     (case r of (Inl err, w) \<Rightarrow> (Inl (NewError (what @ '': '' @ Error_msg err)), w) | (Inr v, w) \<Rightarrow> f v w)"

definition and_then :: "(gerror + 'a) \<times> 'w \<Rightarrow> ('a \<Rightarrow> 'w \<Rightarrow> (gerror + 'b) \<times> 'w) \<Rightarrow> (gerror + 'b) \<times> 'w" where
  "and_then r f = (case r of (Inl err, w) \<Rightarrow> (Inl err, w) | (Inr v, w) \<Rightarrow> f v w)"

section \<open>Certificates (certs.go)\<close>

definition Hour :: int where "Hour = 3600 * 10 ^ 9"

definition certTemplate :: "('w, 'k, 'p) cert_lib \<Rightarrow> string \<Rightarrow> bool \<Rightarrow> 'w \<Rightarrow> (gerror + Certificate) \<times> 'w" where
  "certTemplate lib commonName isCA w =
     must ''generate serial'' (cl_Int lib (2 ^ 62) w) (\<lambda>serial w.
       case cl_Now lib w of (before, w) \<Rightarrow>
       case cl_Now lib w of (after, w) \<Rightarrow>
         (Inr \<lparr>ct_SerialNumber = serial, ct_CommonName = commonName,
               ct_NotBefore = before - Hour, ct_NotAfter = after + Hour,
               ct_KeyUsage = KeyUsageDigitalSignature OR KeyUsageKeyEncipherment OR KeyUsageCertSign,
               ct_BasicConstraintsValid = True, ct_IsCA = isCA, ct_ExtKeyUsage = [], ct_IPAddresses = []\<rparr>, w))"

definition newRSAKey :: "('w, 'k, 'p) cert_lib \<Rightarrow> 'w \<Rightarrow> (gerror + 'k) \<times> 'w" where
  "newRSAKey lib w = must ''generate RSA key'' (cl_GenerateKey lib 2048 w) (\<lambda>key w. (Inr key, w))"

record 'k CertBundle =
  cb_Payload :: NodePayload
  cb_PanelCertPEM :: string
  cb_PanelKeyPEM :: string
  cb_JWTPrivateKey :: 'k

definition NewCertBundle :: "('w, 'k, 'p) cert_lib \<Rightarrow> ('c, 'p) x509_lib \<Rightarrow> 'w \<Rightarrow> (gerror + 'k CertBundle) \<times> 'w" where
  "NewCertBundle lib x w =
     and_then (newRSAKey lib w) (\<lambda>caKey w.
     and_then (certTemplate lib ''rw-node-go test CA'' True w) (\<lambda>caTemplate w.
     must ''create CA certificate''
       (cl_CreateCertificate lib caTemplate caTemplate (cl_PublicKey lib caKey) caKey w) (\<lambda>caDER w.
     and_then (newRSAKey lib w) (\<lambda>nodeKey w.
     and_then (certTemplate lib ''rw-node-go node'' False w) (\<lambda>nodeTemplate w.
     let nodeTemplate = nodeTemplate\<lparr>ct_ExtKeyUsage := [ExtKeyUsageServerAuth],
                                     ct_IPAddresses := [ParseIP ''127.0.0.1'']\<rparr> in
     must ''create node certificate''
       (cl_CreateCertificate lib nodeTemplate caTemplate (cl_PublicKey lib nodeKey) caKey w) (\<lambda>nodeDER w.
     and_then (newRSAKey lib w) (\<lambda>panelKey w.
     and_then (certTemplate lib ''rw-node-go panel'' False w) (\<lambda>panelTemplate w.
     let panelTemplate = panelTemplate\<lparr>ct_ExtKeyUsage := [ExtKeyUsageClientAuth]\<rparr> in
     must ''create panel certificate''
       (cl_CreateCertificate lib panelTemplate caTemplate (cl_PublicKey lib panelKey) caKey w) (\<lambda>panelDER w.
     and_then (newRSAKey lib w) (\<lambda>jwtKey w.
     must ''marshal JWT public key'' (x_MarshalPKIX x (cl_PublicKey lib jwtKey), w) (\<lambda>jwtPubDER w.
       (Inr \<lparr>cb_Payload =
               \<lparr>np_CACertPEM = encodePEM ''CERTIFICATE'' caDER,
                np_JWTPublicKey = encodePEM ''PUBLIC KEY'' jwtPubDER,
                np_NodeCertPEM = encodePEM ''CERTIFICATE'' nodeDER,
                np_NodeKeyPEM = encodePEM ''RSA PRIVATE KEY'' (cl_MarshalPKCS1 lib nodeKey)\<rparr>,
             cb_PanelCertPEM = encodePEM ''CERTIFICATE'' panelDER,
             cb_PanelKeyPEM = encodePEM ''RSA PRIVATE KEY'' (cl_MarshalPKCS1 lib panelKey),
             cb_JWTPrivateKey = jwtKey\<rparr>, w))))))))))))"

section \<open>Tokens (jwt.go)\<close>

definition Unix :: "int \<Rightarrow> int" where "Unix t = t div 10 ^ 9"

definition NewRS256Token :: "('w, 'k, 'p) cert_lib \<Rightarrow> 'k \<Rightarrow> 'w \<Rightarrow> (gerror + string) \<times> 'w" where
  "NewRS256Token lib key w =
     (case cl_Now lib w of (iat, w) \<Rightarrow>
      case cl_Now lib w of (now, w) \<Rightarrow>
        let claims = fmap_of_list [(''sub'', JStr ''panel''), (''iat'', JInt (Unix iat)),
                                   (''exp'', JInt (Unix (now + Hour)))]
        in must ''sign JWT'' (cl_Sign lib ''RS256'' claims key, w) (\<lambda>signed w. (Inr signed, w)))"

section \<open>What the libraries do\<close>

text \<open>The clock does not go back; \<open>clock\<close> is the time at a state of the world.\<close>

definition clock_laws :: "('w \<Rightarrow> int) \<Rightarrow> ('w, 'k, 'p) cert_lib \<Rightarrow> bool" where
  "clock_laws clock lib \<longleftrightarrow>
     (\<forall>w. clock w \<le> fst (cl_Now lib w) \<and> fst (cl_Now lib w) \<le> clock (snd (cl_Now lib w))) \<and>
     (\<forall>n w. clock w \<le> clock (snd (cl_Int lib n w))) \<and>
     (\<forall>n w. clock w \<le> clock (snd (cl_GenerateKey lib n w))) \<and>
     (\<forall>t p pub key w. clock w \<le> clock (snd (cl_CreateCertificate lib t p pub key w)))"

definition issued :: "('w, 'k, 'p) cert_lib \<Rightarrow> Certificate \<Rightarrow> Certificate \<Rightarrow> 'p \<Rightarrow> 'k \<Rightarrow> string \<Rightarrow> bool" where
  "issued lib t parent pub key der \<longleftrightarrow> (\<exists>w. fst (cl_CreateCertificate lib t parent pub key w) = Inr der)"

text \<open>
  A certificate that was made is parsed to what its template says, its times in seconds. Its signature checks against any
  certificate for the key that signed it, if that is one of a CA that may sign certificates. Keys are read back from their
  encodings, and a key that \<open>rsa.GenerateKey\<close> made is an RSA key.
\<close>

definition x509_laws :: "('w, 'k, 'p) cert_lib \<Rightarrow> ('c, 'p) x509_lib \<Rightarrow> bool" where
  "x509_laws lib x \<longleftrightarrow>
     x_pemDecode x = (\<lambda>text. map_option snd (pem_Decode text)) \<and>
     (\<forall>t parent pub key der. issued lib t parent pub key der \<longrightarrow>
        (\<exists>c. x_ParseCertificate x der = Inr c \<and> x_PublicKey x c = pub \<and>
           x_NotBefore x c = Unix (ct_NotBefore t) * 10 ^ 9 \<and> x_NotAfter x c = Unix (ct_NotAfter t) * 10 ^ 9)) \<and>
     (\<forall>t parent pub key der grand caKey caDER c ca.
        issued lib t parent pub key der \<and> issued lib parent grand (cl_PublicKey lib key) caKey caDER \<and>
        x_ParseCertificate x der = Inr c \<and> x_ParseCertificate x caDER = Inr ca \<and>
        ct_BasicConstraintsValid parent \<and> ct_IsCA parent \<and> ct_KeyUsage parent AND KeyUsageCertSign \<noteq> 0 \<longrightarrow>
        x_CheckSignatureFrom x c ca = None) \<and>
     (\<forall>key. x_ParsePKCS8 x (cl_MarshalPKCS1 lib key) \<in> range Inl \<and>
        x_ParsePKCS1 x (cl_MarshalPKCS1 lib key) = Inr (cl_PublicKey lib key)) \<and>
     (\<forall>key. \<exists>der. x_MarshalPKIX x (cl_PublicKey lib key) = Inr der) \<and>
     (\<forall>p der. x_MarshalPKIX x p = Inr der \<longrightarrow> x_ParsePKIX x der = Inr p) \<and>
     (\<forall>key. x_IsRSA x (cl_PublicKey lib key))"

text \<open>
  A signed token is three words of the URL alphabet with dots. At the time \<open>now\<close> it is parsed without an error if it is not
  expired and the callback accepts its method and returns the key that belongs to the signature.
\<close>

definition token_char :: "char \<Rightarrow> bool" where
  "token_char c \<longleftrightarrow>
     (48 \<le> byte c \<and> byte c \<le> 57) \<or> (65 \<le> byte c \<and> byte c \<le> 90) \<or> (97 \<le> byte c \<and> byte c \<le> 122) \<or>
     c = CHR ''-'' \<or> c = CHR ''_'' \<or> c = CHR ''.''"

definition token_laws :: "int \<Rightarrow> ('w, 'k, 'p) cert_lib \<Rightarrow> ('c, 'p) x509_lib \<Rightarrow> 'p jwt_lib \<Rightarrow> bool" where
  "token_laws now lib x jw \<longleftrightarrow>
     (\<forall>text ty der p. pem_Decode text = Some (ty, der) \<and> x_ParsePKIX x der = Inr p \<and> x_IsRSA x p \<longrightarrow>
        jw_ParseRSAPublicKeyFromPEM jw text = Inr p) \<and>
     (\<forall>claims key token. cl_Sign lib ''RS256'' claims key = Inr token \<longrightarrow> token \<noteq> [] \<and> list_all token_char token) \<and>
     (\<forall>claims key token e keyfunc.
        cl_Sign lib ''RS256'' claims key = Inr token \<and> fmlookup claims ''exp'' = Some (JInt e) \<and>
        fmlookup claims ''nbf'' = None \<and> now < e * 10 ^ 9 \<and>
        keyfunc \<lparr>jt_IsRSA = True, jt_Alg = ''RS256'', jt_HeaderAlg = ''RS256'', jt_Valid = False\<rparr> = Inr (cl_PublicKey lib key) \<longrightarrow>
        (\<exists>t. jw_Parse jw token keyfunc = (None, Some t) \<and> jt_Valid t))"

lemma x509_lawsD:
  assumes "x509_laws lib x"
  shows "x_pemDecode x = (\<lambda>text. map_option snd (pem_Decode text))"
    "issued lib t parent pub key der \<Longrightarrow> \<exists>c. x_ParseCertificate x der = Inr c \<and> x_PublicKey x c = pub \<and>
       x_NotBefore x c = Unix (ct_NotBefore t) * 10 ^ 9 \<and> x_NotAfter x c = Unix (ct_NotAfter t) * 10 ^ 9"
    "issued lib t parent pub key der \<Longrightarrow> issued lib parent grand (cl_PublicKey lib key) caKey caDER \<Longrightarrow>
       x_ParseCertificate x der = Inr c \<Longrightarrow> x_ParseCertificate x caDER = Inr ca \<Longrightarrow> ct_BasicConstraintsValid parent \<Longrightarrow>
       ct_IsCA parent \<Longrightarrow> ct_KeyUsage parent AND KeyUsageCertSign \<noteq> 0 \<Longrightarrow> x_CheckSignatureFrom x c ca = None"
    "x_ParsePKCS8 x (cl_MarshalPKCS1 lib key) \<in> range Inl" "x_ParsePKCS1 x (cl_MarshalPKCS1 lib key) = Inr (cl_PublicKey lib key)"
    "\<exists>der. x_MarshalPKIX x (cl_PublicKey lib key) = Inr der"
    "x_MarshalPKIX x p = Inr der \<Longrightarrow> x_ParsePKIX x der = Inr p" "x_IsRSA x (cl_PublicKey lib key)"
  using assms unfolding x509_laws_def by blast+

section \<open>What is made\<close>

lemma must_Inr: "must what r f = (Inr v, w') \<longleftrightarrow> (\<exists>u w. r = (Inr u, w) \<and> f u w = (Inr v, w'))"
  by (auto simp: must_def split: prod.splits sum.splits)

lemma and_then_Inr: "and_then r f = (Inr v, w') \<longleftrightarrow> (\<exists>u w. r = (Inr u, w) \<and> f u w = (Inr v, w'))"
  by (auto simp: and_then_def split: prod.splits sum.splits)

lemma Unix_bounds: "Unix t * 10 ^ 9 \<le> t" "t < Unix t * 10 ^ 9 + 10 ^ 9"
proof -
  have "t div 10 ^ 9 * 10 ^ 9 + t mod 10 ^ 9 = t" by (rule div_mult_mod_eq)
  moreover have "0 \<le> t mod 10 ^ 9" "t mod 10 ^ 9 < 10 ^ 9" by simp_all
  ultimately show "Unix t * 10 ^ 9 \<le> t" "t < Unix t * 10 ^ 9 + 10 ^ 9" unfolding Unix_def by linarith+
qed

lemma certTemplate_ok:
  assumes "clock_laws clock lib" "certTemplate lib cn ca w = (Inr t, w')"
  shows "ct_NotBefore t + Hour \<le> clock w' \<and> clock w + Hour \<le> ct_NotAfter t \<and> clock w \<le> clock w' \<and>
    ct_BasicConstraintsValid t \<and> ct_IsCA t = ca \<and> ct_KeyUsage t AND KeyUsageCertSign \<noteq> 0"
proof -
  obtain serial w1 where int: "cl_Int lib (2 ^ 62) w = (Inr serial, w1)"
    using assms(2) unfolding certTemplate_def must_Inr by blast
  obtain t1 w2 t2 w3 where now: "cl_Now lib w1 = (t1, w2)" "cl_Now lib w2 = (t2, w3)" by fastforce
  with int assms(2) have "w3 = w'"
    and t: "t = \<lparr>ct_SerialNumber = serial, ct_CommonName = cn, ct_NotBefore = t1 - Hour, ct_NotAfter = t2 + Hour,
      ct_KeyUsage = KeyUsageDigitalSignature OR KeyUsageKeyEncipherment OR KeyUsageCertSign,
      ct_BasicConstraintsValid = True, ct_IsCA = ca, ct_ExtKeyUsage = [], ct_IPAddresses = []\<rparr>"
    by (simp_all add: certTemplate_def must_def)
  note run = int now [unfolded \<open>w3 = w'\<close>]
  have "clock w \<le> clock w1" using assms(1) run(1) unfolding clock_laws_def by (metis snd_conv)
  moreover have "clock w1 \<le> t1" "t1 \<le> clock w2" using assms(1) run(2) unfolding clock_laws_def by (metis fst_conv snd_conv)+
  moreover have "clock w2 \<le> t2" "t2 \<le> clock w'" using assms(1) run(3) unfolding clock_laws_def by (metis fst_conv snd_conv)+
  moreover have "ct_KeyUsage t AND KeyUsageCertSign \<noteq> 0"
    by (simp add: t KeyUsageDigitalSignature_def KeyUsageKeyEncipherment_def KeyUsageCertSign_def)
  ultimately show ?thesis by (simp add: t)
qed

lemma newRSAKey_ok:
  assumes "clock_laws clock lib" "newRSAKey lib w = (Inr key, w')"
  shows "clock w \<le> clock w'"
  using assms by (auto simp: newRSAKey_def must_Inr clock_laws_def) (metis snd_conv)

lemma create_ok:
  assumes "clock_laws clock lib" "cl_CreateCertificate lib t parent pub key w = (Inr der, w')"
  shows "clock w \<le> clock w' \<and> issued lib t parent pub key der"
  using assms unfolding clock_laws_def issued_def by (metis fst_conv snd_conv)

text \<open>The parts of a bundle: the times of the CA cover the making, and the CA signed all three certificates.\<close>

lemma NewCertBundle_parts:
  assumes "clock_laws clock lib" "NewCertBundle lib x w = (Inr b, w')"
  obtains ca node panel caKey nodeKey panelKey caDER nodeDER panelDER jwtDER where
    "ct_NotBefore ca + Hour \<le> clock w'" "clock w + Hour \<le> ct_NotAfter ca"
    "ct_BasicConstraintsValid ca" "ct_IsCA ca" "ct_KeyUsage ca AND KeyUsageCertSign \<noteq> 0"
    "issued lib ca ca (cl_PublicKey lib caKey) caKey caDER"
    "issued lib node ca (cl_PublicKey lib nodeKey) caKey nodeDER"
    "issued lib panel ca (cl_PublicKey lib panelKey) caKey panelDER"
    "x_MarshalPKIX x (cl_PublicKey lib (cb_JWTPrivateKey b)) = Inr jwtDER"
    "cb_Payload b = \<lparr>np_CACertPEM = encodePEM ''CERTIFICATE'' caDER, np_JWTPublicKey = encodePEM ''PUBLIC KEY'' jwtDER,
       np_NodeCertPEM = encodePEM ''CERTIFICATE'' nodeDER,
       np_NodeKeyPEM = encodePEM ''RSA PRIVATE KEY'' (cl_MarshalPKCS1 lib nodeKey)\<rparr>"
    "cb_PanelCertPEM b = encodePEM ''CERTIFICATE'' panelDER" "clock w \<le> clock w'"
proof -
  from assms(2) obtain caKey w1 ca w2 caDER w3 nodeKey w4 node w5 nodeDER w6 panelKey w7 panel w8 panelDER w9 jwtKey w10 jwtDER where
    run: "newRSAKey lib w = (Inr caKey, w1)" "certTemplate lib ''rw-node-go test CA'' True w1 = (Inr ca, w2)"
    "cl_CreateCertificate lib ca ca (cl_PublicKey lib caKey) caKey w2 = (Inr caDER, w3)"
    "newRSAKey lib w3 = (Inr nodeKey, w4)" "certTemplate lib ''rw-node-go node'' False w4 = (Inr node, w5)"
    "cl_CreateCertificate lib (node\<lparr>ct_ExtKeyUsage := [ExtKeyUsageServerAuth], ct_IPAddresses := [ParseIP ''127.0.0.1'']\<rparr>)
       ca (cl_PublicKey lib nodeKey) caKey w5 = (Inr nodeDER, w6)"
    "newRSAKey lib w6 = (Inr panelKey, w7)" "certTemplate lib ''rw-node-go panel'' False w7 = (Inr panel, w8)"
    "cl_CreateCertificate lib (panel\<lparr>ct_ExtKeyUsage := [ExtKeyUsageClientAuth]\<rparr>)
       ca (cl_PublicKey lib panelKey) caKey w8 = (Inr panelDER, w9)"
    "newRSAKey lib w9 = (Inr jwtKey, w10)" "x_MarshalPKIX x (cl_PublicKey lib jwtKey) = Inr jwtDER"
    and "w' = w10" and b: "b = \<lparr>cb_Payload =
        \<lparr>np_CACertPEM = encodePEM ''CERTIFICATE'' caDER, np_JWTPublicKey = encodePEM ''PUBLIC KEY'' jwtDER,
         np_NodeCertPEM = encodePEM ''CERTIFICATE'' nodeDER,
         np_NodeKeyPEM = encodePEM ''RSA PRIVATE KEY'' (cl_MarshalPKCS1 lib nodeKey)\<rparr>,
       cb_PanelCertPEM = encodePEM ''CERTIFICATE'' panelDER,
       cb_PanelKeyPEM = encodePEM ''RSA PRIVATE KEY'' (cl_MarshalPKCS1 lib panelKey), cb_JWTPrivateKey = jwtKey\<rparr>"
    unfolding NewCertBundle_def and_then_Inr must_Inr Let_def prod.inject sum.inject
    by - (elim exE conjE, rule that, assumption+, simp_all)
  note key = newRSAKey_ok [OF assms(1)] and tmpl = certTemplate_ok [OF assms(1)] and made = create_ok [OF assms(1)]
  have "clock w \<le> clock w1" "clock w1 \<le> clock w2" "clock w2 \<le> clock w3" "clock w3 \<le> clock w4" "clock w4 \<le> clock w5"
    "clock w5 \<le> clock w6" "clock w6 \<le> clock w7" "clock w7 \<le> clock w8" "clock w8 \<le> clock w9" "clock w9 \<le> clock w10"
    using key [OF run(1)] tmpl [OF run(2)] made [OF run(3)] key [OF run(4)] tmpl [OF run(5)] made [OF run(6)]
      key [OF run(7)] tmpl [OF run(8)] made [OF run(9)] key [OF run(10)] by blast+
  moreover have "ct_NotBefore ca + Hour \<le> clock w2" "clock w1 + Hour \<le> ct_NotAfter ca" using tmpl [OF run(2)] by blast+
  ultimately have bounds: "ct_NotBefore ca + Hour \<le> clock w'" "clock w + Hour \<le> ct_NotAfter ca" "clock w \<le> clock w'"
    unfolding \<open>w' = w10\<close> by linarith+
  have ca: "ct_BasicConstraintsValid ca" "ct_IsCA ca" "ct_KeyUsage ca AND KeyUsageCertSign \<noteq> 0"
    using tmpl [OF run(2)] by simp_all
  note signed = made [OF run(3), THEN conjunct2] made [OF run(6), THEN conjunct2] made [OF run(9), THEN conjunct2]
  show ?thesis
    by (rule that [OF bounds(1,2) ca signed _ _ _ bounds(3)]) (use run(11) in \<open>simp_all add: b\<close>)
qed

section \<open>The Panel is let in\<close>

lemma Fields_aux_word:
  "\<forall>c\<in>set word. c \<notin> space_bytes \<Longrightarrow> acc \<noteq> [] \<or> word \<noteq> [] \<Longrightarrow> Fields_aux acc word = [rev acc @ word] \<and>
     Fields_aux acc (word @ CHR '' '' # rest) = (rev acc @ word) # Fields_aux [] rest"
proof (induction word arbitrary: acc)
  case Nil
  have "rune_at space_runes (CHR '' '' # rest) = 1" by (simp add: rune_at_def space_runes_def)
  with Nil show ?case by simp
next
  case (Cons c word)
  have "rune_at space_runes (c # s) = 0" for s using Cons.prems by (intro rune_at_solid) simp_all
  then show ?case using Cons.IH [of "c # acc"] Cons.prems by simp
qed

lemma bearerToken_word:
  assumes "token \<noteq> []" "list_all token_char token"
  shows "bearerToken (''Bearer '' @ token) = Some token"
proof -
  have solid: "c \<notin> space_bytes" if "token_char c" for c
    using that base64_solid by (auto simp: token_char_def space_bytes_def space_runes_def)
  have "list_all token_char ''Bearer''" by (simp add: token_char_def)
  then have "Fields (''Bearer'' @ CHR '' '' # token) = [''Bearer'', token]"
    using Fields_aux_word [of "''Bearer''" "[]" token] Fields_aux_word [of token "[]"] assms solid
    unfolding Fields_def list_all_iff by simp
  then show ?thesis using assms(1) by (simp add: bearerToken_def)
qed

text \<open>The payload that the node decodes from the bundle.\<close>

definition normalized :: "NodePayload \<Rightarrow> NodePayload" where
  "normalized p =
     \<lparr>np_CACertPEM = NormalizePEM (np_CACertPEM p), np_JWTPublicKey = NormalizePEM (np_JWTPublicKey p),
      np_NodeCertPEM = NormalizePEM (np_NodeCertPEM p), np_NodeKeyPEM = NormalizePEM (np_NodeKeyPEM p)\<rparr>"

lemma plain_types: "plain_type ''CERTIFICATE''" "plain_type ''PUBLIC KEY''" "plain_type ''RSA PRIVATE KEY''"
  by (simp_all add: plain_type_def)

lemma read_normalized: "plain_type t \<Longrightarrow> pem_Decode (NormalizePEM (encodePEM t data)) = Some (t, data)"
  using pem_Decode_text [of t "[]" data] NormalizePEM_text [of t "encodePEM t data" data] by simp

lemma read_written: "plain_type t \<Longrightarrow> pem_Decode (encodePEM t data) = Some (t, data)"
  using pem_Decode_text [of t LF data] by (simp add: encodePEM_Join)

lemma normalized_nonempty: "plain_type t \<Longrightarrow> NormalizePEM (encodePEM t data) \<noteq> []"
  using read_normalized [of t data] by (auto simp: pem_Decode.simps [of "[]"] pem_start_def)

lemma DecodeSecretKey_bundle:
  assumes "parse raw = Inr p"
    "np_CACertPEM p = encodePEM ''CERTIFICATE'' a" "np_JWTPublicKey p = encodePEM ''PUBLIC KEY'' j"
    "np_NodeCertPEM p = encodePEM ''CERTIFICATE'' c" "np_NodeKeyPEM p = encodePEM ''RSA PRIVATE KEY'' k"
  shows "DecodeSecretKey corrupt parse (EncodeToString raw) = Inr (normalized p)"
proof -
  have "trimmed (EncodeToString raw)"
  proof (cases "EncodeToString raw = []")
    case False
    then show ?thesis
      using EncodeToString_base64 base64_solid(1) by (intro trimmed_solid) (auto dest: hd_in_set last_in_set)
  qed (simp add: trimmed_def)
  then show ?thesis
    using assms plain_types
    by (simp add: DecodeSecretKey_def TrimSpace_trimmed DecodeString_Encode Let_def normalized_def normalized_nonempty)
qed

lemma JWTMiddleware_lets_in:
  assumes "token_laws now lib x jw" "cl_Sign lib ''RS256'' claims key = Inr token"
    "fmlookup claims ''exp'' = Some (JInt e)" "fmlookup claims ''nbf'' = None" "now < e * 10 ^ 9"
    "hq_Authorization req = ''Bearer '' @ token"
  shows "JWTMiddleware jw (cl_PublicKey lib key) next req n = next req n"
proof -
  have "token \<noteq> []" "list_all token_char token" using assms(1,2) unfolding token_laws_def by blast+
  then have "bearerToken (hq_Authorization req) = Some token"
    unfolding assms(6) by (rule bearerToken_word)
  moreover have "jwt_key (cl_PublicKey lib key)
      \<lparr>jt_IsRSA = True, jt_Alg = ''RS256'', jt_HeaderAlg = ''RS256'', jt_Valid = False\<rparr> = Inr (cl_PublicKey lib key)"
    by (simp add: jwt_key_def)
  then obtain t where "jw_Parse jw token (jwt_key (cl_PublicKey lib key)) = (None, Some t)" "jt_Valid t"
    using assms(1-5) unfolding token_laws_def by blast
  ultimately show ?thesis by (simp add: JWTMiddleware_def JWTMiddlewareWithExemptPaths_def)
qed

text \<open>A token is signed over a time of expiry that lies an hour after the start, at most a second early.\<close>

lemma NewRS256Token_signed:
  assumes "clock_laws clock lib" "NewRS256Token lib key w = (Inr token, w')"
  obtains claims e where "cl_Sign lib ''RS256'' claims key = Inr token"
    "fmlookup claims ''exp'' = Some (JInt e)" "fmlookup claims ''nbf'' = None" "clock w + 3599 * 10 ^ 9 < e * 10 ^ 9"
proof -
  obtain iat w1 t w2 where times: "cl_Now lib w = (iat, w1)" "cl_Now lib w1 = (t, w2)" by fastforce
  let ?claims = "fmap_of_list [(''sub'', JStr ''panel''), (''iat'', JInt (Unix iat)), (''exp'', JInt (Unix (t + Hour)))]"
  have "clock w \<le> t" using assms(1) times unfolding clock_laws_def by (metis fst_conv snd_conv order_trans)
  then have late: "clock w + 3599 * 10 ^ 9 < Unix (t + Hour) * 10 ^ 9"
    using Unix_bounds(2) [of "t + Hour"] by (simp add: Hour_def)
  have "cl_Sign lib ''RS256'' ?claims key = Inr token"
    using assms(2) times by (simp add: NewRS256Token_def must_Inr)
  moreover have "fmlookup ?claims ''exp'' = Some (JInt (Unix (t + Hour)))" "fmlookup ?claims ''nbf'' = None"
    by (simp_all add: fmlookup_of_list)
  ultimately show ?thesis using late by (rule that)
qed

text \<open>
  C38. A node whose secret key carries a bundle of the test kit accepts the bundle and the Panel it stands for: within the hour
  that the certificates are valid, the payload decodes and passes the integrity report, the certificate of the Panel is signed by
  its CA, and a request with a token that is signed by the bundle's key and not an hour old gets through the JWT middleware.
\<close>

theorem bundle_accepted:
  assumes "clock_laws clock lib" "x509_laws lib x" "token_laws now lib x jw"
    and "NewCertBundle lib x w = (Inr b, w1)"
    and "NewRS256Token lib (cb_JWTPrivateKey b) w2 = (Inr token, w3)"
    and "parse raw = Inr (cb_Payload b)"
    and "clock w1 \<le> now" "now \<le> clock w + 3599 * 10 ^ 9" "now \<le> clock w2 + 3599 * 10 ^ 9"
  shows "\<exists>payload key ca panel.
    DecodeSecretKey corrupt parse (EncodeToString raw) = Inr payload \<and>
    snd (ValidateNodePayload x now payload) = None \<and>
    parseCertificate x (np_CACertPEM payload) = Inr ca \<and> parseCertificate x (cb_PanelCertPEM b) = Inr panel \<and>
    x_CheckSignatureFrom x panel ca = None \<and>
    ParseJWTPublicKey jw (np_JWTPublicKey payload) = Inr key \<and>
    (\<forall>next req n. hq_Authorization req = ''Bearer '' @ token \<longrightarrow> JWTMiddleware jw key next req n = next req n)"
proof -
  obtain ca node panel caKey nodeKey panelKey caDER nodeDER panelDER jwtDER where
    times: "ct_NotBefore ca + Hour \<le> clock w1" "clock w + Hour \<le> ct_NotAfter ca"
    and able: "ct_BasicConstraintsValid ca" "ct_IsCA ca" "ct_KeyUsage ca AND KeyUsageCertSign \<noteq> 0"
    and i: "issued lib ca ca (cl_PublicKey lib caKey) caKey caDER"
    "issued lib node ca (cl_PublicKey lib nodeKey) caKey nodeDER"
    "issued lib panel ca (cl_PublicKey lib panelKey) caKey panelDER"
    and jwt: "x_MarshalPKIX x (cl_PublicKey lib (cb_JWTPrivateKey b)) = Inr jwtDER"
    and b: "cb_Payload b = \<lparr>np_CACertPEM = encodePEM ''CERTIFICATE'' caDER, np_JWTPublicKey = encodePEM ''PUBLIC KEY'' jwtDER,
       np_NodeCertPEM = encodePEM ''CERTIFICATE'' nodeDER,
       np_NodeKeyPEM = encodePEM ''RSA PRIVATE KEY'' (cl_MarshalPKCS1 lib nodeKey)\<rparr>"
    "cb_PanelCertPEM b = encodePEM ''CERTIFICATE'' panelDER" "clock w \<le> clock w1"
    by (rule NewCertBundle_parts [OF assms(1,4)]) blast
  note laws = x509_lawsD [OF assms(2)]
  obtain c where c: "x_ParseCertificate x caDER = Inr c"
    "x_NotBefore x c = Unix (ct_NotBefore ca) * 10 ^ 9" "x_NotAfter x c = Unix (ct_NotAfter ca) * 10 ^ 9"
    using laws(2) [OF i(1)] by blast
  obtain nodeC where nodeC: "x_ParseCertificate x nodeDER = Inr nodeC" "x_PublicKey x nodeC = cl_PublicKey lib nodeKey"
    using laws(2) [OF i(2)] by blast
  obtain panelC where panelC: "x_ParseCertificate x panelDER = Inr panelC" using laws(2) [OF i(3)] by blast
  note sigs = laws(3) [OF i(1) i(1) c(1) c(1) able] laws(3) [OF i(2) i(1) nodeC(1) c(1) able]
    laws(3) [OF i(3) i(1) panelC c(1) able]
  let ?p = "normalized (cb_Payload b)" and ?key = "cl_PublicKey lib (cb_JWTPrivateKey b)"
  have decoded: "x_pemDecode x (np_CACertPEM ?p) = Some caDER" "x_pemDecode x (np_NodeCertPEM ?p) = Some nodeDER"
    "x_pemDecode x (np_NodeKeyPEM ?p) = Some (cl_MarshalPKCS1 lib nodeKey)" "x_pemDecode x (np_JWTPublicKey ?p) = Some jwtDER"
    "x_pemDecode x (cb_PanelCertPEM b) = Some panelDER"
    using plain_types by (simp_all add: laws(1) b normalized_def read_normalized read_written)
  obtain nodePub where nodePub: "x_MarshalPKIX x (cl_PublicKey lib nodeKey) = Inr nodePub" using laws(6) by blast
  have public: "key_public x (cl_MarshalPKCS1 lib nodeKey) = Some (cl_PublicKey lib nodeKey)"
    using laws(4) [of nodeKey] by (auto simp: key_public_def laws(5))
  have "x_NotBefore x c \<le> now" "now \<le> x_NotAfter x c"
    using times assms(7,8) Unix_bounds(1) [of "ct_NotBefore ca"] Unix_bounds(2) [of "ct_NotAfter ca"]
    by (simp_all add: c Hour_def)
  moreover have parsed: "parseCertificate x (np_CACertPEM ?p) = Inr c" "parseCertificate x (np_NodeCertPEM ?p) = Inr nodeC"
    "parseCertificate x (cb_PanelCertPEM b) = Inr panelC"
    by (simp_all add: parseCertificate_def decoded c nodeC panelC)
  ultimately have valid: "snd (ValidateNodePayload x now ?p) = None"
    unfolding ValidateNodePayload_None using sigs(1,2) decoded(3,4) nodePub nodePub [folded nodeC(2)] public laws(7) [OF jwt] laws(8) [of "cb_JWTPrivateKey b"] by blast
  have secret: "DecodeSecretKey corrupt parse (EncodeToString raw) = Inr ?p"
    by (rule DecodeSecretKey_bundle [of parse raw, OF assms(6)]) (simp_all add: b)
  have "jw_ParseRSAPublicKeyFromPEM jw (np_JWTPublicKey ?p) = Inr ?key"
    using assms(3) read_normalized [OF plain_types(2), of jwtDER] laws(7) [OF jwt] laws(8) [of "cb_JWTPrivateKey b"]
    unfolding token_laws_def by (simp add: b normalized_def)
  then have key: "ParseJWTPublicKey jw (np_JWTPublicKey ?p) = Inr ?key" by (simp add: ParseJWTPublicKey_def)
  obtain claims e where signed: "cl_Sign lib ''RS256'' claims (cb_JWTPrivateKey b) = Inr token"
    "fmlookup claims ''exp'' = Some (JInt e)" "fmlookup claims ''nbf'' = None" "now < e * 10 ^ 9"
    by (rule NewRS256Token_signed [OF assms(1,5)]) (use assms(9) in force)
  note lets_in = JWTMiddleware_lets_in [OF assms(3) signed]
  from secret valid key sigs(3) parsed(1,3) show ?thesis
    by - (intro exI conjI allI impI, assumption+, rule lets_in, assumption)
qed

text \<open>
  A world whose clock stands still, keys that are characters, certificates that consist of the key of their subject and the key
  that signed them.
\<close>

definition toy_certs :: "(nat, char, char) cert_lib" where
  "toy_certs =
     \<lparr>cl_Now = (\<lambda>w. (0, w)), cl_Int = (\<lambda>n w. (Inr 7, w)), cl_GenerateKey = (\<lambda>n w. (Inr (char_of w), Suc w)),
      cl_CreateCertificate = (\<lambda>t parent pub key w.
        if ct_NotBefore t = - Hour \<and> ct_NotAfter t = Hour then (Inr [pub, key], w) else (Inl (NewError ''time''), w)),
      cl_PublicKey = (\<lambda>key. key), cl_MarshalPKCS1 = (\<lambda>key. [key]), cl_Sign = (\<lambda>_ _ _. Inr ''e30.e30.eA'')\<rparr>"

definition toy_x509 :: "(char \<times> char, char) x509_lib" where
  "toy_x509 =
     \<lparr>x_pemDecode = (\<lambda>text. map_option snd (pem_Decode text)),
      x_ParseCertificate = (\<lambda>der. case der of [pub, key] \<Rightarrow> Inr (pub, key) | _ \<Rightarrow> Inl (NewError ''malformed'')),
      x_NotBefore = (\<lambda>_. - Hour), x_NotAfter = (\<lambda>_. Hour),
      x_CheckSignatureFrom = (\<lambda>c ca. if snd c = fst ca then None else Some (NewError ''signature'')),
      x_sha256_Raw = (\<lambda>_. []), x_PublicKey = fst, x_ParsePKCS8 = (\<lambda>_. Inl (NewError ''use ParsePKCS1PrivateKey'')),
      x_ParsePKCS1 = (\<lambda>der. Inr (hd der)), x_ParseEC = (\<lambda>_. Inl (NewError ''not EC'')), x_MarshalPKIX = (\<lambda>p. Inr [p]),
      x_ParsePKIX = (\<lambda>der. Inr (hd der)), x_IsRSA = (\<lambda>_. True), x_TypeName = (\<lambda>_. ''*rsa.PublicKey'')\<rparr>"

definition toy_jwt :: "char jwt_lib" where
  "toy_jwt =
     \<lparr>jw_Parse = (\<lambda>token keyfunc.
        case keyfunc \<lparr>jt_IsRSA = True, jt_Alg = ''RS256'', jt_HeaderAlg = ''RS256'', jt_Valid = False\<rparr> of
          Inl err \<Rightarrow> (Some err, None)
        | Inr _ \<Rightarrow> (None, Some \<lparr>jt_IsRSA = True, jt_Alg = ''RS256'', jt_HeaderAlg = ''RS256'', jt_Valid = True\<rparr>)),
      jw_ParseRSAPublicKeyFromPEM = (\<lambda>text.
        case pem_Decode text of None \<Rightarrow> Inl (NewError ''not PEM'') | Some (_, der) \<Rightarrow> Inr (hd der))\<rparr>"

lemma toy_clock: "clock_laws (\<lambda>_. 0) toy_certs"
  by (simp add: clock_laws_def toy_certs_def)

lemma toy_token_laws: "token_laws 0 toy_certs toy_x509 toy_jwt"
  by (auto simp: token_laws_def toy_certs_def toy_x509_def toy_jwt_def token_char_def)

lemma toy_x509_laws: "x509_laws toy_certs toy_x509"
proof -
  have "issued toy_certs t parent pub key der \<longleftrightarrow> ct_NotBefore t = - Hour \<and> ct_NotAfter t = Hour \<and> der = [pub, key]"
    for t parent pub key der
    by (auto simp: issued_def toy_certs_def)
  moreover have "Unix Hour * 10 ^ 9 = Hour" "Unix (- Hour) * 10 ^ 9 = - Hour" by (simp_all add: Unix_def Hour_def)
  ultimately show ?thesis
    unfolding x509_laws_def by (auto simp: toy_certs_def toy_x509_def)
qed

theorem bundle_accepted_witness:
  "\<exists>b payload. fst (NewCertBundle toy_certs toy_x509 0) = Inr b \<and>
     DecodeSecretKey (\<lambda>_. NewError ''corrupt'') (\<lambda>_. Inr (cb_Payload b)) (EncodeToString ''{}'') = Inr payload \<and>
     snd (ValidateNodePayload toy_x509 0 payload) = None"
proof -
  obtain b w1 where b: "NewCertBundle toy_certs toy_x509 0 = (Inr b, w1)"
    by (simp add: NewCertBundle_def newRSAKey_def certTemplate_def must_def and_then_def toy_certs_def toy_x509_def)
  have "NewRS256Token toy_certs (cb_JWTPrivateKey b) 0 = (Inr ''e30.e30.eA'', 0)"
    by (simp add: NewRS256Token_def must_def toy_certs_def)
  from bundle_accepted [OF toy_clock toy_x509_laws toy_token_laws b this, of "\<lambda>_. Inr (cb_Payload b)" "''{}''"]
  show ?thesis using b by force
qed

end
