(* ===== verification/Golden.thy ===== *)
theory Golden
  imports Build GoJson Contracts
begin

text \<open>
  The fixtures of the contract tests (\<open>internal/testkit/golden.go\<close>): the decoder that accepts exactly one JSON value
  without unknown fields, the canonical form that documents are compared in, and the loading of the fixture of the
  Panel API. The stream decoder of \<open>encoding/json\<close> is modelled over the scanner of \<open>GoJson\<close>; the decoding of one
  value into a Go type, which works by reflection, is a parameter.
\<close>

section \<open>The stream decoder\<close>

definition EOF :: gerror where "EOF = NewError ''EOF''"
definition ErrUnexpectedEOF :: gerror where "ErrUnexpectedEOF = NewError ''unexpected EOF''"

text \<open>
  Whether a value at the top level ends before the next byte. The scanner notices an error behind the value only at the byte
  after that.
\<close>

fun value_ends :: "scanner \<Rightarrow> char \<Rightarrow> bool" where
  "value_ends (EndValue, []) c = True"
| "value_ends (Num1, []) c = (\<not> digit c \<and> c \<notin> {CHR ''.'', CHR ''e'', CHR ''E''})"
| "value_ends (Num0, []) c = (c \<notin> {CHR ''.'', CHR ''e'', CHR ''E''})"
| "value_ends (Dot0, []) c = (\<not> digit c \<and> c \<notin> {CHR ''e'', CHR ''E''})"
| "value_ends (E0, []) c = (\<not> digit c)"
| "value_ends _ c = False"

text \<open>
  \<open>Decoder.readValue\<close>: the text of the next value, with the white space before it, and the rest of the input; an array or
  object ends with its bracket. \<open>mismatch\<close> is the message for a byte that the scanner refuses.
\<close>

fun readValue :: "(string \<Rightarrow> gerror) \<Rightarrow> scanner \<Rightarrow> string \<Rightarrow> string \<Rightarrow> gerror + string \<times> string" where
  "readValue mismatch sc seen [] =
     (if value_ends sc (CHR '' '') then Inr (rev seen, [])
      else Inl (if list_all json_space seen then EOF else ErrUnexpectedEOF))"
| "readValue mismatch sc seen (c # s) =
     (if value_ends sc c then Inr (rev seen, c # s)
      else case scan sc c of
        None \<Rightarrow> Inl (mismatch (rev (c # seen)))
      | Some sc \<Rightarrow> if sc = (EndTop, []) then Inr (rev (c # seen), s) else readValue mismatch sc (c # seen) s)"

text \<open>
  \<open>Decoder.Decode\<close>: \<open>decode\<close> fills the target from the text of one value, which may be half filled when that fails.
\<close>

definition Decode :: "(string \<Rightarrow> gerror) \<Rightarrow> (string \<Rightarrow> 't \<times> gerror option) \<Rightarrow> 't \<Rightarrow> string \<Rightarrow>
    't \<times> gerror option \<times> string" where
  "Decode mismatch decode target input =
     (case readValue mismatch (BeginValue, []) [] input of
        Inl err \<Rightarrow> (target, Some err, input)
      | Inr (text, rest) \<Rightarrow> (case decode text of (v, err) \<Rightarrow> (v, err, rest)))"

section \<open>Strict decoding (golden.go)\<close>

definition StrictDecode :: "(string \<Rightarrow> gerror) \<Rightarrow> (string \<Rightarrow> 't \<times> gerror option) \<Rightarrow> (string \<Rightarrow> json \<times> gerror option) \<Rightarrow>
    't \<Rightarrow> string \<Rightarrow> 't \<times> gerror option" where
  "StrictDecode mismatch decode decodeAny zero data =
     (case Decode mismatch decode zero data of
        (v, Some err, _) \<Rightarrow> (v, Some err)
      | (v, None, rest) \<Rightarrow>
          if fst (snd (Decode mismatch decodeAny JNull rest)) \<noteq> Some EOF
          then (v, Some (NewError ''unexpected extra JSON data'')) else (v, None))"

text \<open>A call of \<open>t.Fatalf\<close> with an error ends the test.\<close>

definition MustStrictDecode :: "(string \<Rightarrow> gerror) \<Rightarrow> (string \<Rightarrow> 't \<times> gerror option) \<Rightarrow> (string \<Rightarrow> json \<times> gerror option) \<Rightarrow>
    't \<Rightarrow> string \<Rightarrow> string \<Rightarrow> gerror + 't" where
  "MustStrictDecode mismatch decode decodeAny zero typeName data =
     (case StrictDecode mismatch decode decodeAny zero data of
        (v, Some err) \<Rightarrow> Inl (NewError (''strict decode '' @ typeName @ '': '' @ Error_msg err))
      | (v, None) \<Rightarrow> Inr v)"

section \<open>The canonical form\<close>

text \<open>What is compared: JSON text in one of two types, or a value that is marshalled first.\<close>

datatype 'v comparable = RawMessage string | Bytes string | GoValue 'v

record 'v json_lib =
  jl_Unmarshal :: "string \<Rightarrow> gerror + json"
  jl_Marshal :: "json \<Rightarrow> gerror + string"
  jl_MarshalValue :: "'v \<Rightarrow> gerror + string"

definition fatal_on :: "string \<Rightarrow> gerror + 'a \<Rightarrow> ('a \<Rightarrow> gerror + 'b) \<Rightarrow> gerror + 'b" where
  "fatal_on what r f = (case r of Inl err \<Rightarrow> Inl (NewError (what @ '': '' @ Error_msg err)) | Inr v \<Rightarrow> f v)"

lemma fatal_on_Inr: "fatal_on what r f = Inr v \<longleftrightarrow> (\<exists>u. r = Inr u \<and> f u = Inr v)"
  by (cases r) (simp_all add: fatal_on_def)

definition decoded_value :: "'v json_lib \<Rightarrow> 'v comparable \<Rightarrow> gerror + json" where
  "decoded_value lib value =
     (case value of
        RawMessage typed \<Rightarrow> fatal_on ''unmarshal JSON'' (jl_Unmarshal lib typed) Inr
      | Bytes typed \<Rightarrow> fatal_on ''unmarshal JSON'' (jl_Unmarshal lib typed) Inr
      | GoValue typed \<Rightarrow>
          fatal_on ''marshal JSON'' (jl_MarshalValue lib typed) (\<lambda>data.
          fatal_on ''unmarshal marshaled JSON'' (jl_Unmarshal lib data) Inr))"

definition CanonicalJSON :: "'v json_lib \<Rightarrow> 'v comparable \<Rightarrow> gerror + string" where
  "CanonicalJSON lib value =
     on_ok (decoded_value lib value) (\<lambda>decoded. fatal_on ''marshal canonical JSON'' (jl_Marshal lib decoded) Inr)"

definition AssertCanonicalJSONEqual :: "'v json_lib \<Rightarrow> 'v comparable \<Rightarrow> 'v comparable \<Rightarrow> gerror option" where
  "AssertCanonicalJSONEqual lib got want =
     (case CanonicalJSON lib got of
        Inl err \<Rightarrow> Some err
      | Inr gotJSON \<Rightarrow>
     (case CanonicalJSON lib want of
        Inl err \<Rightarrow> Some err
      | Inr wantJSON \<Rightarrow>
          if gotJSON \<noteq> wantJSON
          then Some (NewError (''JSON mismatch'' @ LF @ ''got:  '' @ gotJSON @ LF @ ''want: '' @ wantJSON)) else None))"

section \<open>The fixture of the Panel API\<close>

record RouteFixture =
  rf_Name :: string
  rf_Method :: string
  rf_Path :: string
  rf_Status :: string
  rf_Request :: string
  rf_Response :: string

record PanelAPIFixture =
  pf_Version :: string
  pf_Routes :: "RouteFixture list"

definition read_fixture :: "(string \<Rightarrow> gerror + string) \<Rightarrow> (string \<Rightarrow> gerror + PanelAPIFixture) \<Rightarrow> string \<Rightarrow>
    gerror + PanelAPIFixture" where
  "read_fixture readFile unmarshal root =
     fatal_on ''read panel api fixture'' (readFile (path_Join root ''testdata/contracts/official-3.4.1/panel-api.json'')) (\<lambda>data.
     fatal_on ''unmarshal panel api fixture'' (unmarshal data) (\<lambda>fixture.
       if pf_Version fixture = [] then Inl (NewError ''panel api fixture version is empty'')
       else if pf_Routes fixture = [] then Inl (NewError ''panel api fixture has no routes'')
       else Inr fixture))"

text \<open>\<open>None\<close> would be a search for the root that never ends. The message for no root names the directory at the top, too.\<close>

definition LoadPanelAPIFixture :: "(string \<Rightarrow> bool) \<Rightarrow> (string \<Rightarrow> gerror + string) \<Rightarrow> (string \<Rightarrow> gerror + PanelAPIFixture) \<Rightarrow>
    gerror + string \<Rightarrow> (gerror + PanelAPIFixture) option" where
  "LoadPanelAPIFixture exists readFile unmarshal wd =
     (case wd of
        Inl err \<Rightarrow> Some (Inl (NewError (''get working directory: '' @ Error_msg err)))
      | Inr dir \<Rightarrow>
     (case ProjectRoot exists dir of
        None \<Rightarrow> None
      | Some None \<Rightarrow> Some (Inl (NewError ''could not find project root''))
      | Some (Some root) \<Rightarrow> Some (read_fixture readFile unmarshal root)))"

section \<open>Strict decoding accepts one value\<close>

definition at_top :: "scanner option \<Rightarrow> bool" where
  "at_top r \<longleftrightarrow> (\<exists>stack. r = Some (EndTop, stack))"

lemma scan_spaces: "at_top (scan_all (EndTop, stack) s) \<longleftrightarrow> list_all json_space s"
  by (induction s) (auto simp: at_top_def)

lemma value_ends_scan: "value_ends sc c \<Longrightarrow> scan sc c = (if json_space c then Some (EndTop, []) else None)"
  by (induction sc c rule: value_ends.induct) (auto simp: scan_end_value_def scan_exp_def)

lemma scan_to_top: "scan sc c = Some (EndTop, stack) \<Longrightarrow> fst sc \<noteq> EndTop \<Longrightarrow> stack = []"
  by (induction sc c rule: scan.induct)
    (auto simp: scan_end_value_def scan_exp_def scan_begin_value_def scan_begin_string_def push_state_def pop_state_def
      split: if_splits list.splits parse_state.splits nat.splits)

lemma scan_space_to_top: "scan sc c = Some (EndTop, stack) \<Longrightarrow> fst sc \<noteq> EndTop \<Longrightarrow> json_space c \<Longrightarrow> value_ends sc c"
  by (induction sc c rule: scan.induct)
    (auto simp: scan_end_value_def scan_exp_def scan_begin_value_def scan_begin_string_def push_state_def pop_state_def
      json_space_def digit_def split: if_splits list.splits parse_state.splits nat.splits)

text \<open>The value that is read is followed by white space exactly if the whole input is one value; without one it is none.\<close>

lemma readValue_ok:
  "readValue mismatch sc seen s = Inr (v, rest) \<Longrightarrow>
     \<exists>u. s = u @ rest \<and> v = rev seen @ u \<and> (at_top (scan_all sc (s @ '' '')) \<longleftrightarrow> list_all json_space rest)"
proof (induction mismatch sc seen s rule: readValue.induct)
  case (1 mismatch sc seen)
  then show ?case by (auto simp: value_ends_scan json_space_def at_top_def split: if_splits)
next
  case (2 mismatch sc seen c s)
  have space: "json_space (CHR '' '')" by (simp add: json_space_def)
  consider "value_ends sc c" | sc' where "\<not> value_ends sc c" "scan sc c = Some sc'" "sc' = (EndTop, [])"
    | sc' where "\<not> value_ends sc c" "scan sc c = Some sc'" "sc' \<noteq> (EndTop, [])"
    using 2(2) by (cases "value_ends sc c"; cases "scan sc c"; auto)
  then show ?case
  proof cases
    case 1
    then show ?thesis
      using 2(2) scan_spaces [of "[]" "s @ '' ''"] space
      by (cases "json_space c") (auto simp: value_ends_scan at_top_def)
  next
    case 2
    then show ?thesis using \<open>readValue mismatch sc seen (c # s) = _\<close> scan_spaces [of "[]" "s @ '' ''"] space by auto
  next
    case 3
    with 2 show ?thesis by fastforce
  qed
qed

lemma readValue_fails:
  "readValue mismatch sc seen s = Inl err \<Longrightarrow> fst sc \<noteq> EndTop \<Longrightarrow> \<not> at_top (scan_all sc (s @ '' ''))"
proof (induction mismatch sc seen s rule: readValue.induct)
  case (1 mismatch sc seen)
  then show ?case
    using scan_space_to_top [of sc "CHR '' ''"]
    by (auto simp: at_top_def json_space_def split: if_splits option.splits)
next
  case (2 mismatch sc seen c s)
  show ?case
  proof (cases "scan sc c")
    case None
    then show ?thesis by (simp add: at_top_def)
  next
    case (Some sc')
    with 2(2) have "\<not> value_ends sc c" "sc' \<noteq> (EndTop, [])" by (auto split: if_splits)
    moreover from this have "fst sc' \<noteq> EndTop" using Some 2(3) scan_to_top [of sc c "snd sc'"] by (cases sc') auto
    ultimately show ?thesis using 2 Some by auto
  qed
qed

lemma json_Valid_at_top: "json_Valid data \<longleftrightarrow> at_top (scan_all (BeginValue, []) (data @ '' ''))"
  by (auto simp: json_Valid_def at_top_def split: option.splits prod.splits scan_step.splits)

text \<open>The text of a value ends with its last byte.\<close>

fun settled :: "scanner \<Rightarrow> string \<Rightarrow> bool" where
  "settled (InLiteral w, stack) seen \<longleftrightarrow> list_all (\<lambda>c. \<not> json_space c) w"
| "settled (step, stack) seen \<longleftrightarrow>
     step \<in> {EndValue, Num1, Num0, Dot0, E0} \<and> stack = [] \<longrightarrow> seen \<noteq> [] \<and> \<not> json_space (hd seen)"

lemma settled_end: "scan_end_value c stack = Some sc \<Longrightarrow> settled sc (c # seen)"
  by (auto simp: scan_end_value_def pop_state_def split: if_splits list.splits parse_state.splits)

lemma settled_exp: "scan_exp c stack = Some sc \<Longrightarrow> settled sc (c # seen)"
  by (auto simp: scan_exp_def settled_end split: if_splits)

lemma settled_string: "scan_begin_string c stack = Some sc \<Longrightarrow> settled sc (c # seen)"
  by (auto simp: scan_begin_string_def split: if_splits)

lemma settled_begin: "scan_begin_value c stack = Some sc \<Longrightarrow> settled sc (c # seen)"
  by (auto simp: scan_begin_value_def push_state_def json_space_def digit_def split: if_splits)

lemma settled_digit: "digit c \<Longrightarrow> \<not> json_space c"
  by (auto simp: digit_def json_space_def)

lemma settled_scan:
  assumes "scan sc c = Some sc'" "settled sc seen"
  shows "settled sc' (c # seen)"
proof (cases sc)
  case (Pair step stack)
  note scanned = assms [unfolded Pair]
  have quote: "\<not> json_space (CHR 0x22)" "\<not> json_space (CHR ''0'')" by (simp_all add: json_space_def)
  show ?thesis
  proof (cases step)
    case (InLiteral w)
    with scanned(1) have w: "w \<noteq> []" "c = hd w" "sc' = (if tl w = [] then EndValue else InLiteral (tl w), stack)"
      by (simp_all split: if_splits)
    have "list_all (\<lambda>c. \<not> json_space c) w" using scanned(2) InLiteral by simp
    then show ?thesis using w by (cases w) auto
  next
    case (InStringU k)
    then show ?thesis using scanned(1) by (cases k) (auto split: if_splits)
  qed (use scanned(1) quote in \<open>auto simp: settled_digit settled_end settled_exp settled_string settled_begin split: if_splits\<close>)
qed

lemma value_ends_settled: "value_ends sc c \<Longrightarrow> settled sc seen \<Longrightarrow> seen \<noteq> [] \<and> \<not> json_space (hd seen)"
  by (induction sc c rule: value_ends.induct) auto

lemma readValue_last:
  "readValue mismatch sc seen s = Inr (v, rest) \<Longrightarrow> settled sc seen \<Longrightarrow> fst sc \<noteq> EndTop \<Longrightarrow> v \<noteq> [] \<and> \<not> json_space (last v)"
proof (induction mismatch sc seen s rule: readValue.induct)
  case (1 mismatch sc seen)
  then show ?case
    using value_ends_settled [of sc "CHR '' ''" seen] by (auto simp: last_rev split: if_splits)
next
  case (2 mismatch sc seen c s)
  show ?case
  proof (cases "value_ends sc c")
    case True
    then show ?thesis using 2(2,3) value_ends_settled [of sc c seen] by (auto simp: last_rev)
  next
    case False
    then obtain sc' where sc': "scan sc c = Some sc'" using 2(2) by (auto split: option.splits)
    show ?thesis
    proof (cases "sc' = (EndTop, [])")
      case True
      then have "\<not> json_space c" using scan_space_to_top [of sc c "[]"] sc' False 2(4) by auto
      then show ?thesis using 2(2) sc' False True by auto
    next
      case neq: False
      moreover have "fst sc' \<noteq> EndTop" using neq sc' 2(4) scan_to_top [of sc c "snd sc'"] by (cases sc') auto
      moreover have "settled sc' (c # seen)" by (rule settled_scan [OF sc' 2(3)])
      ultimately show ?thesis using 2 sc' False by simp
    qed
  qed
qed

definition rstrip :: "string \<Rightarrow> string" where
  "rstrip data = rev (dropWhile json_space (rev data))"

lemma rstrip_append: "v \<noteq> [] \<Longrightarrow> \<not> json_space (last v) \<Longrightarrow> list_all json_space r \<Longrightarrow> rstrip (v @ r) = v"
  by (cases v rule: rev_cases) (auto simp: rstrip_def list_all_iff dropWhile_append)

lemma readValue_spaces: "list_all json_space s \<Longrightarrow> readValue mismatch (BeginValue, []) seen s =
    Inl (if list_all json_space seen then EOF else ErrUnexpectedEOF)"
  by (induction s arbitrary: seen) (auto simp: scan_begin_value_def)

lemma EOF_neq: "ErrUnexpectedEOF \<noteq> EOF"
  by (simp add: EOF_def ErrUnexpectedEOF_def)

lemma readValue_EOF:
  assumes "\<And>t. mismatch t \<noteq> EOF"
  shows "readValue mismatch sc seen s = Inl EOF \<Longrightarrow> list_all json_space s \<and> list_all json_space seen"
proof (induction s arbitrary: sc seen)
  case Nil
  then show ?case using EOF_neq by (simp split: if_splits)
next
  case (Cons c s)
  from Cons.prems assms obtain sc' where "readValue mismatch sc' (c # seen) s = Inl EOF"
    by (auto split: if_splits option.splits)
  from Cons.IH [OF this] show ?case by simp
qed

text \<open>
  C39. Strict decoding accepts a document exactly if it is one valid JSON value between white space and that value decodes without an
  error, though it reads the document as a stream and looks for an end only behind the value; it returns what the value decodes
  to.
\<close>

theorem StrictDecode_exact:
  assumes "\<And>t. mismatch t \<noteq> EOF" "\<And>t. snd (decodeAny t) \<noteq> Some EOF"
  shows "StrictDecode mismatch decode decodeAny zero data = (v, None) \<longleftrightarrow>
    json_Valid data \<and> decode (rstrip data) = (v, None)"
proof -
  have ends: "fst (snd (Decode mismatch decodeAny JNull rest)) = Some EOF \<longleftrightarrow> list_all json_space rest" for rest
  proof (cases "readValue mismatch (BeginValue, []) [] rest")
    case (Inl err)
    then show ?thesis
      using readValue_EOF [OF assms(1), where sc = "(BeginValue, [])" and seen = "[]" and s = rest] readValue_spaces [of rest mismatch "[]"]
      by (auto simp: Decode_def)
  next
    case (Inr r)
    then show ?thesis
      using assms(2) [of "fst r"] readValue_spaces [of rest mismatch "[]"]
      by (auto simp: Decode_def split: prod.splits)
  qed
  show ?thesis
  proof (cases "readValue mismatch (BeginValue, []) [] data")
    case (Inl err)
    then have "\<not> json_Valid data"
      unfolding json_Valid_at_top using readValue_fails [of mismatch "(BeginValue, [])" "[]" data err] by simp
    with Inl show ?thesis by (simp add: StrictDecode_def Decode_def)
  next
    case (Inr r)
    obtain t rest where r: "r = (t, rest)" by fastforce
    have data: "data = t @ rest" and valid: "json_Valid data \<longleftrightarrow> list_all json_space rest"
      using readValue_ok [OF Inr [unfolded r]] unfolding json_Valid_at_top by auto
    have "t \<noteq> [] \<and> \<not> json_space (last t)" using readValue_last [OF Inr [unfolded r]] by simp
    then have "list_all json_space rest \<Longrightarrow> rstrip data = t" unfolding data by (blast intro: rstrip_append)
    moreover have "StrictDecode mismatch decode decodeAny zero data = (v, None) \<longleftrightarrow>
        decode t = (v, None) \<and> list_all json_space rest"
      using Inr ends [of rest] by (auto simp: StrictDecode_def Decode_def [of _ decode] r split: prod.splits option.splits)
    ultimately show ?thesis using valid by auto
  qed
qed

theorem StrictDecode_exact_witness:
  "StrictDecode (\<lambda>_. NewError ''invalid character'') (\<lambda>s. (length s, None)) (\<lambda>_. (JNull, None)) 0 '' [1, true] '' = (10, None)"
proof -
  have "json_Valid '' [1, true] ''" "rstrip '' [1, true] '' = '' [1, true]''" by code_simp+
  then show ?thesis
    by (subst StrictDecode_exact) (simp_all add: EOF_def)
qed

text \<open>Two documents compare as equal exactly if they decode to the same value.\<close>

lemma AssertCanonicalJSONEqual_iff:
  assumes "\<And>s v. jl_Unmarshal lib s = Inr v \<Longrightarrow> \<exists>out. jl_Marshal lib v = Inr out \<and> jl_Unmarshal lib out = Inr v"
  shows "AssertCanonicalJSONEqual lib got want = None \<longleftrightarrow>
    (\<exists>v. decoded_value lib got = Inr v \<and> decoded_value lib want = Inr v)"
proof -
  have read: "\<exists>s. jl_Unmarshal lib s = Inr v" if "decoded_value lib x = Inr v" for x v
    using that by (auto simp: decoded_value_def fatal_on_def split: comparable.splits sum.splits)
  have canon: "CanonicalJSON lib x = Inr out \<longleftrightarrow> (\<exists>v. decoded_value lib x = Inr v \<and> jl_Marshal lib v = Inr out)" for x out
    by (auto simp: CanonicalJSON_def fatal_on_Inr on_ok_Inr)
  have "AssertCanonicalJSONEqual lib got want = None \<longleftrightarrow>
      (\<exists>out. CanonicalJSON lib got = Inr out \<and> CanonicalJSON lib want = Inr out)"
    by (auto simp: AssertCanonicalJSONEqual_def split: sum.splits)
  also have "\<dots> \<longleftrightarrow> (\<exists>v. decoded_value lib got = Inr v \<and> decoded_value lib want = Inr v)"
  proof
    assume "\<exists>out. CanonicalJSON lib got = Inr out \<and> CanonicalJSON lib want = Inr out"
    then obtain out v u where v: "decoded_value lib got = Inr v" "jl_Marshal lib v = Inr out"
      and u: "decoded_value lib want = Inr u" "jl_Marshal lib u = Inr out"
      unfolding canon by blast
    have "jl_Unmarshal lib out = Inr v" using read [OF v(1)] assms v(2) by fastforce
    moreover have "jl_Unmarshal lib out = Inr u" using read [OF u(1)] assms u(2) by fastforce
    ultimately show "\<exists>v. decoded_value lib got = Inr v \<and> decoded_value lib want = Inr v" using u(1) v(1) by simp
  next
    assume "\<exists>v. decoded_value lib got = Inr v \<and> decoded_value lib want = Inr v"
    then show "\<exists>out. CanonicalJSON lib got = Inr out \<and> CanonicalJSON lib want = Inr out"
      unfolding canon using read assms by blast
  qed
  finally show ?thesis .
qed

text \<open>A fixture that was loaded has a version and routes; one in a directory without a project fails the test.\<close>

lemma LoadPanelAPIFixture_ok:
  assumes "list_all plain_elem es"
  shows "\<exists>r. LoadPanelAPIFixture exists readFile unmarshal (Inr (path_of True es)) = Some r \<and>
    (\<forall>fixture. r = Inr fixture \<longrightarrow> pf_Version fixture \<noteq> [] \<and> pf_Routes fixture \<noteq> [])"
  using ProjectRoot_returns [OF assms, of exists]
  by (auto simp: LoadPanelAPIFixture_def read_fixture_def fatal_on_def split: option.splits sum.splits)

end
