(* ===== verification/Sampler.thy ===== *)
theory Sampler
  imports System
begin

text \<open>
  The life of the network sampler (\<open>internal/system/stats.go\<close>): its construction, the goroutine that samples at every
  tick, and \<open>Close\<close>, in every order in which the goroutine and its users can take their turns.
\<close>

section \<open>State\<close>

text \<open>
  \<open>sc_CloseOnce\<close> is the \<open>sync.Once\<close>, \<open>sc_DoneClosed\<close> says how often the channel \<open>done\<close> was closed, where the second time
  would panic, and \<open>sc_Looping\<close> whether the goroutine is still in its loop.
\<close>

record sampler_cell =
  sc_Sampler :: NetworkSampler
  sc_Interval :: int
  sc_CloseOnce :: bool
  sc_DoneClosed :: nat
  sc_Looping :: bool

type_synonym reading = "(gerror + string) \<times> (gerror + IOCountersStat list) \<times> int"

definition defaultSampleInterval :: int where "defaultSampleInterval = 10 ^ 9"

definition start_sampler :: "(rat \<Rightarrow> rat) \<Rightarrow> int \<Rightarrow> reading \<Rightarrow> sampler_cell" where
  "start_sampler rnd interval first =
     \<lparr>sc_Sampler = NewNetworkSampler rnd first,
      sc_Interval = (if interval \<le> 0 then defaultSampleInterval else interval),
      sc_CloseOnce = False, sc_DoneClosed = 0, sc_Looping = True\<rparr>"

section \<open>Closing\<close>

definition sampler_Close :: "sampler_cell \<Rightarrow> gerror option \<times> sampler_cell" where
  "sampler_Close c =
     (None, if sc_CloseOnce c then c else c\<lparr>sc_CloseOnce := True, sc_DoneClosed := Suc (sc_DoneClosed c)\<rparr>)"

text \<open>A snapshotter may have no sampler.\<close>

definition snapshotter_Close :: "sampler_cell option \<Rightarrow> gerror option \<times> sampler_cell option" where
  "snapshotter_Close s =
     (case s of None \<Rightarrow> (None, None) | Some c \<Rightarrow> (case sampler_Close c of (err, c) \<Rightarrow> (err, Some c)))"

section \<open>The loop\<close>

text \<open>
  When a tick and the end are both ready, the \<open>select\<close> of the loop takes any of them: a sampler that was closed may sample
  once more before it stops.
\<close>

inductive sampler_step :: "(rat \<Rightarrow> rat) \<Rightarrow> sampler_cell \<Rightarrow> sampler_cell \<Rightarrow> bool" for rnd where
  Tick: "sc_Looping c \<Longrightarrow>
    sampler_step rnd c (c\<lparr>sc_Sampler := (case reading of (r, cs, now) \<Rightarrow> sampler_sample rnd r cs now (sc_Sampler c))\<rparr>)"
| Done: "sc_Looping c \<Longrightarrow> 0 < sc_DoneClosed c \<Longrightarrow> sampler_step rnd c (c\<lparr>sc_Looping := False\<rparr>)"
| Close: "sampler_step rnd c (snd (sampler_Close c))"

inductive_cases sampler_stepE: "sampler_step rnd c d"

section \<open>Lemmas\<close>

definition closed_once :: "sampler_cell \<Rightarrow> bool" where
  "closed_once c \<longleftrightarrow> sc_DoneClosed c = (if sc_CloseOnce c then 1 else 0) \<and> (sc_Looping c \<or> sc_CloseOnce c) \<and> 0 < sc_Interval c"

lemma closed_once_start: "closed_once (start_sampler rnd interval first)"
  by (simp add: closed_once_def start_sampler_def defaultSampleInterval_def)

lemma closed_once_step: "sampler_step rnd c d \<Longrightarrow> closed_once c \<Longrightarrow> closed_once d"
  by (elim sampler_stepE) (auto simp: closed_once_def sampler_Close_def split: if_splits)

lemma sampler_run_cell: "(sampler_step rnd)\<^sup>*\<^sup>* (start_sampler rnd interval first) c \<Longrightarrow> closed_once c"
  by (induction rule: rtranclp_induct) (auto intro: closed_once_start closed_once_step)

lemma sampler_readings:
  "(sampler_step rnd)\<^sup>*\<^sup>* (start_sampler rnd interval first) c \<Longrightarrow>
     \<exists>readings. sc_Sampler c = sampler_run rnd readings (NewNetworkSampler rnd first)"
proof (induction rule: rtranclp_induct)
  case base
  have "sc_Sampler (start_sampler rnd interval first) = sampler_run rnd [] (NewNetworkSampler rnd first)"
    by (simp add: start_sampler_def sampler_run_def)
  then show ?case by blast
next
  case (step c d)
  then obtain rs where rs: "sc_Sampler c = sampler_run rnd rs (NewNetworkSampler rnd first)" by blast
  from step(2) show ?case
  proof (cases rule: sampler_step.cases)
    case (Tick reading)
    then have "sc_Sampler d = sampler_run rnd (rs @ [reading]) (NewNetworkSampler rnd first)"
      by (cases reading) (simp add: sampler_run_def rs)
    then show ?thesis by blast
  qed (use rs in \<open>auto simp: sampler_Close_def\<close>)
qed

lemma stopped_stays: "(sampler_step rnd)\<^sup>*\<^sup>* c d \<Longrightarrow> \<not> sc_Looping c \<Longrightarrow> \<not> sc_Looping d \<and> sc_Sampler d = sc_Sampler c"
  by (induction rule: rtranclp_induct) (auto elim!: sampler_stepE simp: sampler_Close_def split: if_splits)

text \<open>
  However often and whenever a sampler is closed, its channel is closed at most once, so that no close panics; a loop that has
  ended was told to, and from then on the snapshot stays as it is. What the loop samples is a run of \<open>sampler_sample\<close> over its readings.
\<close>

theorem sampler_life:
  assumes "(sampler_step rnd)\<^sup>*\<^sup>* (start_sampler rnd interval first) c"
  shows "sc_DoneClosed c \<le> 1 \<and> (sc_Looping c \<or> sc_CloseOnce c) \<and> 0 < sc_Interval c \<and>
    (\<exists>readings. sc_Sampler c = sampler_run rnd readings (NewNetworkSampler rnd first)) \<and>
    (\<forall>d. \<not> sc_Looping c \<and> (sampler_step rnd)\<^sup>*\<^sup>* c d \<longrightarrow> sampler_Snapshot (sc_Sampler d) = sampler_Snapshot (sc_Sampler c))"
proof -
  have "sc_DoneClosed c \<le> 1 \<and> (sc_Looping c \<or> sc_CloseOnce c) \<and> 0 < sc_Interval c"
    using sampler_run_cell [OF assms] by (auto simp: closed_once_def)
  moreover have "\<forall>d. \<not> sc_Looping c \<and> (sampler_step rnd)\<^sup>*\<^sup>* c d \<longrightarrow> sampler_Snapshot (sc_Sampler d) = sampler_Snapshot (sc_Sampler c)"
    using stopped_stays [of rnd c] by metis
  ultimately show ?thesis using sampler_readings [OF assms] by blast
qed

end
