(* ===== verification/NodeLog.thy ===== *)
theory NodeLog
  imports StartLog HandlerController HttpServer
begin

text \<open>
  Log calls of the node outside the start and the stop: the integrity report of the secret key
  (\<open>internal/httpapi/server.go\<close>) and the removal of a user (\<open>internal/controller/handler_controller.go\<close>).
\<close>

definition logPayloadChecks :: "PayloadCheck list \<Rightarrow> gerror option \<Rightarrow> log_call list" where
  "logPayloadChecks checks err =
     (let rows = map (\<lambda>check. case payload_check_row check of (name, value) \<Rightarrow> Field name (VString value)) checks;
          title = (if err \<noteq> None then ''SECRET_KEY payload INVALID'' else ''SECRET_KEY payload OK'')
      in LogTab level_Info title (Table title rows) #
         (if err \<noteq> None
          then [LogLine level_Error ''SECRET_KEY payload validation failed; check the SECRET_KEY value'' []] else []))"

definition redactedError :: "gerror option \<Rightarrow> string" where
  "redactedError err = (case err of None \<Rightarrow> [] | Some e \<Rightarrow> RedactText (Error_msg e))"

definition removeUser :: "'w HandlerClient \<Rightarrow> string \<Rightarrow> string \<Rightarrow> 'w \<Rightarrow> (gerror option \<times> 'w) \<times> log_call list" where
  "removeUser client tag username w =
     (case hc_RemoveUser client tag username w of
        (err, w) \<Rightarrow>
          ((err, w),
           if err \<noteq> None
           then [LogLine level_Debug ''remove xray user'' [(''tag'', tag), (''error'', redactedError err)]] else []))"

text \<open>
  The title of the logged report tells whether the payload was refused, and it has a row for each of the seven checks.
\<close>

lemma logPayloadChecks_ValidateNodePayload:
  "case ValidateNodePayload x now payload of (checks, err) \<Rightarrow>
     length checks = 7 \<and>
     (hd (logPayloadChecks checks err) = LogTab level_Info ''SECRET_KEY payload OK''
        (Table ''SECRET_KEY payload OK'' (map (\<lambda>c. Field (pc_Name c) (VString (''ok '' @ pc_Detail c))) checks))
      \<longleftrightarrow> err = None)"
proof -
  obtain checks err where v: "ValidateNodePayload x now payload = (checks, err)" by fastforce
  have "length checks = 7"
    using arg_cong [OF ValidateNodePayload_names [of x now payload], of length] v by simp
  moreover have "err = None \<Longrightarrow> \<forall>c\<in>set checks. pc_OK c"
    using v by (auto simp: ValidateNodePayload_def Let_def filter_empty_conv split: if_splits)
  ultimately show ?thesis
    unfolding v by (auto simp: logPayloadChecks_def Let_def payload_check_row_def intro!: arg_cong [where f = "Table _"])
qed

lemma removeUser_agrees: "fst (removeUser client tag username w) = hc_RemoveUser client tag username w"
  by (simp add: removeUser_def split: prod.split)

end
