(* ===== verification/GeodataPool.thy ===== *)
theory GeodataPool
  imports Geodata
begin

text \<open>
  The geodata assets under concurrency (\<open>internal/xray/geodata.go\<close>). \<open>PrepareGeodata\<close> starts a goroutine per asset; a
  channel of five slots lets at most five of them work at a time, and a wait group holds the start back until all have
  ended. Here the work on one asset is cut into turns, one call of the outside world each, and the pool is a step relation
  over all orders of turns. The sequential \<open>PrepareGeodata\<close> is one of its runs.
\<close>

section \<open>One goroutine\<close>

text \<open>
  Where the goroutine of an asset is, with its local variables: before the slot, before the check of the file, the request,
  the directory, the temporary file, the copy, the rename, the deferred removal (with whether the download failed), the
  directory and the file of the stub, before the slot is given back, and at its end.
\<close>

datatype asset_pc =
    AssetWaiting
  | AssetChecking
  | AssetRequesting
  | AssetReceived string
  | AssetDirMade string
  | AssetTempMade string string
  | AssetCopied string
  | AssetRemoving string bool
  | AssetStubDir
  | AssetStubFile
  | AssetLeaving
  | AssetDone

definition asset_path :: "'w geodata_os \<Rightarrow> string \<Rightarrow> GeodataAsset \<Rightarrow> string" where
  "asset_path os assetDir asset = geo_Join os assetDir (ga_File asset)"

fun asset_turn :: "'w geodata_os \<Rightarrow> string \<Rightarrow> GeodataAsset \<Rightarrow> asset_pc \<Rightarrow> 'w \<Rightarrow> asset_pc \<times> 'w" where
  "asset_turn os dir asset AssetChecking w =
     (if fileExistsNonEmpty os (asset_path os dir asset) w = Inr True then (AssetLeaving, w) else (AssetRequesting, w))"
| "asset_turn os dir asset AssetRequesting w =
     (case geo_Do os (ga_URL asset) w of
        (Inl err, w) \<Rightarrow> (AssetStubDir, w)
      | (Inr (status, body), w) \<Rightarrow> (if status \<noteq> 200 then AssetStubDir else AssetReceived body, w))"
| "asset_turn os dir asset (AssetReceived body) w =
     (case geo_MkdirAll os (geo_Dir os (asset_path os dir asset)) w of
        (Some err, w) \<Rightarrow> (AssetStubDir, w)
      | (None, w) \<Rightarrow> (AssetDirMade body, w))"
| "asset_turn os dir asset (AssetDirMade body) w =
     (case geo_CreateTemp os (geo_Dir os (asset_path os dir asset)) w of
        (Inl err, w) \<Rightarrow> (AssetStubDir, w)
      | (Inr tmpName, w) \<Rightarrow> (AssetTempMade tmpName body, w))"
| "asset_turn os dir asset (AssetTempMade tmpName body) w =
     (case geo_CopyClose os tmpName maxGeodataAssetSize body w of
        (Some err, w) \<Rightarrow> (AssetRemoving tmpName True, w)
      | (None, w) \<Rightarrow> (AssetCopied tmpName, w))"
| "asset_turn os dir asset (AssetCopied tmpName) w =
     (case geo_Rename os tmpName (asset_path os dir asset) w of (r, w) \<Rightarrow> (AssetRemoving tmpName (r \<noteq> None), w))"
| "asset_turn os dir asset (AssetRemoving tmpName failed) w =
     (if failed then AssetStubDir else AssetLeaving, geo_Remove os tmpName w)"
| "asset_turn os dir asset AssetStubDir w =
     (case geo_MkdirAll os (geo_Dir os (asset_path os dir asset)) w of
        (Some err, w) \<Rightarrow> (AssetLeaving, w)
      | (None, w) \<Rightarrow> (AssetStubFile, w))"
| "asset_turn os dir asset AssetStubFile w = (AssetLeaving, geo_CreateExcl os (asset_path os dir asset) w)"
| "asset_turn os dir asset pc w = (pc, w)"

fun asset_turns :: "'w geodata_os \<Rightarrow> string \<Rightarrow> GeodataAsset \<Rightarrow> nat \<Rightarrow> asset_pc \<Rightarrow> 'w \<Rightarrow> asset_pc \<times> 'w" where
  "asset_turns os dir asset 0 pc w = (pc, w)"
| "asset_turns os dir asset (Suc n) pc w =
     (case asset_turn os dir asset pc w of (pc, w) \<Rightarrow> asset_turns os dir asset n pc w)"

text \<open>The turns of a goroutine in a row are the sequential definition.\<close>

lemma asset_turns_leaving: "asset_turns os dir asset n AssetLeaving w = (AssetLeaving, w)"
  by (induction n) simp_all

lemma turns_implement_asset:
  "asset_turns os dir asset 9 AssetChecking w = (AssetLeaving, prepareGeodataAsset os dir asset w)"
  by (simp add: numeral_eq_Suc prepareGeodataAsset_def downloadGeodataAsset_def createGeodataStub_def Let_def
      asset_path_def [symmetric] asset_turns_leaving split: prod.splits sum.splits option.splits)

section \<open>The pool\<close>

definition geodataConcurrency :: nat where "geodataConcurrency = 5"

record 'w pool =
  po_Slots :: nat
  po_Tasks :: "(GeodataAsset \<times> asset_pc) list"
  po_World :: 'w

definition new_pool :: "GeodataAsset list \<Rightarrow> 'w \<Rightarrow> 'w pool" where
  "new_pool assets w = \<lparr>po_Slots = 0, po_Tasks = map (\<lambda>asset. (asset, AssetWaiting)) assets, po_World = w\<rparr>"

definition working :: "asset_pc \<Rightarrow> bool" where
  "working pc \<longleftrightarrow> pc \<notin> {AssetWaiting, AssetLeaving, AssetDone}"

text \<open>
  A goroutine sends into the channel if there is room, makes a turn of its work, or receives from the channel; the wait
  group counts it as ended then.
\<close>

inductive pool_step :: "'w geodata_os \<Rightarrow> string \<Rightarrow> 'w pool \<Rightarrow> 'w pool \<Rightarrow> bool" for os dir where
  enter: "i < length (po_Tasks p) \<Longrightarrow> po_Tasks p ! i = (asset, AssetWaiting) \<Longrightarrow> po_Slots p < geodataConcurrency \<Longrightarrow>
    pool_step os dir p
      (p\<lparr>po_Slots := po_Slots p + 1, po_Tasks := (po_Tasks p)[i := (asset, AssetChecking)]\<rparr>)"
| turn: "i < length (po_Tasks p) \<Longrightarrow> po_Tasks p ! i = (asset, pc) \<Longrightarrow> working pc \<Longrightarrow>
    asset_turn os dir asset pc (po_World p) = (pc', w') \<Longrightarrow>
    pool_step os dir p (p\<lparr>po_Tasks := (po_Tasks p)[i := (asset, pc')], po_World := w'\<rparr>)"
| leave: "i < length (po_Tasks p) \<Longrightarrow> po_Tasks p ! i = (asset, AssetLeaving) \<Longrightarrow>
    pool_step os dir p
      (p\<lparr>po_Slots := po_Slots p - 1, po_Tasks := (po_Tasks p)[i := (asset, AssetDone)]\<rparr>)"

inductive_cases pool_stepE: "pool_step os dir p p'"

definition pool_finished :: "'w pool \<Rightarrow> bool" where
  "pool_finished p \<longleftrightarrow> list_all (\<lambda>(asset, pc). pc = AssetDone) (po_Tasks p)"

text \<open>The assets of a config that are worked on: none where the code returns early.\<close>

definition geodata_assets :: "'w geodata_os \<Rightarrow> json_map \<Rightarrow> GeodataAsset list" where
  "geodata_assets os panelConfig =
     (case panelConfig of
        None \<Rightarrow> []
      | Some m \<Rightarrow>
     (case as_map (fmlookup m ''geodata'') of
        None \<Rightarrow> []
      | Some section \<Rightarrow>
     (case geo_decode os section of
        Inl err \<Rightarrow> []
      | Inr parsed \<Rightarrow> filter (validGeodataAsset os) parsed)))"

definition geodata_run :: "'w geodata_os \<Rightarrow> json_map \<Rightarrow> 'w \<Rightarrow> 'w \<Rightarrow> bool" where
  "geodata_run os panelConfig w w' \<longleftrightarrow>
     (\<exists>p. (pool_step os (geo_AssetDir os w))\<^sup>*\<^sup>* (new_pool (geodata_assets os panelConfig) w) p \<and>
        pool_finished p \<and> po_World p = w')"

lemma PrepareGeodata_fold:
  "PrepareGeodata os panelConfig w = fold (prepareGeodataAsset os (geo_AssetDir os w)) (geodata_assets os panelConfig) w"
  by (simp add: PrepareGeodata_def geodata_assets_def Let_def split: option.splits sum.splits)

section \<open>The sequential definition is a run\<close>

lemma asset_turn_idle: "\<not> working pc \<Longrightarrow> asset_turn os dir asset pc w = (pc, w)"
  by (cases pc) (simp_all add: working_def)

lemma pool_turns:
  assumes "i < length (po_Tasks p)" "po_Tasks p ! i = (asset, pc)" "asset_turns os dir asset n pc (po_World p) = (pc', w')"
  shows "(pool_step os dir)\<^sup>*\<^sup>* p (p\<lparr>po_Tasks := (po_Tasks p)[i := (asset, pc')], po_World := w'\<rparr>)"
  using assms
proof (induction n arbitrary: p pc)
  case 0
  then have "p\<lparr>po_Tasks := (po_Tasks p)[i := (asset, pc')], po_World := w'\<rparr> = p" by (simp add: list_update_same_conv)
  then show ?case by simp
next
  case (Suc n)
  obtain pc1 w1 where t: "asset_turn os dir asset pc (po_World p) = (pc1, w1)" by fastforce
  let ?p = "p\<lparr>po_Tasks := (po_Tasks p)[i := (asset, pc1)], po_World := w1\<rparr>"
  have "(pool_step os dir)\<^sup>*\<^sup>* ?p (?p\<lparr>po_Tasks := (po_Tasks ?p)[i := (asset, pc')], po_World := w'\<rparr>)"
    using Suc.prems t by (intro Suc.IH) simp_all
  then have rest: "(pool_step os dir)\<^sup>*\<^sup>* ?p (p\<lparr>po_Tasks := (po_Tasks p)[i := (asset, pc')], po_World := w'\<rparr>)" by simp
  show ?case
  proof (cases "working pc")
    case True
    with Suc.prems(1,2) t have "pool_step os dir p ?p" by (intro pool_step.turn)
    then show ?thesis using rest by (rule converse_rtranclp_into_rtranclp)
  next
    case False
    with t Suc.prems(1,2) have "pc1 = pc" "w1 = po_World p" by (simp_all add: asset_turn_idle)
    with Suc.prems(1,2) have "?p = p" by (simp add: list_update_same_conv)
    then show ?thesis using rest by simp
  qed
qed

text \<open>One goroutine from its slot to its end, while the others wait or have ended.\<close>

lemma pool_one:
  assumes "i < length ts" "ts ! i = (asset, AssetWaiting)"
  shows "(pool_step os dir)\<^sup>*\<^sup>* \<lparr>po_Slots = 0, po_Tasks = ts, po_World = w\<rparr>
    \<lparr>po_Slots = 0, po_Tasks = ts[i := (asset, AssetDone)], po_World = prepareGeodataAsset os dir asset w\<rparr>"
proof -
  let ?p = "\<lparr>po_Slots = 1, po_Tasks = ts[i := (asset, AssetChecking)], po_World = w\<rparr>"
  let ?q = "\<lparr>po_Slots = 1, po_Tasks = ts[i := (asset, AssetLeaving)], po_World = prepareGeodataAsset os dir asset w\<rparr>"
  have "pool_step os dir \<lparr>po_Slots = 0, po_Tasks = ts, po_World = w\<rparr> ?p"
    using pool_step.enter [of i "\<lparr>po_Slots = 0, po_Tasks = ts, po_World = w\<rparr>"] assms by (simp add: geodataConcurrency_def)
  also have "(pool_step os dir)\<^sup>*\<^sup>* ?p ?q"
    using pool_turns [of i ?p asset AssetChecking os dir 9, OF _ _ turns_implement_asset] assms(1) by simp
  also have "pool_step os dir ?q
      \<lparr>po_Slots = 0, po_Tasks = ts[i := (asset, AssetDone)], po_World = prepareGeodataAsset os dir asset w\<rparr>"
    using pool_step.leave [of i ?q] assms(1) by simp
  finally show ?thesis .
qed

lemma pool_in_order:
  "(pool_step os dir)\<^sup>*\<^sup>*
     \<lparr>po_Slots = 0, po_Tasks = map (\<lambda>asset. (asset, AssetDone)) ended @ map (\<lambda>asset. (asset, AssetWaiting)) assets, po_World = w\<rparr>
     \<lparr>po_Slots = 0, po_Tasks = map (\<lambda>asset. (asset, AssetDone)) (ended @ assets),
       po_World = fold (prepareGeodataAsset os dir) assets w\<rparr>"
proof (induction assets arbitrary: ended w)
  case (Cons asset assets)
  let ?ts = "map (\<lambda>asset. (asset, AssetDone)) ended @ map (\<lambda>asset. (asset, AssetWaiting)) (asset # assets)"
  have "?ts ! length ended = (asset, AssetWaiting)" by (simp add: nth_append)
  moreover have "?ts[length ended := (asset, AssetDone)] =
      map (\<lambda>asset. (asset, AssetDone)) (ended @ [asset]) @ map (\<lambda>asset. (asset, AssetWaiting)) assets"
    by (simp add: list_update_append)
  ultimately have "(pool_step os dir)\<^sup>*\<^sup>* \<lparr>po_Slots = 0, po_Tasks = ?ts, po_World = w\<rparr>
      \<lparr>po_Slots = 0, po_Tasks = map (\<lambda>asset. (asset, AssetDone)) (ended @ [asset]) @
         map (\<lambda>asset. (asset, AssetWaiting)) assets, po_World = prepareGeodataAsset os dir asset w\<rparr>"
    using pool_one [of "length ended" ?ts asset os dir w] by simp
  also note Cons.IH
  finally show ?case by simp
qed simp

lemma PrepareGeodata_run: "geodata_run os panelConfig w (PrepareGeodata os panelConfig w)"
proof -
  let ?assets = "geodata_assets os panelConfig"
  let ?p = "\<lparr>po_Slots = 0, po_Tasks = map (\<lambda>asset. (asset, AssetDone)) ?assets, po_World = PrepareGeodata os panelConfig w\<rparr>"
  have "(pool_step os (geo_AssetDir os w))\<^sup>*\<^sup>* (new_pool ?assets w) ?p"
    using pool_in_order [of os "geo_AssetDir os w" "[]" ?assets w] by (simp add: new_pool_def PrepareGeodata_fold)
  moreover have "pool_finished ?p" by (simp add: pool_finished_def list_all_iff)
  ultimately show ?thesis unfolding geodata_run_def by force
qed

section \<open>Slots, progress and the end\<close>

definition holding :: "asset_pc \<Rightarrow> bool" where
  "holding pc \<longleftrightarrow> pc \<notin> {AssetWaiting, AssetDone}"

definition held :: "'w pool \<Rightarrow> nat" where
  "held p = length (filter (\<lambda>(asset, pc). holding pc) (po_Tasks p))"

lemma length_filter_update:
  "i < length xs \<Longrightarrow> length (filter P (xs[i := y])) + (if P (xs ! i) then 1 else 0) =
     length (filter P xs) + (if P y then 1 else 0)"
  by (subst (3) id_take_nth_drop [of i xs]) (simp_all add: upd_conv_take_nth_drop)

lemma asset_turn_holding: "working pc \<Longrightarrow> asset_turn os dir asset pc w = (pc', w') \<Longrightarrow> holding pc'"
  by (cases pc) (auto simp: working_def holding_def split: if_splits prod.splits sum.splits option.splits)

lemma pool_slots_step:
  assumes "pool_step os dir p p'" "po_Slots p = held p \<and> po_Slots p \<le> geodataConcurrency"
  shows "po_Slots p' = held p' \<and> po_Slots p' \<le> geodataConcurrency"
  using assms(1)
proof cases
  case (enter i asset)
  then show ?thesis
    using assms(2) length_filter_update [of i "po_Tasks p" "\<lambda>(asset, pc). holding pc" "(asset, AssetChecking)"]
    by (simp add: held_def holding_def)
next
  case (turn i asset pc pc' w')
  then show ?thesis
    using assms(2) length_filter_update [of i "po_Tasks p" "\<lambda>(asset, pc). holding pc" "(asset, pc')"]
      asset_turn_holding [OF turn(4,5)]
    by (simp add: held_def holding_def working_def split: if_splits)
next
  case (leave i asset)
  then show ?thesis
    using assms(2) length_filter_update [of i "po_Tasks p" "\<lambda>(asset, pc). holding pc" "(asset, AssetDone)"]
    by (simp add: held_def holding_def) linarith
qed

lemma pool_slots:
  "(pool_step os dir)\<^sup>*\<^sup>* (new_pool assets w) p \<Longrightarrow> po_Slots p = held p \<and> po_Slots p \<le> geodataConcurrency"
proof (induction rule: rtranclp_induct)
  case base
  show ?case by (simp add: new_pool_def held_def holding_def filter_map comp_def)
qed (rule pool_slots_step)

text \<open>A pool that has not finished can go on.\<close>

lemma pool_progress:
  assumes "(pool_step os dir)\<^sup>*\<^sup>* (new_pool assets w) p" "\<not> pool_finished p"
  shows "\<exists>p'. pool_step os dir p p'"
proof -
  obtain asset pc where "(asset, pc) \<in> set (po_Tasks p)" "pc \<noteq> AssetDone"
    using assms(2) by (auto simp: pool_finished_def list_all_iff)
  then obtain i where i: "i < length (po_Tasks p)" "po_Tasks p ! i = (asset, pc)" by (auto simp: in_set_conv_nth)
  consider "working pc" | "pc = AssetLeaving" | "pc = AssetWaiting" using \<open>pc \<noteq> AssetDone\<close> by (auto simp: working_def)
  then show ?thesis
  proof cases
    case 1
    obtain pc' w' where "asset_turn os dir asset pc (po_World p) = (pc', w')" by fastforce
    with i 1 show ?thesis by (blast intro: pool_step.turn)
  next
    case 2
    with i show ?thesis by (blast intro: pool_step.leave)
  next
    case 3
    show ?thesis
    proof (cases "po_Slots p < geodataConcurrency")
      case True
      with i 3 show ?thesis by (blast intro: pool_step.enter)
    next
      case False
      then have "held p \<noteq> 0" using pool_slots [OF assms(1)] by (simp add: geodataConcurrency_def)
      then obtain b q where "(b, q) \<in> set (po_Tasks p)" "holding q" by (auto simp: held_def filter_empty_conv)
      then obtain j where j: "j < length (po_Tasks p)" "po_Tasks p ! j = (b, q)" by (auto simp: in_set_conv_nth)
      obtain q' w' where "asset_turn os dir b q (po_World p) = (q', w')" by fastforce
      moreover have "working q \<or> q = AssetLeaving" using \<open>holding q\<close> by (auto simp: working_def holding_def)
      ultimately show ?thesis using j by (blast intro: pool_step.turn pool_step.leave)
    qed
  qed
qed

fun asset_rank :: "asset_pc \<Rightarrow> nat" where
  "asset_rank AssetWaiting = 11"
| "asset_rank AssetChecking = 10"
| "asset_rank AssetRequesting = 9"
| "asset_rank (AssetReceived _) = 8"
| "asset_rank (AssetDirMade _) = 7"
| "asset_rank (AssetTempMade _ _) = 6"
| "asset_rank (AssetCopied _) = 5"
| "asset_rank (AssetRemoving _ _) = 4"
| "asset_rank AssetStubDir = 3"
| "asset_rank AssetStubFile = 2"
| "asset_rank AssetLeaving = 1"
| "asset_rank AssetDone = 0"

definition pool_rank :: "'w pool \<Rightarrow> nat" where
  "pool_rank p = sum_list (map (\<lambda>(asset, pc). asset_rank pc) (po_Tasks p))"

lemma asset_turn_rank: "working pc \<Longrightarrow> asset_turn os dir asset pc w = (pc', w') \<Longrightarrow> asset_rank pc' < asset_rank pc"
  by (cases pc) (auto simp: working_def split: if_splits prod.splits sum.splits option.splits)

lemma sum_list_update_less:
  fixes f :: "'a \<Rightarrow> nat"
  shows "i < length xs \<Longrightarrow> f y < f (xs ! i) \<Longrightarrow> sum_list (map f (xs[i := y])) < sum_list (map f xs)"
  by (induction xs arbitrary: i) (auto split: nat.splits)

lemma pool_step_rank: "pool_step os dir p p' \<Longrightarrow> pool_rank p' < pool_rank p"
  unfolding pool_rank_def
  by (erule pool_stepE) (auto intro!: sum_list_update_less dest: asset_turn_rank)

text \<open>No run is longer than eleven steps for each asset.\<close>

lemma pool_steps_rank: "(pool_step os dir ^^ n) p p' \<Longrightarrow> n + pool_rank p' \<le> pool_rank p"
proof (induction n arbitrary: p')
  case (Suc n)
  then obtain q where "(pool_step os dir ^^ n) p q" "pool_step os dir q p'" by auto
  with Suc.IH pool_step_rank show ?case by fastforce
qed simp

lemma pool_run_bounded: "(pool_step os dir ^^ n) (new_pool assets w) p \<Longrightarrow> n \<le> 11 * length assets"
  by (drule pool_steps_rank) (simp add: pool_rank_def new_pool_def comp_def sum_list_triv)

section \<open>What the files of the system are\<close>

text \<open>
  Regular files by path (\<open>files\<close>) and the names that were given to temporary files so far (\<open>temps\<close>): the request and the
  creation of directories leave both alone; a temporary file has a name that no other got, which is not that of a plain file
  unless it begins like a temporary one; a copy changes its file only, a rename moves one as a whole or nothing, a removal
  removes its file or fails and leaves everything as it was, and an exclusive creation makes an empty file or nothing.
\<close>

definition file_laws :: "'w geodata_os \<Rightarrow> ('w \<Rightarrow> string \<Rightarrow> string option) \<Rightarrow> ('w \<Rightarrow> string set) \<Rightarrow> string \<Rightarrow> bool" where
  "file_laws os files temps dir \<longleftrightarrow>
     (\<forall>p w c. files w p = Some c \<longrightarrow> geo_Stat os p w = StatInfo True (length c)) \<and>
     (\<forall>p w n. geo_Stat os p w = StatInfo True n \<longrightarrow> files w p \<noteq> None) \<and>
     (\<forall>url w. files (snd (geo_Do os url w)) = files w \<and> temps (snd (geo_Do os url w)) = temps w) \<and>
     (\<forall>d w. files (snd (geo_MkdirAll os d w)) = files w \<and> temps (snd (geo_MkdirAll os d w)) = temps w) \<and>
     (\<forall>d w err w'. geo_CreateTemp os d w = (Inl err, w') \<longrightarrow> files w' = files w \<and> temps w' = temps w) \<and>
     (\<forall>d w tmp w'. geo_CreateTemp os d w = (Inr tmp, w') \<longrightarrow>
        tmp \<notin> temps w \<and> files w tmp = None \<and> temps w' = insert tmp (temps w) \<and> files w' = (files w)(tmp \<mapsto> []) \<and>
        (\<forall>file. geodataFileNamePattern file \<and> \<not> prefix ''.geodata-'' file \<longrightarrow> geo_Join os dir file \<noteq> tmp)) \<and>
     (\<forall>tmp n body w r w'. geo_CopyClose os tmp n body w = (r, w') \<longrightarrow>
        temps w' = temps w \<and> (\<exists>c. files w' = (files w)(tmp \<mapsto> c) \<and> (r = None \<longrightarrow> c = take n body))) \<and>
     (\<forall>tmp p w c r w'. files w tmp = Some c \<and> tmp \<noteq> p \<and> geo_Rename os tmp p w = (r, w') \<longrightarrow>
        temps w' = temps w \<and> files w' = (if r = None then (files w)(tmp := None, p \<mapsto> c) else files w)) \<and>
     (\<forall>p w. temps (geo_Remove os p w) = temps w \<and>
        (files (geo_Remove os p w) = (files w)(p := None) \<or> files (geo_Remove os p w) = files w)) \<and>
     (\<forall>p w. temps (geo_CreateExcl os p w) = temps w \<and>
        (files (geo_CreateExcl os p w) = files w \<or> files w p = None \<and> files (geo_CreateExcl os p w) = (files w)(p \<mapsto> [])))"

lemma file_lawsD:
  assumes "file_laws os files temps dir"
  shows "files w p = Some c \<Longrightarrow> geo_Stat os p w = StatInfo True (length c)"
    "geo_Do os url w = (rd, w') \<Longrightarrow> files w' = files w \<and> temps w' = temps w"
    "geo_MkdirAll os d w = (r, w') \<Longrightarrow> files w' = files w \<and> temps w' = temps w"
    "geo_CreateTemp os d w = (Inl err, w') \<Longrightarrow> files w' = files w \<and> temps w' = temps w"
    "geo_CreateTemp os d w = (Inr tmp, w') \<Longrightarrow>
       tmp \<notin> temps w \<and> files w tmp = None \<and> temps w' = insert tmp (temps w) \<and> files w' = (files w)(tmp \<mapsto> [])"
    "geo_CreateTemp os d w = (Inr tmp, w') \<Longrightarrow> geodataFileNamePattern file \<Longrightarrow> \<not> prefix ''.geodata-'' file \<Longrightarrow>
       geo_Join os dir file \<noteq> tmp"
    "geo_CopyClose os tmp n body w = (r, w') \<Longrightarrow>
       temps w' = temps w \<and> (\<exists>c. files w' = (files w)(tmp \<mapsto> c) \<and> (r = None \<longrightarrow> c = take n body))"
    "geo_Rename os tmp p w = (r, w') \<Longrightarrow> files w tmp = Some c \<Longrightarrow> tmp \<noteq> p \<Longrightarrow>
       temps w' = temps w \<and> files w' = (if r = None then (files w)(tmp := None, p \<mapsto> c) else files w)"
    "temps (geo_Remove os p w) = temps w"
    "files (geo_Remove os p w) = (files w)(p := None) \<or> files (geo_Remove os p w) = files w"
    "temps (geo_CreateExcl os p w) = temps w"
    "files (geo_CreateExcl os p w) = files w \<or> files w p = None \<and> files (geo_CreateExcl os p w) = (files w)(p \<mapsto> [])"
    "geo_Stat os p w = StatInfo True k \<Longrightarrow> files w p \<noteq> None"
  using assms unfolding file_laws_def by (blast | metis snd_conv)+

text \<open>A body that the server of a URL answers with status 200, and what a path may hold in the end.\<close>

definition served :: "'w geodata_os \<Rightarrow> string \<Rightarrow> string \<Rightarrow> bool" where
  "served os url body \<longleftrightarrow> (\<exists>w. fst (geo_Do os url w) = Inr (200, body))"

definition downloaded :: "'w geodata_os \<Rightarrow> GeodataAsset \<Rightarrow> string \<Rightarrow> bool" where
  "downloaded os asset c \<longleftrightarrow> (\<exists>body. served os (ga_URL asset) body \<and> c = take maxGeodataAssetSize body)"

definition replaceable :: "string option \<Rightarrow> bool" where
  "replaceable old \<longleftrightarrow> old = None \<or> old = Some []"

text \<open>An asset whose name passes the pattern and is not that of a temporary file.\<close>

definition plain_asset :: "GeodataAsset \<Rightarrow> bool" where
  "plain_asset asset \<longleftrightarrow> geodataFileNamePattern (ga_File asset) \<and> \<not> prefix ''.geodata-'' (ga_File asset)"

section \<open>One turn and the others\<close>

fun pc_temp :: "asset_pc \<Rightarrow> string option" where
  "pc_temp (AssetTempMade tmp body) = Some tmp"
| "pc_temp (AssetCopied tmp) = Some tmp"
| "pc_temp (AssetRemoving tmp failed) = Some tmp"
| "pc_temp _ = None"

text \<open>The removal of a file always works: its error, which the code ignores, does not occur.\<close>

definition removes_work :: "'w geodata_os \<Rightarrow> ('w \<Rightarrow> string \<Rightarrow> string option) \<Rightarrow> bool" where
  "removes_work os files \<longleftrightarrow> (\<forall>p w. files (geo_Remove os p w) p = None)"

text \<open>
  What a turn may do to the files: to its asset's path, an empty file where there is none or a whole download; to its
  temporary file, anything; to the others, nothing. A goroutine that has done with its temporary file has removed it, if
  removals work.
\<close>

definition turn_effect :: "'w geodata_os \<Rightarrow> ('w \<Rightarrow> string \<Rightarrow> string option) \<Rightarrow> ('w \<Rightarrow> string set) \<Rightarrow> string \<Rightarrow>
    string \<Rightarrow> GeodataAsset \<Rightarrow> asset_pc \<Rightarrow> asset_pc \<Rightarrow> 'w \<Rightarrow> 'w \<Rightarrow> bool" where
  "turn_effect os files temps dir path asset pc pc' w w' \<longleftrightarrow>
     temps w \<subseteq> temps w' \<and>
     (\<forall>q. q \<noteq> path \<longrightarrow> pc_temp pc \<noteq> Some q \<longrightarrow> pc_temp pc' \<noteq> Some q \<longrightarrow> files w' q = files w q) \<and>
     (\<forall>t. pc_temp pc' = Some t \<longrightarrow> pc_temp pc = Some t \<or>
        t \<notin> temps w \<and> files w t = None \<and> (\<forall>b. plain_asset b \<longrightarrow> asset_path os dir b \<noteq> t)) \<and>
     (removes_work os files \<longrightarrow> (\<forall>t. pc_temp pc = Some t \<longrightarrow> pc_temp pc' = None \<longrightarrow> files w' t = None)) \<and>
     (files w' path = files w path \<or>
      pc \<noteq> AssetChecking \<and> (files w path = None \<and> files w' path = Some [] \<or> (\<exists>c. downloaded os asset c \<and> files w' path = Some c)))"

text \<open>Directories can be made, and after an exclusive creation there is a file: the new one or an older one.\<close>

definition stubs_work :: "'w geodata_os \<Rightarrow> ('w \<Rightarrow> string \<Rightarrow> string option) \<Rightarrow> bool" where
  "stubs_work os files \<longleftrightarrow>
     (\<forall>d w. fst (geo_MkdirAll os d w) = None) \<and> (\<forall>p w. files (geo_CreateExcl os p w) p \<noteq> None)"

text \<open>What holds where a goroutine is: \<open>old\<close> is what its path held before the pool.\<close>

definition task_ok :: "'w geodata_os \<Rightarrow> ('w \<Rightarrow> string \<Rightarrow> string option) \<Rightarrow> ('w \<Rightarrow> string set) \<Rightarrow> string \<Rightarrow>
    string option \<Rightarrow> GeodataAsset \<Rightarrow> asset_pc \<Rightarrow> 'w \<Rightarrow> bool" where
  "task_ok os files temps path old asset pc w \<longleftrightarrow>
     (case pc_temp pc of None \<Rightarrow> True | Some t \<Rightarrow> t \<in> temps w \<and> t \<noteq> path) \<and>
     (pc \<in> {AssetWaiting, AssetChecking, AssetLeaving, AssetDone} \<or> replaceable old) \<and>
     (case pc of
        AssetReceived body \<Rightarrow> served os (ga_URL asset) body
      | AssetDirMade body \<Rightarrow> served os (ga_URL asset) body
      | AssetTempMade tmp body \<Rightarrow> served os (ga_URL asset) body
      | AssetCopied tmp \<Rightarrow> (\<exists>c. downloaded os asset c \<and> files w tmp = Some c)
      | AssetRemoving tmp failed \<Rightarrow> failed \<or> files w path \<noteq> None
      | AssetLeaving \<Rightarrow> stubs_work os files \<longrightarrow> files w path \<noteq> None
      | AssetDone \<Rightarrow> stubs_work os files \<longrightarrow> files w path \<noteq> None
      | _ \<Rightarrow> True)"

lemma stat_present:
  "file_laws os files temps dir \<Longrightarrow> fileExistsNonEmpty os p w = Inr True \<Longrightarrow> files w p \<noteq> None"
  using file_lawsD(13) [of os files temps dir p w] by (auto simp: fileExistsNonEmpty_def split: stat_result.splits)

lemma stat_absent:
  assumes "file_laws os files temps dir" "fileExistsNonEmpty os p w \<noteq> Inr True"
  shows "replaceable (files w p)"
  using assms file_lawsD(1) [OF assms(1)]
  by (cases "files w p") (auto simp: fileExistsNonEmpty_def replaceable_def)

lemma asset_turn_ok:
  assumes laws: "file_laws os files temps dir" and plain: "plain_asset asset"
    and path: "path = asset_path os dir asset"
    and ok: "task_ok os files temps path old asset pc w" and "working pc"
    and old: "files w path = old \<or> replaceable old"
    and t: "asset_turn os dir asset pc w = (pc', w')"
  shows "turn_effect os files temps dir path asset pc pc' w w' \<and> task_ok os files temps path old asset pc' w'"
proof (cases pc)
  case AssetChecking
  then show ?thesis
    using t old ok stat_present [OF laws, of path w] stat_absent [OF laws, of path w]
    by (auto simp: turn_effect_def task_ok_def path [symmetric] split: if_splits)
next
  case AssetRequesting
  obtain r w1 where r: "geo_Do os (ga_URL asset) w = (r, w1)" by fastforce
  then have "served os (ga_URL asset) body" if "r = Inr (200, body)" for body using that unfolding served_def by (metis fst_conv)
  with AssetRequesting r show ?thesis
    using t ok file_lawsD(2) [OF laws r]
    by (auto simp: turn_effect_def task_ok_def split: if_splits sum.splits)
next
  case (AssetReceived body)
  obtain r w1 where r: "geo_MkdirAll os (geo_Dir os path) w = (r, w1)" by fastforce
  with AssetReceived show ?thesis
    using t ok file_lawsD(3) [OF laws r]
    by (cases r) (auto simp: turn_effect_def task_ok_def path [symmetric])
next
  case (AssetDirMade body)
  obtain r w1 where r: "geo_CreateTemp os (geo_Dir os path) w = (r, w1)" by fastforce
  show ?thesis
  proof (cases r)
    case (Inl err)
    with AssetDirMade r show ?thesis
      using t ok file_lawsD(4) [OF laws r [unfolded Inl]]
      by (auto simp: turn_effect_def task_ok_def path [symmetric])
  next
    case (Inr tmp)
    have "\<forall>b. plain_asset b \<longrightarrow> asset_path os dir b \<noteq> tmp"
      using file_lawsD(6) [OF laws r [unfolded Inr]] by (simp add: asset_path_def plain_asset_def)
    moreover from this have "tmp \<noteq> path" using plain path by blast
    ultimately show ?thesis
      using AssetDirMade r Inr t ok file_lawsD(5) [OF laws r [unfolded Inr]]
      by (auto simp: turn_effect_def task_ok_def path [symmetric])
  qed
next
  case (AssetTempMade tmp body)
  obtain r w1 where r: "geo_CopyClose os tmp maxGeodataAssetSize body w = (r, w1)" by fastforce
  obtain c where c: "temps w1 = temps w" "files w1 = (files w)(tmp \<mapsto> c)" "r = None \<longrightarrow> c = take maxGeodataAssetSize body"
    using file_lawsD(7) [OF laws r] by blast
  have "served os (ga_URL asset) body" "tmp \<in> temps w" "tmp \<noteq> path" "replaceable old"
    using ok AssetTempMade by (simp_all add: task_ok_def)
  with AssetTempMade c t r show ?thesis
    by (cases r) (auto simp: turn_effect_def task_ok_def downloaded_def)
next
  case (AssetCopied tmp)
  obtain r w1 where r: "geo_Rename os tmp path w = (r, w1)" by fastforce
  obtain c where c: "downloaded os asset c" "files w tmp = Some c" "tmp \<noteq> path"
    using ok AssetCopied by (auto simp: task_ok_def)
  with AssetCopied r show ?thesis
    using t ok file_lawsD(8) [OF laws r c(2,3)]
    by (auto simp: turn_effect_def task_ok_def path [symmetric])
next
  case (AssetRemoving tmp failed)
  have w': "w' = geo_Remove os tmp w" "pc' = (if failed then AssetStubDir else AssetLeaving)"
    using t AssetRemoving by simp_all
  have "tmp \<noteq> path" "failed \<or> files w path \<noteq> None" using ok AssetRemoving by (simp_all add: task_ok_def)
  with AssetRemoving show ?thesis
    using ok file_lawsD(9) [OF laws, of tmp w] file_lawsD(10) [OF laws, of tmp w]
    by (cases failed) (auto simp: turn_effect_def task_ok_def removes_work_def w')
next
  case AssetStubDir
  obtain r w1 where r: "geo_MkdirAll os (geo_Dir os path) w = (r, w1)" by fastforce
  then have "stubs_work os files \<Longrightarrow> r = None" unfolding stubs_work_def by (metis fst_conv)
  with AssetStubDir r show ?thesis
    using t ok file_lawsD(3) [OF laws r]
    by (cases r) (auto simp: turn_effect_def task_ok_def path [symmetric])
next
  case AssetStubFile
  moreover have "stubs_work os files \<Longrightarrow> files (geo_CreateExcl os path w) path \<noteq> None" unfolding stubs_work_def by blast
  ultimately show ?thesis
    using t ok file_lawsD(11,12) [OF laws, of path w]
    by (auto simp: turn_effect_def task_ok_def path [symmetric])
qed (use \<open>working pc\<close> in \<open>simp_all add: working_def\<close>)

text \<open>A turn of one goroutine keeps what another one relies on.\<close>

lemma task_ok_stable:
  assumes effect: "turn_effect os files temps dir path asset pc pc' w w'"
    and ok: "task_ok os files temps path2 old2 asset2 pc2 w"
    and other: "\<And>t. pc_temp pc2 = Some t \<Longrightarrow> pc_temp pc \<noteq> Some t \<and> t \<noteq> path"
    and paths: "pc_temp pc \<noteq> Some path2" "pc_temp pc' \<noteq> Some path2"
  shows "task_ok os files temps path2 old2 asset2 pc2 w'"
proof -
  have "files w' t = files w t" if "pc_temp pc2 = Some t" for t
    using that effect other [OF that] ok unfolding turn_effect_def task_ok_def by fastforce
  moreover have "files w' path2 \<noteq> None" if "files w path2 \<noteq> None"
    using that effect paths unfolding turn_effect_def by (cases "path2 = path") auto
  moreover have "temps w \<subseteq> temps w'" using effect unfolding turn_effect_def by blast
  ultimately show ?thesis
    using ok unfolding task_ok_def by (cases pc2) auto
qed

section \<open>The pool at every moment\<close>

definition provisioned :: "'w geodata_os \<Rightarrow> ('w \<Rightarrow> string \<Rightarrow> string option) \<Rightarrow> string \<Rightarrow> GeodataAsset list \<Rightarrow> 'w \<Rightarrow> 'w \<Rightarrow>
    string \<Rightarrow> bool" where
  "provisioned os files dir assets w0 w path \<longleftrightarrow>
     files w path = files w0 path \<or>
     replaceable (files w0 path) \<and>
       (files w path = Some [] \<or> (\<exists>asset\<in>set assets. \<exists>c. asset_path os dir asset = path \<and> downloaded os asset c \<and> files w path = Some c))"

definition pcs_temp :: "asset_pc list \<Rightarrow> string \<Rightarrow> bool" where
  "pcs_temp pcs t \<longleftrightarrow> (\<exists>i<length pcs. pc_temp (pcs ! i) = Some t)"

definition pcs_inv :: "'w geodata_os \<Rightarrow> ('w \<Rightarrow> string \<Rightarrow> string option) \<Rightarrow> ('w \<Rightarrow> string set) \<Rightarrow> string \<Rightarrow>
    GeodataAsset list \<Rightarrow> 'w \<Rightarrow> asset_pc list \<Rightarrow> 'w \<Rightarrow> bool" where
  "pcs_inv os files temps dir assets w0 pcs w \<longleftrightarrow>
     length pcs = length assets \<and>
     (\<forall>i<length pcs. task_ok os files temps (asset_path os dir (assets ! i)) (files w0 (asset_path os dir (assets ! i)))
        (assets ! i) (pcs ! i) w) \<and>
     (\<forall>i<length pcs. \<forall>j<length pcs. \<forall>t. pc_temp (pcs ! i) = Some t \<longrightarrow> pc_temp (pcs ! j) = Some t \<longrightarrow> i = j) \<and>
     (\<forall>t. pcs_temp pcs t \<longrightarrow> files w0 t = None \<and> t \<notin> temps w0 \<and> t \<notin> asset_path os dir ` set assets) \<and>
     (\<forall>q. q \<notin> asset_path os dir ` set assets \<longrightarrow> removes_work os files \<and> \<not> pcs_temp pcs q \<or> q \<notin> temps w - temps w0 \<longrightarrow>
        files w q = files w0 q) \<and>
     (\<forall>asset\<in>set assets. provisioned os files dir assets w0 w (asset_path os dir asset)) \<and>
     temps w0 \<subseteq> temps w"

lemma pcs_invD:
  assumes "pcs_inv os files temps dir assets w0 pcs w"
  shows "length pcs = length assets"
    "i < length pcs \<Longrightarrow> task_ok os files temps (asset_path os dir (assets ! i)) (files w0 (asset_path os dir (assets ! i)))
       (assets ! i) (pcs ! i) w"
    "i < length pcs \<Longrightarrow> j < length pcs \<Longrightarrow> pc_temp (pcs ! i) = Some t \<Longrightarrow> pc_temp (pcs ! j) = Some t \<Longrightarrow> i = j"
    "pcs_temp pcs t \<Longrightarrow> files w0 t = None \<and> t \<notin> temps w0 \<and> t \<notin> asset_path os dir ` set assets"
    "q \<notin> asset_path os dir ` set assets \<Longrightarrow> removes_work os files \<and> \<not> pcs_temp pcs q \<or> q \<notin> temps w - temps w0 \<Longrightarrow>
       files w q = files w0 q"
    "b \<in> set assets \<Longrightarrow> provisioned os files dir assets w0 w (asset_path os dir b)"
    "temps w0 \<subseteq> temps w"
  using assms unfolding pcs_inv_def by blast+

lemma pcs_invI:
  assumes "length pcs = length assets"
    "\<And>i. i < length pcs \<Longrightarrow> task_ok os files temps (asset_path os dir (assets ! i)) (files w0 (asset_path os dir (assets ! i)))
       (assets ! i) (pcs ! i) w"
    "\<And>i j t. i < length pcs \<Longrightarrow> j < length pcs \<Longrightarrow> pc_temp (pcs ! i) = Some t \<Longrightarrow> pc_temp (pcs ! j) = Some t \<Longrightarrow> i = j"
    "\<And>t. pcs_temp pcs t \<Longrightarrow> files w0 t = None \<and> t \<notin> temps w0 \<and> t \<notin> asset_path os dir ` set assets"
    "\<And>q. q \<notin> asset_path os dir ` set assets \<Longrightarrow> removes_work os files \<and> \<not> pcs_temp pcs q \<or> q \<notin> temps w - temps w0 \<Longrightarrow>
       files w q = files w0 q"
    "\<And>b. b \<in> set assets \<Longrightarrow> provisioned os files dir assets w0 w (asset_path os dir b)"
    "temps w0 \<subseteq> temps w"
  shows "pcs_inv os files temps dir assets w0 pcs w"
  unfolding pcs_inv_def using assms by blast

lemma pcs_temp_nth: "i < length pcs \<Longrightarrow> pc_temp (pcs ! i) = Some t \<Longrightarrow> pcs_temp pcs t"
  by (auto simp: pcs_temp_def)

lemma pcs_temp_update:
  "i < length pcs \<Longrightarrow> pcs_temp (pcs[i := pc']) t \<longleftrightarrow>
     pc_temp pc' = Some t \<or> (\<exists>j<length pcs. j \<noteq> i \<and> pc_temp (pcs ! j) = Some t)"
  by (auto simp: pcs_temp_def nth_list_update)

text \<open>A step without files: taking a slot and giving it back.\<close>

lemma pcs_inv_slot:
  assumes inv: "pcs_inv os files temps dir assets w0 pcs w"
    and i: "i < length pcs" and none: "pc_temp (pcs ! i) = None" "pc_temp pc' = None"
    and ok: "task_ok os files temps (asset_path os dir (assets ! i)) (files w0 (asset_path os dir (assets ! i))) (assets ! i) pc' w"
  shows "pcs_inv os files temps dir assets w0 (pcs[i := pc']) w"
proof -
  have t: "pcs_temp (pcs[i := pc']) = pcs_temp pcs"
    unfolding fun_eq_iff pcs_temp_update [OF i] using none i by (auto simp: pcs_temp_def)
  show ?thesis
  proof (rule pcs_invI)
    fix j
    assume "j < length (pcs[i := pc'])"
    then show "task_ok os files temps (asset_path os dir (assets ! j)) (files w0 (asset_path os dir (assets ! j))) (assets ! j)
        (pcs[i := pc'] ! j) w"
      using pcs_invD(2) [OF inv] ok by (cases "j = i") simp_all
  next
    fix j k t
    assume "j < length (pcs[i := pc'])" "k < length (pcs[i := pc'])" "pc_temp (pcs[i := pc'] ! j) = Some t"
      "pc_temp (pcs[i := pc'] ! k) = Some t"
    then show "j = k" using pcs_invD(3) [OF inv, of j k t] none i by (cases "j = i"; cases "k = i") simp_all
  qed (use pcs_invD(1,4,5,6,7) [OF inv] in \<open>simp_all add: t\<close>)
qed

text \<open>A turn of the \<open>i\<close>th goroutine, by what it does and where it leads.\<close>

definition pcs_turn :: "'w geodata_os \<Rightarrow> ('w \<Rightarrow> string \<Rightarrow> string option) \<Rightarrow> ('w \<Rightarrow> string set) \<Rightarrow> string \<Rightarrow>
    GeodataAsset list \<Rightarrow> 'w \<Rightarrow> asset_pc list \<Rightarrow> 'w \<Rightarrow> nat \<Rightarrow> asset_pc \<Rightarrow> 'w \<Rightarrow> bool" where
  "pcs_turn os files temps dir assets w0 pcs w i pc' w' \<longleftrightarrow>
     pcs_inv os files temps dir assets w0 pcs w \<and> i < length pcs \<and> working (pcs ! i) \<and>
     turn_effect os files temps dir (asset_path os dir (assets ! i)) (assets ! i) (pcs ! i) pc' w w' \<and>
     task_ok os files temps (asset_path os dir (assets ! i)) (files w0 (asset_path os dir (assets ! i))) (assets ! i) pc' w' \<and>
     (\<forall>t. pc_temp pc' = Some t \<longrightarrow> t \<notin> asset_path os dir ` set assets \<and>
        (pc_temp (pcs ! i) = Some t \<or> pc_temp (pcs ! i) = None \<and> t \<notin> temps w \<and> files w t = None))"

lemma asset_turn_temp:
  "asset_turn os dir asset pc w = (pc', w') \<Longrightarrow> pc_temp pc = Some t \<Longrightarrow> pc_temp pc' = None \<or> pc_temp pc' = Some t"
  by (cases pc) (auto split: if_splits prod.splits option.splits)

lemma pcs_turnI:
  assumes laws: "file_laws os files temps dir" and plain: "\<And>b. b \<in> set assets \<Longrightarrow> plain_asset b"
    and inv: "pcs_inv os files temps dir assets w0 pcs w"
    and i: "i < length pcs" "working (pcs ! i)" and t: "asset_turn os dir (assets ! i) (pcs ! i) w = (pc', w')"
  shows "pcs_turn os files temps dir assets w0 pcs w i pc' w'"
proof -
  let ?path = "\<lambda>b. asset_path os dir b" and ?a = "assets ! i"
  note invD = pcs_invD [OF inv]
  have a: "?a \<in> set assets" using i invD(1) by simp
  have old: "files w (?path ?a) = files w0 (?path ?a) \<or> replaceable (files w0 (?path ?a))"
    using invD(6) [OF a] unfolding provisioned_def by blast
  note turn = asset_turn_ok [OF laws plain [OF a] refl invD(2) [OF i(1)] i(2) old t]
  have "t \<notin> ?path ` set assets \<and> (pc_temp (pcs ! i) = Some t \<or> pc_temp (pcs ! i) = None \<and> t \<notin> temps w \<and> files w t = None)"
    if new: "pc_temp pc' = Some t" for t
  proof (cases "pc_temp (pcs ! i)")
    case None
    with turn new plain show ?thesis unfolding turn_effect_def by auto
  next
    case (Some s)
    with asset_turn_temp [OF t Some] new invD(4) [OF pcs_temp_nth [OF i(1) Some]] show ?thesis by simp
  qed
  with turn inv i show ?thesis unfolding pcs_turn_def by blast
qed

lemma pcs_turnD:
  assumes "pcs_turn os files temps dir assets w0 pcs w i pc' w'"
  shows "pcs_inv os files temps dir assets w0 pcs w" "i < length pcs" "working (pcs ! i)"
    "turn_effect os files temps dir (asset_path os dir (assets ! i)) (assets ! i) (pcs ! i) pc' w w'"
    "task_ok os files temps (asset_path os dir (assets ! i)) (files w0 (asset_path os dir (assets ! i))) (assets ! i) pc' w'"
    "pc_temp pc' = Some t \<Longrightarrow> t \<notin> asset_path os dir ` set assets"
    "pc_temp pc' = Some t \<Longrightarrow> pc_temp (pcs ! i) = Some t \<or> pc_temp (pcs ! i) = None \<and> t \<notin> temps w \<and> files w t = None"
  using assms unfolding pcs_turn_def by blast+

lemma pcs_turn_path:
  assumes "pcs_turn os files temps dir assets w0 pcs w i pc' w'" "b \<in> set assets"
  shows "j < length pcs \<Longrightarrow> pc_temp (pcs ! j) \<noteq> Some (asset_path os dir b)" "pc_temp pc' \<noteq> Some (asset_path os dir b)"
  using assms(2) pcs_invD(4) [OF pcs_turnD(1) [OF assms(1)] pcs_temp_nth] pcs_turnD(6) [OF assms(1)] by blast+

lemma pcs_turn_asset:
  assumes "pcs_turn os files temps dir assets w0 pcs w i pc' w'"
  shows "assets ! i \<in> set assets"
  using pcs_turnD(1,2) [OF assms] pcs_invD(1) by (metis nth_mem)

lemma pcs_turn_tasks:
  assumes turn: "pcs_turn os files temps dir assets w0 pcs w i pc' w'" and j: "j < length pcs"
  shows "task_ok os files temps (asset_path os dir (assets ! j)) (files w0 (asset_path os dir (assets ! j))) (assets ! j)
    (pcs[i := pc'] ! j) w'"
proof (cases "j = i")
  case True
  with pcs_turnD(2,5) [OF turn] show ?thesis by simp
next
  case False
  note inv = pcs_invD [OF pcs_turnD(1) [OF turn]] and path = pcs_turn_path [OF turn]
  have "assets ! j \<in> set assets" using j inv(1) by simp
  note paths = path(1) [OF this pcs_turnD(2) [OF turn]] path(2) [OF this]
  have "pc_temp (pcs ! i) \<noteq> Some t \<and> t \<noteq> asset_path os dir (assets ! i)" if "pc_temp (pcs ! j) = Some t" for t
    using inv(3) [OF j pcs_turnD(2) [OF turn] that] path(1) [OF pcs_turn_asset [OF turn] j] that False by auto
  from task_ok_stable [OF pcs_turnD(4) [OF turn] inv(2) [OF j] this paths] False show ?thesis by simp
qed

lemma pcs_turn_distinct:
  assumes turn: "pcs_turn os files temps dir assets w0 pcs w i pc' w'" and jk: "j < length pcs" "k < length pcs"
    and temp: "pc_temp (pcs[i := pc'] ! j) = Some t" "pc_temp (pcs[i := pc'] ! k) = Some t"
  shows "j = k"
proof (rule ccontr)
  assume neq: "j \<noteq> k"
  note inv = pcs_invD [OF pcs_turnD(1) [OF turn]] and i = pcs_turnD(2) [OF turn]
  have "l = i" if "l < length pcs" "pc_temp (pcs ! l) = Some t" "pc_temp pc' = Some t" for l
    using pcs_turnD(7) [OF turn that(3)] inv(2) [OF that(1)] inv(3) [OF that(1) i that(2)] that(2) by (auto simp: task_ok_def)
  moreover have "pc_temp (if j = i then pc' else pcs ! j) = Some t" "pc_temp (if k = i then pc' else pcs ! k) = Some t"
    using temp i by (auto simp: nth_list_update split: if_splits)
  ultimately show False using neq jk inv(3) [OF jk] by (metis (full_types))
qed

lemma pcs_turn_names:
  assumes "pcs_turn os files temps dir assets w0 pcs w i pc' w'"
  shows "temps w \<subseteq> temps w'" "temps w0 \<subseteq> temps w'" "pc_temp pc' = Some t \<Longrightarrow> t \<in> temps w'"
    "j < length pcs \<Longrightarrow> pc_temp (pcs ! j) = Some t \<Longrightarrow> t \<in> temps w"
proof -
  show "temps w \<subseteq> temps w'" using pcs_turnD(4) [OF assms] unfolding turn_effect_def by blast
  then show "temps w0 \<subseteq> temps w'" using pcs_invD(7) [OF pcs_turnD(1) [OF assms]] by blast
  show "t \<in> temps w'" if "pc_temp pc' = Some t" using pcs_turnD(5) [OF assms] that by (simp add: task_ok_def)
  show "t \<in> temps w" if "j < length pcs" "pc_temp (pcs ! j) = Some t"
    using pcs_invD(2) [OF pcs_turnD(1) [OF assms] that(1)] that(2) by (simp add: task_ok_def)
qed

lemma pcs_turn_temps:
  assumes turn: "pcs_turn os files temps dir assets w0 pcs w i pc' w'" and t: "pcs_temp (pcs[i := pc']) t"
  shows "files w0 t = None \<and> t \<notin> temps w0 \<and> t \<notin> asset_path os dir ` set assets"
proof (cases "pcs_temp pcs t")
  case True
  then show ?thesis by (rule pcs_invD(4) [OF pcs_turnD(1) [OF turn]])
next
  case False
  then have "pc_temp pc' = Some t" "pc_temp (pcs ! i) \<noteq> Some t"
    using t pcs_temp_update [OF pcs_turnD(2) [OF turn]] pcs_temp_nth pcs_turnD(2) [OF turn] by blast+
  then have new: "t \<notin> asset_path os dir ` set assets" "t \<notin> temps w" "files w t = None"
    using pcs_turnD(6,7) [OF turn] by blast+
  moreover have "files w t = files w0 t" using new by (intro pcs_invD(5) [OF pcs_turnD(1) [OF turn]]) simp_all
  ultimately show ?thesis using pcs_invD(7) [OF pcs_turnD(1) [OF turn]] by auto
qed

lemma pcs_turn_files:
  assumes turn: "pcs_turn os files temps dir assets w0 pcs w i pc' w'" and q: "q \<notin> asset_path os dir ` set assets"
    and free: "removes_work os files \<and> \<not> pcs_temp (pcs[i := pc']) q \<or> q \<notin> temps w' - temps w0"
  shows "files w' q = files w0 q"
proof -
  note inv = pcs_invD [OF pcs_turnD(1) [OF turn]] and i = pcs_turnD(2) [OF turn] and effect = pcs_turnD(4) [OF turn]
  note names = pcs_turn_names [OF turn]
  have path: "q \<noteq> asset_path os dir (assets ! i)" using q pcs_turn_asset [OF turn] by blast
  have pc': "pc_temp pc' \<noteq> Some q"
  proof
    assume q': "pc_temp pc' = Some q"
    then have temp: "pcs_temp (pcs[i := pc']) q" using pcs_temp_update [OF i] by blast
    with free names(3) [OF q'] pcs_turn_temps [OF turn temp] show False by blast
  qed
  show ?thesis
  proof (cases "pc_temp (pcs ! i) = Some q")
    case True
    note old = inv(4) [OF pcs_temp_nth [OF i True]]
    with free names(1) names(4) [OF i True] have "removes_work os files" by blast
    moreover have "pc_temp pc' = None" using pcs_turnD(7) [OF turn] pc' True by (cases "pc_temp pc'") auto
    ultimately show ?thesis using True effect old unfolding turn_effect_def by simp
  next
    case False
    then have "files w' q = files w q" using effect path pc' unfolding turn_effect_def by blast
    also have "\<dots> = files w0 q"
    proof (rule inv(5) [OF q])
      have "pcs_temp pcs q \<Longrightarrow> pcs_temp (pcs[i := pc']) q"
        using False pcs_temp_update [OF i] unfolding pcs_temp_def by metis
      with free names(1) show "removes_work os files \<and> \<not> pcs_temp pcs q \<or> q \<notin> temps w - temps w0" by blast
    qed
    finally show ?thesis .
  qed
qed

lemma pcs_turn_provisioned:
  assumes turn: "pcs_turn os files temps dir assets w0 pcs w i pc' w'" and b: "b \<in> set assets"
  shows "provisioned os files dir assets w0 w' (asset_path os dir b)"
proof (cases "files w' (asset_path os dir b) = files w (asset_path os dir b)")
  case True
  with pcs_invD(6) [OF pcs_turnD(1) [OF turn] b] show ?thesis by (simp add: provisioned_def)
next
  case False
  note effect = pcs_turnD(4) [OF turn] and i = pcs_turnD(2) [OF turn]
  have path: "asset_path os dir b = asset_path os dir (assets ! i)"
    using effect pcs_turn_path [OF turn b] i False unfolding turn_effect_def by blast
  then have "pcs ! i \<noteq> AssetChecking" and new: "files w' (asset_path os dir b) = Some [] \<or>
      (\<exists>c. downloaded os (assets ! i) c \<and> files w' (asset_path os dir b) = Some c)"
    using effect False unfolding turn_effect_def by auto
  moreover from this have "replaceable (files w0 (asset_path os dir (assets ! i)))"
    using pcs_invD(2) [OF pcs_turnD(1) [OF turn] i] pcs_turnD(3) [OF turn] by (auto simp: task_ok_def working_def)
  ultimately show ?thesis using path pcs_turn_asset [OF turn] unfolding provisioned_def by metis
qed

lemma pcs_inv_turn:
  assumes "pcs_turn os files temps dir assets w0 pcs w i pc' w'"
  shows "pcs_inv os files temps dir assets w0 (pcs[i := pc']) w'"
  using pcs_invD(1) [OF pcs_turnD(1) [OF assms]] pcs_turn_tasks [OF assms] pcs_turn_distinct [OF assms]
    pcs_turn_temps [OF assms] pcs_turn_files [OF assms] pcs_turn_provisioned [OF assms] pcs_turn_names(2) [OF assms]
  by (intro pcs_invI) simp_all

text \<open>
  A download that succeeds stores the body up to the limit: a longer one is cut off without an error, and the file is there and
  not empty, so that no later start repairs it.
\<close>

lemma download_cut_off:
  assumes laws: "file_laws os files temps dir" and plain: "plain_asset asset"
    and d: "downloadGeodataAsset os url (asset_path os dir asset) w = (None, w')"
    and r: "geo_Do os url w = (Inr (status, body), w1)"
  shows "files w' (asset_path os dir asset) = Some (take maxGeodataAssetSize body)"
proof -
  let ?path = "asset_path os dir asset"
  obtain w2 w3 w4 w5 tmp where steps: "geo_CreateTemp os (geo_Dir os ?path) w2 = (Inr tmp, w3)"
    "geo_CopyClose os tmp maxGeodataAssetSize body w3 = (None, w4)" "geo_Rename os tmp ?path w4 = (None, w5)"
    "w' = geo_Remove os tmp w5"
    using d r by (auto simp: downloadGeodataAsset_def split: if_splits prod.splits option.splits sum.splits)
  have "tmp \<noteq> ?path" using file_lawsD(6) [OF laws steps(1)] plain by (auto simp: asset_path_def plain_asset_def)
  moreover have "files w4 tmp = Some (take maxGeodataAssetSize body)" using file_lawsD(7) [OF laws steps(2)] by auto
  ultimately show ?thesis
    using file_lawsD(8) [OF laws steps(3)] file_lawsD(10) [OF laws, of tmp w5] by (auto simp: steps(4))
qed

section \<open>What the pool leaves behind\<close>

lemma asset_in_list:
  assumes "map fst (po_Tasks p) = assets" "i < length (po_Tasks p)" "po_Tasks p ! i = (asset, pc)"
  shows "assets ! i = asset" "map snd (po_Tasks p) ! i = pc" "map fst ((po_Tasks p)[i := (asset, pc')]) = assets"
    "map snd ((po_Tasks p)[i := (asset, pc')]) = (map snd (po_Tasks p))[i := pc']"
  using assms by (auto simp: map_update) (metis fst_conv list_update_id map_update)

definition pool_inv :: "'w geodata_os \<Rightarrow> ('w \<Rightarrow> string \<Rightarrow> string option) \<Rightarrow> ('w \<Rightarrow> string set) \<Rightarrow> string \<Rightarrow>
    GeodataAsset list \<Rightarrow> 'w \<Rightarrow> 'w pool \<Rightarrow> bool" where
  "pool_inv os files temps dir assets w0 p \<longleftrightarrow>
     map fst (po_Tasks p) = assets \<and> pcs_inv os files temps dir assets w0 (map snd (po_Tasks p)) (po_World p)"

lemma pool_inv_start: "pool_inv os files temps dir assets w0 (new_pool assets w0)"
proof -
  have "pcs_inv os files temps dir assets w0 (map (\<lambda>_. AssetWaiting) assets) w0"
    by (rule pcs_invI) (auto simp: task_ok_def pcs_temp_def provisioned_def)
  then show ?thesis by (simp add: pool_inv_def new_pool_def comp_def)
qed

lemma pool_inv_step:
  assumes "file_laws os files temps dir" "\<And>b. b \<in> set assets \<Longrightarrow> plain_asset b"
    and inv: "pool_inv os files temps dir assets w0 p" and step: "pool_step os dir p p'"
  shows "pool_inv os files temps dir assets w0 p'"
proof -
  have tasks: "map fst (po_Tasks p) = assets"
    and pcs: "pcs_inv os files temps dir assets w0 (map snd (po_Tasks p)) (po_World p)"
    using inv by (simp_all add: pool_inv_def)
  note upd = asset_in_list [OF tasks]
  show ?thesis
    using step
  proof cases
    case (enter i asset)
    with pcs_inv_slot [OF pcs, of i AssetChecking] upd [OF enter(2,3)] show ?thesis
      by (simp add: pool_inv_def task_ok_def)
  next
    case (turn i asset pc pc' w')
    with pcs_inv_turn [OF pcs_turnI [OF assms(1,2) pcs, of i pc' w']] upd [OF turn(2,3)] show ?thesis
      by (simp add: pool_inv_def)
  next
    case (leave i asset)
    with pcs_inv_slot [OF pcs, of i AssetDone] pcs_invD(2) [OF pcs, of i] upd [OF leave(2,3)] show ?thesis
      by (simp add: pool_inv_def task_ok_def)
  qed
qed

lemma pool_inv_run:
  assumes "file_laws os files temps dir" "\<And>b. b \<in> set assets \<Longrightarrow> plain_asset b"
    and "(pool_step os dir)\<^sup>*\<^sup>* (new_pool assets w0) p"
  shows "pool_inv os files temps dir assets w0 p"
  using assms(3) by (induction rule: rtranclp_induct) (blast intro: pool_inv_start pool_inv_step [OF assms(1,2)])+

text \<open>
  C27. At every moment of a run of the pool, in every order of its goroutines, at most five of them work; the path of every asset
  holds what it held before or, if that was nothing or an empty file, an empty stub or a download, whole up to the limit of its size;
  and no other file has changed, but for the temporary files that this run has created. When the wait group lets the start go on,
  those are gone too if removing a file works, an error of which the code ignores, and every asset has a file if directories and
  stubs can be made. No asset may have a name that begins like that of a temporary file.
\<close>

theorem geodata_pool:
  assumes "file_laws os files temps (geo_AssetDir os w0)"
    and "\<forall>b\<in>set (geodata_assets os panelConfig). \<not> prefix ''.geodata-'' (ga_File b)"
    and "(pool_step os (geo_AssetDir os w0))\<^sup>*\<^sup>* (new_pool (geodata_assets os panelConfig) w0) p"
  shows "held p \<le> 5 \<and>
    (\<forall>b\<in>set (geodata_assets os panelConfig).
       provisioned os files (geo_AssetDir os w0) (geodata_assets os panelConfig) w0 (po_World p)
         (asset_path os (geo_AssetDir os w0) b)) \<and>
    (\<forall>q. q \<notin> asset_path os (geo_AssetDir os w0) ` set (geodata_assets os panelConfig) \<longrightarrow>
       q \<notin> temps (po_World p) - temps w0 \<longrightarrow> files (po_World p) q = files w0 q) \<and>
    (pool_finished p \<longrightarrow>
       (removes_work os files \<longrightarrow>
          (\<forall>q. q \<notin> asset_path os (geo_AssetDir os w0) ` set (geodata_assets os panelConfig) \<longrightarrow>
             files (po_World p) q = files w0 q)) \<and>
       (stubs_work os files \<longrightarrow>
          (\<forall>b\<in>set (geodata_assets os panelConfig). files (po_World p) (asset_path os (geo_AssetDir os w0) b) \<noteq> None)))"
proof -
  let ?assets = "geodata_assets os panelConfig" and ?dir = "geo_AssetDir os w0"
  have "plain_asset b" if "b \<in> set ?assets" for b
    using that assms(2)
    by (auto simp: geodata_assets_def plain_asset_def validGeodataAsset_iff split: option.splits sum.splits)
  then have "pool_inv os files temps ?dir ?assets w0 p" by (rule pool_inv_run [OF assms(1) _ assms(3)])
  then have tasks: "map fst (po_Tasks p) = ?assets"
    and pcs: "pcs_inv os files temps ?dir ?assets w0 (map snd (po_Tasks p)) (po_World p)"
    by (simp_all add: pool_inv_def)
  have ended: "map snd (po_Tasks p) ! i = AssetDone" if "pool_finished p" "i < length (po_Tasks p)" for i
    using that by (auto simp: pool_finished_def list_all_length)
  have others: "files (po_World p) q = files w0 q"
    if "q \<notin> asset_path os ?dir ` set ?assets" "q \<notin> temps (po_World p) - temps w0" for q
    using pcs_invD(5) [OF pcs that(1)] that(2) by blast
  have unchanged: "files (po_World p) q = files w0 q"
    if "pool_finished p" "removes_work os files" "q \<notin> asset_path os ?dir ` set ?assets" for q
    using pcs_invD(5) [OF pcs that(3)] that(2) ended [OF that(1)] by (auto simp: pcs_temp_def)
  have present: "files (po_World p) (asset_path os ?dir b) \<noteq> None"
    if fin: "pool_finished p" and stubs: "stubs_work os files" and b: "b \<in> set ?assets" for b
  proof -
    obtain i where i: "i < length ?assets" "?assets ! i = b" using b by (auto simp: in_set_conv_nth)
    have "length (po_Tasks p) = length ?assets" using pcs_invD(1) [OF pcs] by simp
    with i pcs_invD(2) [OF pcs, of i] ended [OF fin, of i] stubs show ?thesis by (simp add: task_ok_def)
  qed
  show ?thesis
    using pool_slots [OF assms(3)] pcs_invD(6) [OF pcs] others unchanged present by (auto simp: geodataConcurrency_def)
qed

text \<open>A world of files, with a number for the next temporary file. One of the two assets can be downloaded.\<close>

definition toy_temp :: "nat \<Rightarrow> string" where
  "toy_temp n = ''/d/.geodata-'' @ replicate n (CHR ''0'')"

definition toy_geodata_os :: "((string \<Rightarrow> string option) \<times> nat) geodata_os" where
  "toy_geodata_os =
     \<lparr>geo_decode = (\<lambda>_. Inr [\<lparr>ga_URL = ''https://h/geoip.dat'', ga_File = ''geoip.dat''\<rparr>,
                              \<lparr>ga_URL = ''https://h/gone.dat'', ga_File = ''gone.dat''\<rparr>]),
      geo_URLScheme = (\<lambda>_. Some ''https''),
      geo_AssetDir = (\<lambda>_. ''/d''), geo_Join = (\<lambda>d f. d @ ''/'' @ f), geo_Dir = (\<lambda>_. ''/d''),
      geo_Stat = (\<lambda>p (m, n). case m p of None \<Rightarrow> StatNotExist | Some c \<Rightarrow> StatInfo True (length c)),
      geo_Do = (\<lambda>url w. (if url = ''https://h/geoip.dat'' then Inr (200, ''data'') else Inl (NewError ''no route''), w)),
      geo_MkdirAll = (\<lambda>_ w. (None, w)),
      geo_CreateTemp = (\<lambda>_ (m, n).
        if m (toy_temp n) \<noteq> None then (Inl (NewError ''exists''), (m, n))
        else (Inr (toy_temp n), (m(toy_temp n \<mapsto> []), Suc n))),
      geo_CopyClose = (\<lambda>tmp k body (m, n). (None, (m(tmp \<mapsto> take k body), n))),
      geo_Rename = (\<lambda>tmp p (m, n). (None, (m(tmp := None, p := m tmp), n))),
      geo_Remove = (\<lambda>p (m, n). (m(p := None), n)),
      geo_CreateExcl = (\<lambda>p (m, n). (if m p = None then m(p \<mapsto> []) else m, n))\<rparr>"

lemma toy_temp_file: "toy_temp n = ''/d/'' @ file \<Longrightarrow> prefix ''.geodata-'' file"
  by (auto simp: toy_temp_def prefix_def)

lemma toy_temp_inj: "toy_temp k = toy_temp n \<longleftrightarrow> k = n"
  by (simp add: toy_temp_def)

lemma toy_temp_mem: "toy_temp k \<in> toy_temp ` A \<longleftrightarrow> k \<in> A"
  by (auto simp: toy_temp_def)

lemma toy_file_laws: "file_laws toy_geodata_os fst (\<lambda>(m, n). toy_temp ` {..<n}) ''/d''"
  unfolding file_laws_def
  by (intro conjI allI impI)
    (auto simp: toy_geodata_os_def lessThan_Suc toy_temp_mem toy_temp_inj less_Suc_eq dest!: toy_temp_file [simplified] split: option.splits if_splits)

theorem geodata_pool_witness:
  "\<exists>m n. PrepareGeodata toy_geodata_os (Some (fmupd ''geodata'' (JObj fmempty) fmempty)) (Map.empty, 0) = (m, n) \<and>
     m ''/d/gone.dat'' \<noteq> None \<and> m ''/d/geoip.dat'' \<noteq> None \<and> m (toy_temp 0) = None"
proof -
  let ?os = toy_geodata_os and ?c = "Some (fmupd ''geodata'' (JObj fmempty) fmempty)" and ?w = "(Map.empty, 0)"
  have assets: "map ga_File (geodata_assets ?os ?c) = [''geoip.dat'', ''gone.dat'']"
    by (simp add: geodata_assets_def toy_geodata_os_def validGeodataAsset_iff geodataFileNamePattern_def word_char_def)
  have paths: "asset_path ?os ''/d'' ` set (geodata_assets ?os ?c) = {''/d/geoip.dat'', ''/d/gone.dat''}"
    using arg_cong [OF assets, of "\<lambda>fs. (\<lambda>f. ''/d/'' @ f) ` set fs"]
    by (simp add: asset_path_def [abs_def] toy_geodata_os_def image_comp comp_def)
  have dir: "geo_AssetDir ?os ?w = ''/d''" by (simp add: toy_geodata_os_def)
  obtain p where run: "(pool_step ?os (geo_AssetDir ?os ?w))\<^sup>*\<^sup>* (new_pool (geodata_assets ?os ?c) ?w) p"
    and fin: "pool_finished p" "po_World p = PrepareGeodata ?os ?c ?w"
    using PrepareGeodata_run [of ?os ?c ?w] unfolding geodata_run_def by (elim exE conjE) (rule that)
  have names: "\<forall>b\<in>set (geodata_assets ?os ?c). \<not> prefix ''.geodata-'' (ga_File b)"
  proof
    fix b
    assume "b \<in> set (geodata_assets ?os ?c)"
    then have "ga_File b \<in> set (map ga_File (geodata_assets ?os ?c))" by simp
    then show "\<not> prefix ''.geodata-'' (ga_File b)" unfolding assets by auto
  qed
  have works: "stubs_work ?os fst" "removes_work ?os fst"
    by (auto simp: stubs_work_def removes_work_def toy_geodata_os_def)
  note pool = geodata_pool [OF toy_file_laws [folded dir] names run, THEN conjunct2, THEN conjunct2, THEN conjunct2, THEN mp, OF fin(1), unfolded dir paths]
  have "\<forall>q. q \<notin> {''/d/geoip.dat'', ''/d/gone.dat''} \<longrightarrow> fst (po_World p) q = None"
    using pool works(2) by simp
  moreover have "\<forall>q\<in>asset_path ?os ''/d'' ` set (geodata_assets ?os ?c). fst (po_World p) q \<noteq> None"
    using pool works(1) by blast
  then have "\<forall>q\<in>{''/d/geoip.dat'', ''/d/gone.dat''}. fst (po_World p) q \<noteq> None" unfolding paths .
  moreover obtain m n where "po_World p = (m, n)" by (cases "po_World p")
  ultimately have "PrepareGeodata ?os ?c ?w = (m, n)" "m ''/d/gone.dat'' \<noteq> None" "m ''/d/geoip.dat'' \<noteq> None"
    "\<forall>q. q \<notin> {''/d/geoip.dat'', ''/d/gone.dat''} \<longrightarrow> m q = None"
    using fin(2) by simp_all
  moreover have "toy_temp 0 \<notin> {''/d/geoip.dat'', ''/d/gone.dat''}" by (simp add: toy_temp_def)
  ultimately show ?thesis by blast
qed

end
