(* ===== verification/Spec2Isabelle.thy ===== *)
theory Spec2Isabelle
  imports Api Concurrency Routing ContractDiff PanelIntegration StartLog Build Program TestKit Golden Sampler NodeLog GeodataPool
begin

text \<open>
  A verification library of rw-node-go, a node that the Remnawave Panel controls over an mTLS
  and JWT protected HTTP interface and that runs xray-core inside its own process.

  \<^bold>\<open>The program.\<close> The Panel posts a start request with an Xray config and the hashes of
  that config. The lifecycle controller compares the hashes with those of the last start, and
  if Xray has to be restarted completes the config, provisions geodata files and restarts the
  embedded core. User requests add and remove users of the running core and keep an index of the
  users per inbound, so that a change of users needs no restart. Stats requests read (and reset)
  the counters of the core. Everything is wired by the registry; the runtime state is shared.

  \<^bold>\<open>Theories and code.\<close> Directories are under \<open>src/internal\<close>.
  \<^item> \<open>Prelude\<close>: errors with \<open>errors.Is\<close> and \<open>%w\<close>, sequencing of fallible steps, maps whose
    iteration order does not matter (locale \<open>range_order\<close>), folds.
  \<^item> \<open>GoStrings\<close>, \<open>GoJson\<close>, \<open>GoTime\<close>: what the code uses of \<open>strings\<close>, \<open>strconv\<close>, the scanner
    of \<open>encoding/json\<close> (\<open>json.Valid\<close>) and \<open>time\<close>.
  \<^item> \<open>Contracts\<close>: \<open>contracts\<close>, one record per request and response.
  \<^item> \<open>Config\<close>: \<open>config\<close> (the environment, the secret key, the integrity report).
  \<^item> \<open>ConfigBuilder\<close>: \<open>xray/config.go\<close>. \<open>RuntimeState\<close>, \<open>UserIndex\<close>: \<open>state\<close>.
  \<^item> \<open>XrayUsers\<close>: \<open>xray/users.go\<close>. \<open>XrayStats\<close>: \<open>xray/stats.go\<close> and the aggregation in
    \<open>xray/core.go\<close>. \<open>CoreInterface\<close>: the interfaces \<open>Core\<close>, \<open>HandlerClient\<close> and \<open>StatsClient\<close>
    as records, with the contract of a core as the locale \<open>core_contract\<close>. \<open>EmbeddedCore\<close>: the
    implementation in \<open>xray/core.go\<close>. \<open>Geodata\<close>: \<open>xray/geodata.go\<close>, one asset after the other; \<open>GeodataPool\<close>:
    the same with a goroutine per asset and five slots, as a step relation.
  \<^item> \<open>System\<close>: \<open>system\<close> (capabilities, conntrack, routes, sampling, snapshot). \<open>Sampler\<close>: the goroutine of the
    network sampler from its start to \<open>Close\<close>, as a step relation.
    \<open>Geocheck\<close>: \<open>geocheck\<close>, with the turns of concurrent runs, which in a row are \<open>Run\<close>.
  \<^item> \<open>Http\<close>: the replies of \<open>httpapi/response.go\<close>. \<open>XrayController\<close>, \<open>HandlerController\<close>,
    \<open>StatsController\<close>: \<open>controller\<close>. \<open>Node\<close>: \<open>controller/registry.go\<close> and the steps of a whole node.
  \<^item> \<open>Tls\<close>: \<open>httpapi/tls.go\<close> and the server name of the registry. \<open>HttpServer\<close>: the rest of
    \<open>httpapi\<close>: tokens, compressed bodies, gin middlewares, route tables, the construction of the
    servers, their listeners and shutdown. \<open>Api\<close>: the routes in front of the node, so that a
    run of HTTP requests is a run of the node, and the table of what each method and path answers and does.
  \<^item> \<open>Concurrency\<close>: the starts and stops of the node in turns, one critical section at a time, with the
    requests of other clients in between.
  \<^item> \<open>NetIP\<close> (\<open>net.ParseIP\<close>) and \<open>Routing\<close>: \<open>xray/routing.go\<close>. \<open>Program\<close>: \<open>cmd/rw-node-go\<close>.
  \<^item> \<open>Regexp\<close>: the part of \<open>regexp\<close> that the patterns of the code use, as a backtracking search. \<open>LogView\<close>:
    \<open>logview\<close> (tables, redaction, the handler of the log, the summaries of the start). \<open>StartLog\<close>: what the
    lifecycle controller logs of a start and a stop. \<open>NodeLog\<close>: the log of the integrity report and of a user's removal.
  \<^item> \<open>FilePath\<close> (\<open>path/filepath\<close>) and \<open>ContractDiff\<close>: \<open>contractdiff\<close> and \<open>cmd/contract-diff\<close>. \<open>Build\<close>:
    \<open>buildmeta\<close>, \<open>cmd/rw-build\<close>, and the project root of \<open>testkit/golden.go\<close>. \<open>GoFlag\<close>: the package \<open>flag\<close> and
    \<open>time.ParseDuration\<close>, as the three commands with flags use them.
  \<^item> \<open>NetURL\<close> (escaping and queries of \<open>net/url\<close>), \<open>PanelClient\<close>: \<open>testkit/panel_client.go\<close>;
    \<open>PanelIntegration\<close>: \<open>cmd/panel-integration\<close>.
  \<^item> The test kit, \<open>testkit\<close>: \<open>Pem\<close> (\<open>encoding/pem\<close> and \<open>encodePEM\<close>), \<open>TestKit\<close> (the bundles of certificates and keys of
    \<open>certs.go\<close>, the tokens of \<open>jwt.go\<close>), \<open>Golden\<close> (the stream decoder of \<open>encoding/json\<close>, strict decoding, the canonical
    form and the fixture of \<open>golden.go\<close>). A call of \<open>t.Fatalf\<close> is an error.

  \<^bold>\<open>How state and operations correspond.\<close> A struct is a record with the fields of the struct
  that the code reads or writes (mutexes are left out, and loggers except in \<open>StartLog\<close>, \<open>NodeLog\<close>, \<open>LogView\<close> and the Panel client); an operation takes the
  record and the state \<open>'w\<close> of the outside world and returns them updated. A method that holds
  its mutex for its whole body is one step. An error is a value of \<open>gerror\<close>; a call that can fail
  returns \<open>gerror + 'a\<close> or \<open>gerror option\<close>. Integers are words where the code counts in a fixed
  width and \<open>int\<close> where ranges are checked before use; a \<open>float64\<close> is a rational with the rounding
  as a parameter. JSON values are the datatype \<open>json\<close>; maps are finite maps.

  \<^bold>\<open>Parameters.\<close> Code that is not in the repository is an argument: xray-core (\<open>xray_lib\<close>), netlink
  (\<open>conntrack_os\<close>), gopsutil (\<open>systemProvider\<close>), the file system and HTTP (\<open>geodata_os\<close>), \<open>os/exec\<close>
  (\<open>geocheck_os\<close>), \<open>crypto/x509\<close> (\<open>x509_lib\<close>), \<open>crypto/tls\<close> and \<open>crypto/hkdf\<close> (\<open>tls_lib\<close>), the JWT and
  zstd libraries (\<open>jwt_lib\<close>, \<open>zstd_lib\<close>), sockets (\<open>net_os\<close>), the routing of gin (\<open>gin_engine\<close>) and its
  decoding of requests (\<open>binders\<close>: a handler gets \<open>gerror + request\<close>), and for the tools files, archives, JSON,
  processes and the clock (\<open>contract_os\<close>, \<open>download_os\<close>, \<open>build_os\<close>, \<open>panel_lib\<close>, \<open>panel_io\<close>),
  and for the test kit the generation of keys, certificates and tokens (\<open>cert_lib\<close>) and the decoding by reflection (\<open>json_lib\<close>). Nothing is assumed of them unless a theorem says so: \<open>gin_exact\<close> (a static route gets the requests with its method and path),
  \<open>file_laws\<close> (creating, renaming and removing files, where a removal may fail; \<open>removes_work\<close> and \<open>stubs_work\<close> are extra
  conditions of single conclusions), \<open>clock_runs\<close>, the laws of the test kit, and a few that stand in the theorems.

  \<^bold>\<open>What is shown.\<close> Per component: what every operation returns on each branch, that the index of
  users and the account of instances are invariants, that the optimised comparison of
  hashes is multiset equality, that reads of counters are sums, that errors leave the state as
  they should. For the node: an invariant of all sequences of requests, from which the truth of the
  reported status follows; under interleaving, that the turns of a request implement its handler, that no instance
  is lost or closed twice, that requests finish, and the one race that makes the status wrong;
  for the pool that provisions geodata, that no order of its goroutines leaves a file of less than a download
  up to its limit, or, as long as files can be removed, a temporary file. For HTTP: what every request is answered and does,
  by its token, encoding, method and path; the config that is built is compared with the one of the Panel path by path
  (\<open>json_at\<close>). For the tools: that
  the comparison of manifests is exact, that archives are unpacked below their destination, that redaction hides secrets
  (two inputs that differ in nothing else give the same text), and that the polling of a node ends, and ends well only
  after a poll of the node that was modified. For the test kit: that a node accepts the bundles and tokens it makes, under laws that
  say what a certificate and a token are (\<open>x509_laws\<close>, \<open>token_laws\<close>), that PEM survives the normalisation of the secret key, and that
  strict decoding accepts exactly the documents of one value.

  \<^bold>\<open>Bounds and fuel.\<close> No definition needs fuel: loops are structural recursions over the lists
  that the code ranges over, and the scanners and the matcher of patterns terminate by the length of the rest. The two
  loops without a bound in the code, the polling of a node and the search for the project root, are partial functions
  with theorems that they return.

  \<^bold>\<open>Not modelled.\<close> The log lines of the stats controller, of geodata and of the user controller other than a removal;
  timings and contexts (other than their outcomes: a bounded start that returned or ran out); the TLS handshake; the usage
  texts that \<open>flag\<close> prints for a wrong flag; the calls that only pass on to gopsutil; the placeholders of \<open>plugin\<close>,
  \<open>system/network.go\<close> and \<open>system/nftables.go\<close>, which are empty or unused.
\<close>

end
